(* ===== verification/Prelude.thy ===== *)
theory Prelude
  imports Main "HOL-Library.Word"
begin

text \<open>
  Shared vocabulary of the development: failing computations with the two ways Rust code
  fails (an \<open>Err\<close> value that \<open>?\<close> propagates, and a panic), computations over an explicit
  state, the checked and saturating arithmetic of the machine integers, and the generic
  lemmas and collections the component theories use.
\<close>

section \<open>Collections\<close>

named_theorems st_simps \<open>evaluation of state computations\<close>
named_theorems pres_intros \<open>preservation of an invariant by a state computation\<close>

section \<open>Failure\<close>

text \<open>
  \<open>Err e\<close> is a Rust \<open>Err(e)\<close>; \<open>Panic\<close> is an index out of range, a failed \<open>expect\<close> or an
  integer overflow in a checked build.
\<close>

datatype 'e fail = Err 'e | Panic

type_synonym ('e, 'a) res = "'e fail + 'a"

definition bind_res :: "('e, 'a) res \<Rightarrow> ('a \<Rightarrow> ('e, 'b) res) \<Rightarrow> ('e, 'b) res" where
  "bind_res r f = (case r of Inl x \<Rightarrow> Inl x | Inr a \<Rightarrow> f a)"

definition throw_res :: "'e \<Rightarrow> ('e, 'a) res" where
  "throw_res e = Inl (Err e)"

definition map_err :: "('d \<Rightarrow> 'e) \<Rightarrow> ('d, 'a) res \<Rightarrow> ('e, 'a) res" where
  "map_err g r = (case r of Inl (Err d) \<Rightarrow> Inl (Err (g d)) | Inl Panic \<Rightarrow> Inl Panic | Inr a \<Rightarrow> Inr a)"

definition of_sum :: "('d \<Rightarrow> 'e) \<Rightarrow> 'd + 'a \<Rightarrow> ('e, 'a) res" where
  "of_sum g r = (case r of Inl d \<Rightarrow> Inl (Err (g d)) | Inr a \<Rightarrow> Inr a)"

definition of_option :: "'e \<Rightarrow> 'a option \<Rightarrow> ('e, 'a) res" where
  "of_option e x = (case x of None \<Rightarrow> Inl (Err e) | Some a \<Rightarrow> Inr a)"

definition unwrap_or_default :: "string option \<Rightarrow> string" where
  "unwrap_or_default x = (case x of None \<Rightarrow> [] | Some s \<Rightarrow> s)"

definition or_panic :: "'a option \<Rightarrow> ('e, 'a) res" where
  "or_panic x = (case x of None \<Rightarrow> Inl Panic | Some a \<Rightarrow> Inr a)"

definition panics :: "('e, 'a) res \<Rightarrow> bool" where
  "panics r \<longleftrightarrow> r = Inl Panic"

lemma bind_res_simps [simp]:
  "bind_res (Inl x) f = Inl x" "bind_res (Inr a) f = f a"
  by (simp_all add: bind_res_def)

lemma bind_res_Inr_iff: "bind_res r f = Inr b \<longleftrightarrow> (\<exists>a. r = Inr a \<and> f a = Inr b)"
  by (cases r) auto

lemma of_sum_simps [simp]: "of_sum g (Inl d) = Inl (Err (g d))" "of_sum g (Inr a) = Inr a"
  by (simp_all add: of_sum_def)

lemma of_sum_Inr_iff [simp]: "of_sum g r = Inr a \<longleftrightarrow> r = Inr a"
  by (cases r) auto

lemma map_err_simps [simp]:
  "map_err g (Inl (Err d)) = Inl (Err (g d))" "map_err g (Inl Panic) = Inl Panic"
  "map_err g (Inr a) = Inr a"
  by (simp_all add: map_err_def)

lemma map_err_Inr_iff [simp]: "map_err g r = Inr a \<longleftrightarrow> r = Inr a"
  by (auto simp: map_err_def split: sum.splits fail.splits)

lemma of_option_simps [simp]: "of_option e None = Inl (Err e)" "of_option e (Some a) = Inr a"
  by (simp_all add: of_option_def)

lemma of_option_Inr_iff [simp]: "of_option e x = Inr a \<longleftrightarrow> x = Some a"
  by (cases x) auto

lemma or_panic_simps [simp]: "or_panic None = Inl Panic" "or_panic (Some a) = Inr a"
  by (simp_all add: or_panic_def)

lemma or_panic_Inr_iff [simp]: "or_panic x = Inr a \<longleftrightarrow> x = Some a"
  by (cases x) auto

text \<open>A vector index: Rust panics when it is out of range.\<close>

definition index_of :: "'a list \<Rightarrow> nat \<Rightarrow> ('e, 'a) res" where
  "index_of xs i = (if i < length xs then Inr (xs ! i) else Inl Panic)"

lemma index_of_Inr [simp]: "i < length xs \<Longrightarrow> index_of xs i = Inr (xs ! i)"
  by (simp add: index_of_def)

text \<open>A \<open>for\<close> loop whose body may leave the function, collecting the results.\<close>

fun map_res :: "('a \<Rightarrow> ('e, 'b) res) \<Rightarrow> 'a list \<Rightarrow> ('e, 'b list) res" where
  "map_res f [] = Inr []"
| "map_res f (x # xs) = bind_res (f x) (\<lambda>y. bind_res (map_res f xs) (\<lambda>ys. Inr (y # ys)))"

lemma map_res_Inr_iff:
  "map_res f xs = Inr ys \<longleftrightarrow> list_all2 (\<lambda>x y. f x = Inr y) xs ys"
proof (induction xs arbitrary: ys)
  case Nil
  then show ?case by auto
next
  case (Cons x xs)
  then show ?case by (cases ys) (auto simp: bind_res_Inr_iff)
qed

lemma map_res_length: "map_res f xs = Inr ys \<Longrightarrow> length ys = length xs"
  by (auto simp: map_res_Inr_iff dest: list_all2_lengthD)

lemma list_all2_member: "list_all2 P xs ys \<Longrightarrow> x \<in> set xs \<Longrightarrow> \<exists>y \<in> set ys. P x y"
  by (induction rule: list_all2_induct) auto

lemma map_res_total: "(\<And>x. x \<in> set xs \<Longrightarrow> f x = Inr (g x)) \<Longrightarrow> map_res f xs = Inr (map g xs)"
  by (induction xs) auto

section \<open>State computations\<close>

type_synonym ('s, 'e, 'a) st = "'s \<Rightarrow> ('e, 'a) res \<times> 's"

definition ret_st :: "'a \<Rightarrow> ('s, 'e, 'a) st" where
  "ret_st a = (\<lambda>s. (Inr a, s))"

definition lift_st :: "('e, 'a) res \<Rightarrow> ('s, 'e, 'a) st" where
  "lift_st r = (\<lambda>s. (r, s))"

definition read_st :: "('s \<Rightarrow> 'a) \<Rightarrow> ('s, 'e, 'a) st" where
  "read_st f = (\<lambda>s. (Inr (f s), s))"

definition write_st :: "('s \<Rightarrow> 's) \<Rightarrow> ('s, 'e, unit) st" where
  "write_st f = (\<lambda>s. (Inr (), f s))"

definition bind_st :: "('s, 'e, 'a) st \<Rightarrow> ('a \<Rightarrow> ('s, 'e, 'b) st) \<Rightarrow> ('s, 'e, 'b) st" where
  "bind_st m f = (\<lambda>s. case m s of (Inl x, t) \<Rightarrow> (Inl x, t) | (Inr a, t) \<Rightarrow> f a t)"

text \<open>
  A statement whose error the code drops (\<open>let _ = ...\<close>, a logged warning): the state it
  reached is kept, a panic is not caught.
\<close>

definition ignore_err :: "('s, 'e, 'a) st \<Rightarrow> ('s, 'd, 'a option) st" where
  "ignore_err m = (\<lambda>s. case m s of (Inr a, t) \<Rightarrow> (Inr (Some a), t)
     | (Inl (Err e), t) \<Rightarrow> (Inr None, t) | (Inl Panic, t) \<Rightarrow> (Inl Panic, t))"

text \<open>\<open>map_err\<close> on the result of a computation.\<close>

definition map_err_st :: "('d \<Rightarrow> 'e) \<Rightarrow> ('s, 'd, 'a) st \<Rightarrow> ('s, 'e, 'a) st" where
  "map_err_st g m = (\<lambda>s. case m s of (r, t) \<Rightarrow> (map_err g r, t))"

fun for_st :: "('x \<Rightarrow> ('s, 'e, unit) st) \<Rightarrow> 'x list \<Rightarrow> ('s, 'e, unit) st" where
  "for_st f [] = ret_st ()"
| "for_st f (x # xs) = bind_st (f x) (\<lambda>_. for_st f xs)"

fun map_st :: "('x \<Rightarrow> ('s, 'e, 'a) st) \<Rightarrow> 'x list \<Rightarrow> ('s, 'e, 'a list) st" where
  "map_st f [] = ret_st []"
| "map_st f (x # xs) = bind_st (f x) (\<lambda>y. bind_st (map_st f xs) (\<lambda>ys. ret_st (y # ys)))"

lemma ret_st_apply [simp, st_simps]: "ret_st a s = (Inr a, s)"
  by (simp add: ret_st_def)

lemma lift_st_apply [simp, st_simps]: "lift_st r s = (r, s)"
  by (simp add: lift_st_def)

lemma read_st_apply [simp, st_simps]: "read_st f s = (Inr (f s), s)"
  by (simp add: read_st_def)

lemma write_st_apply [simp, st_simps]: "write_st f s = (Inr (), f s)"
  by (simp add: write_st_def)

lemma map_err_st_apply [st_simps]: "m s = (r, t) \<Longrightarrow> map_err_st g m s = (map_err g r, t)"
  by (simp add: map_err_st_def)

lemma map_err_st_Inr_iff [simp]: "map_err_st g m s = (Inr a, t) \<longleftrightarrow> m s = (Inr a, t)"
  by (cases "m s") (auto simp: map_err_st_def)

lemma bind_st_Inl [st_simps]: "m s = (Inl x, t) \<Longrightarrow> bind_st m f s = (Inl x, t)"
  by (simp add: bind_st_def)

lemma bind_st_Inr [st_simps]: "m s = (Inr a, t) \<Longrightarrow> bind_st m f s = f a t"
  by (simp add: bind_st_def)

lemma bind_st_ret [simp]: "bind_st (ret_st a) f = f a"
  by (rule ext) (simp add: bind_st_def)

lemma bind_st_lift: "bind_st (lift_st r) f s = (case r of Inl x \<Rightarrow> (Inl x, s) | Inr a \<Rightarrow> f a s)"
  by (simp add: bind_st_def)

lemma bind_st_lift_Inr [simp]: "bind_st (lift_st (Inr a)) f = f a"
  by (rule ext) (simp add: bind_st_def)

lemma bind_st_read [simp]: "bind_st (read_st g) f s = f (g s) s"
  by (simp add: bind_st_def)

lemma bind_st_write [simp]: "bind_st (write_st g) f s = f () (g s)"
  by (simp add: bind_st_def)

lemma bind_st_InrE:
  assumes "bind_st m f s = (Inr b, u)"
  obtains a t where "m s = (Inr a, t)" and "f a t = (Inr b, u)"
  using assms by (auto simp: bind_st_def split: prod.splits sum.splits)

lemma bind_st_assoc: "bind_st (bind_st m f) g = bind_st m (\<lambda>a. bind_st (f a) g)"
  by (rule ext) (auto simp: bind_st_def split: prod.splits sum.splits)

subsection \<open>Invariants of state computations\<close>

definition preserves :: "('s \<Rightarrow> bool) \<Rightarrow> ('s, 'e, 'a) st \<Rightarrow> bool" where
  "preserves P m \<longleftrightarrow> (\<forall>s. P s \<longrightarrow> P (snd (m s)))"

lemma preservesI: "(\<And>s. P s \<Longrightarrow> P (snd (m s))) \<Longrightarrow> preserves P m"
  by (simp add: preserves_def)

lemma preservesD: "preserves P m \<Longrightarrow> P s \<Longrightarrow> m s = (r, t) \<Longrightarrow> P t"
  by (force simp: preserves_def)

lemma preserves_run: "m s = (r, t) \<Longrightarrow> P s \<Longrightarrow> preserves P m \<Longrightarrow> P t"
  by (force simp: preserves_def)

lemma preserves_ret [pres_intros, simp]: "preserves P (ret_st a)"
  by (simp add: preserves_def)

lemma preserves_lift [pres_intros, simp]: "preserves P (lift_st r)"
  by (simp add: preserves_def)

lemma preserves_read [pres_intros, simp]: "preserves P (read_st f)"
  by (simp add: preserves_def)

lemma preserves_write [pres_intros]: "(\<And>s. P s \<Longrightarrow> P (f s)) \<Longrightarrow> preserves P (write_st f)"
  by (simp add: preserves_def)

lemma preserves_bind [pres_intros]:
  "preserves P m \<Longrightarrow> (\<And>a. preserves P (f a)) \<Longrightarrow> preserves P (bind_st m f)"
  by (fastforce simp: preserves_def bind_st_def split: prod.splits sum.splits)

lemma preserves_ignore_err [pres_intros]: "preserves P m \<Longrightarrow> preserves P (ignore_err m)"
  by (fastforce simp: preserves_def ignore_err_def split: prod.splits sum.splits fail.splits)

lemma preserves_map_err [pres_intros]: "preserves P m \<Longrightarrow> preserves P (map_err_st g m)"
  by (fastforce simp: preserves_def map_err_st_def split: prod.splits)

lemma preserves_for [pres_intros]: "(\<And>x. preserves P (f x)) \<Longrightarrow> preserves P (for_st f xs)"
  by (induction xs) (auto intro: pres_intros)

lemma preserves_map [pres_intros]: "(\<And>x. preserves P (f x)) \<Longrightarrow> preserves P (map_st f xs)"
  by (induction xs) (auto intro!: pres_intros)

lemma preserves_if [pres_intros]:
  "preserves P m \<Longrightarrow> preserves P n \<Longrightarrow> preserves P (if b then m else n)"
  by simp

lemma preserves_case_option [pres_intros]:
  "preserves P m \<Longrightarrow> (\<And>x. preserves P (f x)) \<Longrightarrow> preserves P (case a of None \<Rightarrow> m | Some x \<Rightarrow> f x)"
  by (cases a) auto

text \<open>Any computation whose branches are split by a pair or a \<open>let\<close>.\<close>

lemma preserves_case_prod [pres_intros]:
  "(\<And>x y. preserves P (f x y)) \<Longrightarrow> preserves P (case a of (x, y) \<Rightarrow> f x y)"
  by (cases a) auto

lemma preserves_case_list [pres_intros]:
  "preserves P m \<Longrightarrow> (\<And>x xs. preserves P (f x xs)) \<Longrightarrow> preserves P (case a of [] \<Rightarrow> m | x # xs \<Rightarrow> f x xs)"
  by (cases a) auto

lemma preserves_Let [pres_intros]: "(\<And>x. preserves P (f x)) \<Longrightarrow> preserves P (let x = a in f x)"
  by simp

text \<open>A computation that leaves \<open>P\<close> true when it fails.\<close>

definition keeps_on_error where
  "keeps_on_error P m \<longleftrightarrow> (\<forall>s x t. P s \<longrightarrow> m s = (Inl x, t) \<longrightarrow> P t)"

lemma keeps_on_error_bind:
  "preserves P m \<Longrightarrow> (\<And>a. keeps_on_error P (f a)) \<Longrightarrow> keeps_on_error P (bind_st m f)"
  by (fastforce simp: keeps_on_error_def preserves_def bind_st_def split: prod.splits sum.splits)

lemma keeps_on_error_run: "m s = (Inl x, t) \<Longrightarrow> P s \<Longrightarrow> keeps_on_error P m \<Longrightarrow> P t"
  by (auto simp: keeps_on_error_def)

lemma keeps_on_error_map_err: "keeps_on_error P m \<Longrightarrow> keeps_on_error P (map_err_st g m)"
  by (auto simp: keeps_on_error_def map_err_st_def map_err_def split: prod.splits sum.splits fail.splits)

lemma keeps_on_error_preserves: "preserves P m \<Longrightarrow> keeps_on_error P m"
  unfolding keeps_on_error_def preserves_def by (metis snd_conv)

lemma keeps_on_error_if: "keeps_on_error P m \<Longrightarrow> keeps_on_error P n \<Longrightarrow> keeps_on_error P (if b then m else n)"
  by simp

lemma keeps_on_error_result: "keeps_on_error P m \<Longrightarrow> keeps_on_error P (bind_st m (\<lambda>x. ret_st (f x)))"
  by (auto simp: keeps_on_error_def bind_st_def split: prod.splits sum.splits)

lemma keeps_on_error_lift: "keeps_on_error P (lift_st r)"
  by (simp add: keeps_on_error_def)

subsection \<open>Absence of panics\<close>

text \<open>\<open>safe P m\<close>: started where \<open>P\<close> holds, \<open>m\<close> keeps \<open>P\<close> and does not panic.\<close>

definition safe :: "('s \<Rightarrow> bool) \<Rightarrow> ('s, 'e, 'a) st \<Rightarrow> bool" where
  "safe P m \<longleftrightarrow> (\<forall>s. P s \<longrightarrow> P (snd (m s)) \<and> fst (m s) \<noteq> Inl Panic)"

named_theorems safe_intros \<open>absence of panics\<close>

lemma safeI: "(\<And>s. P s \<Longrightarrow> P (snd (m s)) \<and> fst (m s) \<noteq> Inl Panic) \<Longrightarrow> safe P m"
  by (simp add: safe_def)

lemma safe_no_panic: "safe P m \<Longrightarrow> P s \<Longrightarrow> fst (m s) \<noteq> Inl Panic"
  by (simp add: safe_def)

lemma safe_run: "m s = (r, t) \<Longrightarrow> P s \<Longrightarrow> safe P m \<Longrightarrow> P t \<and> r \<noteq> Inl Panic"
  by (metis fst_conv safe_def snd_conv)

lemma safe_ret [safe_intros, simp]: "safe P (ret_st a)"
  by (simp add: safe_def)

lemma safe_read [safe_intros, simp]: "safe P (read_st f)"
  by (simp add: safe_def)

lemma safe_write_True [safe_intros, simp]: "safe (\<lambda>_. True) (write_st f)"
  by (simp add: safe_def)

lemma safe_lift [safe_intros]: "r \<noteq> Inl Panic \<Longrightarrow> safe P (lift_st r)"
  by (simp add: safe_def)

lemma safe_bind [safe_intros]:
  "safe P m \<Longrightarrow> (\<And>a. safe P (f a)) \<Longrightarrow> safe P (bind_st m f)"
  by (fastforce simp: safe_def bind_st_def split: prod.splits sum.splits)

text \<open>What the first computation returns may be used for the second.\<close>

lemma safe_bind_post:
  assumes "safe P m" and "\<And>s a t. P s \<Longrightarrow> m s = (Inr a, t) \<Longrightarrow> Q a" and "\<And>a. Q a \<Longrightarrow> safe P (f a)"
  shows "safe P (bind_st m f)"
proof (rule safeI)
  fix s assume s: "P s"
  obtain r t where run: "m s = (r, t)" by force
  have t: "P t" "r \<noteq> Inl Panic" using safe_run [OF run s assms(1)] by auto
  show "P (snd (bind_st m f s)) \<and> fst (bind_st m f s) \<noteq> Inl Panic"
  proof (cases r)
    case (Inl x)
    with run t show ?thesis by (simp add: bind_st_def)
  next
    case (Inr a)
    with assms(2,3) s run have "safe P (f a)" by blast
    with Inr run t show ?thesis by (simp add: bind_st_def safe_def)
  qed
qed

lemma safe_if [safe_intros]: "safe P m \<Longrightarrow> safe P n \<Longrightarrow> safe P (if b then m else n)"
  by simp

lemma safe_case_option [safe_intros]:
  "safe P m \<Longrightarrow> (\<And>x. safe P (f x)) \<Longrightarrow> safe P (case a of None \<Rightarrow> m | Some x \<Rightarrow> f x)"
  by (cases a) auto

lemma safe_case_prod [safe_intros]:
  "(\<And>x y. safe P (f x y)) \<Longrightarrow> safe P (case a of (x, y) \<Rightarrow> f x y)"
  by (cases a) auto

lemma safe_Let [safe_intros]: "(\<And>x. safe P (f x)) \<Longrightarrow> safe P (let x = a in f x)"
  by simp

lemma safe_map_err [safe_intros]: "safe P m \<Longrightarrow> safe P (map_err_st g m)"
  by (fastforce simp: safe_def map_err_st_def map_err_def split: prod.splits sum.splits fail.splits)

lemma safe_ignore_err [safe_intros]: "safe P m \<Longrightarrow> safe P (ignore_err m)"
  by (fastforce simp: safe_def ignore_err_def split: prod.splits sum.splits fail.splits)

lemma safe_map_st [safe_intros]: "(\<And>x. safe P (f x)) \<Longrightarrow> safe P (map_st f xs)"
  by (induction xs) (auto intro!: safe_intros)

lemma no_panic_simps [simp]:
  "throw_res e \<noteq> Inl Panic" "of_sum g r \<noteq> Inl Panic" "of_option e x \<noteq> Inl Panic"
  by (auto simp: throw_res_def of_sum_def of_option_def split: sum.splits option.splits)

lemma map_res_no_panic:
  "(\<And>x. x \<in> set xs \<Longrightarrow> f x \<noteq> Inl Panic) \<Longrightarrow> map_res f xs \<noteq> Inl Panic"
  by (induction xs) (auto simp: bind_res_def split: sum.splits)

lemma bind_res_panic_iff [simp]:
  "bind_res r f = Inl Panic \<longleftrightarrow> r = Inl Panic \<or> (\<exists>a. r = Inr a \<and> f a = Inl Panic)"
  by (cases r) auto

lemma bind_res_no_panic:
  "r \<noteq> Inl Panic \<Longrightarrow> (\<And>a. r = Inr a \<Longrightarrow> f a \<noteq> Inl Panic) \<Longrightarrow> bind_res r f \<noteq> Inl Panic"
  by (cases r) auto

section \<open>Machine integers\<close>

type_synonym u8 = "8 word"
type_synonym u16 = "16 word"
type_synonym u32 = "32 word"
type_synonym u64 = "64 word"

definition indices_below :: "u32 \<Rightarrow> u32 list" where
  "indices_below n = map word_of_nat [0..<unat n]"

definition saturating_sub :: "'n::len word \<Rightarrow> 'n word \<Rightarrow> 'n word" where
  "saturating_sub a b = (if a < b then 0 else a - b)"

definition saturating_add :: "'n::len word \<Rightarrow> 'n word \<Rightarrow> 'n word" where
  "saturating_add a b = (if unat a + unat b < 2 ^ LENGTH('n) then a + b else - 1)"

definition checked_add :: "'n::len word \<Rightarrow> 'n word \<Rightarrow> 'n word option" where
  "checked_add a b = (if unat a + unat b < 2 ^ LENGTH('n) then Some (a + b) else None)"

text \<open>\<open>iter().sum()\<close> over unsigned integers: \<open>None\<close> is the overflow panic.\<close>

fun checked_sum :: "'n::len word list \<Rightarrow> 'n word option" where
  "checked_sum [] = Some 0"
| "checked_sum (x # xs) = (case checked_sum xs of None \<Rightarrow> None | Some s \<Rightarrow> checked_add x s)"

lemma unat_saturating_sub: "unat (saturating_sub a b) = unat a - unat b"
  by (simp add: saturating_sub_def unat_sub_if' word_less_nat_alt)

lemma unat_max_word_val: "unat (- 1 :: 'n::len word) = 2 ^ LENGTH('n) - 1"
  by (simp add: unsigned_minus_1_eq_mask mask_eq_exp_minus_1)

lemma unat_saturating_add:
  "unat (saturating_add a (b :: 'n::len word)) = min (unat a + unat b) (2 ^ LENGTH('n) - 1)"
  by (auto simp: saturating_add_def unat_word_ariths unat_max_word_val)

lemma checked_add_Some_iff:
  "checked_add a b = Some (c :: 'n::len word) \<longleftrightarrow> unat c = unat a + unat b"
proof
  assume "checked_add a b = Some c"
  then show "unat c = unat a + unat b"
    by (auto simp: checked_add_def unat_word_ariths split: if_splits)
next
  assume *: "unat c = unat a + unat b"
  then have lt: "unat a + unat b < 2 ^ LENGTH('n)"
    by (metis unsigned_less)
  have "unat (a + b) = unat c"
    using * lt by (simp add: unat_word_ariths)
  with lt show "checked_add a b = Some c"
    by (simp add: checked_add_def word_unat_eq_iff)
qed

lemma checked_add_total:
  "unat a + unat (b :: 'n::len word) < 2 ^ LENGTH('n) \<Longrightarrow> checked_add a b = Some (a + b)"
  by (simp add: checked_add_def)

lemma checked_sum_Some_iff:
  "checked_sum xs = Some (s :: 'n::len word) \<longleftrightarrow> unat s = sum_list (map unat xs)"
proof (induction xs arbitrary: s)
  case Nil
  then show ?case by (auto simp: unat_eq_zero)
next
  case (Cons x xs)
  show ?case
  proof (cases "checked_sum xs")
    case (Some t)
    then have "unat t = sum_list (map unat xs)"
      using Cons.IH by blast
    with Some show ?thesis by (simp add: checked_add_Some_iff)
  next
    case None
    have "\<not> sum_list (map unat xs) < 2 ^ LENGTH('n)"
    proof
      assume lt: "sum_list (map unat xs) < 2 ^ LENGTH('n)"
      then have "unat (word_of_nat (sum_list (map unat xs)) :: 'n word) = sum_list (map unat xs)"
        by (simp add: unat_of_nat)
      with Cons.IH None show False by (metis option.distinct(1))
    qed
    then have "unat s \<noteq> unat x + sum_list (map unat xs)"
      using unsigned_less [of s, where 'a = nat] by linarith
    with None show ?thesis by simp
  qed
qed

lemma checked_sum_total:
  fixes xs :: "'n::len word list"
  assumes "sum_list (map unat xs) < 2 ^ LENGTH('n)"
  shows "\<exists>s. checked_sum xs = Some s \<and> unat s = sum_list (map unat xs)"
proof -
  have "unat (word_of_nat (sum_list (map unat xs)) :: 'n word) = sum_list (map unat xs)"
    using assms by (simp add: unat_of_nat)
  then show ?thesis
    by (metis checked_sum_Some_iff)
qed

text \<open>
  The signed columns and fields (\<open>i32\<close>, SQL \<open>INT\<close>) are HOL integers with their range
  written out; \<open>try_from(x).unwrap_or(d)\<close> is \<open>to_i32_or d x\<close>.
\<close>

definition i32_max :: int where
  "i32_max = 2 ^ 31 - 1"

definition in_i32 :: "int \<Rightarrow> bool" where
  "in_i32 x \<longleftrightarrow> - (2 ^ 31) \<le> x \<and> x \<le> i32_max"

definition to_i32_or :: "int \<Rightarrow> int \<Rightarrow> int" where
  "to_i32_or d x = (if in_i32 x then x else d)"

definition i64_max :: int where
  "i64_max = 2 ^ 63 - 1"

definition to_u32_or :: "u32 \<Rightarrow> int \<Rightarrow> u32" where
  "to_u32_or d x = (if 0 \<le> x \<and> x < 2 ^ 32 then word_of_int x else d)"

lemma uint_to_u32_or: "0 \<le> x \<Longrightarrow> x < 2 ^ 32 \<Longrightarrow> uint (to_u32_or d x) = x"
  by (simp add: to_u32_or_def uint_word_of_int)

section \<open>Tables\<close>

text \<open>
  A database table is the list of its rows. \<open>update_where\<close> is \<open>UPDATE ... SET f WHERE p\<close>
  and returns nothing; the number of rows it touches is \<open>count_where\<close>.
\<close>

definition update_where :: "('r \<Rightarrow> bool) \<Rightarrow> ('r \<Rightarrow> 'r) \<Rightarrow> 'r list \<Rightarrow> 'r list" where
  "update_where p f rows = map (\<lambda>r. if p r then f r else r) rows"

definition count_where :: "('r \<Rightarrow> bool) \<Rightarrow> 'r list \<Rightarrow> nat" where
  "count_where p rows = length (filter p rows)"

definition delete_where :: "('r \<Rightarrow> bool) \<Rightarrow> 'r list \<Rightarrow> 'r list" where
  "delete_where p rows = filter (\<lambda>r. \<not> p r) rows"

lemma update_where_simps [simp]:
  "update_where p f [] = []"
  "update_where p f (r # rs) = (if p r then f r else r) # update_where p f rs"
  by (simp_all add: update_where_def)

lemma length_update_where [simp]: "length (update_where p f rs) = length rs"
  by (simp add: update_where_def)

lemma set_update_where: "set (update_where p f rs) = (\<lambda>r. if p r then f r else r) ` set rs"
  by (simp add: update_where_def)

lemma map_update_where:
  "(\<And>r. p r \<Longrightarrow> g (f r) = g r) \<Longrightarrow> map g (update_where p f rs) = map g rs"
  by (simp add: update_where_def)

lemma update_where_idem:
  "(\<And>r. p r \<Longrightarrow> \<not> p (f r) \<or> f (f r) = f r) \<Longrightarrow>
   update_where p f (update_where p f rs) = update_where p f rs"
  by (auto simp: update_where_def)

lemma update_where_none: "\<forall>r \<in> set rs. \<not> p r \<Longrightarrow> update_where p f rs = rs"
  by (induction rs) auto

lemma filter_update_where:
  "(\<And>r. p r \<Longrightarrow> q (f r) = q r) \<Longrightarrow> filter q (update_where p f rs) = update_where p f (filter q rs)"
  by (induction rs) auto

text \<open>\<open>INSERT ... ON CONFLICT (key) DO UPDATE\<close> keeps the key unique.\<close>

lemma distinct_upsert:
  assumes "distinct (map key rs)" and "\<And>r. same r \<longleftrightarrow> key r = k"
    and "\<And>r. same r \<Longrightarrow> key (f r) = k" and "key row = k"
  shows "distinct (map key (if list_ex same rs then update_where same f rs else rs @ [row]))"
proof (cases "list_ex same rs")
  case True
  have "map key (update_where same f rs) = map key rs"
    using assms(2,3) by (intro map_update_where) simp
  with True assms(1) show ?thesis by simp
next
  case False
  with assms show ?thesis by (auto simp: list_ex_iff)
qed

lemma set_delete_where [simp]: "set (delete_where p rs) = {r \<in> set rs. \<not> p r}"
  by (simp add: delete_where_def)

text \<open>\<open>find\<close> returns the first match, as \<open>iter().find()\<close> and \<open>fetch_optional\<close> do.\<close>

lemma find_Some_in: "find p xs = Some x \<Longrightarrow> x \<in> set xs \<and> p x"
  by (induction xs) (auto split: if_splits)

lemma find_None: "find p xs = None \<longleftrightarrow> (\<forall>x \<in> set xs. \<not> p x)"
  by (induction xs) auto

lemma find_unique:
  assumes "distinct (map k xs)" and "x \<in> set xs"
  shows "find (\<lambda>y. k y = k x) xs = Some x"
  using assms by (induction xs) (auto intro: rev_image_eqI)

section \<open>Networks\<close>

text \<open>The enumerations of the bitcoin and elements crates that the program matches on.\<close>

datatype network = Bitcoin | Testnet | Testnet4 | Signet | Regtest

datatype elements_network = Liquid | LiquidTestnet | ElementsRegtest

datatype script_type = Wsh | Tr

end
