(* ===== verification/Models.thy ===== *)
theory Models
  imports Prelude
begin

text \<open>
  The row types of \<open>src/models.rs\<close> and the database they live in. Identifiers are 128-bit
  words, JSON documents their text, timestamps integers; the signed SQL columns are HOL
  integers. A \<open>database\<close> has one list of rows per table of \<open>migrations/*.sql\<close>; the four
  \<open>elements_*\<close> tables of the block scan are those of \<open>src/elements_sync.rs\<close>.
\<close>

type_synonym uuid = "128 word"
type_synonym json = string
type_synonym timestamp = int

section \<open>Rows\<close>

record user_row =
  u_id :: uuid
  u_email :: string
  u_password_hash :: string
  u_created_at :: timestamp

record wallet_row =
  w_id :: uuid
  w_user_id :: uuid
  w_account_idx :: int
  w_descriptor :: string
  w_bdk_changeset :: "json option"
  w_chain_tip_height :: "int option"
  w_created_at :: timestamp

record transaction_row =
  t_id :: uuid
  t_wallet_id :: uuid
  t_txid :: string
  t_recipient :: string
  t_amount_sat :: int
  t_fee_sat :: int
  t_raw_tx_hex :: string
  t_label :: "string option"
  t_broadcast_at :: timestamp

record elements_wallet_row =
  ew_id :: uuid
  ew_user_id :: uuid
  ew_account_idx :: int
  ew_descriptor :: string
  ew_master_blinding_key :: string
  ew_daemon_wallet_name :: string
  ew_chain_tip_height :: "int option"
  ew_created_at :: timestamp

record elements_transaction_row =
  et_id :: uuid
  et_wallet_id :: uuid
  et_txid :: string
  et_recipient :: string
  et_amount_sat :: int
  et_fee_sat :: int
  et_raw_tx_hex :: string
  et_label :: "string option"
  et_broadcast_at :: timestamp

record federation_version_row =
  fv_id :: uuid
  fv_wallet_id :: "uuid option"
  fv_elements_wallet_id :: "uuid option"
  fv_version_index :: int
  fv_descriptor :: string
  fv_threshold :: int
  fv_signer_count :: int
  fv_federation_snapshot :: json
  fv_wallet_handle :: string
  fv_blinding_key :: "string option"
  fv_migration_status :: string
  fv_migration_sweep_txid :: "string option"
  fv_created_at :: timestamp

text \<open>Rows of the block scan, written and read by \<open>src/elements_sync.rs\<close>.\<close>

record block_row =
  eb_height :: int
  eb_block_hash :: string
  eb_raw_block :: "u8 list"

record cursor_row =
  sc_tip_height :: int
  sc_tip_hash :: string

record utxo_row =
  eu_wallet_id :: uuid
  eu_txid :: string
  eu_vout :: int
  eu_raw_txout :: "u8 list"
  eu_secrets_json :: json
  eu_asset_id :: string
  eu_value_sat :: int
  eu_chain :: int
  eu_wildcard_index :: int
  eu_height :: int
  eu_is_spent :: bool
  eu_spent_height :: "int option"

record checkpoint_row =
  cc_wallet_id :: uuid
  cc_height :: int
  cc_block_hash :: string

section \<open>The database\<close>

record database =
  users :: "user_row list"
  wallets :: "wallet_row list"
  transactions :: "transaction_row list"
  elements_wallets :: "elements_wallet_row list"
  elements_transactions :: "elements_transaction_row list"
  federation_versions :: "federation_version_row list"
  elements_blocks :: "block_row list"
  elements_sync_cursor :: "cursor_row option"
  elements_utxos :: "utxo_row list"
  elements_chain_checkpoints :: "checkpoint_row list"

definition empty_database :: database where
  "empty_database = \<lparr>users = [], wallets = [], transactions = [], elements_wallets = [],
     elements_transactions = [], federation_versions = [], elements_blocks = [],
     elements_sync_cursor = None, elements_utxos = [], elements_chain_checkpoints = []\<rparr>"

text \<open>
  Errors a query returns, by their PostgreSQL class and the constraint they name;
  \<open>RowNotFound\<close> is raised by \<open>fetch_one\<close> on an empty result. Connection failures are not
  modelled.
\<close>

datatype db_error =
    UniqueViolation string
  | CheckViolation string
  | ForeignKeyViolation string
  | RowNotFound
  | NumericOutOfRange

type_synonym 'a query = "(database, db_error, 'a) st"

text \<open>A statement either fails and leaves the database as it was, or commits.\<close>

definition statement :: "(database \<Rightarrow> db_error option) \<Rightarrow> (database \<Rightarrow> database) \<Rightarrow> (database \<Rightarrow> 'a) \<Rightarrow> 'a query" where
  "statement refuse effect result = (\<lambda>d. case refuse d of
       Some e \<Rightarrow> (Inl (Err e), d) | None \<Rightarrow> (Inr (result d), effect d))"

lemma statement_Some [st_simps]: "refuse d = Some e \<Longrightarrow> statement refuse f g d = (Inl (Err e), d)"
  by (simp add: statement_def)

lemma statement_None [st_simps]: "refuse d = None \<Longrightarrow> statement refuse f g d = (Inr (g d), f d)"
  by (simp add: statement_def)

lemma statement_Inr_iff:
  "statement refuse f g d = (Inr a, d') \<longleftrightarrow> refuse d = None \<and> a = g d \<and> d' = f d"
  by (auto simp: statement_def split: option.splits)

lemma statement_Inl: "statement refuse f g d = (Inl x, d') \<Longrightarrow> d' = d"
  by (auto simp: statement_def split: option.splits)

lemma preserves_statement [pres_intros]:
  "(\<And>d. refuse d = None \<Longrightarrow> P d \<Longrightarrow> P (f d)) \<Longrightarrow> preserves P (statement refuse f g)"
  by (auto simp: preserves_def statement_def split: option.splits)

lemma safe_statement [safe_intros]:
  "preserves P (statement refuse f g) \<Longrightarrow> safe P (statement refuse f g)"
  by (auto simp: preserves_def safe_def statement_def split: option.splits)

lemma safe_statement_True [safe_intros]: "safe (\<lambda>_. True) (statement refuse f g)"
  by (auto simp: safe_def statement_def split: option.splits)

text \<open>The first of a list of conditions that fails, in the order the server checks them.\<close>

fun first_failure :: "(bool \<times> db_error) list \<Rightarrow> db_error option" where
  "first_failure [] = None"
| "first_failure ((violated, e) # rest) = (if violated then Some e else first_failure rest)"

lemma first_failure_None: "first_failure cs = None \<longleftrightarrow> (\<forall>(b, e) \<in> set cs. \<not> b)"
  by (induction cs rule: first_failure.induct) auto

section \<open>The constraints of the schema\<close>

definition users_ok :: "database \<Rightarrow> bool" where
  "users_ok d \<longleftrightarrow> distinct (map u_id (users d)) \<and> distinct (map u_email (users d))"

definition wallets_ok :: "database \<Rightarrow> bool" where
  "wallets_ok d \<longleftrightarrow> distinct (map w_id (wallets d)) \<and> distinct (map w_user_id (wallets d))
     \<and> distinct (map w_account_idx (wallets d))
     \<and> (\<forall>w \<in> set (wallets d). 0 \<le> w_account_idx w \<and> w_account_idx w \<le> i32_max
          \<and> w_user_id w \<in> u_id ` set (users d))"

definition transactions_ok :: "database \<Rightarrow> bool" where
  "transactions_ok d \<longleftrightarrow> distinct (map t_id (transactions d))
     \<and> distinct (map (\<lambda>t. (t_wallet_id t, t_txid t)) (transactions d))
     \<and> (\<forall>t \<in> set (transactions d). 0 < t_amount_sat t \<and> 0 \<le> t_fee_sat t
          \<and> t_wallet_id t \<in> w_id ` set (wallets d))"

definition elements_wallets_ok :: "database \<Rightarrow> bool" where
  "elements_wallets_ok d \<longleftrightarrow> distinct (map ew_id (elements_wallets d))
     \<and> distinct (map ew_user_id (elements_wallets d))
     \<and> distinct (map ew_account_idx (elements_wallets d))
     \<and> distinct (map ew_daemon_wallet_name (elements_wallets d))
     \<and> (\<forall>w \<in> set (elements_wallets d). 0 \<le> ew_account_idx w \<and> ew_account_idx w \<le> i32_max
          \<and> ew_user_id w \<in> u_id ` set (users d))"

definition elements_transactions_ok :: "database \<Rightarrow> bool" where
  "elements_transactions_ok d \<longleftrightarrow> distinct (map et_id (elements_transactions d))
     \<and> distinct (map (\<lambda>t. (et_wallet_id t, et_txid t)) (elements_transactions d))
     \<and> (\<forall>t \<in> set (elements_transactions d). 0 < et_amount_sat t \<and> 0 \<le> et_fee_sat t
          \<and> et_wallet_id t \<in> ew_id ` set (elements_wallets d))"

definition migration_statuses :: "string list" where
  "migration_statuses = [''not_applicable'', ''pending'', ''in_progress'', ''complete'']"

text \<open>
  A row's key: the owning wallet of either kind and the version index. The table's two
  unique constraints say that no two rows share one.
\<close>

definition fv_key :: "federation_version_row \<Rightarrow> uuid option \<times> uuid option \<times> int" where
  "fv_key v = (fv_wallet_id v, fv_elements_wallet_id v, fv_version_index v)"

definition fv_row_ok :: "uuid set \<Rightarrow> uuid set \<Rightarrow> federation_version_row \<Rightarrow> bool" where
  "fv_row_ok ws es v \<longleftrightarrow> 0 \<le> fv_version_index v \<and> 0 < fv_threshold v \<and> 0 < fv_signer_count v
     \<and> fv_migration_status v \<in> set migration_statuses
     \<and> (case (fv_wallet_id v, fv_elements_wallet_id v) of
          (Some w, None) \<Rightarrow> w \<in> ws
        | (None, Some w) \<Rightarrow> w \<in> es
        | _ \<Rightarrow> False)"

lemma fv_row_ok_mono: "fv_row_ok ws es v \<Longrightarrow> ws \<subseteq> ws' \<Longrightarrow> es \<subseteq> es' \<Longrightarrow> fv_row_ok ws' es' v"
  by (auto simp: fv_row_ok_def split: option.splits)

lemma fv_row_ok_insert [simp]:
  "fv_row_ok ws es v \<Longrightarrow> fv_row_ok (insert w ws) es v"
  "fv_row_ok ws es v \<Longrightarrow> fv_row_ok ws (insert w es) v"
  by (auto elim: fv_row_ok_mono)

definition federation_versions_ok :: "database \<Rightarrow> bool" where
  "federation_versions_ok d \<longleftrightarrow> distinct (map fv_id (federation_versions d))
     \<and> distinct (map fv_key (federation_versions d))
     \<and> (\<forall>v \<in> set (federation_versions d).
          fv_row_ok (w_id ` set (wallets d)) (ew_id ` set (elements_wallets d)) v)"

definition utxos_ok :: "database \<Rightarrow> bool" where
  "utxos_ok d \<longleftrightarrow> distinct (map (\<lambda>u. (eu_wallet_id u, eu_txid u, eu_vout u)) (elements_utxos d))"

definition checkpoints_ok :: "database \<Rightarrow> bool" where
  "checkpoints_ok d \<longleftrightarrow> distinct (map (\<lambda>c. (cc_wallet_id c, cc_height c)) (elements_chain_checkpoints d))"

definition blocks_ok :: "database \<Rightarrow> bool" where
  "blocks_ok d \<longleftrightarrow> distinct (map eb_height (elements_blocks d))
     \<and> distinct (map eb_block_hash (elements_blocks d))"

definition db_inv :: "database \<Rightarrow> bool" where
  "db_inv d \<longleftrightarrow> users_ok d \<and> wallets_ok d \<and> transactions_ok d \<and> elements_wallets_ok d
     \<and> elements_transactions_ok d \<and> federation_versions_ok d \<and> utxos_ok d \<and> checkpoints_ok d
     \<and> blocks_ok d"

lemmas db_ok_defs = users_ok_def wallets_ok_def transactions_ok_def elements_wallets_ok_def
  elements_transactions_ok_def federation_versions_ok_def utxos_ok_def checkpoints_ok_def
  blocks_ok_def

lemma db_inv_empty [simp]: "db_inv empty_database"
  by (simp add: db_inv_def db_ok_defs empty_database_def)

end
