(* ===== verification/Database.thy ===== *)
theory Database
  imports Models
begin

text \<open>
  The queries of \<open>src/db.rs\<close> on users, wallets and transactions of both chains. An
  \<open>INSERT\<close> takes the generated identifier and timestamp as its first two arguments and
  reports the constraint the server would report: \<open>CHECK\<close> constraints first, then the
  target of an \<open>ON CONFLICT\<close> clause, then the unique indexes in their order of creation, then
  foreign keys.
\<close>

section \<open>Users\<close>

definition upsert_user_if_absent :: "uuid \<Rightarrow> timestamp \<Rightarrow> string \<Rightarrow> string \<Rightarrow> bool query" where
  "upsert_user_if_absent new_id now email password_hash =
     (let conflict = (\<lambda>d. email \<in> u_email ` set (users d)) in
      statement
       (\<lambda>d. first_failure [(\<not> conflict d \<and> new_id \<in> u_id ` set (users d), UniqueViolation ''users_pkey'')])
       (\<lambda>d. if conflict d then d
            else d\<lparr>users := users d @ [\<lparr>u_id = new_id, u_email = email,
                     u_password_hash = password_hash, u_created_at = now\<rparr>]\<rparr>)
       (\<lambda>d. \<not> conflict d))"

text \<open>The server's \<open>lower\<close> depends on its locale and is an argument.\<close>

definition find_user_by_email :: "(string \<Rightarrow> string) \<Rightarrow> string \<Rightarrow> user_row option query" where
  "find_user_by_email lower email = read_st (\<lambda>d. find (\<lambda>u. lower (u_email u) = lower email) (users d))"

definition find_user_by_id :: "uuid \<Rightarrow> user_row option query" where
  "find_user_by_id i = read_st (\<lambda>d. find (\<lambda>u. u_id u = i) (users d))"

section \<open>Wallets\<close>

record new_wallet =
  nw_user_id :: uuid
  nw_account_idx :: int
  nw_descriptor :: string
  nw_bdk_changeset :: json
  nw_chain_tip_height :: int

definition wallet_of_spec :: "uuid \<Rightarrow> timestamp \<Rightarrow> new_wallet \<Rightarrow> wallet_row" where
  "wallet_of_spec new_id now spec = \<lparr>w_id = new_id, w_user_id = nw_user_id spec,
     w_account_idx = nw_account_idx spec, w_descriptor = nw_descriptor spec,
     w_bdk_changeset = Some (nw_bdk_changeset spec),
     w_chain_tip_height = Some (nw_chain_tip_height spec), w_created_at = now\<rparr>"

definition insert_wallet :: "uuid \<Rightarrow> timestamp \<Rightarrow> new_wallet \<Rightarrow> wallet_row query" where
  "insert_wallet new_id now spec = statement
     (\<lambda>d. first_failure [
        (\<not> in_i32 (nw_account_idx spec), NumericOutOfRange),
        (nw_account_idx spec < 0, CheckViolation ''wallets_account_idx_check''),
        (new_id \<in> w_id ` set (wallets d), UniqueViolation ''wallets_pkey''),
        (nw_user_id spec \<in> w_user_id ` set (wallets d), UniqueViolation ''wallets_user_id_key''),
        (nw_account_idx spec \<in> w_account_idx ` set (wallets d), UniqueViolation ''wallets_account_idx_key''),
        (nw_user_id spec \<notin> u_id ` set (users d), ForeignKeyViolation ''wallets_user_id_fkey'')])
     (\<lambda>d. d\<lparr>wallets := wallets d @ [wallet_of_spec new_id now spec]\<rparr>)
     (\<lambda>d. wallet_of_spec new_id now spec)"

definition find_wallet_for_user :: "uuid \<Rightarrow> wallet_row option query" where
  "find_wallet_for_user user_id = read_st (\<lambda>d. find (\<lambda>w. w_user_id w = user_id) (wallets d))"

definition list_all_wallets :: "wallet_row list query" where
  "list_all_wallets = read_st (\<lambda>d. sort_key w_account_idx (wallets d))"

text \<open>\<open>COALESCE(MAX(account_idx) + 1, 0)\<close> in 32-bit arithmetic.\<close>

fun max_plus_one :: "int list \<Rightarrow> int" where
  "max_plus_one [] = 0"
| "max_plus_one (x # xs) = fold max xs x + 1"

definition next_idx_of :: "(database \<Rightarrow> int list) \<Rightarrow> int query" where
  "next_idx_of idxs = statement
     (\<lambda>d. first_failure [(max_plus_one (idxs d) > i32_max, NumericOutOfRange)])
     (\<lambda>d. d) (\<lambda>d. max_plus_one (idxs d))"

definition next_account_idx :: "int query" where
  "next_account_idx = next_idx_of (\<lambda>d. map w_account_idx (wallets d))"

definition update_wallet_changeset :: "uuid \<Rightarrow> json \<Rightarrow> int \<Rightarrow> unit query" where
  "update_wallet_changeset wallet_id changeset tip_height = write_st (\<lambda>d. d\<lparr>wallets :=
     update_where (\<lambda>w. w_id w = wallet_id)
       (\<lambda>w. w\<lparr>w_bdk_changeset := Some changeset, w_chain_tip_height := Some tip_height\<rparr>) (wallets d)\<rparr>)"

definition update_wallet_descriptor_and_changeset :: "uuid \<Rightarrow> string \<Rightarrow> json \<Rightarrow> unit query" where
  "update_wallet_descriptor_and_changeset wallet_id descriptor changeset = write_st (\<lambda>d. d\<lparr>wallets :=
     update_where (\<lambda>w. w_id w = wallet_id)
       (\<lambda>w. w\<lparr>w_descriptor := descriptor, w_bdk_changeset := Some changeset,
              w_chain_tip_height := Some 0\<rparr>) (wallets d)\<rparr>)"

definition update_wallet_tip_only :: "uuid \<Rightarrow> int \<Rightarrow> unit query" where
  "update_wallet_tip_only wallet_id tip_height = write_st (\<lambda>d. d\<lparr>wallets :=
     update_where (\<lambda>w. w_id w = wallet_id) (\<lambda>w. w\<lparr>w_chain_tip_height := Some tip_height\<rparr>) (wallets d)\<rparr>)"

section \<open>Transactions\<close>

record new_transaction =
  nt_wallet_id :: uuid
  nt_txid :: string
  nt_recipient :: string
  nt_amount_sat :: int
  nt_fee_sat :: int
  nt_raw_tx_hex :: string
  nt_label :: "string option"

definition transaction_of_spec :: "uuid \<Rightarrow> timestamp \<Rightarrow> new_transaction \<Rightarrow> transaction_row" where
  "transaction_of_spec new_id now spec = \<lparr>t_id = new_id, t_wallet_id = nt_wallet_id spec,
     t_txid = nt_txid spec, t_recipient = nt_recipient spec, t_amount_sat = nt_amount_sat spec,
     t_fee_sat = nt_fee_sat spec, t_raw_tx_hex = nt_raw_tx_hex spec, t_label = nt_label spec,
     t_broadcast_at = now\<rparr>"

definition insert_transaction :: "uuid \<Rightarrow> timestamp \<Rightarrow> new_transaction \<Rightarrow> transaction_row option query" where
  "insert_transaction new_id now spec =
     (let conflict = (\<lambda>d. (nt_wallet_id spec, nt_txid spec)
                            \<in> (\<lambda>t. (t_wallet_id t, t_txid t)) ` set (transactions d)) in
      statement
       (\<lambda>d. first_failure [
          (\<not> 0 < nt_amount_sat spec, CheckViolation ''transactions_amount_sat_check''),
          (\<not> 0 \<le> nt_fee_sat spec, CheckViolation ''transactions_fee_sat_check''),
          (\<not> conflict d \<and> new_id \<in> t_id ` set (transactions d), UniqueViolation ''transactions_pkey''),
          (\<not> conflict d \<and> nt_wallet_id spec \<notin> w_id ` set (wallets d),
             ForeignKeyViolation ''transactions_wallet_id_fkey'')])
       (\<lambda>d. if conflict d then d
            else d\<lparr>transactions := transactions d @ [transaction_of_spec new_id now spec]\<rparr>)
       (\<lambda>d. if conflict d then None else Some (transaction_of_spec new_id now spec)))"

definition list_transactions_for_wallet :: "uuid \<Rightarrow> transaction_row list query" where
  "list_transactions_for_wallet wallet_id = read_st (\<lambda>d.
     sort_key (\<lambda>t. - t_broadcast_at t) (filter (\<lambda>t. t_wallet_id t = wallet_id) (transactions d)))"

definition find_transaction :: "uuid \<Rightarrow> string \<Rightarrow> transaction_row option query" where
  "find_transaction wallet_id txid = read_st (\<lambda>d.
     find (\<lambda>t. t_wallet_id t = wallet_id \<and> t_txid t = txid) (transactions d))"

section \<open>Elements wallets\<close>

record new_elements_wallet =
  ne_user_id :: uuid
  ne_account_idx :: int
  ne_descriptor :: string
  ne_master_blinding_key :: string
  ne_daemon_wallet_name :: string

definition elements_wallet_of_spec :: "uuid \<Rightarrow> timestamp \<Rightarrow> new_elements_wallet \<Rightarrow> elements_wallet_row" where
  "elements_wallet_of_spec new_id now spec = \<lparr>ew_id = new_id, ew_user_id = ne_user_id spec,
     ew_account_idx = ne_account_idx spec, ew_descriptor = ne_descriptor spec,
     ew_master_blinding_key = ne_master_blinding_key spec,
     ew_daemon_wallet_name = ne_daemon_wallet_name spec, ew_chain_tip_height = None,
     ew_created_at = now\<rparr>"

definition insert_elements_wallet :: "uuid \<Rightarrow> timestamp \<Rightarrow> new_elements_wallet \<Rightarrow> elements_wallet_row query" where
  "insert_elements_wallet new_id now spec = statement
     (\<lambda>d. first_failure [
        (\<not> in_i32 (ne_account_idx spec), NumericOutOfRange),
        (ne_account_idx spec < 0, CheckViolation ''elements_wallets_account_idx_check''),
        (new_id \<in> ew_id ` set (elements_wallets d), UniqueViolation ''elements_wallets_pkey''),
        (ne_user_id spec \<in> ew_user_id ` set (elements_wallets d),
           UniqueViolation ''elements_wallets_user_id_key''),
        (ne_account_idx spec \<in> ew_account_idx ` set (elements_wallets d),
           UniqueViolation ''elements_wallets_account_idx_key''),
        (ne_daemon_wallet_name spec \<in> ew_daemon_wallet_name ` set (elements_wallets d),
           UniqueViolation ''elements_wallets_daemon_wallet_name_key''),
        (ne_user_id spec \<notin> u_id ` set (users d), ForeignKeyViolation ''elements_wallets_user_id_fkey'')])
     (\<lambda>d. d\<lparr>elements_wallets := elements_wallets d @ [elements_wallet_of_spec new_id now spec]\<rparr>)
     (\<lambda>d. elements_wallet_of_spec new_id now spec)"

definition find_elements_wallet_for_user :: "uuid \<Rightarrow> elements_wallet_row option query" where
  "find_elements_wallet_for_user user_id =
     read_st (\<lambda>d. find (\<lambda>w. ew_user_id w = user_id) (elements_wallets d))"

definition next_elements_account_idx :: "int query" where
  "next_elements_account_idx = next_idx_of (\<lambda>d. map ew_account_idx (elements_wallets d))"

definition update_elements_wallet_tip :: "uuid \<Rightarrow> int \<Rightarrow> unit query" where
  "update_elements_wallet_tip wallet_id tip_height = write_st (\<lambda>d. d\<lparr>elements_wallets :=
     update_where (\<lambda>w. ew_id w = wallet_id) (\<lambda>w. w\<lparr>ew_chain_tip_height := Some tip_height\<rparr>)
       (elements_wallets d)\<rparr>)"

definition update_elements_wallet_descriptor :: "uuid \<Rightarrow> string \<Rightarrow> string \<Rightarrow> unit query" where
  "update_elements_wallet_descriptor wallet_id descriptor master_blinding_key =
     write_st (\<lambda>d. d\<lparr>elements_wallets :=
       update_where (\<lambda>w. ew_id w = wallet_id)
         (\<lambda>w. w\<lparr>ew_descriptor := descriptor, ew_master_blinding_key := master_blinding_key\<rparr>)
         (elements_wallets d)\<rparr>)"

definition list_all_elements_wallets :: "elements_wallet_row list query" where
  "list_all_elements_wallets = read_st (\<lambda>d. sort_key ew_account_idx (elements_wallets d))"

section \<open>Elements transactions\<close>

record new_elements_transaction =
  net_wallet_id :: uuid
  net_txid :: string
  net_recipient :: string
  net_amount_sat :: int
  net_fee_sat :: int
  net_raw_tx_hex :: string
  net_label :: "string option"

definition elements_transaction_of_spec ::
  "uuid \<Rightarrow> timestamp \<Rightarrow> new_elements_transaction \<Rightarrow> elements_transaction_row" where
  "elements_transaction_of_spec new_id now spec = \<lparr>et_id = new_id, et_wallet_id = net_wallet_id spec,
     et_txid = net_txid spec, et_recipient = net_recipient spec,
     et_amount_sat = net_amount_sat spec, et_fee_sat = net_fee_sat spec,
     et_raw_tx_hex = net_raw_tx_hex spec, et_label = net_label spec, et_broadcast_at = now\<rparr>"

definition insert_elements_transaction ::
  "uuid \<Rightarrow> timestamp \<Rightarrow> new_elements_transaction \<Rightarrow> elements_transaction_row option query" where
  "insert_elements_transaction new_id now spec =
     (let conflict = (\<lambda>d. (net_wallet_id spec, net_txid spec)
                            \<in> (\<lambda>t. (et_wallet_id t, et_txid t)) ` set (elements_transactions d)) in
      statement
       (\<lambda>d. first_failure [
          (\<not> 0 < net_amount_sat spec, CheckViolation ''elements_transactions_amount_sat_check''),
          (\<not> 0 \<le> net_fee_sat spec, CheckViolation ''elements_transactions_fee_sat_check''),
          (\<not> conflict d \<and> new_id \<in> et_id ` set (elements_transactions d),
             UniqueViolation ''elements_transactions_pkey''),
          (\<not> conflict d \<and> net_wallet_id spec \<notin> ew_id ` set (elements_wallets d),
             ForeignKeyViolation ''elements_transactions_wallet_id_fkey'')])
       (\<lambda>d. if conflict d then d
            else d\<lparr>elements_transactions :=
                     elements_transactions d @ [elements_transaction_of_spec new_id now spec]\<rparr>)
       (\<lambda>d. if conflict d then None else Some (elements_transaction_of_spec new_id now spec)))"

definition list_elements_transactions_for_wallet :: "uuid \<Rightarrow> elements_transaction_row list query" where
  "list_elements_transactions_for_wallet wallet_id = read_st (\<lambda>d.
     sort_key (\<lambda>t. - et_broadcast_at t)
       (filter (\<lambda>t. et_wallet_id t = wallet_id) (elements_transactions d)))"

definition find_elements_transaction :: "uuid \<Rightarrow> string \<Rightarrow> elements_transaction_row option query" where
  "find_elements_transaction wallet_id txid = read_st (\<lambda>d.
     find (\<lambda>t. et_wallet_id t = wallet_id \<and> et_txid t = txid) (elements_transactions d))"

section \<open>The schema's constraints are kept\<close>

lemma update_wallets_inv:
  assumes "db_inv d" and keys: "\<And>w. w_id (f w) = w_id w" "\<And>w. w_user_id (f w) = w_user_id w"
    "\<And>w. w_account_idx (f w) = w_account_idx w"
  shows "db_inv (d\<lparr>wallets := update_where p f (wallets d)\<rparr>)"
proof -
  have ids: "map w_id (update_where p f (wallets d)) = map w_id (wallets d)"
    and us: "map w_user_id (update_where p f (wallets d)) = map w_user_id (wallets d)"
    and idx: "map w_account_idx (update_where p f (wallets d)) = map w_account_idx (wallets d)"
    by (simp_all add: map_update_where keys)
  have "w_id ` set (update_where p f (wallets d)) = w_id ` set (wallets d)"
    using arg_cong [OF ids, of set] by simp
  then show ?thesis
    using assms(1) ids us idx
    by (auto simp: db_inv_def db_ok_defs set_update_where keys)
qed

lemma update_elements_wallets_inv:
  assumes "db_inv d" and keys: "\<And>w. ew_id (f w) = ew_id w" "\<And>w. ew_user_id (f w) = ew_user_id w"
    "\<And>w. ew_account_idx (f w) = ew_account_idx w"
    "\<And>w. ew_daemon_wallet_name (f w) = ew_daemon_wallet_name w"
  shows "db_inv (d\<lparr>elements_wallets := update_where p f (elements_wallets d)\<rparr>)"
proof -
  have ids: "map ew_id (update_where p f (elements_wallets d)) = map ew_id (elements_wallets d)"
    and us: "map ew_user_id (update_where p f (elements_wallets d)) = map ew_user_id (elements_wallets d)"
    and idx: "map ew_account_idx (update_where p f (elements_wallets d)) = map ew_account_idx (elements_wallets d)"
    and nm: "map ew_daemon_wallet_name (update_where p f (elements_wallets d)) = map ew_daemon_wallet_name (elements_wallets d)"
    by (simp_all add: map_update_where keys)
  have "ew_id ` set (update_where p f (elements_wallets d)) = ew_id ` set (elements_wallets d)"
    using arg_cong [OF ids, of set] by simp
  then show ?thesis
    using assms(1) ids us idx nm
    by (auto simp: db_inv_def db_ok_defs set_update_where keys)
qed

lemma upsert_user_inv [pres_intros]: "preserves db_inv (upsert_user_if_absent i now e h)"
  unfolding upsert_user_if_absent_def Let_def
  by (rule preserves_statement)
    (auto simp: db_inv_def db_ok_defs split: if_splits)

lemma insert_wallet_inv [pres_intros]: "preserves db_inv (insert_wallet i now spec)"
  unfolding insert_wallet_def
  by (rule preserves_statement)
    (auto simp: db_inv_def db_ok_defs wallet_of_spec_def in_i32_def split: if_splits)

lemma insert_elements_wallet_inv [pres_intros]: "preserves db_inv (insert_elements_wallet i now spec)"
  unfolding insert_elements_wallet_def
  by (rule preserves_statement)
    (auto simp: db_inv_def db_ok_defs elements_wallet_of_spec_def in_i32_def
      split: if_splits)

lemma insert_transaction_inv [pres_intros]: "preserves db_inv (insert_transaction i now spec)"
  unfolding insert_transaction_def Let_def
  by (rule preserves_statement)
    (auto simp: db_inv_def db_ok_defs transaction_of_spec_def split: if_splits)

lemma insert_elements_transaction_inv [pres_intros]:
  "preserves db_inv (insert_elements_transaction i now spec)"
  unfolding insert_elements_transaction_def Let_def
  by (rule preserves_statement)
    (auto simp: db_inv_def db_ok_defs elements_transaction_of_spec_def
      split: if_splits)

lemma update_wallet_inv [pres_intros]:
  "preserves db_inv (update_wallet_changeset w c h)"
  "preserves db_inv (update_wallet_descriptor_and_changeset w desc c)"
  "preserves db_inv (update_wallet_tip_only w h)"
  "preserves db_inv (update_elements_wallet_tip w h)"
  "preserves db_inv (update_elements_wallet_descriptor w desc mbk)"
  by (auto simp: update_wallet_changeset_def update_wallet_descriptor_and_changeset_def
      update_wallet_tip_only_def update_elements_wallet_tip_def update_elements_wallet_descriptor_def
      intro!: pres_intros update_wallets_inv update_elements_wallets_inv)

lemma next_idx_pure [simp]: "snd (next_idx_of f d) = d"
  by (simp add: next_idx_of_def statement_def split: option.splits)

lemma query_inv [pres_intros]:
  "preserves P (find_user_by_email lower e)" "preserves P (find_user_by_id i)"
  "preserves P (find_wallet_for_user i)" "preserves P list_all_wallets"
  "preserves P next_account_idx" "preserves P (list_transactions_for_wallet w)"
  "preserves P (find_transaction w t)" "preserves P (find_elements_wallet_for_user i)"
  "preserves P next_elements_account_idx" "preserves P list_all_elements_wallets"
  "preserves P (list_elements_transactions_for_wallet w)" "preserves P (find_elements_transaction w t)"
  by (simp_all add: find_user_by_email_def find_user_by_id_def find_wallet_for_user_def
      list_all_wallets_def next_account_idx_def list_transactions_for_wallet_def
      find_transaction_def find_elements_wallet_for_user_def next_elements_account_idx_def
      list_all_elements_wallets_def list_elements_transactions_for_wallet_def
      find_elements_transaction_def, simp_all add: preserves_def)

section \<open>Allocation of account indices\<close>

lemma fold_max_ge: "a \<le> fold max xs a \<and> (\<forall>x \<in> set xs. x \<le> fold max xs a)" for a :: int
proof (induction xs arbitrary: a)
  case (Cons x xs)
  from Cons.IH [of "max x a"] show ?case by (auto simp: max.commute)
qed simp

lemma max_plus_one_fresh: "x \<in> set xs \<Longrightarrow> x < max_plus_one xs"
  by (cases xs) (use fold_max_ge in fastforce)+

lemma max_plus_one_nonneg: "\<forall>x \<in> set xs. 0 \<le> x \<Longrightarrow> 0 \<le> max_plus_one xs"
proof (cases xs)
  case (Cons a ys)
  then show "\<forall>x \<in> set xs. 0 \<le> x \<Longrightarrow> 0 \<le> max_plus_one xs"
    using fold_max_ge [of a ys] by simp
qed simp

text \<open>
  The contract an index allocator and its table share: the allocator reads and proposes an
  index above all present ones, the insert takes exactly the indices that are not present.
\<close>

locale index_allocator =
  fixes idxs :: "database \<Rightarrow> int list"
    and next_idx :: "int query"
    and ins :: "uuid \<Rightarrow> timestamp \<Rightarrow> 'spec \<Rightarrow> 'row query"
    and spec_idx :: "'spec \<Rightarrow> int"
    and collision :: string
  assumes next_reads: "next_idx d = (q, d') \<Longrightarrow> d' = d"
    and next_above: "next_idx d = (Inr i, d') \<Longrightarrow> x \<in> set (idxs d) \<Longrightarrow> x < i"
    and ins_adds: "ins n t s d = (Inr r, d') \<Longrightarrow> idxs d' = idxs d @ [spec_idx s] \<and> spec_idx s \<notin> set (idxs d)"
    and ins_fails: "ins n t s d = (Inl e, d') \<Longrightarrow> d' = d"
    and ins_no_collision: "spec_idx s \<notin> set (idxs d) \<Longrightarrow> ins n t s d \<noteq> (Inl (Err (UniqueViolation collision)), d)"
begin

lemma allocated_is_free:
  assumes "next_idx d = (Inr i, d')" and "spec_idx s = i"
  shows "ins n t s d' \<noteq> (Inl (Err (UniqueViolation collision)), d')"
  using assms ins_no_collision [of s d'] next_reads [of d "Inr i" d'] next_above [of d i d'] by force

lemma sequential_increases:
  assumes "next_idx d = (Inr i, d1)" and "ins n t s d1 = (Inr r, d2)" and "spec_idx s = i"
    and "next_idx d2 = (Inr j, d3)"
  shows "i < j"
  using assms ins_adds [of n t s d1 r d2] next_above [of d2 j d3] by simp

lemma race_has_one_winner:
  assumes "next_idx d = (Inr i, d1)" and "next_idx d1 = (Inr j, d2)"
    and "ins n t s d2 = (Inr r, d3)" and "spec_idx s = i" and "spec_idx s' = j"
  shows "\<exists>e. ins n' t' s' d3 = (Inl e, d3)"
proof -
  have "d1 = d" using assms(1) next_reads by blast
  then have same: "i = j" using assms(1,2) by simp
  have "i \<in> set (idxs d3)" using ins_adds [OF assms(3)] assms(4) by simp
  then have "\<not> (\<exists>r d'. ins n' t' s' d3 = (Inr r, d'))"
    using ins_adds assms(5) same by blast
  then obtain e d' where "ins n' t' s' d3 = (Inl e, d')"
    by (cases "ins n' t' s' d3"; cases "fst (ins n' t' s' d3)") auto
  with ins_fails show ?thesis by blast
qed

end

lemma next_idx_of_Inr: "next_idx_of f d = (Inr i, d') \<longleftrightarrow> max_plus_one (f d) \<le> i32_max \<and> i = max_plus_one (f d) \<and> d' = d"
  by (auto simp: next_idx_of_def statement_Inr_iff)

interpretation wallet_idx: index_allocator "\<lambda>d. map w_account_idx (wallets d)" next_account_idx
  insert_wallet nw_account_idx "''wallets_account_idx_key''"
proof unfold_locales
  fix d r d'
  show "next_account_idx d = (r, d') \<Longrightarrow> d' = d"
    by (metis next_account_idx_def next_idx_pure snd_conv)
next
  fix d i d' and x :: int
  show "next_account_idx d = (Inr i, d') \<Longrightarrow> x \<in> set (map w_account_idx (wallets d)) \<Longrightarrow> x < i"
    by (simp add: next_account_idx_def next_idx_of_Inr max_plus_one_fresh)
qed (auto simp: insert_wallet_def statement_Inr_iff wallet_of_spec_def statement_def
      split: option.splits if_splits)

interpretation elements_idx: index_allocator "\<lambda>d. map ew_account_idx (elements_wallets d)"
  next_elements_account_idx insert_elements_wallet ne_account_idx "''elements_wallets_account_idx_key''"
proof unfold_locales
  fix d r d'
  show "next_elements_account_idx d = (r, d') \<Longrightarrow> d' = d"
    by (metis next_elements_account_idx_def next_idx_pure snd_conv)
next
  fix d i d' and x :: int
  show "next_elements_account_idx d = (Inr i, d') \<Longrightarrow> x \<in> set (map ew_account_idx (elements_wallets d)) \<Longrightarrow> x < i"
    by (simp add: next_elements_account_idx_def next_idx_of_Inr max_plus_one_fresh)
qed (auto simp: insert_elements_wallet_def statement_Inr_iff elements_wallet_of_spec_def statement_def
      split: option.splits if_splits)

section \<open>A small database\<close>

text \<open>Two users, the first with a wallet on each chain; the properties are evaluated on it.\<close>

definition sample_db :: database where
  "sample_db = empty_database\<lparr>
     users := [\<lparr>u_id = 1, u_email = ''a@x'', u_password_hash = ''h1'', u_created_at = 0\<rparr>,
               \<lparr>u_id = 2, u_email = ''b@x'', u_password_hash = ''h2'', u_created_at = 0\<rparr>],
     wallets := [\<lparr>w_id = 10, w_user_id = 1, w_account_idx = 0, w_descriptor = ''d0'',
                  w_bdk_changeset = Some ''{}'', w_chain_tip_height = Some 0, w_created_at = 0\<rparr>],
     elements_wallets := [\<lparr>ew_id = 20, ew_user_id = 1, ew_account_idx = 0, ew_descriptor = ''e0'',
                  ew_master_blinding_key = ''00'', ew_daemon_wallet_name = ''n0'',
                  ew_chain_tip_height = None, ew_created_at = 0\<rparr>]\<rparr>"

lemma db_inv_sample: "db_inv sample_db"
  by (simp add: db_inv_def db_ok_defs sample_db_def empty_database_def i32_max_def)

section \<open>Properties\<close>

text \<open>The index \<open>next_account_idx\<close> proposes is above every index in use, reading it changes
  nothing, and inserting a wallet with it is never refused for a duplicate index.\<close>

theorem next_account_idx_fresh:
  assumes "next_account_idx d = (Inr i, d')" and "nw_account_idx s = i"
  shows "d' = d \<and> list_all (\<lambda>w. w_account_idx w < i) (wallets d)
    \<and> insert_wallet n t s d \<noteq> (Inl (Err (UniqueViolation ''wallets_account_idx_key'')), d)"
  using assms wallet_idx.next_reads [OF assms(1)] wallet_idx.next_above [OF assms(1)]
    wallet_idx.allocated_is_free [OF assms]
  by (simp add: list_all_iff)

definition sample_new_wallet :: new_wallet where
  "sample_new_wallet = \<lparr>nw_user_id = 2, nw_account_idx = 1, nw_descriptor = ''d1'',
     nw_bdk_changeset = ''{}'', nw_chain_tip_height = 0\<rparr>"

theorem next_account_idx_fresh_witness:
  "insert_wallet 11 5 sample_new_wallet sample_db
     \<noteq> (Inl (Err (UniqueViolation ''wallets_account_idx_key'')), sample_db)"
proof -
  have "next_account_idx sample_db = (Inr 1, sample_db)"
    by (simp add: next_account_idx_def next_idx_of_Inr sample_db_def i32_max_def)
  then show ?thesis
    using next_account_idx_fresh [of sample_db 1 sample_db sample_new_wallet 11 5]
    by (simp add: sample_new_wallet_def)
qed

text \<open>Two wallet creations that both read the index before either inserts do not end up
  with the same account: the second insert fails and leaves the database as it was. The same
  holds for the Elements table.\<close>

theorem allocation_race_has_one_winner:
  assumes "next_account_idx d = (Inr i, d1)" and "next_account_idx d1 = (Inr j, d2)"
    and "insert_wallet n t s d2 = (Inr r, d3)" and "nw_account_idx s = i" and "nw_account_idx s' = j"
    and "next_elements_account_idx e = (Inr i', e1)" and "next_elements_account_idx e1 = (Inr j', e2)"
    and "insert_elements_wallet n t z e2 = (Inr q, e3)" and "ne_account_idx z = i'" and "ne_account_idx z' = j'"
  shows "(\<exists>x. insert_wallet n' t' s' d3 = (Inl x, d3)) \<and> (\<exists>x. insert_elements_wallet n' t' z' e3 = (Inl x, e3))"
  using wallet_idx.race_has_one_winner [OF assms(1-5)] elements_idx.race_has_one_winner [OF assms(6-10)]
  by blast

definition sample_new_elements_wallet :: new_elements_wallet where
  "sample_new_elements_wallet = \<lparr>ne_user_id = 2, ne_account_idx = 1, ne_descriptor = ''e1'',
     ne_master_blinding_key = ''11'', ne_daemon_wallet_name = ''n1''\<rparr>"

definition sample_db_two :: database where
  "sample_db_two = sample_db\<lparr>wallets := wallets sample_db @ [wallet_of_spec 11 5 sample_new_wallet]\<rparr>"

definition sample_db_three :: database where
  "sample_db_three = sample_db\<lparr>elements_wallets :=
     elements_wallets sample_db @ [elements_wallet_of_spec 11 5 sample_new_elements_wallet]\<rparr>"

theorem allocation_race_has_one_winner_witness:
  "\<exists>x. insert_wallet 12 6 sample_new_wallet sample_db_two = (Inl x, sample_db_two)"
proof -
  have idx: "next_account_idx sample_db = (Inr 1, sample_db)"
    "next_elements_account_idx sample_db = (Inr 1, sample_db)"
    by (simp_all add: next_account_idx_def next_elements_account_idx_def next_idx_of_Inr sample_db_def i32_max_def)
  have "insert_wallet 11 5 sample_new_wallet sample_db =
      (Inr (wallet_of_spec 11 5 sample_new_wallet), sample_db_two)"
    by (simp add: insert_wallet_def sample_db_two_def sample_db_def sample_new_wallet_def st_simps
        in_i32_def i32_max_def)
  moreover have "insert_elements_wallet 11 5 sample_new_elements_wallet sample_db =
      (Inr (elements_wallet_of_spec 11 5 sample_new_elements_wallet), sample_db_three)"
    by (simp add: insert_elements_wallet_def sample_db_three_def sample_db_def
        sample_new_elements_wallet_def st_simps in_i32_def i32_max_def)
  ultimately show ?thesis
    using allocation_race_has_one_winner [OF idx(1) idx(1) _ _ _ idx(2) idx(2)]
    by (metis new_elements_wallet.select_convs(2) new_wallet.select_convs(2)
        sample_new_elements_wallet_def sample_new_wallet_def)
qed

text \<open>Recording a broadcast is idempotent: once a row for the wallet and txid is there, a
  further insert with valid amounts succeeds, returns no row and changes nothing, whatever the
  other fields; the first insert appends exactly its row.\<close>

theorem insert_transaction_idempotent:
  assumes "insert_transaction n t s d = (Inr r, d')"
    and "nt_wallet_id s' = nt_wallet_id s" and "nt_txid s' = nt_txid s"
    and "0 < nt_amount_sat s'" and "0 \<le> nt_fee_sat s'"
  shows "insert_transaction n' t' s' d' = (Inr None, d')
    \<and> (case r of None \<Rightarrow> d' = d
        | Some row \<Rightarrow> row = transaction_of_spec n t s \<and> d' = d\<lparr>transactions := transactions d @ [row]\<rparr>)"
proof -
  have "(nt_wallet_id s, nt_txid s) \<in> (\<lambda>t. (t_wallet_id t, t_txid t)) ` set (transactions d')"
    using assms(1) by (auto simp: insert_transaction_def Let_def statement_Inr_iff transaction_of_spec_def
        image_iff split: if_splits)
  then have "insert_transaction n' t' s' d' = (Inr None, d')"
    using assms(2-5) by (simp add: insert_transaction_def Let_def st_simps)
  moreover have "case r of None \<Rightarrow> d' = d
        | Some row \<Rightarrow> row = transaction_of_spec n t s \<and> d' = d\<lparr>transactions := transactions d @ [row]\<rparr>"
    using assms(1) by (auto simp: insert_transaction_def Let_def statement_Inr_iff split: if_splits)
  ultimately show ?thesis ..
qed

definition sample_new_transaction :: new_transaction where
  "sample_new_transaction = \<lparr>nt_wallet_id = 10, nt_txid = ''t'', nt_recipient = ''r'',
     nt_amount_sat = 5, nt_fee_sat = 1, nt_raw_tx_hex = ''00'', nt_label = None\<rparr>"

theorem insert_transaction_idempotent_witness:
  "\<exists>d'. insert_transaction 31 1 sample_new_transaction d' = (Inr None, d') \<and> length (transactions d') = 1"
proof -
  let ?row = "transaction_of_spec 30 0 sample_new_transaction"
  have "insert_transaction 30 0 sample_new_transaction sample_db =
      (Inr (Some ?row), sample_db\<lparr>transactions := [?row]\<rparr>)"
    by (simp add: insert_transaction_def sample_new_transaction_def sample_db_def empty_database_def
        statement_def)
  from insert_transaction_idempotent [OF this, of sample_new_transaction 31 1]
  have "insert_transaction 31 1 sample_new_transaction (sample_db\<lparr>transactions := [?row]\<rparr>)
      = (Inr None, sample_db\<lparr>transactions := [?row]\<rparr>)"
    by (rule conjunct1) (simp_all add: sample_new_transaction_def)
  moreover have "length (transactions (sample_db\<lparr>transactions := [?row]\<rparr>)) = 1" by simp
  ultimately show ?thesis by blast
qed

end
