(* ===== verification/Versions.thy ===== *)
theory Versions
  imports Database
begin

text \<open>
  The \<open>federation_versions\<close> queries of \<open>src/db.rs\<close>: each wallet, Bitcoin or Elements, owns a
  chain of federation versions; the newest is spendable, the older ones are swept by the
  migration tool and, after a reorg, put back by \<open>reconcile_migration\<close>.
\<close>

section \<open>Queries\<close>

record new_federation_version =
  nv_wallet_id :: "uuid option"
  nv_elements_wallet_id :: "uuid option"
  nv_version_index :: int
  nv_descriptor :: string
  nv_threshold :: int
  nv_signer_count :: int
  nv_federation_snapshot :: json
  nv_wallet_handle :: string
  nv_blinding_key :: "string option"

definition version_of_spec :: "uuid \<Rightarrow> timestamp \<Rightarrow> new_federation_version \<Rightarrow> federation_version_row" where
  "version_of_spec new_id now spec = \<lparr>fv_id = new_id, fv_wallet_id = nv_wallet_id spec,
     fv_elements_wallet_id = nv_elements_wallet_id spec, fv_version_index = nv_version_index spec,
     fv_descriptor = nv_descriptor spec, fv_threshold = nv_threshold spec,
     fv_signer_count = nv_signer_count spec, fv_federation_snapshot = nv_federation_snapshot spec,
     fv_wallet_handle = nv_wallet_handle spec, fv_blinding_key = nv_blinding_key spec,
     fv_migration_status = ''not_applicable'', fv_migration_sweep_txid = None, fv_created_at = now\<rparr>"

definition version_exists :: "(federation_version_row \<Rightarrow> uuid option) \<Rightarrow> uuid option \<Rightarrow> int \<Rightarrow> database \<Rightarrow> bool" where
  "version_exists owner w i d \<longleftrightarrow>
     w \<noteq> None \<and> list_ex (\<lambda>v. owner v = w \<and> fv_version_index v = i) (federation_versions d)"

text \<open>
  \<open>ON CONFLICT (wallet_id, version_index) ... DO NOTHING\<close> returns no row, which \<open>fetch_one\<close>
  turns into \<open>RowNotFound\<close>; the Elements key is not the conflict target.
\<close>

definition version_refusal :: "uuid \<Rightarrow> new_federation_version \<Rightarrow> database \<Rightarrow> db_error option" where
  "version_refusal new_id spec d = first_failure [
        ((nv_wallet_id spec = None) = (nv_elements_wallet_id spec = None),
           CheckViolation ''federation_versions_check''),
        (\<not> 0 < nv_signer_count spec, CheckViolation ''federation_versions_signer_count_check''),
        (\<not> 0 < nv_threshold spec, CheckViolation ''federation_versions_threshold_check''),
        (\<not> 0 \<le> nv_version_index spec, CheckViolation ''federation_versions_version_index_check''),
        (version_exists fv_wallet_id (nv_wallet_id spec) (nv_version_index spec) d, RowNotFound),
        (new_id \<in> fv_id ` set (federation_versions d), UniqueViolation ''federation_versions_pkey''),
        (version_exists fv_elements_wallet_id (nv_elements_wallet_id spec) (nv_version_index spec) d,
           UniqueViolation ''federation_versions_elements_wallet_id_version_index_key''),
        (case nv_wallet_id spec of Some w \<Rightarrow> w \<notin> w_id ` set (wallets d) | None \<Rightarrow> False,
           ForeignKeyViolation ''federation_versions_wallet_id_fkey''),
        (case nv_elements_wallet_id spec of Some w \<Rightarrow> w \<notin> ew_id ` set (elements_wallets d) | None \<Rightarrow> False,
           ForeignKeyViolation ''federation_versions_elements_wallet_id_fkey'')]"

definition insert_federation_version ::
  "uuid \<Rightarrow> timestamp \<Rightarrow> new_federation_version \<Rightarrow> federation_version_row query" where
  "insert_federation_version new_id now spec = statement (version_refusal new_id spec)
     (\<lambda>d. d\<lparr>federation_versions := federation_versions d @ [version_of_spec new_id now spec]\<rparr>)
     (\<lambda>d. version_of_spec new_id now spec)"

definition list_federation_versions_for_wallet :: "uuid \<Rightarrow> federation_version_row list query" where
  "list_federation_versions_for_wallet wallet_id = read_st (\<lambda>d.
     sort_key fv_version_index (filter (\<lambda>v. fv_wallet_id v = Some wallet_id) (federation_versions d)))"

definition list_federation_versions_for_elements_wallet :: "uuid \<Rightarrow> federation_version_row list query" where
  "list_federation_versions_for_elements_wallet elements_wallet_id = read_st (\<lambda>d.
     sort_key fv_version_index
       (filter (\<lambda>v. fv_elements_wallet_id v = Some elements_wallet_id) (federation_versions d)))"

definition federation_version_count_for_wallet :: "uuid \<Rightarrow> int query" where
  "federation_version_count_for_wallet wallet_id = read_st (\<lambda>d.
     int (count_where (\<lambda>v. fv_wallet_id v = Some wallet_id) (federation_versions d)))"

definition federation_version_count_for_elements_wallet :: "uuid \<Rightarrow> int query" where
  "federation_version_count_for_elements_wallet elements_wallet_id = read_st (\<lambda>d.
     int (count_where (\<lambda>v. fv_elements_wallet_id v = Some elements_wallet_id) (federation_versions d)))"

definition update_migration_status :: "uuid \<Rightarrow> string \<Rightarrow> unit query" where
  "update_migration_status version_id status = statement
     (\<lambda>d. first_failure [
        (list_ex (\<lambda>v. fv_id v = version_id) (federation_versions d) \<and> status \<notin> set migration_statuses,
           CheckViolation ''federation_versions_migration_status_check'')])
     (\<lambda>d. d\<lparr>federation_versions := update_where (\<lambda>v. fv_id v = version_id)
        (\<lambda>v. v\<lparr>fv_migration_status := status\<rparr>) (federation_versions d)\<rparr>)
     (\<lambda>d. ())"

definition set_migration_complete :: "uuid \<Rightarrow> string \<Rightarrow> unit query" where
  "set_migration_complete version_id sweep_txid = write_st (\<lambda>d. d\<lparr>federation_versions :=
     update_where (\<lambda>v. fv_id v = version_id)
       (\<lambda>v. v\<lparr>fv_migration_status := ''complete'', fv_migration_sweep_txid := Some sweep_txid\<rparr>)
       (federation_versions d)\<rparr>)"

definition reverted :: "uuid \<Rightarrow> string \<Rightarrow> federation_version_row \<Rightarrow> bool" where
  "reverted version_id sweep_txid v \<longleftrightarrow> fv_id v = version_id \<and> fv_migration_status v = ''complete''
     \<and> fv_migration_sweep_txid v = Some sweep_txid"

definition reconcile_migration :: "uuid \<Rightarrow> string \<Rightarrow> bool query" where
  "reconcile_migration version_id sweep_txid =
     bind_st (read_st (\<lambda>d. count_where (reverted version_id sweep_txid) (federation_versions d))) (\<lambda>rows_affected.
     bind_st (write_st (\<lambda>d. d\<lparr>federation_versions := update_where (reverted version_id sweep_txid)
       (\<lambda>v. v\<lparr>fv_migration_status := ''pending'', fv_migration_sweep_txid := None\<rparr>)
       (federation_versions d)\<rparr>)) (\<lambda>_.
     ret_st (rows_affected = 1)))"

definition set_pending_migration_for_older_versions :: "uuid \<Rightarrow> int \<Rightarrow> unit query" where
  "set_pending_migration_for_older_versions wallet_id current_version_index =
     write_st (\<lambda>d. d\<lparr>federation_versions :=
       update_where (\<lambda>v. fv_wallet_id v = Some wallet_id \<and> fv_version_index v < current_version_index
           \<and> fv_migration_status v = ''not_applicable'')
         (\<lambda>v. v\<lparr>fv_migration_status := ''pending''\<rparr>) (federation_versions d)\<rparr>)"

definition has_in_progress_migration :: "uuid \<Rightarrow> bool query" where
  "has_in_progress_migration wallet_id = read_st (\<lambda>d.
     0 < count_where (\<lambda>v. fv_wallet_id v = Some wallet_id \<and> fv_migration_status v = ''in_progress'')
           (federation_versions d))"

definition set_pending_migration_for_older_elements_versions :: "uuid \<Rightarrow> int \<Rightarrow> unit query" where
  "set_pending_migration_for_older_elements_versions elements_wallet_id current_version_index =
     write_st (\<lambda>d. d\<lparr>federation_versions :=
       update_where (\<lambda>v. fv_elements_wallet_id v = Some elements_wallet_id
           \<and> fv_version_index v < current_version_index \<and> fv_migration_status v = ''not_applicable'')
         (\<lambda>v. v\<lparr>fv_migration_status := ''pending''\<rparr>) (federation_versions d)\<rparr>)"

definition has_in_progress_elements_migration :: "uuid \<Rightarrow> bool query" where
  "has_in_progress_elements_migration elements_wallet_id = read_st (\<lambda>d.
     0 < count_where (\<lambda>v. fv_elements_wallet_id v = Some elements_wallet_id
           \<and> fv_migration_status v = ''in_progress'') (federation_versions d))"

section \<open>The schema's constraints are kept\<close>

lemma version_exists_iff:
  "version_exists owner w i d \<longleftrightarrow> w \<noteq> None \<and> (\<exists>v \<in> set (federation_versions d). owner v = w \<and> fv_version_index v = i)"
  by (auto simp: version_exists_def list_ex_iff)

lemma version_refusal_None:
  "version_refusal n s d = None \<longleftrightarrow>
     (nv_wallet_id s = None) \<noteq> (nv_elements_wallet_id s = None)
     \<and> 0 < nv_signer_count s \<and> 0 < nv_threshold s \<and> 0 \<le> nv_version_index s
     \<and> \<not> version_exists fv_wallet_id (nv_wallet_id s) (nv_version_index s) d
     \<and> \<not> version_exists fv_elements_wallet_id (nv_elements_wallet_id s) (nv_version_index s) d
     \<and> n \<notin> fv_id ` set (federation_versions d)
     \<and> (\<forall>w. nv_wallet_id s = Some w \<longrightarrow> w \<in> w_id ` set (wallets d))
     \<and> (\<forall>w. nv_elements_wallet_id s = Some w \<longrightarrow> w \<in> ew_id ` set (elements_wallets d))"
  by (auto simp: version_refusal_def first_failure_None split: option.splits)

lemma version_key_fresh:
  assumes "version_refusal n s d = None" and "v \<in> set (federation_versions d)"
  shows "fv_key v \<noteq> fv_key (version_of_spec n t s)"
  using assms by (auto simp: version_refusal_None version_exists_iff fv_key_def version_of_spec_def)

lemma insert_federation_version_inv [pres_intros]: "preserves db_inv (insert_federation_version n t s)"
  unfolding insert_federation_version_def
proof (rule preserves_statement)
  fix d
  assume ok: "version_refusal n s d = None" and inv: "db_inv d"
  have "fv_key (version_of_spec n t s) \<notin> fv_key ` set (federation_versions d)"
    using version_key_fresh [OF ok, of _ t] by (metis imageE)
  moreover have "fv_row_ok (w_id ` set (wallets d)) (ew_id ` set (elements_wallets d)) (version_of_spec n t s)"
    using ok by (auto simp: version_refusal_None fv_row_ok_def version_of_spec_def migration_statuses_def
        split: option.splits)
  moreover have "fv_id (version_of_spec n t s) \<notin> fv_id ` set (federation_versions d)"
    using ok by (simp add: version_refusal_None version_of_spec_def)
  ultimately show "db_inv (d\<lparr>federation_versions := federation_versions d @ [version_of_spec n t s]\<rparr>)"
    using inv by (simp add: db_inv_def db_ok_defs)
qed

lemma update_versions_inv:
  assumes "db_inv d" and keys: "\<And>v. fv_id (f v) = fv_id v" "\<And>v. fv_key (f v) = fv_key v"
    and row: "\<And>v ws es. p v \<Longrightarrow> fv_row_ok ws es v \<Longrightarrow> fv_row_ok ws es (f v)"
  shows "db_inv (d\<lparr>federation_versions := update_where p f (federation_versions d)\<rparr>)"
proof -
  have "map fv_id (update_where p f (federation_versions d)) = map fv_id (federation_versions d)"
    "map fv_key (update_where p f (federation_versions d)) = map fv_key (federation_versions d)"
    by (simp_all add: map_update_where keys)
  then show ?thesis
    using assms(1) row by (auto simp: db_inv_def db_ok_defs set_update_where)
qed

lemma status_row_ok:
  "s \<in> set migration_statuses \<Longrightarrow> fv_row_ok ws es v \<Longrightarrow> fv_row_ok ws es (v\<lparr>fv_migration_status := s\<rparr>)"
  "fv_row_ok ws es v \<Longrightarrow> fv_row_ok ws es (v\<lparr>fv_migration_sweep_txid := x\<rparr>)"
  by (simp_all add: fv_row_ok_def)

lemma versions_update_inv [pres_intros]:
  "preserves db_inv (update_migration_status i s)"
  "preserves db_inv (set_migration_complete i x)"
  "preserves db_inv (reconcile_migration i x)"
  "preserves db_inv (set_pending_migration_for_older_versions w k)"
  "preserves db_inv (set_pending_migration_for_older_elements_versions w k)"
proof -
  show "preserves db_inv (update_migration_status i s)"
    unfolding update_migration_status_def
  proof (rule preserves_statement)
    fix d assume ok: "first_failure [
        (list_ex (\<lambda>v. fv_id v = i) (federation_versions d) \<and> s \<notin> set migration_statuses,
           CheckViolation ''federation_versions_migration_status_check'')] = None" and inv: "db_inv d"
    show "db_inv (d\<lparr>federation_versions := update_where (\<lambda>v. fv_id v = i)
        (\<lambda>v. v\<lparr>fv_migration_status := s\<rparr>) (federation_versions d)\<rparr>)"
    proof (cases "list_ex (\<lambda>v. fv_id v = i) (federation_versions d)")
      case True
      with ok inv show ?thesis
        by (intro update_versions_inv) (auto simp: fv_key_def status_row_ok split: if_splits)
    next
      case False
      with inv show ?thesis by (simp add: update_where_none list_ex_iff)
    qed
  qed
qed (auto simp: set_migration_complete_def reconcile_migration_def
      set_pending_migration_for_older_versions_def
      set_pending_migration_for_older_elements_versions_def fv_key_def migration_statuses_def
      intro!: pres_intros update_versions_inv status_row_ok)

lemma version_query_pres [pres_intros]:
  "preserves P (list_federation_versions_for_wallet w)"
  "preserves P (list_federation_versions_for_elements_wallet w)"
  "preserves P (federation_version_count_for_wallet w)"
  "preserves P (federation_version_count_for_elements_wallet w)"
  "preserves P (has_in_progress_migration w)" "preserves P (has_in_progress_elements_migration w)"
  by (simp_all add: list_federation_versions_for_wallet_def list_federation_versions_for_elements_wallet_def
      federation_version_count_for_wallet_def federation_version_count_for_elements_wallet_def
      has_in_progress_migration_def has_in_progress_elements_migration_def)

section \<open>Chains of versions\<close>

text \<open>
  The rows a wallet owns form a chain: their indices are \<open>0 .. n - 1\<close>, and the newest one has
  not been touched by a migration.
\<close>

definition owned :: "(federation_version_row \<Rightarrow> uuid option) \<Rightarrow> uuid \<Rightarrow> federation_version_row list \<Rightarrow> federation_version_row list" where
  "owned owner w vs = filter (\<lambda>v. owner v = Some w) vs"

definition fresh_version :: "federation_version_row \<Rightarrow> bool" where
  "fresh_version v \<longleftrightarrow> fv_migration_status v = ''not_applicable'' \<and> fv_migration_sweep_txid v = None"

definition chain_ok :: "(federation_version_row \<Rightarrow> uuid option) \<Rightarrow> uuid \<Rightarrow> federation_version_row list \<Rightarrow> bool" where
  "chain_ok owner w vs \<longleftrightarrow>
     fv_version_index ` set (owned owner w vs) = {0..<int (length (owned owner w vs))}
     \<and> (\<forall>v \<in> set (owned owner w vs).
          fv_version_index v = int (length (owned owner w vs)) - 1 \<longrightarrow> fresh_version v)"

definition status_ok :: "federation_version_row \<Rightarrow> bool" where
  "status_ok v \<longleftrightarrow> fv_migration_status v \<in> {''not_applicable'', ''pending'', ''complete''}
     \<and> (fv_migration_sweep_txid v \<noteq> None \<longrightarrow> fv_migration_status v = ''complete'')"

definition versions_inv :: "database \<Rightarrow> bool" where
  "versions_inv d \<longleftrightarrow> db_inv d \<and> list_all status_ok (federation_versions d)
     \<and> (\<forall>w. chain_ok fv_wallet_id w (federation_versions d))
     \<and> (\<forall>w. chain_ok fv_elements_wallet_id w (federation_versions d))"

lemma owned_simps [simp]:
  "owned owner w [] = []"
  "owned owner w (vs @ us) = owned owner w vs @ owned owner w us"
  "owned owner w (v # vs) = (if owner v = Some w then v # owned owner w vs else owned owner w vs)"
  by (simp_all add: owned_def)

lemma owned_update:
  "(\<And>v. owner (f v) = owner v) \<Longrightarrow> owned owner w (update_where p f vs) = update_where p f (owned owner w vs)"
  by (simp add: owned_def filter_update_where)

lemma in_owned [simp]: "v \<in> set (owned owner w vs) \<longleftrightarrow> v \<in> set vs \<and> owner v = Some w"
  by (auto simp: owned_def)

lemma chain_ok_append:
  assumes "chain_ok owner w vs"
    and "owner v = Some w \<Longrightarrow> fv_version_index v = int (length (owned owner w vs)) \<and> fresh_version v"
  shows "chain_ok owner w (vs @ [v])"
proof (cases "owner v = Some w")
  case False
  with assms(1) show ?thesis by (simp add: chain_ok_def)
next
  case True
  let ?n = "int (length (owned owner w vs))"
  from True assms(2) have v: "fv_version_index v = ?n" "fresh_version v" by auto
  have img: "fv_version_index ` set (owned owner w vs) = {0..<?n}"
    using assms(1) by (simp add: chain_ok_def)
  have "{0..<?n + 1} = insert ?n {0..<?n}" by auto
  moreover have "fv_version_index u \<noteq> ?n" if "u \<in> set (owned owner w vs)" for u
    using img that by force
  ultimately show ?thesis
    using True v img by (auto simp: chain_ok_def)
qed

lemma chain_ok_update:
  assumes "chain_ok owner w vs" and "\<And>v. owner (f v) = owner v"
    and "\<And>v. fv_version_index (f v) = fv_version_index v"
    and "\<And>v. v \<in> set vs \<Longrightarrow> owner v = Some w \<Longrightarrow> p v \<Longrightarrow>
           fv_version_index v = int (length (owned owner w vs)) - 1 \<Longrightarrow> fresh_version (f v)"
  shows "chain_ok owner w (update_where p f vs)"
proof -
  have "map fv_version_index (update_where p f (owned owner w vs)) = map fv_version_index (owned owner w vs)"
    by (simp add: map_update_where assms(3))
  from arg_cong [OF this, of set] assms(1)
  have "fv_version_index ` set (update_where p f (owned owner w vs)) = {0..<int (length (owned owner w vs))}"
    by (simp add: chain_ok_def)
  moreover have "fresh_version u"
    if u: "u \<in> set (update_where p f (owned owner w vs))"
      "fv_version_index u = int (length (owned owner w vs)) - 1" for u
  proof -
    obtain v where "v \<in> set (owned owner w vs)" "u = (if p v then f v else v)"
      using u(1) by (auto simp: set_update_where)
    with u(2) assms(1) assms(3) [of v] assms(4) [of v] show ?thesis by (auto simp: chain_ok_def split: if_splits)
  qed
  ultimately show ?thesis
    by (auto simp: chain_ok_def owned_update assms(2) simp del: in_owned)
qed

lemma chain_index_taken:
  assumes "chain_ok owner w vs" and "0 \<le> i" and "i < int (length (owned owner w vs))"
  shows "\<exists>v \<in> set vs. owner v = Some w \<and> fv_version_index v = i"
proof -
  have "i \<in> fv_version_index ` set (owned owner w vs)"
    using assms by (simp add: chain_ok_def)
  then show ?thesis by auto
qed

lemma chain_index_bound:
  "chain_ok owner w vs \<Longrightarrow> v \<in> set vs \<Longrightarrow> owner v = Some w \<Longrightarrow>
     0 \<le> fv_version_index v \<and> fv_version_index v < int (length (owned owner w vs))"
  using imageI [of v "set (owned owner w vs)" fv_version_index] by (auto simp: chain_ok_def)

lemma sorted_indices:
  assumes "chain_ok owner w vs"
  shows "map fv_version_index (sort_key fv_version_index (owned owner w vs))
       = map int [0..<length (owned owner w vs)]"
proof (rule sorted_distinct_set_unique)
  have img: "fv_version_index ` set (owned owner w vs) = {0..<int (length (owned owner w vs))}"
    using assms by (simp add: chain_ok_def)
  then have "card (set (map fv_version_index (owned owner w vs))) = length (map fv_version_index (owned owner w vs))"
    by simp
  then have "distinct (map fv_version_index (owned owner w vs))" by (rule card_distinct)
  then have "distinct (owned owner w vs)" "inj_on fv_version_index (set (owned owner w vs))"
    by (simp_all add: distinct_map)
  then show "distinct (map fv_version_index (sort_key fv_version_index (owned owner w vs)))"
    by (simp add: distinct_map)
  show "set (map fv_version_index (sort_key fv_version_index (owned owner w vs)))
      = set (map int [0..<length (owned owner w vs)])"
    using img by (simp only: set_map set_sort) (simp add: image_int_atLeastLessThan)
  show "sorted (map int [0..<length (owned owner w vs)])"
    by (simp add: sorted_wrt_map sorted_wrt_upt mono_def strict_sorted_imp_sorted)
  show "distinct (map int [0..<length (owned owner w vs)])"
    by (simp add: distinct_map)
qed simp

section \<open>The interface of a chain\<close>

text \<open>
  The web application and the migration tool use one set of queries per chain kind. What they
  rely on: the listing is the owned rows in index order, an insert names its owner, and older
  rows are flagged without touching indices or owners.
\<close>

locale version_chain =
  fixes owner :: "federation_version_row \<Rightarrow> uuid option"
    and spec_owner :: "new_federation_version \<Rightarrow> uuid option"
    and list_versions :: "uuid \<Rightarrow> federation_version_row list query"
    and set_pending :: "uuid \<Rightarrow> int \<Rightarrow> unit query"
    and busy :: "uuid \<Rightarrow> bool query"
  assumes list_eq: "list_versions w d = (Inr (sort_key fv_version_index (owned owner w (federation_versions d))), d)"
    and spec_owner_eq: "owner (version_of_spec n t s) = spec_owner s"
    and pending_eq: "set_pending w k d = (Inr (), d\<lparr>federation_versions :=
           update_where (\<lambda>v. owner v = Some w \<and> fv_version_index v < k \<and> fv_migration_status v = ''not_applicable'')
             (\<lambda>v. v\<lparr>fv_migration_status := ''pending''\<rparr>) (federation_versions d)\<rparr>)"
    and busy_eq: "busy w d = (Inr (0 < count_where (\<lambda>v. owner v = Some w \<and> fv_migration_status v = ''in_progress'')
           (federation_versions d)), d)"
    and owner_status [simp]: "owner (v\<lparr>fv_migration_status := x\<rparr>) = owner v"
    and owner_sweep [simp]: "owner (v\<lparr>fv_migration_sweep_txid := y\<rparr>) = owner v"
    and no_duplicate: "spec_owner s = Some w \<Longrightarrow> version_refusal n s d = None \<Longrightarrow>
           v \<in> set (federation_versions d) \<Longrightarrow> owner v = Some w \<Longrightarrow> fv_version_index v \<noteq> nv_version_index s"
begin

lemma insert_extends:
  assumes "chain_ok owner w (federation_versions d)"
    and "insert_federation_version n t s d = (r, d')"
    and "spec_owner s = Some w \<Longrightarrow> nv_version_index s \<le> int (length (owned owner w (federation_versions d)))"
  shows "chain_ok owner w (federation_versions d')"
proof (cases "version_refusal n s d")
  case (Some e)
  with assms show ?thesis by (simp add: insert_federation_version_def st_simps)
next
  case None
  then have d': "federation_versions d' = federation_versions d @ [version_of_spec n t s]"
    using assms(2) by (auto simp: insert_federation_version_def st_simps)
  show ?thesis unfolding d'
  proof (rule chain_ok_append [OF assms(1)])
    assume "owner (version_of_spec n t s) = Some w"
    then have own: "spec_owner s = Some w" by (simp add: spec_owner_eq)
    have "\<not> nv_version_index s < int (length (owned owner w (federation_versions d)))"
      using chain_index_taken [OF assms(1), of "nv_version_index s"] no_duplicate [OF own None] None
      by (auto simp: version_refusal_None)
    then show "fv_version_index (version_of_spec n t s) = int (length (owned owner w (federation_versions d)))
        \<and> fresh_version (version_of_spec n t s)"
      using assms(3) [OF own] by (simp add: version_of_spec_def fresh_version_def)
  qed
qed

lemma pending_keeps_newest:
  assumes "chain_ok owner w' (federation_versions d)"
    and "k < int (length (owned owner w (federation_versions d)))"
    and "set_pending w k d = (r, d')"
  shows "chain_ok owner w' (federation_versions d')"
proof -
  have "federation_versions d' = update_where
      (\<lambda>v. owner v = Some w \<and> fv_version_index v < k \<and> fv_migration_status v = ''not_applicable'')
      (\<lambda>v. v\<lparr>fv_migration_status := ''pending''\<rparr>) (federation_versions d)"
    using assms(3) by (auto simp: pending_eq)
  with assms(1,2) show ?thesis by (auto intro!: chain_ok_update)
qed

lemma listing_is_indexed:
  assumes "chain_ok owner w (federation_versions d)" and "list_versions w d = (Inr vs, d')"
  shows "map fv_version_index vs = map int [0..<length vs]"
  using assms sorted_indices [OF assms(1)] by (auto simp: list_eq)

lemma next_index_is_free:
  assumes "chain_ok owner w (federation_versions d)" and "list_versions w d = (Inr vs, d')"
    and "v \<in> set (federation_versions d)" and "owner v = Some w"
  shows "fv_version_index v \<noteq> int (length vs)"
proof -
  have "length vs = length (owned owner w (federation_versions d))"
    using assms(2) by (auto simp: list_eq)
  with chain_index_bound [OF assms(1,3,4)] show ?thesis by simp
qed

lemma newest_is_fresh:
  assumes "chain_ok owner w (federation_versions d)" and "list_versions w d = (Inr vs, d')" and "vs \<noteq> []"
  shows "fresh_version (last vs)"
proof -
  let ?n = "length (owned owner w (federation_versions d))"
  have len: "length vs = ?n" using assms(2) by (auto simp: list_eq)
  have "map fv_version_index vs = map int [0..<length vs]"
    by (rule listing_is_indexed [OF assms(1,2)])
  then have "fv_version_index (last vs) = int (length vs) - 1"
    using assms(3) by (metis (no_types, lifting) diff_zero last_map last_upt length_greater_0_conv
        length_map length_upt list.map_disc_iff not_less_eq of_nat_diff of_nat_1 One_nat_def Suc_leI)
  moreover have "set vs = set (owned owner w (federation_versions d))"
    using assms(2) by (metis Inr_inject list_eq prod.inject set_sort)
  then have "last vs \<in> set (owned owner w (federation_versions d))"
    using assms(3) last_in_set by blast
  ultimately show ?thesis using assms(1) len by (simp add: chain_ok_def)
qed

lemma never_busy:
  assumes "list_all status_ok (federation_versions d)"
  shows "busy w d = (Inr False, d)"
  using assms by (auto simp: busy_eq count_where_def status_ok_def list_all_iff filter_empty_conv)

end

interpretation btc_chain: version_chain fv_wallet_id nv_wallet_id list_federation_versions_for_wallet
  set_pending_migration_for_older_versions has_in_progress_migration
  by unfold_locales (auto simp: list_federation_versions_for_wallet_def owned_def version_of_spec_def
      set_pending_migration_for_older_versions_def has_in_progress_migration_def version_refusal_None
      version_exists_iff)

interpretation elements_chain: version_chain fv_elements_wallet_id nv_elements_wallet_id
  list_federation_versions_for_elements_wallet set_pending_migration_for_older_elements_versions
  has_in_progress_elements_migration
  by unfold_locales (auto simp: list_federation_versions_for_elements_wallet_def owned_def version_of_spec_def
      set_pending_migration_for_older_elements_versions_def has_in_progress_elements_migration_def
      version_refusal_None version_exists_iff)

section \<open>Histories\<close>

text \<open>
  The statements the program runs on the table, one atomic step each. The index an insert
  uses and the bound a flag uses were read earlier, so they may be stale: all the code
  guarantees is that they do not exceed what is there now. A version is only ever completed
  when a newer one of its wallet is there. Any statement on other tables is \<open>other\<close>.
\<close>

definition superseded :: "uuid \<Rightarrow> database \<Rightarrow> bool" where
  "superseded i d \<longleftrightarrow> (\<forall>v \<in> set (federation_versions d). fv_id v = i \<longrightarrow>
     (\<forall>owner \<in> {fv_wallet_id, fv_elements_wallet_id}. \<forall>w. owner v = Some w \<longrightarrow>
        fv_version_index v < int (length (owned owner w (federation_versions d))) - 1))"

inductive version_step :: "database \<Rightarrow> database \<Rightarrow> bool" where
  ins: "\<lbrakk>insert_federation_version n t s d = (r, d');
     \<And>w. nv_wallet_id s = Some w \<Longrightarrow>
       nv_version_index s \<le> int (length (owned fv_wallet_id w (federation_versions d)));
     \<And>w. nv_elements_wallet_id s = Some w \<Longrightarrow>
       nv_version_index s \<le> int (length (owned fv_elements_wallet_id w (federation_versions d)))\<rbrakk>
   \<Longrightarrow> version_step d d'"
| pend: "\<lbrakk>set_pending_migration_for_older_versions w k d = (r, d');
     k < int (length (owned fv_wallet_id w (federation_versions d)))\<rbrakk> \<Longrightarrow> version_step d d'"
| pend_elements: "\<lbrakk>set_pending_migration_for_older_elements_versions w k d = (r, d');
     k < int (length (owned fv_elements_wallet_id w (federation_versions d)))\<rbrakk> \<Longrightarrow> version_step d d'"
| complete: "\<lbrakk>set_migration_complete i txid d = (r, d'); superseded i d\<rbrakk> \<Longrightarrow> version_step d d'"
| flip: "\<lbrakk>update_migration_status i ''complete'' d = (r, d'); superseded i d\<rbrakk> \<Longrightarrow> version_step d d'"
| reconcile: "reconcile_migration i txid d = (r, d') \<Longrightarrow> version_step d d'"
| other: "\<lbrakk>preserves db_inv (m :: unit query); m d = (r, d');
     federation_versions d' = federation_versions d\<rbrakk> \<Longrightarrow> version_step d d'"

inductive_cases version_step_cases: "version_step d d'"

lemma status_ok_update:
  assumes "list_all status_ok vs" and "\<And>v. v \<in> set vs \<Longrightarrow> p v \<Longrightarrow> status_ok (f v)"
  shows "list_all status_ok (update_where p f vs)"
  using assms by (auto simp: list_all_iff set_update_where)

lemma superseded_chain:
  assumes "superseded i d" and "chain_ok owner w (federation_versions d)"
    and "owner \<in> {fv_wallet_id, fv_elements_wallet_id}"
    and "\<And>v. owner (f v) = owner v" and "\<And>v. fv_version_index (f v) = fv_version_index v"
  shows "chain_ok owner w (update_where (\<lambda>v. fv_id v = i) f (federation_versions d))"
  using assms(2) by (rule chain_ok_update) (use assms in \<open>auto simp: superseded_def\<close>)

lemma version_step_db_inv: "version_step d d' \<Longrightarrow> db_inv d \<Longrightarrow> db_inv d'"
  by (elim version_step_cases) (auto elim!: preservesD [rotated 2] intro: pres_intros)

lemma reconcile_migration_eq:
  "reconcile_migration i x d = (Inr (count_where (reverted i x) (federation_versions d) = 1),
     d\<lparr>federation_versions := update_where (reverted i x)
       (\<lambda>v. v\<lparr>fv_migration_status := ''pending'', fv_migration_sweep_txid := None\<rparr>) (federation_versions d)\<rparr>)"
  by (simp add: reconcile_migration_def)

lemma version_step_status_ok:
  assumes "version_step d d'" and "list_all status_ok (federation_versions d)"
  shows "list_all status_ok (federation_versions d')"
  using assms
proof (cases rule: version_step.cases)
  case (ins n t s r)
  with assms(2) show ?thesis
    by (cases "version_refusal n s d")
      (auto simp: insert_federation_version_def st_simps version_of_spec_def status_ok_def)
next
  case (flip i r)
  then show ?thesis using assms(2)
    by (auto simp: update_migration_status_def statement_def migration_statuses_def
        intro!: status_ok_update) (simp_all add: status_ok_def)
qed (use assms(2) in \<open>auto simp: set_pending_migration_for_older_versions_def
      set_pending_migration_for_older_elements_versions_def set_migration_complete_def
      reconcile_migration_eq list_all_iff set_update_where status_ok_def\<close>)

lemma newest_not_reverted:
  "chain_ok owner w vs \<Longrightarrow> v \<in> set vs \<Longrightarrow> owner v = Some w \<Longrightarrow>
     fv_version_index v = int (length (owned owner w vs)) - 1 \<Longrightarrow> \<not> reverted i x v"
  by (auto simp: chain_ok_def reverted_def fresh_version_def)

lemma version_step_chain:
  assumes "version_step d d'" and "owner \<in> {fv_wallet_id, fv_elements_wallet_id}"
    and "chain_ok owner w (federation_versions d)" and "versions_inv d"
  shows "chain_ok owner w (federation_versions d')"
  using assms(1)
proof (cases rule: version_step.cases)
  case (ins n t s r)
  then show ?thesis
    using assms(2,3) btc_chain.insert_extends elements_chain.insert_extends by blast
next
  case (pend u k r)
  then have d': "federation_versions d' = update_where
      (\<lambda>v. fv_wallet_id v = Some u \<and> fv_version_index v < k \<and> fv_migration_status v = ''not_applicable'')
      (\<lambda>v. v\<lparr>fv_migration_status := ''pending''\<rparr>) (federation_versions d)"
    by (auto simp: set_pending_migration_for_older_versions_def)
  show ?thesis
  proof (cases "owner = fv_wallet_id")
    case True
    with pend assms(3) btc_chain.pending_keeps_newest show ?thesis by blast
  next
    case False
    with assms(2,4) have "owner v = Some w \<Longrightarrow> v \<in> set (federation_versions d) \<Longrightarrow> fv_wallet_id v = None" for v
      by (auto simp: versions_inv_def db_inv_def federation_versions_ok_def fv_row_ok_def split: option.splits)
    then show ?thesis unfolding d' using assms(2,3)
      by (intro chain_ok_update) (auto, blast?)
  qed
next
  case (pend_elements u k r)
  then have d': "federation_versions d' = update_where
      (\<lambda>v. fv_elements_wallet_id v = Some u \<and> fv_version_index v < k \<and> fv_migration_status v = ''not_applicable'')
      (\<lambda>v. v\<lparr>fv_migration_status := ''pending''\<rparr>) (federation_versions d)"
    by (auto simp: set_pending_migration_for_older_elements_versions_def)
  show ?thesis
  proof (cases "owner = fv_elements_wallet_id")
    case True
    with pend_elements assms(3) elements_chain.pending_keeps_newest show ?thesis by blast
  next
    case False
    with assms(2,4) have "owner v = Some w \<Longrightarrow> v \<in> set (federation_versions d) \<Longrightarrow> fv_elements_wallet_id v = None" for v
      by (auto simp: versions_inv_def db_inv_def federation_versions_ok_def fv_row_ok_def split: option.splits)
    then show ?thesis unfolding d' using assms(2,3)
      by (intro chain_ok_update) (auto, blast?)
  qed
next
  case (complete i txid r)
  with superseded_chain [OF complete(2) assms(3,2)] assms(2) show ?thesis
    by (auto simp: set_migration_complete_def)
next
  case (flip i r)
  with superseded_chain [OF flip(2) assms(3,2)] assms(2,3) show ?thesis
    by (auto simp: update_migration_status_def statement_def split: option.splits)
next
  case (reconcile i txid r)
  then have "federation_versions d' = update_where (reverted i txid)
       (\<lambda>v. v\<lparr>fv_migration_status := ''pending'', fv_migration_sweep_txid := None\<rparr>) (federation_versions d)"
    by (auto simp: reconcile_migration_eq)
  with assms(2,3) newest_not_reverted [OF assms(3)] show ?thesis
    by (auto intro!: chain_ok_update)
next
  case other
  with assms(3) show ?thesis by simp
qed

lemma version_step_inv: "version_step d d' \<Longrightarrow> versions_inv d \<Longrightarrow> versions_inv d'"
  unfolding versions_inv_def
  using version_step_db_inv version_step_status_ok version_step_chain [of d d']
  by (metis (no_types, lifting) insertI1 insertI2 versions_inv_def)

lemma versions_inv_start: "db_inv d \<Longrightarrow> federation_versions d = [] \<Longrightarrow> versions_inv d"
  by (simp add: versions_inv_def chain_ok_def)

inductive version_history :: "database \<Rightarrow> bool" where
  start: "db_inv d \<Longrightarrow> federation_versions d = [] \<Longrightarrow> version_history d"
| step: "version_history d \<Longrightarrow> version_step d d' \<Longrightarrow> version_history d'"

lemma version_history_inv: "version_history d \<Longrightarrow> versions_inv d"
  by (induction rule: version_history.induct) (auto intro: versions_inv_start version_step_inv)

section \<open>Sorting facts\<close>

lemma insort_key_append_max:
  "f a \<le> f x \<Longrightarrow> insort_key f a (ys @ [x]) = insort_key f a ys @ [x]"
  by (induction ys) auto

lemma sort_key_append_max:
  "\<forall>a \<in> set xs. f a \<le> f x \<Longrightarrow> sort_key f (xs @ [x]) = sort_key f xs @ [x]"
proof -
  assume le: "\<forall>a \<in> set xs. f a \<le> f x"
  have "foldr (insort_key f) xs (ys @ [x]) = foldr (insort_key f) xs ys @ [x]" for ys
    using le by (induction xs) (auto simp: insort_key_append_max)
  from this [of "[]"] show ?thesis by (simp add: sort_key_def)
qed

lemma insort_key_map:
  "(\<And>x. f (h x) = f x) \<Longrightarrow> insort_key f (h a) (map h ys) = map h (insort_key f a ys)"
  by (induction ys) auto

lemma sort_key_map: "(\<And>x. f (h x) = f x) \<Longrightarrow> sort_key f (map h xs) = map h (sort_key f xs)"
  by (induction xs) (auto simp: insort_key_map)

lemma sort_key_update_where:
  "(\<And>x. f (g x) = f x) \<Longrightarrow> sort_key f (update_where p g xs) = update_where p g (sort_key f xs)"
  unfolding update_where_def by (rule sort_key_map) auto

section \<open>Properties\<close>

text \<open>C2. In every history of the table, each wallet's versions are numbered from 0 without gaps
  or duplicates, the newest version is \<open>not_applicable\<close> with no sweep recorded, a recorded
  sweep txid belongs to a \<open>complete\<close> version, and every constraint of the schema holds.\<close>

theorem version_chains_hold:
  assumes "version_history d"
  shows "versions_inv d"
  using assms by (rule version_history_inv)

definition sample_version :: new_federation_version where
  "sample_version = \<lparr>nv_wallet_id = Some 10, nv_elements_wallet_id = None, nv_version_index = 0,
     nv_descriptor = ''d0'', nv_threshold = 2, nv_signer_count = 3, nv_federation_snapshot = ''{}'',
     nv_wallet_handle = ''h'', nv_blinding_key = None\<rparr>"

definition sample_db_v0 :: database where
  "sample_db_v0 = sample_db\<lparr>federation_versions := [version_of_spec 40 7 sample_version]\<rparr>"

lemma sample_history_start: "version_history sample_db"
  by (rule version_history.start [OF db_inv_sample]) (simp add: sample_db_def empty_database_def)

lemma sample_insert_v0:
  "insert_federation_version 40 7 sample_version sample_db = (Inr (version_of_spec 40 7 sample_version), sample_db_v0)"
  by (simp add: insert_federation_version_def version_refusal_None version_exists_def st_simps sample_version_def
      sample_db_v0_def sample_db_def empty_database_def)

lemma sample_history_v0: "version_history sample_db_v0"
  by (rule version_history.step [OF sample_history_start], rule version_step.ins [OF sample_insert_v0])
    (simp_all add: sample_version_def)

theorem version_chains_hold_witness: "versions_inv sample_db_v0"
  by (rule version_chains_hold [OF sample_history_v0])

text \<open>In every history, recording the next federation works: an insert at the index the
  migration tool computes, the number of versions listed, succeeds for an existing wallet, a
  fresh row id and a valid policy; after flagging the older versions the listing is the old one
  followed by the new row, which is \<open>not_applicable\<close>, and no older version is.\<close>

theorem next_version_is_recorded:
  assumes "version_history d" and "list_federation_versions_for_wallet w d = (Inr vs, d)"
    and "w \<in> w_id ` set (wallets d)" and "n \<notin> fv_id ` set (federation_versions d)"
    and "nv_wallet_id s = Some w" and "nv_elements_wallet_id s = None"
    and "nv_version_index s = int (length vs)" and "0 < nv_threshold s" and "0 < nv_signer_count s"
  shows "\<exists>d1 d2 us. insert_federation_version n t s d = (Inr (version_of_spec n t s), d1)
    \<and> set_pending_migration_for_older_versions w (int (length vs)) d1 = (Inr (), d2)
    \<and> list_federation_versions_for_wallet w d2 = (Inr (us @ [version_of_spec n t s]), d2)
    \<and> map fv_id us = map fv_id vs \<and> map fv_descriptor us = map fv_descriptor vs
    \<and> list_all (\<lambda>v. fv_migration_status v \<noteq> ''not_applicable'') us"
proof -
  let ?row = "version_of_spec n t s"
  let ?p = "\<lambda>v. fv_wallet_id v = Some w \<and> fv_version_index v < int (length vs) \<and> fv_migration_status v = ''not_applicable''"
  let ?f = "\<lambda>v. v\<lparr>fv_migration_status := ''pending''\<rparr>"
  have chain: "chain_ok fv_wallet_id w (federation_versions d)"
    using version_history_inv [OF assms(1)] by (simp add: versions_inv_def)
  have vs: "vs = sort_key fv_version_index (owned fv_wallet_id w (federation_versions d))"
    using assms(2) by (simp add: list_federation_versions_for_wallet_def owned_def)
  then have len: "length vs = length (owned fv_wallet_id w (federation_versions d))" by simp
  have "fv_version_index v \<noteq> int (length vs)" if "v \<in> set (federation_versions d)" "fv_wallet_id v = Some w" for v
    using btc_chain.next_index_is_free [OF chain assms(2) that] .
  then have "version_refusal n s d = None"
    using assms by (simp add: version_refusal_None version_exists_iff)
  then have ins: "insert_federation_version n t s d =
      (Inr ?row, d\<lparr>federation_versions := federation_versions d @ [?row]\<rparr>)" (is "_ = (_, ?d1)")
    by (simp add: insert_federation_version_def st_simps)
  have row: "fv_wallet_id ?row = Some w" "fv_version_index ?row = int (length vs)"
    using assms(5,7) by (simp_all add: version_of_spec_def)
  let ?d2 = "?d1\<lparr>federation_versions := update_where ?p ?f (federation_versions d @ [?row])\<rparr>"
  have pend: "set_pending_migration_for_older_versions w (int (length vs)) ?d1 = (Inr (), ?d2)"
    by (simp add: btc_chain.pending_eq)
  have le: "\<forall>v \<in> set (owned fv_wallet_id w (federation_versions d)). fv_version_index v \<le> fv_version_index ?row"
    using chain_index_bound [OF chain] len row(2) by force
  have "owned fv_wallet_id w (update_where ?p ?f (federation_versions d @ [?row]))
      = update_where ?p ?f (owned fv_wallet_id w (federation_versions d) @ [?row])"
    by (simp add: owned_update row)
  then have "sort_key fv_version_index (owned fv_wallet_id w (federation_versions ?d2))
      = update_where ?p ?f (vs @ [?row])"
    by (simp add: sort_key_update_where sort_key_append_max [OF le] vs)
  then have lst: "list_federation_versions_for_wallet w ?d2 = (Inr (update_where ?p ?f vs @ [?row]), ?d2)"
    by (simp add: list_federation_versions_for_wallet_def owned_def update_where_def row)
  have "set vs = set (owned fv_wallet_id w (federation_versions d))"
    by (simp add: vs del: in_owned)
  then have "list_all (\<lambda>v. fv_migration_status v \<noteq> ''not_applicable'') (update_where ?p ?f vs)"
    using chain_index_bound [OF chain] len by (auto simp: list_all_iff set_update_where)
  moreover have "map fv_id (update_where ?p ?f vs) = map fv_id vs"
    "map fv_descriptor (update_where ?p ?f vs) = map fv_descriptor vs"
    by (simp_all add: map_update_where)
  ultimately show ?thesis using ins pend lst by blast
qed

theorem next_version_is_recorded_witness:
  "\<exists>d1. insert_federation_version 41 9 (sample_version\<lparr>nv_version_index := 1\<rparr>) sample_db_v0
     = (Inr (version_of_spec 41 9 (sample_version\<lparr>nv_version_index := 1\<rparr>)), d1)"
proof -
  have "list_federation_versions_for_wallet 10 sample_db_v0 = (Inr [version_of_spec 40 7 sample_version], sample_db_v0)"
    by (simp add: list_federation_versions_for_wallet_def sample_db_v0_def version_of_spec_def sample_version_def)
  from next_version_is_recorded [OF sample_history_v0 this, of 41 "sample_version\<lparr>nv_version_index := 1\<rparr>" 9]
  show ?thesis
    by (auto simp: sample_db_v0_def sample_db_def sample_version_def version_of_spec_def)
qed

text \<open>No history ever holds a version marked \<open>in_progress\<close>: the two guards that ask for one
  always answer no.\<close>

theorem in_progress_guards_never_fire:
  assumes "version_history d"
  shows "has_in_progress_migration w d = (Inr False, d)
    \<and> has_in_progress_elements_migration e d = (Inr False, d)"
  using version_history_inv [OF assms] btc_chain.never_busy elements_chain.never_busy
  by (simp add: versions_inv_def)

theorem in_progress_guards_never_fire_witness:
  "has_in_progress_migration 10 sample_db_v0 = (Inr False, sample_db_v0)"
  using in_progress_guards_never_fire [OF sample_history_v0] by blast

text \<open>\<open>reconcile_migration\<close> reports true exactly when the version is complete with that very
  sweep; then it alone becomes pending with no sweep, every other row is untouched, and a
  second call reports false and changes nothing.\<close>

theorem reconcile_migration_correct:
  assumes "db_inv d"
  shows "\<exists>d'. reconcile_migration i x d = (Inr (list_ex (reverted i x) (federation_versions d)), d')
    \<and> federation_versions d' = map (\<lambda>v. if fv_id v = i \<and> list_ex (reverted i x) (federation_versions d)
          then v\<lparr>fv_migration_status := ''pending'', fv_migration_sweep_txid := None\<rparr> else v) (federation_versions d)
    \<and> reconcile_migration i x d' = (Inr False, d')"
proof -
  let ?f = "\<lambda>v. v\<lparr>fv_migration_status := ''pending'', fv_migration_sweep_txid := None\<rparr>"
  let ?vs = "federation_versions d"
  let ?d = "d\<lparr>federation_versions := update_where (reverted i x) ?f ?vs\<rparr>"
  have dist: "distinct (map fv_id ?vs)"
    using assms by (simp add: db_inv_def federation_versions_ok_def)
  have only: "reverted i x v" if "v \<in> set ?vs" "fv_id v = i" "list_ex (reverted i x) ?vs" for v
    using that dist by (auto simp: list_ex_iff distinct_map reverted_def dest: inj_onD)
  have "count_where (reverted i x) vs = 1 \<longleftrightarrow> list_ex (reverted i x) vs" if "distinct (map fv_id vs)" for vs
    using that
  proof (induction vs)
    case (Cons v vs)
    then show ?case
      by (cases "reverted i x v")
        (auto simp: count_where_def filter_empty_conv list_ex_iff reverted_def image_iff)
  qed (simp add: count_where_def)
  with dist have count: "count_where (reverted i x) ?vs = 1 \<longleftrightarrow> list_ex (reverted i x) ?vs" by blast
  have rows: "update_where (reverted i x) ?f ?vs
      = map (\<lambda>v. if fv_id v = i \<and> list_ex (reverted i x) ?vs then ?f v else v) ?vs"
    using only by (auto simp: update_where_def reverted_def list_ex_iff)
  have none: "\<not> reverted i x v" if "v \<in> set (update_where (reverted i x) ?f ?vs)" for v
  proof -
    obtain u where "v = (if reverted i x u then ?f u else u)"
      using \<open>v \<in> _\<close> unfolding set_update_where by blast
    then show ?thesis by (cases "reverted i x u") (simp_all add: reverted_def)
  qed
  then have "filter (reverted i x) (update_where (reverted i x) ?f ?vs) = []"
    by (simp add: filter_empty_conv)
  with none have "reconcile_migration i x ?d = (Inr False, ?d)"
    by (simp add: reconcile_migration_eq count_where_def update_where_none)
  moreover have "reconcile_migration i x d = (Inr (list_ex (reverted i x) ?vs), ?d)"
    by (simp only: reconcile_migration_eq count)
  moreover have "federation_versions ?d
      = map (\<lambda>v. if fv_id v = i \<and> list_ex (reverted i x) ?vs then ?f v else v) ?vs"
    unfolding rows [symmetric] by simp
  ultimately show ?thesis by blast
qed

definition sample_db_done :: database where
  "sample_db_done = snd (set_migration_complete 40 ''t'' sample_db_v0)"

lemma db_inv_sample_done: "db_inv sample_db_done"
  unfolding sample_db_done_def
  using versions_update_inv(2) [of 40 "''t''"] version_history_inv [OF sample_history_v0]
  by (simp add: preserves_def versions_inv_def)

theorem reconcile_migration_correct_witness:
  "\<exists>d'. reconcile_migration 40 ''t'' sample_db_done = (Inr True, d')
    \<and> reconcile_migration 40 ''t'' d' = (Inr False, d')"
proof -
  have "list_ex (reverted 40 ''t'') (federation_versions sample_db_done)"
    by (simp add: sample_db_done_def sample_db_v0_def set_migration_complete_def version_of_spec_def reverted_def)
  then show ?thesis
    using reconcile_migration_correct [OF db_inv_sample_done, of 40 "''t''"] by auto
qed

end
