(* ===== verification/ElementsStore.thy ===== *)
theory ElementsStore
  imports Versions
begin

text \<open>
  The Postgres stores of the Elements block scan and the node client, \<open>src/elements_sync.rs\<close>:
  \<open>PgBlockStore\<close>, \<open>PgCheckpointStore\<close>, \<open>PgWalletUtxoStore\<close> and \<open>RpcChainSource\<close>. The encodings of
  the \<open>elements\<close> and \<open>serde_json\<close> crates and the RPC client are arguments; the text of a wrapped
  error is represented by the error it shows.
\<close>

section \<open>Encodings\<close>

datatype sync_error = Store db_error | Encoding | ChainSource string

datatype keychain_kind = External | Internal

datatype wallet_key = WalletId uuid

fun wid_to_uuid :: "wallet_key \<Rightarrow> uuid" where
  "wid_to_uuid (WalletId u) = u"

definition uuid_to_wid :: "uuid \<Rightarrow> wallet_key" where
  "uuid_to_wid u = WalletId u"

definition chain_to_i16 :: "keychain_kind \<Rightarrow> int" where
  "chain_to_i16 c = (case c of External \<Rightarrow> 0 | Internal \<Rightarrow> 1)"

definition i16_to_chain :: "int \<Rightarrow> keychain_kind" where
  "i16_to_chain v = (if v = 0 then External else Internal)"

lemma chain_roundtrip [simp]: "i16_to_chain (chain_to_i16 c) = c"
  by (cases c) (simp_all add: i16_to_chain_def chain_to_i16_def)

text \<open>The encoders and parsers of the crates: \<open>None\<close> is their error.\<close>

record ('txid, 'out, 'sec, 'hash) codec =
  txid_str :: "'txid \<Rightarrow> string"
  txid_parse :: "string \<Rightarrow> 'txid option"
  txout_ser :: "'out \<Rightarrow> u8 list"
  txout_de :: "u8 list \<Rightarrow> 'out option"
  secrets_ser :: "'sec \<Rightarrow> json option"
  secrets_de :: "json \<Rightarrow> 'sec option"
  secrets_asset :: "'sec \<Rightarrow> string"
  secrets_value :: "'sec \<Rightarrow> u64"
  hash_str :: "'hash \<Rightarrow> string"
  hash_parse :: "string \<Rightarrow> 'hash option"

definition codec_ok :: "('txid, 'out, 'sec, 'hash) codec \<Rightarrow> bool" where
  "codec_ok c \<longleftrightarrow> (\<forall>t. txid_parse c (txid_str c t) = Some t) \<and> (\<forall>out. txout_de c (txout_ser c out) = Some out)
     \<and> (\<forall>s j. secrets_ser c s = Some j \<longrightarrow> secrets_de c j = Some s)
     \<and> (\<forall>h. hash_parse c (hash_str c h) = Some h)"

record ('txid, 'out, 'sec) captured_utxo =
  cu_wallet_id :: wallet_key
  cu_txid :: 'txid
  cu_vout :: u32
  cu_txout :: 'out
  cu_secrets :: 'sec
  cu_chain :: keychain_kind
  cu_wildcard_index :: u32
  cu_height :: u32
  cu_is_spent :: bool

record 'hash synced_tip =
  st_height :: u32
  st_hash :: 'hash

definition i64_as_u32 :: "int \<Rightarrow> u32" where
  "i64_as_u32 x = word_of_int x"

lemma i64_as_u32_uint [simp]: "i64_as_u32 (uint (w :: u32)) = w"
  by (simp add: i64_as_u32_def)

section \<open>Blocks and the sync cursor\<close>

definition store_block :: "('t, 'o, 's, 'hash) codec \<Rightarrow> u32 \<Rightarrow> 'hash \<Rightarrow> u8 list \<Rightarrow> (database, sync_error, unit) st" where
  "store_block c height hash raw =
     (let row = \<lparr>eb_height = uint height, eb_block_hash = hash_str c hash, eb_raw_block = raw\<rparr> in
      map_err_st Store (statement
       (\<lambda>d. first_failure [(list_ex (\<lambda>b. eb_block_hash b = hash_str c hash \<and> eb_height b \<noteq> uint height)
              (elements_blocks d), UniqueViolation ''elements_blocks_block_hash_key'')])
       (\<lambda>d. d\<lparr>elements_blocks :=
          (if list_ex (\<lambda>b. eb_height b = uint height) (elements_blocks d)
           then update_where (\<lambda>b. eb_height b = uint height) (\<lambda>b. row) (elements_blocks d)
           else elements_blocks d @ [row])\<rparr>)
       (\<lambda>d. ())))"

definition synced_tip :: "('t, 'o, 's, 'hash) codec \<Rightarrow> (database, sync_error, 'hash synced_tip option) st" where
  "synced_tip c = bind_st (read_st elements_sync_cursor) (\<lambda>row. case row of
       None \<Rightarrow> ret_st None
     | Some r \<Rightarrow> lift_st (bind_res (of_option Encoding (hash_parse c (sc_tip_hash r)))
         (\<lambda>hash. Inr (Some \<lparr>st_height = i64_as_u32 (sc_tip_height r), st_hash = hash\<rparr>))))"

definition set_synced_tip :: "('t, 'o, 's, 'hash) codec \<Rightarrow> 'hash synced_tip \<Rightarrow> (database, sync_error, unit) st" where
  "set_synced_tip c tip = write_st (\<lambda>d. d\<lparr>elements_sync_cursor :=
     Some \<lparr>sc_tip_height = uint (st_height tip), sc_tip_hash = hash_str c (st_hash tip)\<rparr>\<rparr>)"

definition block_hash_at :: "('t, 'o, 's, 'hash) codec \<Rightarrow> u32 \<Rightarrow> (database, sync_error, 'hash option) st" where
  "block_hash_at c height =
     bind_st (read_st (\<lambda>d. find (\<lambda>b. eb_height b = uint height) (elements_blocks d))) (\<lambda>row. case row of
       None \<Rightarrow> ret_st None
     | Some b \<Rightarrow> lift_st (bind_res (of_option Encoding (hash_parse c (eb_block_hash b))) (\<lambda>h. Inr (Some h))))"

definition highest_block :: "block_row list \<Rightarrow> block_row option" where
  "highest_block bs = (case sort_key (\<lambda>b. - eb_height b) bs of [] \<Rightarrow> None | b # _ \<Rightarrow> Some b)"

definition blocks_rollback_above :: "u32 \<Rightarrow> (database, sync_error, unit) st" where
  "blocks_rollback_above height =
     bind_st (write_st (\<lambda>d. d\<lparr>elements_blocks :=
       delete_where (\<lambda>b. eb_height b > uint height) (elements_blocks d)\<rparr>)) (\<lambda>_.
     bind_st (read_st elements_sync_cursor) (\<lambda>cur.
     if (case cur of Some c \<Rightarrow> sc_tip_height c > uint height | None \<Rightarrow> False) then
       bind_st (read_st (\<lambda>d. highest_block (elements_blocks d))) (\<lambda>m. case m of
         Some b \<Rightarrow> write_st (\<lambda>d. d\<lparr>elements_sync_cursor :=
           Some \<lparr>sc_tip_height = eb_height b, sc_tip_hash = eb_block_hash b\<rparr>\<rparr>)
       | None \<Rightarrow> write_st (\<lambda>d. d\<lparr>elements_sync_cursor := None\<rparr>))
     else ret_st ()))"

section \<open>Checkpoints of the nodeless backends\<close>

definition tip_of_checkpoint :: "('t, 'o, 's, 'hash) codec \<Rightarrow> checkpoint_row \<Rightarrow> (sync_error, 'hash synced_tip) res" where
  "tip_of_checkpoint c r = bind_res (of_option Encoding (hash_parse c (cc_block_hash r)))
     (\<lambda>h. Inr \<lparr>st_height = i64_as_u32 (cc_height r), st_hash = h\<rparr>)"

definition checkpoints_load :: "('t, 'o, 's, 'hash) codec \<Rightarrow> wallet_key \<Rightarrow> (database, sync_error, 'hash synced_tip list) st" where
  "checkpoints_load c wallet =
     bind_st (read_st (\<lambda>d. filter (\<lambda>r. cc_wallet_id r = wid_to_uuid wallet) (elements_chain_checkpoints d)))
       (\<lambda>rows. lift_st (map_res (tip_of_checkpoint c) rows))"

definition checkpoints_save :: "('t, 'o, 's, 'hash) codec \<Rightarrow> wallet_key \<Rightarrow> 'hash synced_tip \<Rightarrow> (database, sync_error, unit) st" where
  "checkpoints_save c wallet tip =
     (let row = \<lparr>cc_wallet_id = wid_to_uuid wallet, cc_height = uint (st_height tip),
                 cc_block_hash = hash_str c (st_hash tip)\<rparr>;
          same = (\<lambda>r. cc_wallet_id r = wid_to_uuid wallet \<and> cc_height r = uint (st_height tip)) in
      map_err_st Store (statement
        (\<lambda>d. first_failure [(\<not> list_ex same (elements_chain_checkpoints d)
               \<and> wid_to_uuid wallet \<notin> ew_id ` set (elements_wallets d),
             ForeignKeyViolation ''elements_chain_checkpoints_wallet_id_fkey'')])
        (\<lambda>d. d\<lparr>elements_chain_checkpoints :=
           (if list_ex same (elements_chain_checkpoints d)
            then update_where same (\<lambda>_. row) (elements_chain_checkpoints d)
            else elements_chain_checkpoints d @ [row])\<rparr>)
        (\<lambda>d. ())))"

definition checkpoints_rollback_above :: "wallet_key \<Rightarrow> u32 \<Rightarrow> (database, sync_error, unit) st" where
  "checkpoints_rollback_above wallet height = write_st (\<lambda>d. d\<lparr>elements_chain_checkpoints :=
     delete_where (\<lambda>r. cc_wallet_id r = wid_to_uuid wallet \<and> cc_height r > uint height)
       (elements_chain_checkpoints d)\<rparr>)"

section \<open>Captured outputs\<close>

definition utxo_of_row :: "('txid, 'out, 'sec, 'hash) codec \<Rightarrow> wallet_key \<Rightarrow> bool \<Rightarrow> utxo_row \<Rightarrow>
    (sync_error, ('txid, 'out, 'sec) captured_utxo) res" where
  "utxo_of_row c wallet is_spent r =
     bind_res (of_option Encoding (txid_parse c (eu_txid r))) (\<lambda>txid.
     bind_res (of_option Encoding (txout_de c (eu_raw_txout r))) (\<lambda>txout.
     bind_res (of_option Encoding (secrets_de c (eu_secrets_json r))) (\<lambda>secrets.
     Inr \<lparr>cu_wallet_id = wallet, cu_txid = txid, cu_vout = i64_as_u32 (eu_vout r), cu_txout = txout,
          cu_secrets = secrets, cu_chain = i16_to_chain (eu_chain r),
          cu_wildcard_index = i64_as_u32 (eu_wildcard_index r), cu_height = i64_as_u32 (eu_height r),
          cu_is_spent = is_spent\<rparr>)))"

definition list_for_wallet :: "('txid, 'out, 'sec, 'hash) codec \<Rightarrow> wallet_key \<Rightarrow>
    (database, sync_error, ('txid, 'out, 'sec) captured_utxo list) st" where
  "list_for_wallet c wallet =
     bind_st (read_st (\<lambda>d. filter (\<lambda>r. eu_wallet_id r = wid_to_uuid wallet) (elements_utxos d)))
       (\<lambda>rows. lift_st (map_res (\<lambda>r. utxo_of_row c wallet (eu_is_spent r) r) rows))"

definition row_of_utxo :: "('txid, 'out, 'sec, 'hash) codec \<Rightarrow> ('txid, 'out, 'sec) captured_utxo \<Rightarrow> (sync_error, utxo_row) res" where
  "row_of_utxo c u =
     bind_res (of_option Encoding (secrets_ser c (cu_secrets u))) (\<lambda>secrets_json.
     Inr \<lparr>eu_wallet_id = wid_to_uuid (cu_wallet_id u), eu_txid = txid_str c (cu_txid u),
          eu_vout = uint (cu_vout u), eu_raw_txout = txout_ser c (cu_txout u),
          eu_secrets_json = secrets_json, eu_asset_id = secrets_asset c (cu_secrets u),
          eu_value_sat = sint (secrets_value c (cu_secrets u)), eu_chain = chain_to_i16 (cu_chain u),
          eu_wildcard_index = uint (cu_wildcard_index u), eu_height = uint (cu_height u),
          eu_is_spent = False, eu_spent_height = None\<rparr>)"

definition same_outpoint :: "utxo_row \<Rightarrow> utxo_row \<Rightarrow> bool" where
  "same_outpoint a b \<longleftrightarrow> eu_wallet_id b = eu_wallet_id a \<and> eu_txid b = eu_txid a \<and> eu_vout b = eu_vout a"

text \<open>\<open>ON CONFLICT ... DO UPDATE\<close> sets every column but the two that record the spend.\<close>

definition upsert_row :: "utxo_row \<Rightarrow> unit query" where
  "upsert_row row = statement
     (\<lambda>d. first_failure [
        (eu_value_sat row < 0, CheckViolation ''elements_utxos_value_sat_check''),
        (\<not> list_ex (same_outpoint row) (elements_utxos d) \<and> eu_wallet_id row \<notin> ew_id ` set (elements_wallets d),
           ForeignKeyViolation ''elements_utxos_wallet_id_fkey'')])
     (\<lambda>d. d\<lparr>elements_utxos :=
        (if list_ex (same_outpoint row) (elements_utxos d)
         then update_where (same_outpoint row)
                (\<lambda>old. row\<lparr>eu_is_spent := eu_is_spent old, eu_spent_height := eu_spent_height old\<rparr>) (elements_utxos d)
         else elements_utxos d @ [row])\<rparr>)
     (\<lambda>d. ())"

text \<open>The rows are encoded before the first statement runs; the statements then run one by one.\<close>

definition upsert_utxos :: "('txid, 'out, 'sec, 'hash) codec \<Rightarrow> ('txid, 'out, 'sec) captured_utxo list \<Rightarrow>
    (database, sync_error, unit) st" where
  "upsert_utxos c utxos =
     bind_st (lift_st (map_res (row_of_utxo c) utxos)) (\<lambda>rows.
     map_err_st Store (for_st upsert_row rows))"

definition mark_spent :: "('txid, 'out, 'sec, 'hash) codec \<Rightarrow> ('txid \<times> u32) list \<Rightarrow> u32 \<Rightarrow> (database, sync_error, unit) st" where
  "mark_spent c outpoints spent_height =
     for_st (\<lambda>(txid, vout). write_st (\<lambda>d. d\<lparr>elements_utxos :=
       update_where (\<lambda>r. eu_txid r = txid_str c txid \<and> eu_vout r = uint vout)
         (\<lambda>r. r\<lparr>eu_is_spent := True, eu_spent_height := Some (uint spent_height)\<rparr>) (elements_utxos d)\<rparr>)) outpoints"

definition list_unspent :: "('txid, 'out, 'sec, 'hash) codec \<Rightarrow> wallet_key \<Rightarrow>
    (database, sync_error, ('txid, 'out, 'sec) captured_utxo list) st" where
  "list_unspent c wallet =
     bind_st (read_st (\<lambda>d. filter (\<lambda>r. eu_wallet_id r = wid_to_uuid wallet \<and> \<not> eu_is_spent r) (elements_utxos d)))
       (\<lambda>rows. lift_st (map_res (utxo_of_row c wallet False) rows))"

definition unspent_outpoints :: "('txid, 'out, 'sec, 'hash) codec \<Rightarrow>
    (database, sync_error, (('txid \<times> u32) \<times> wallet_key) list) st" where
  "unspent_outpoints c =
     bind_st (read_st (\<lambda>d. filter (\<lambda>r. \<not> eu_is_spent r) (elements_utxos d)))
       (\<lambda>rows. lift_st (map_res (\<lambda>r. bind_res (of_option Encoding (txid_parse c (eu_txid r)))
          (\<lambda>txid. Inr ((txid, i64_as_u32 (eu_vout r)), uuid_to_wid (eu_wallet_id r)))) rows))"

definition spent_above :: "int \<Rightarrow> utxo_row \<Rightarrow> bool" where
  "spent_above h r = (case eu_spent_height r of None \<Rightarrow> False | Some s \<Rightarrow> s > h)"

definition utxos_rollback_above :: "u32 \<Rightarrow> (database, sync_error, unit) st" where
  "utxos_rollback_above height =
     bind_st (write_st (\<lambda>d. d\<lparr>elements_utxos :=
       delete_where (\<lambda>r. eu_height r > uint height) (elements_utxos d)\<rparr>)) (\<lambda>_.
     write_st (\<lambda>d. d\<lparr>elements_utxos := update_where (spent_above (uint height))
       (\<lambda>r. r\<lparr>eu_is_spent := False, eu_spent_height := None\<rparr>) (elements_utxos d)\<rparr>))"

section \<open>The node client\<close>

datatype rpc_arg = ANum u32 | ABool bool | AStr string

text \<open>
  The JSON-RPC client: a call with its arguments either fails or returns a number, a text, or
  an object of which only the text members matter.
\<close>

record rpc_client =
  rpc_u64 :: "string \<Rightarrow> rpc_arg list \<Rightarrow> string + u64"
  rpc_string :: "string \<Rightarrow> rpc_arg list \<Rightarrow> string + string"
  rpc_object :: "string \<Rightarrow> rpc_arg list \<Rightarrow> string + (string \<Rightarrow> string option)"

definition policy_asset :: "(string \<Rightarrow> 'asset option) \<Rightarrow> rpc_client \<Rightarrow> (sync_error, 'asset) res" where
  "policy_asset asset_parse client =
     bind_res (of_sum ChainSource (rpc_object client ''getsidechaininfo'' [])) (\<lambda>v.
     bind_res (of_option (ChainSource ''getsidechaininfo missing pegged_asset'') (v ''pegged_asset'')) (\<lambda>s.
     of_option Encoding (asset_parse s)))"

definition rpc_tip_height :: "rpc_client \<Rightarrow> (sync_error, u32) res" where
  "rpc_tip_height client =
     bind_res (of_sum ChainSource (rpc_u64 client ''getblockcount'' [])) (\<lambda>h. Inr (ucast h))"

definition rpc_block_hash :: "('t, 'o, 's, 'hash) codec \<Rightarrow> rpc_client \<Rightarrow> u32 \<Rightarrow> (sync_error, 'hash) res" where
  "rpc_block_hash c client height =
     bind_res (of_sum ChainSource (rpc_string client ''getblockhash'' [ANum height])) (\<lambda>hash.
     of_option Encoding (hash_parse c hash))"

definition rpc_block :: "('t, 'o, 's, 'hash) codec \<Rightarrow> (string \<Rightarrow> u8 list option) \<Rightarrow> (u8 list \<Rightarrow> 'block option) \<Rightarrow>
    rpc_client \<Rightarrow> 'hash \<Rightarrow> (sync_error, 'block) res" where
  "rpc_block c from_hex block_de client hash =
     bind_res (of_sum ChainSource (rpc_string client ''getblock'' [AStr (hash_str c hash), ANum 0])) (\<lambda>hex.
     bind_res (of_option Encoding (from_hex hex)) (\<lambda>bytes.
     of_option Encoding (block_de bytes)))"

definition rpc_broadcast :: "('txid, 'o, 's, 'hash) codec \<Rightarrow> ('tx \<Rightarrow> string) \<Rightarrow> rpc_client \<Rightarrow> 'tx \<Rightarrow> (sync_error, 'txid) res" where
  "rpc_broadcast c serialize_hex client tx =
     bind_res (of_sum ChainSource (rpc_string client ''sendrawtransaction'' [AStr (serialize_hex tx)])) (\<lambda>txid.
     of_option Encoding (txid_parse c txid))"

definition node_lwk_network :: "('t, 'o, 's, 'hash) codec \<Rightarrow> (string \<Rightarrow> 'asset option) \<Rightarrow>
    ('asset \<Rightarrow> 'hash \<Rightarrow> 'lwk) \<Rightarrow> (elements_network \<Rightarrow> 'lwk) \<Rightarrow> rpc_client \<Rightarrow> elements_network \<Rightarrow> (sync_error, 'lwk) res" where
  "node_lwk_network c asset_parse custom_regtest to_lwk client network = (case network of
       ElementsRegtest \<Rightarrow>
         bind_res (policy_asset asset_parse client) (\<lambda>policy.
         bind_res (rpc_block_hash c client 0) (\<lambda>genesis.
         Inr (custom_regtest policy genesis)))
     | other \<Rightarrow> Inr (to_lwk other))"

section \<open>The schema's constraints are kept\<close>

lemma scan_tables_inv:
  assumes "db_inv d"
  shows "distinct (map (\<lambda>u. (eu_wallet_id u, eu_txid u, eu_vout u)) us) \<Longrightarrow> db_inv (d\<lparr>elements_utxos := us\<rparr>)"
    and "distinct (map (\<lambda>c. (cc_wallet_id c, cc_height c)) cs) \<Longrightarrow> db_inv (d\<lparr>elements_chain_checkpoints := cs\<rparr>)"
    and "distinct (map eb_height bs) \<Longrightarrow> distinct (map eb_block_hash bs) \<Longrightarrow> db_inv (d\<lparr>elements_blocks := bs\<rparr>)"
    and "db_inv (d\<lparr>elements_sync_cursor := cur\<rparr>)"
  using assms by (simp_all add: db_inv_def db_ok_defs)

lemma distinct_map_delete: "distinct (map f rs) \<Longrightarrow> distinct (map f (delete_where p rs))"
  by (simp add: delete_where_def distinct_map_filter)

lemma distinct_update_one:
  assumes "distinct (map f rs)" and "\<And>r. p r \<Longrightarrow> f r = k" and "f row = k'"
    and "\<And>r. r \<in> set rs \<Longrightarrow> \<not> p r \<Longrightarrow> f r \<noteq> k'"
  shows "distinct (map f (update_where p (\<lambda>_. row) rs))"
  using assms
proof (induction rs)
  case (Cons r rs)
  have "\<not> p x" if "p r" "x \<in> set rs" for x
    using that Cons.prems(1,2) by (metis distinct.simps(2) image_eqI list.simps(9) set_map)
  then have *: "p r \<Longrightarrow> update_where p (\<lambda>_. row) rs = rs"
    by (simp add: update_where_none)
  show ?case
  proof (cases "p r")
    case True
    then have "k' \<notin> f ` set rs"
      using Cons.prems(4) \<open>\<And>x. p r \<Longrightarrow> x \<in> set rs \<Longrightarrow> \<not> p x\<close> by auto
    with True * Cons.prems(1,3) show ?thesis by simp
  next
    case False
    then have "f r \<noteq> k'" using Cons.prems(4) by simp
    then have "f r \<notin> f ` set (update_where p (\<lambda>_. row) rs)"
      using Cons.prems(1,3) by (auto simp: set_update_where)
    with False Cons show ?thesis by simp
  qed
qed simp

lemma blocks_inv [pres_intros]:
  "preserves db_inv (store_block c h x raw)"
  unfolding store_block_def Let_def
proof (intro preserves_map_err preserves_statement)
  fix d
  let ?row = "\<lparr>eb_height = uint h, eb_block_hash = hash_str c x, eb_raw_block = raw\<rparr>"
  let ?same = "\<lambda>b. eb_height b = uint h"
  assume ok: "first_failure [(list_ex (\<lambda>b. eb_block_hash b = hash_str c x \<and> eb_height b \<noteq> uint h)
              (elements_blocks d), UniqueViolation ''elements_blocks_block_hash_key'')] = None"
    and inv: "db_inv d"
  then have dist: "distinct (map eb_height (elements_blocks d))" "distinct (map eb_block_hash (elements_blocks d))"
    by (simp_all add: db_inv_def blocks_ok_def)
  have other: "eb_block_hash b \<noteq> hash_str c x" if "b \<in> set (elements_blocks d)" "\<not> ?same b" for b
    using ok that by (auto simp: list_ex_iff split: if_splits)
  show "db_inv (d\<lparr>elements_blocks := if list_ex ?same (elements_blocks d)
      then update_where ?same (\<lambda>b. ?row) (elements_blocks d) else elements_blocks d @ [?row]\<rparr>)"
  proof (cases "list_ex ?same (elements_blocks d)")
    case True
    have "distinct (map eb_height (update_where ?same (\<lambda>_. ?row) (elements_blocks d)))"
      using dist(1) by (rule distinct_update_one) auto
    moreover have "distinct (map eb_block_hash (update_where ?same (\<lambda>_. ?row) (elements_blocks d)))"
    proof (cases "\<exists>b \<in> set (elements_blocks d). ?same b")
      case True
      then obtain b0 where b0: "b0 \<in> set (elements_blocks d)" "?same b0" by blast
      have iff: "?same b \<longleftrightarrow> b = b0" if "b \<in> set (elements_blocks d)" for b
        using dist(1) b0 that unfolding distinct_map by (metis inj_onD)
      have "update_where ?same (\<lambda>_. ?row) (elements_blocks d)
          = update_where (\<lambda>b. b = b0) (\<lambda>_. ?row) (elements_blocks d)"
        unfolding update_where_def by (intro map_cong refl) (simp only: iff)
      moreover have "distinct (map eb_block_hash (update_where (\<lambda>b. b = b0) (\<lambda>_. ?row) (elements_blocks d)))"
        using dist(2)
      proof (rule distinct_update_one)
        fix r assume "r \<in> set (elements_blocks d)" "\<not> r = b0"
        then have "\<not> ?same r" using b0 dist(1) unfolding distinct_map by (metis inj_onD)
        with \<open>r \<in> _\<close> show "eb_block_hash r \<noteq> hash_str c x" by (rule other)
      qed auto
      ultimately show ?thesis by simp
    next
      case False
      with dist(2) show ?thesis by (simp add: update_where_none)
    qed
    ultimately show ?thesis using True inv by (simp add: scan_tables_inv)
  next
    case False
    then have absent: "\<not> ?same b" if "b \<in> set (elements_blocks d)" for b
      using that unfolding list_ex_iff by blast
    then have "uint h \<notin> eb_height ` set (elements_blocks d)"
      by (metis imageE)
    moreover have "hash_str c x \<notin> eb_block_hash ` set (elements_blocks d)"
      using absent other by (metis imageE)
    ultimately have "distinct (map eb_height (elements_blocks d @ [?row]))"
      "distinct (map eb_block_hash (elements_blocks d @ [?row]))"
      using dist by simp_all
    with inv have "db_inv (d\<lparr>elements_blocks := elements_blocks d @ [?row]\<rparr>)"
      by (rule scan_tables_inv)
    then show ?thesis by (simp only: if_not_P [OF False])
  qed
qed

lemma scan_inv [pres_intros]:
  "preserves db_inv (set_synced_tip c tip)"
  "preserves db_inv (blocks_rollback_above h)"
  "preserves db_inv (checkpoints_rollback_above w h)"
  "preserves db_inv (utxos_rollback_above h)"
  "preserves db_inv (mark_spent c ops h)"
proof -
  show "preserves db_inv (set_synced_tip c tip)"
    by (auto simp: set_synced_tip_def intro!: pres_intros scan_tables_inv)
  show "preserves db_inv (blocks_rollback_above h)"
    unfolding blocks_rollback_above_def
    by (intro pres_intros scan_tables_inv) (simp_all add: db_inv_def blocks_ok_def distinct_map_delete)
  show "preserves db_inv (checkpoints_rollback_above w h)"
    unfolding checkpoints_rollback_above_def
    by (intro pres_intros scan_tables_inv) (simp_all add: db_inv_def checkpoints_ok_def distinct_map_delete)
  show "preserves db_inv (utxos_rollback_above h)"
    unfolding utxos_rollback_above_def
    by (intro pres_intros scan_tables_inv)
      (simp_all add: db_inv_def utxos_ok_def distinct_map_delete map_update_where)
  show "preserves db_inv (mark_spent c ops h)"
    unfolding mark_spent_def
    by (intro pres_intros scan_tables_inv) (simp_all add: db_inv_def utxos_ok_def map_update_where)
qed

lemma checkpoints_save_inv [pres_intros]: "preserves db_inv (checkpoints_save c w tip)"
  unfolding checkpoints_save_def Let_def
proof (intro preserves_map_err preserves_statement)
  fix d
  let ?row = "\<lparr>cc_wallet_id = wid_to_uuid w, cc_height = uint (st_height tip), cc_block_hash = hash_str c (st_hash tip)\<rparr>"
  let ?same = "\<lambda>r. cc_wallet_id r = wid_to_uuid w \<and> cc_height r = uint (st_height tip)"
  assume inv: "db_inv d"
  then have dist: "distinct (map (\<lambda>c. (cc_wallet_id c, cc_height c)) (elements_chain_checkpoints d))"
    by (simp add: db_inv_def checkpoints_ok_def)
  have "distinct (map (\<lambda>c. (cc_wallet_id c, cc_height c)) (if list_ex ?same (elements_chain_checkpoints d)
      then update_where ?same (\<lambda>_. ?row) (elements_chain_checkpoints d)
      else elements_chain_checkpoints d @ [?row]))"
    using dist by (rule distinct_upsert) auto
  with inv show "db_inv (d\<lparr>elements_chain_checkpoints := if list_ex ?same (elements_chain_checkpoints d)
      then update_where ?same (\<lambda>_. ?row) (elements_chain_checkpoints d)
      else elements_chain_checkpoints d @ [?row]\<rparr>)"
    by (rule scan_tables_inv)
qed

lemma upsert_utxos_inv [pres_intros]: "preserves db_inv (upsert_utxos c us)"
proof -
  have "preserves db_inv (upsert_row row)" for row
    unfolding upsert_row_def
  proof (rule preserves_statement)
    fix d
    assume inv: "db_inv d"
    then have dist: "distinct (map (\<lambda>u. (eu_wallet_id u, eu_txid u, eu_vout u)) (elements_utxos d))"
      by (simp add: db_inv_def utxos_ok_def)
    have "distinct (map (\<lambda>u. (eu_wallet_id u, eu_txid u, eu_vout u)) (if list_ex (same_outpoint row) (elements_utxos d)
        then update_where (same_outpoint row)
                (\<lambda>old. row\<lparr>eu_is_spent := eu_is_spent old, eu_spent_height := eu_spent_height old\<rparr>) (elements_utxos d)
        else elements_utxos d @ [row]))"
      using dist by (rule distinct_upsert) (auto simp: same_outpoint_def)
    with inv show "db_inv (d\<lparr>elements_utxos := if list_ex (same_outpoint row) (elements_utxos d)
        then update_where (same_outpoint row)
                (\<lambda>old. row\<lparr>eu_is_spent := eu_is_spent old, eu_spent_height := eu_spent_height old\<rparr>) (elements_utxos d)
        else elements_utxos d @ [row]\<rparr>)"
      by (rule scan_tables_inv)
  qed
  then show ?thesis
    unfolding upsert_utxos_def by (intro pres_intros)
qed

lemma scan_query_pres [pres_intros]:
  "preserves P (synced_tip c)" "preserves P (block_hash_at c h)" "preserves P (checkpoints_load c w)"
  "preserves P (list_for_wallet c w)" "preserves P (list_unspent c w)" "preserves P (unspent_outpoints c)"
  by (auto simp: synced_tip_def block_hash_at_def checkpoints_load_def list_for_wallet_def
      list_unspent_def unspent_outpoints_def intro!: pres_intros)

section \<open>The interface of the reorg rollback\<close>

text \<open>
  After a reorg the scanner rolls every store back to the last common height. All three stores
  keep the rows up to that height and undo what happened to them above it.
\<close>

locale rollback_store =
  fixes rows :: "database \<Rightarrow> 'r list"
    and height :: "'r \<Rightarrow> int"
    and undo :: "int \<Rightarrow> 'r \<Rightarrow> 'r"
    and rollback :: "u32 \<Rightarrow> (database, sync_error, unit) st"
  assumes rollback_ok: "fst (rollback h d) = Inr ()"
    and rollback_rows: "rows (snd (rollback h d)) = map (undo (uint h)) (filter (\<lambda>r. height r \<le> uint h) (rows d))"
    and undo_height: "height (undo k r) = height r"
    and undo_undo: "undo j (undo k r) = undo (min j k) r"
begin

lemma nothing_above: "list_all (\<lambda>r. height r \<le> uint h) (rows (snd (rollback h d)))"
  by (auto simp: rollback_rows list_all_iff undo_height)

lemma rollback_rollback:
  "rows (snd (rollback g (snd (rollback h d)))) = rows (snd (rollback (min g h) d))"
proof -
  have m: "uint (min g h) = min (uint g) (uint h)"
    by (simp add: min_def word_le_def)
  have "filter (\<lambda>r. height r \<le> uint g) (map (undo (uint h)) (filter (\<lambda>r. height r \<le> uint h) (rows d)))
      = map (undo (uint h)) (filter (\<lambda>r. height r \<le> min (uint g) (uint h)) (rows d))"
    by (simp add: filter_map o_def undo_height conj_commute)
  then show ?thesis
    by (simp only: rollback_rows m undo_undo map_map o_def)
qed

lemma rollback_idem: "rows (snd (rollback h (snd (rollback h d)))) = rows (snd (rollback h d))"
  by (simp add: rollback_rollback)

end

definition undo_spend :: "int \<Rightarrow> utxo_row \<Rightarrow> utxo_row" where
  "undo_spend h r = (if spent_above h r then r\<lparr>eu_is_spent := False, eu_spent_height := None\<rparr> else r)"

lemma utxos_rollback_rows:
  "elements_utxos (snd (utxos_rollback_above h d))
     = map (undo_spend (uint h)) (filter (\<lambda>r. eu_height r \<le> uint h) (elements_utxos d))"
  by (simp add: utxos_rollback_above_def delete_where_def update_where_def undo_spend_def not_less)

interpretation utxo_rollback: rollback_store elements_utxos eu_height undo_spend utxos_rollback_above
proof unfold_locales
  fix j k :: int and r
  show "undo_spend j (undo_spend k r) = undo_spend (min j k) r"
    by (cases "eu_spent_height r") (simp_all add: undo_spend_def spent_above_def)
next
  fix h d
  show "elements_utxos (snd (utxos_rollback_above h d))
     = map (undo_spend (uint h)) (filter (\<lambda>r. eu_height r \<le> uint h) (elements_utxos d))"
    by (rule utxos_rollback_rows)
qed (auto simp: undo_spend_def utxos_rollback_above_def)

lemma blocks_rollback_rows:
  "elements_blocks (snd (blocks_rollback_above h d)) = filter (\<lambda>b. eb_height b \<le> uint h) (elements_blocks d)"
  by (auto simp: blocks_rollback_above_def delete_where_def not_less split: option.splits)

interpretation block_rollback: rollback_store elements_blocks eb_height "\<lambda>_ b. b" blocks_rollback_above
  by unfold_locales (auto simp: blocks_rollback_rows, auto simp: blocks_rollback_above_def split: option.splits)

interpretation checkpoint_rollback: rollback_store
  "\<lambda>d. filter (\<lambda>r. cc_wallet_id r = wid_to_uuid w) (elements_chain_checkpoints d)" cc_height "\<lambda>_ r. r"
  "checkpoints_rollback_above w" for w
  by unfold_locales (auto simp: checkpoints_rollback_above_def delete_where_def not_less
      intro!: filter_cong)

lemma highest_block_Some:
  "highest_block bs = Some b \<Longrightarrow> b \<in> set bs \<and> (\<forall>x \<in> set bs. eb_height x \<le> eb_height b)"
proof -
  assume "highest_block bs = Some b"
  then obtain r where r: "sort_key (\<lambda>b. - eb_height b) bs = b # r"
    unfolding highest_block_def by (cases "sort_key (\<lambda>b. - eb_height b) bs") simp_all
  then have "set bs = insert b (set r)" by (metis list.simps(15) set_sort)
  moreover have "sorted (map (\<lambda>b. - eb_height b) (b # r))"
    unfolding r [symmetric] by (rule sorted_sort_key)
  ultimately show ?thesis by auto
qed

definition cursor_linked :: "database \<Rightarrow> bool" where
  "cursor_linked d = (case elements_sync_cursor d of None \<Rightarrow> True
     | Some c \<Rightarrow> list_ex (\<lambda>b. eb_height b = sc_tip_height c \<and> eb_block_hash b = sc_tip_hash c) (elements_blocks d))"

definition cursor_at_most :: "int \<Rightarrow> database \<Rightarrow> bool" where
  "cursor_at_most h d = (case elements_sync_cursor d of None \<Rightarrow> True | Some c \<Rightarrow> sc_tip_height c \<le> h)"

lemma cursor_after_rollback:
  "cursor_at_most (uint h) (snd (blocks_rollback_above h d))
   \<and> (cursor_linked d \<longrightarrow> cursor_linked (snd (blocks_rollback_above h d)))"
proof -
  let ?bs = "filter (\<lambda>b. eb_height b \<le> uint h) (elements_blocks d)"
  have del: "delete_where (\<lambda>b. eb_height b > uint h) (elements_blocks d) = ?bs"
    by (simp add: delete_where_def not_less)
  show ?thesis
  proof (cases "elements_sync_cursor d")
    case None
    then show ?thesis
      by (simp add: blocks_rollback_above_def cursor_at_most_def cursor_linked_def)
  next
    case (Some c)
    show ?thesis
    proof (cases "sc_tip_height c > uint h")
      case False
      then show ?thesis using Some
        by (auto simp: blocks_rollback_above_def cursor_at_most_def cursor_linked_def del list_ex_iff)
    next
      case True
      show ?thesis
      proof (cases "highest_block ?bs")
        case None
        with Some True show ?thesis
          by (simp add: blocks_rollback_above_def cursor_at_most_def cursor_linked_def del)
      next
        case (Some b)
        from highest_block_Some [OF this] have "b \<in> set ?bs" by blast
        with Some True \<open>elements_sync_cursor d = Some c\<close> show ?thesis
          by (auto simp: blocks_rollback_above_def cursor_at_most_def cursor_linked_def del list_ex_iff)
      qed
    qed
  qed
qed

section \<open>Reading back what was captured\<close>

definition with_spent :: "bool \<Rightarrow> ('t, 'o, 's) captured_utxo \<Rightarrow> ('t, 'o, 's) captured_utxo" where
  "with_spent b u = u\<lparr>cu_is_spent := b\<rparr>"

lemma utxo_row_roundtrip:
  assumes "codec_ok c" and "row_of_utxo c u = Inr row"
  shows "utxo_of_row c (cu_wallet_id u) b (row\<lparr>eu_is_spent := x, eu_spent_height := y\<rparr>) = Inr (with_spent b u)"
  using assms by (auto simp: codec_ok_def row_of_utxo_def utxo_of_row_def with_spent_def bind_res_Inr_iff)

text \<open>The stored form of an output whose spent flag is already known.\<close>

definition spent_flag :: "('txid, 'out, 'sec, 'hash) codec \<Rightarrow> ('txid, 'out, 'sec) captured_utxo \<Rightarrow> database \<Rightarrow> bool" where
  "spent_flag c u d = list_ex (\<lambda>r. eu_wallet_id r = wid_to_uuid (cu_wallet_id u) \<and> eu_txid r = txid_str c (cu_txid u)
     \<and> eu_vout r = uint (cu_vout u) \<and> eu_is_spent r) (elements_utxos d)"

lemma same_outpoint_row:
  "row_of_utxo c u = Inr row \<Longrightarrow> same_outpoint row r \<longleftrightarrow>
     eu_wallet_id r = wid_to_uuid (cu_wallet_id u) \<and> eu_txid r = txid_str c (cu_txid u) \<and> eu_vout r = uint (cu_vout u)"
  by (auto simp: row_of_utxo_def same_outpoint_def bind_res_Inr_iff)

lemma upsert_single:
  assumes "upsert_utxos c [u] d = (Inr (), d')"
  obtains row where "row_of_utxo c u = Inr row" and "upsert_row row d = (Inr (), d')"
proof (cases "row_of_utxo c u")
  case (Inl e)
  with assms show ?thesis by (simp add: upsert_utxos_def bind_st_lift)
next
  case (Inr row)
  with assms have "for_st upsert_row [row] d = (Inr (), d')"
    by (simp add: upsert_utxos_def)
  then have "upsert_row row d = (Inr (), d')"
    by (auto simp: bind_st_def split: prod.splits sum.splits)
  with Inr that show ?thesis by blast
qed

lemma utxos_key_unique:
  assumes "db_inv d" and "r \<in> set (elements_utxos d)" and "r' \<in> set (elements_utxos d)"
    and "same_outpoint row r" and "same_outpoint row r'"
  shows "r = r'"
proof -
  have "inj_on (\<lambda>u. (eu_wallet_id u, eu_txid u, eu_vout u)) (set (elements_utxos d))"
    using assms(1) by (simp add: db_inv_def utxos_ok_def distinct_map)
  then show ?thesis
    by (rule inj_onD) (use assms(2-5) in \<open>simp_all add: same_outpoint_def\<close>)
qed

lemma upsert_row_stores:
  assumes inv: "db_inv d" and up: "upsert_row row d = (Inr (), d')"
    and new: "eu_is_spent row = False" "eu_spent_height row = None"
  shows "\<exists>y. row\<lparr>eu_is_spent := list_ex (\<lambda>r. same_outpoint row r \<and> eu_is_spent r) (elements_utxos d),
                  eu_spent_height := y\<rparr> \<in> set (elements_utxos d')"
proof (cases "list_ex (same_outpoint row) (elements_utxos d)")
  case True
  then obtain old where old: "old \<in> set (elements_utxos d)" "same_outpoint row old"
    unfolding list_ex_iff by blast
  have "list_ex (\<lambda>r. same_outpoint row r \<and> eu_is_spent r) (elements_utxos d) = eu_is_spent old"
    using old utxos_key_unique [OF inv] unfolding list_ex_iff by blast
  moreover have "elements_utxos d' = update_where (same_outpoint row)
      (\<lambda>old. row\<lparr>eu_is_spent := eu_is_spent old, eu_spent_height := eu_spent_height old\<rparr>) (elements_utxos d)"
    using up True by (simp add: upsert_row_def statement_Inr_iff)
  then have "row\<lparr>eu_is_spent := eu_is_spent old, eu_spent_height := eu_spent_height old\<rparr> \<in> set (elements_utxos d')"
    using old by (simp add: set_update_where)
  ultimately show ?thesis by auto
next
  case False
  then have none: "list_ex (\<lambda>r. same_outpoint row r \<and> eu_is_spent r) (elements_utxos d) = False"
    unfolding list_ex_iff by blast
  have "row\<lparr>eu_is_spent := False, eu_spent_height := None\<rparr> = row"
    using new by simp
  moreover have "row \<in> set (elements_utxos d')"
    using up False by (simp add: upsert_row_def statement_Inr_iff)
  ultimately show ?thesis unfolding none by (intro exI [of _ None]) simp
qed

text \<open>Whatever the scanner captures is read back: if the crate's encodings invert their
  encoders, an upsert that succeeds makes the listing of the output's wallet, when it can be
  decoded, contain that output with every field as given, except that an output already known to
  be spent stays spent.\<close>

theorem captured_utxo_roundtrip:
  assumes "codec_ok c" and "db_inv d" and "upsert_utxos c [u] d = (Inr (), d')"
    and "list_for_wallet c (cu_wallet_id u) d' = (Inr us, d'')"
  shows "with_spent (spent_flag c u d) u \<in> set us \<and> d'' = d'"
proof -
  obtain row where row: "row_of_utxo c u = Inr row" and up: "upsert_row row d = (Inr (), d')"
    using upsert_single [OF assms(3)] .
  have new: "eu_is_spent row = False" "eu_spent_height row = None" "eu_wallet_id row = wid_to_uuid (cu_wallet_id u)"
    using row by (auto simp: row_of_utxo_def bind_res_Inr_iff)
  have flag: "list_ex (\<lambda>r. same_outpoint row r \<and> eu_is_spent r) (elements_utxos d) = spent_flag c u d"
    by (simp add: spent_flag_def same_outpoint_row [OF row])
  obtain y where r: "row\<lparr>eu_is_spent := spent_flag c u d, eu_spent_height := y\<rparr> \<in> set (elements_utxos d')"
    (is "?r \<in> _") using upsert_row_stores [OF assms(2) up new(1,2)] unfolding flag by blast
  let ?dec = "\<lambda>r. utxo_of_row c (cu_wallet_id u) (eu_is_spent r) r"
  have "map_res ?dec (filter (\<lambda>r. eu_wallet_id r = wid_to_uuid (cu_wallet_id u)) (elements_utxos d')) = Inr us"
    and d'': "d'' = d'"
    using assms(4) by (auto simp: list_for_wallet_def)
  then have L: "list_all2 (\<lambda>r u. ?dec r = Inr u)
      (filter (\<lambda>r. eu_wallet_id r = wid_to_uuid (cu_wallet_id u)) (elements_utxos d')) us"
    by (simp only: map_res_Inr_iff)
  have M: "?r \<in> set (filter (\<lambda>r. eu_wallet_id r = wid_to_uuid (cu_wallet_id u)) (elements_utxos d'))"
    using r new(3) by simp
  obtain v where "v \<in> set us" "?dec ?r = Inr v"
    using list_all2_member [OF L M] by (rule bexE)
  moreover have "?dec ?r = Inr (with_spent (spent_flag c u d) u)"
    using utxo_row_roundtrip [OF assms(1) row, where x = "spent_flag c u d" and b = "spent_flag c u d" and y = y] by simp
  ultimately show ?thesis using d'' by simp
qed

text \<open>A codec over plain values, for the examples.\<close>

definition sample_codec :: "(string, u8 list, string, string) codec" where
  "sample_codec = \<lparr>txid_str = (\<lambda>t. t), txid_parse = Some, txout_ser = (\<lambda>out. out), txout_de = Some,
     secrets_ser = Some, secrets_de = Some, secrets_asset = (\<lambda>s. ''lbtc''), secrets_value = (\<lambda>s. 7),
     hash_str = (\<lambda>h. h), hash_parse = Some\<rparr>"

lemma codec_ok_sample: "codec_ok sample_codec"
  by (simp add: codec_ok_def sample_codec_def)

definition sample_utxo :: "(string, u8 list, string) captured_utxo" where
  "sample_utxo = \<lparr>cu_wallet_id = WalletId 20, cu_txid = ''t'', cu_vout = 1, cu_txout = [1, 2],
     cu_secrets = ''s'', cu_chain = Internal, cu_wildcard_index = 3, cu_height = 9, cu_is_spent = False\<rparr>"

definition sample_utxo_row :: utxo_row where
  "sample_utxo_row = \<lparr>eu_wallet_id = 20, eu_txid = ''t'', eu_vout = 1, eu_raw_txout = [1, 2],
     eu_secrets_json = ''s'', eu_asset_id = ''lbtc'', eu_value_sat = 7, eu_chain = 1,
     eu_wildcard_index = 3, eu_height = 9, eu_is_spent = False, eu_spent_height = None\<rparr>"

definition sample_db_utxo :: database where
  "sample_db_utxo = sample_db\<lparr>elements_utxos := [sample_utxo_row]\<rparr>"

lemma sample_upsert: "upsert_utxos sample_codec [sample_utxo] sample_db = (Inr (), sample_db_utxo)"
  by (simp add: upsert_utxos_def row_of_utxo_def sample_codec_def sample_utxo_def sample_db_utxo_def
      sample_utxo_row_def upsert_row_def sample_db_def empty_database_def chain_to_i16_def bind_st_def
      map_err_st_def st_simps ret_st_def)

lemma sample_listing: "list_for_wallet sample_codec (WalletId 20) sample_db_utxo = (Inr [sample_utxo], sample_db_utxo)"
  by (simp add: list_for_wallet_def sample_db_utxo_def sample_utxo_row_def utxo_of_row_def sample_codec_def
      sample_utxo_def i16_to_chain_def i64_as_u32_def)

theorem captured_utxo_roundtrip_witness:
  "with_spent (spent_flag sample_codec sample_utxo sample_db) sample_utxo \<in> set [sample_utxo]"
  using captured_utxo_roundtrip [OF codec_ok_sample db_inv_sample sample_upsert, of "[sample_utxo]" sample_db_utxo]
    sample_listing by (simp add: sample_utxo_def)

section \<open>Rollback properties\<close>

text \<open>Rolling back leaves nothing above the height in any of the three stores, and two
  rollbacks amount to one rollback to the smaller height (so repeating one changes nothing).\<close>

theorem rollbacks_compose:
  "list_all (\<lambda>r. eu_height r \<le> uint h) (elements_utxos (snd (utxos_rollback_above h d)))
    \<and> list_all (\<lambda>b. eb_height b \<le> uint h) (elements_blocks (snd (blocks_rollback_above h d)))
    \<and> elements_utxos (snd (utxos_rollback_above g (snd (utxos_rollback_above h d))))
       = elements_utxos (snd (utxos_rollback_above (min g h) d))
    \<and> elements_blocks (snd (blocks_rollback_above g (snd (blocks_rollback_above h d))))
       = elements_blocks (snd (blocks_rollback_above (min g h) d))
    \<and> filter (\<lambda>r. cc_wallet_id r = wid_to_uuid w) (elements_chain_checkpoints
           (snd (checkpoints_rollback_above w g (snd (checkpoints_rollback_above w h d)))))
       = filter (\<lambda>r. cc_wallet_id r = wid_to_uuid w) (elements_chain_checkpoints
           (snd (checkpoints_rollback_above w (min g h) d)))"
  by (intro conjI utxo_rollback.nothing_above block_rollback.nothing_above utxo_rollback.rollback_rollback
      block_rollback.rollback_rollback checkpoint_rollback.rollback_rollback)

text \<open>After a block rollback the cursor is not above the height, and a cursor that pointed
  at a stored block still does.\<close>

theorem cursor_follows_rollback:
  assumes "cursor_linked d"
  shows "cursor_at_most (uint h) (snd (blocks_rollback_above h d))
    \<and> cursor_linked (snd (blocks_rollback_above h d))"
  using cursor_after_rollback assms by blast

definition sample_db_blocks :: database where
  "sample_db_blocks = sample_db\<lparr>
     elements_blocks := [\<lparr>eb_height = 4, eb_block_hash = ''h4'', eb_raw_block = []\<rparr>,
                         \<lparr>eb_height = 5, eb_block_hash = ''h5'', eb_raw_block = []\<rparr>],
     elements_sync_cursor := Some \<lparr>sc_tip_height = 5, sc_tip_hash = ''h5''\<rparr>\<rparr>"

theorem cursor_follows_rollback_witness:
  "cursor_at_most 4 (snd (blocks_rollback_above 4 sample_db_blocks))
    \<and> cursor_linked (snd (blocks_rollback_above 4 sample_db_blocks))"
proof -
  have "cursor_linked sample_db_blocks"
    by (simp add: cursor_linked_def sample_db_blocks_def)
  from cursor_follows_rollback [OF this, of 4] show ?thesis by simp
qed

text \<open>
  What a scan does above a height: it captures outputs that are not stored at or below it and
  marks outputs spent that were not spent at or below it.
\<close>

definition open_at :: "int \<Rightarrow> utxo_row \<Rightarrow> bool" where
  "open_at h r \<longleftrightarrow> spent_above h r \<or> (\<not> eu_is_spent r \<and> eu_spent_height r = None)"

definition spends :: "('txid, 'out, 'sec, 'hash) codec \<Rightarrow> ('txid \<times> u32) list \<Rightarrow> utxo_row \<Rightarrow> bool" where
  "spends c ops r \<longleftrightarrow> list_ex (\<lambda>(txid, vout). eu_txid r = txid_str c txid \<and> eu_vout r = uint vout) ops"

definition stored_below :: "('txid, 'out, 'sec, 'hash) codec \<Rightarrow> int \<Rightarrow> ('txid, 'out, 'sec) captured_utxo \<Rightarrow> database \<Rightarrow> bool" where
  "stored_below c h u d \<longleftrightarrow> list_ex (\<lambda>r. eu_wallet_id r = wid_to_uuid (cu_wallet_id u)
     \<and> eu_txid r = txid_str c (cu_txid u) \<and> eu_vout r = uint (cu_vout u) \<and> eu_height r \<le> h) (elements_utxos d)"

inductive scan_step :: "('txid, 'out, 'sec, 'hash) codec \<Rightarrow> u32 \<Rightarrow> database \<Rightarrow> database \<Rightarrow> bool"
  for c h where
  capture: "\<lbrakk>upsert_utxos c us d = (r, d');
      list_all (\<lambda>u. h < cu_height u \<and> \<not> stored_below c (uint h) u d) us\<rbrakk> \<Longrightarrow> scan_step c h d d'"
| spend: "\<lbrakk>mark_spent c ops k d = (r, d'); h < k;
      list_all (\<lambda>r. spends c ops r \<longrightarrow> open_at (uint h) r) (elements_utxos d)\<rbrakk> \<Longrightarrow> scan_step c h d d'"

definition rolled_back :: "int \<Rightarrow> database \<Rightarrow> utxo_row list" where
  "rolled_back h d = map (undo_spend h) (filter (\<lambda>r. eu_height r \<le> h) (elements_utxos d))"

lemma rolled_back_update:
  assumes "\<And>r. r \<in> set rs \<Longrightarrow> p r \<Longrightarrow> eu_height r \<le> h \<Longrightarrow>
     eu_height (f r) = eu_height r \<and> undo_spend h (f r) = undo_spend h r"
    and "\<And>r. r \<in> set rs \<Longrightarrow> p r \<Longrightarrow> \<not> eu_height r \<le> h \<Longrightarrow> \<not> eu_height (f r) \<le> h"
  shows "map (undo_spend h) (filter (\<lambda>r. eu_height r \<le> h) (update_where p f rs))
       = map (undo_spend h) (filter (\<lambda>r. eu_height r \<le> h) rs)"
  using assms by (induction rs) auto

lemma upsert_row_above:
  assumes "h < eu_height row"
    and "\<And>r. r \<in> set (elements_utxos d) \<Longrightarrow> same_outpoint row r \<Longrightarrow> \<not> eu_height r \<le> h"
    and "upsert_row row d = (q, d')"
  shows "rolled_back h d' = rolled_back h d
    \<and> (\<forall>r \<in> set (elements_utxos d'). eu_height r \<le> h \<longrightarrow> r \<in> set (elements_utxos d))"
proof (cases "fst (upsert_row row d)")
  case (Inl e)
  with assms(3) show ?thesis
    by (auto simp: upsert_row_def statement_def split: option.splits)
next
  case (Inr _)
  let ?f = "\<lambda>old. row\<lparr>eu_is_spent := eu_is_spent old, eu_spent_height := eu_spent_height old\<rparr>"
  have d': "elements_utxos d' = (if list_ex (same_outpoint row) (elements_utxos d)
         then update_where (same_outpoint row) ?f (elements_utxos d) else elements_utxos d @ [row])"
    using Inr assms(3) by (auto simp: upsert_row_def statement_def split: option.splits)
  show ?thesis
  proof (cases "list_ex (same_outpoint row) (elements_utxos d)")
    case True
    have "rolled_back h d' = rolled_back h d"
      unfolding rolled_back_def d' if_P [OF True]
      by (rule rolled_back_update) (use assms(1,2) in auto)
    then show ?thesis unfolding d' if_P [OF True]
      using assms(1) by (auto simp: set_update_where split: if_splits)
  next
    case False
    show ?thesis unfolding rolled_back_def d' if_not_P [OF False] using assms(1) by auto
  qed
qed

lemma upsert_rows_above:
  assumes "\<And>row. row \<in> set rows \<Longrightarrow> h < eu_height row"
    and "\<And>row r. row \<in> set rows \<Longrightarrow> r \<in> set (elements_utxos d) \<Longrightarrow> same_outpoint row r \<Longrightarrow> \<not> eu_height r \<le> h"
    and "for_st upsert_row rows d = (q, d')"
  shows "rolled_back h d' = rolled_back h d"
  using assms
proof (induction rows arbitrary: d)
  case (Cons row rows)
  obtain q1 d1 where up: "upsert_row row d = (q1, d1)" by (cases "upsert_row row d")
  have step: "rolled_back h d1 = rolled_back h d
    \<and> (\<forall>r \<in> set (elements_utxos d1). eu_height r \<le> h \<longrightarrow> r \<in> set (elements_utxos d))"
    by (rule upsert_row_above [OF _ _ up]) (use Cons.prems(1,2) in auto)
  show ?case
  proof (cases q1)
    case (Inl e)
    with Cons.prems(3) up step show ?thesis by (simp add: st_simps)
  next
    case (Inr v)
    have "rolled_back h d' = rolled_back h d1"
      by (rule Cons.IH) (use Cons.prems step up Inr in \<open>auto simp: st_simps\<close>)
    with step show ?thesis by simp
  qed
qed simp

lemma mark_spent_above:
  assumes "h < k" and "\<And>r. r \<in> set (elements_utxos d) \<Longrightarrow> spends c ops r \<Longrightarrow> open_at (uint h) r"
    and "mark_spent c ops k d = (q, d')"
  shows "rolled_back (uint h) d' = rolled_back (uint h) d"
  using assms(2,3)
proof (induction ops arbitrary: d)
  case (Cons op ops)
  obtain txid vout where op: "op = (txid, vout)" by (cases op)
  let ?p = "\<lambda>r. eu_txid r = txid_str c txid \<and> eu_vout r = uint vout"
  let ?f = "\<lambda>r. r\<lparr>eu_is_spent := True, eu_spent_height := Some (uint k)\<rparr>"
  let ?d = "d\<lparr>elements_utxos := update_where ?p ?f (elements_utxos d)\<rparr>"
  have hk: "uint h < uint k" using assms(1) by (simp add: word_less_def)
  have und: "undo_spend (uint h) (?f r) = undo_spend (uint h) r" if "open_at (uint h) r" for r
    using that hk by (auto simp: open_at_def undo_spend_def spent_above_def split: option.splits)
  have "rolled_back (uint h) ?d = rolled_back (uint h) d"
    unfolding rolled_back_def
    by (simp, rule rolled_back_update) (use und Cons.prems(1) in \<open>auto simp: spends_def op\<close>)
  moreover have "rolled_back (uint h) d' = rolled_back (uint h) ?d"
  proof (rule Cons.IH)
    show "mark_spent c ops k ?d = (q, d')"
      using Cons.prems(2) by (simp add: mark_spent_def op)
    fix r assume r: "r \<in> set (elements_utxos ?d)" "spends c ops r"
    then obtain r0 where r0: "r0 \<in> set (elements_utxos d)" "r = (if ?p r0 then ?f r0 else r0)"
      by (auto simp: set_update_where)
    show "open_at (uint h) r"
    proof (cases "?p r0")
      case True
      with r0 hk show ?thesis by (simp add: open_at_def spent_above_def)
    next
      case False
      with r0 r(2) Cons.prems(1) [of r0] show ?thesis by (simp add: spends_def)
    qed
  qed
  ultimately show ?case by simp
qed (simp add: mark_spent_def)

lemma row_of_utxo_height: "row_of_utxo c u = Inr row \<Longrightarrow> eu_height row = uint (cu_height u)"
  by (auto simp: row_of_utxo_def bind_res_Inr_iff)

lemma scan_step_rolled_back: "scan_step c h d d' \<Longrightarrow> rolled_back (uint h) d' = rolled_back (uint h) d"
proof (induction rule: scan_step.induct)
  case (capture us d r d')
  show ?case
  proof (cases "map_res (row_of_utxo c) us")
    case (Inl e)
    with capture(1) show ?thesis by (simp add: upsert_utxos_def bind_st_lift)
  next
    case (Inr rows)
    then have rows: "list_all2 (\<lambda>u row. row_of_utxo c u = Inr row) us rows"
      by (simp add: map_res_Inr_iff)
    have row: "\<exists>u \<in> set us. row_of_utxo c u = Inr row" if "row \<in> set rows" for row
      using rows that by (induction rule: list_all2_induct) auto
    obtain q where run: "for_st upsert_row rows d = (q, d')"
      using capture(1) Inr by (auto simp: upsert_utxos_def map_err_st_def split: prod.splits)
    show ?thesis
    proof (rule upsert_rows_above [OF _ _ run])
      fix row assume "row \<in> set rows"
      then obtain u where u: "u \<in> set us" "row_of_utxo c u = Inr row" using row by blast
      with capture(2) have au: "h < cu_height u" "\<not> stored_below c (uint h) u d"
        by (simp_all add: list_all_iff)
      show "uint h < eu_height row"
        using au(1) row_of_utxo_height [OF u(2)] by (simp add: word_less_def)
      fix r assume "r \<in> set (elements_utxos d)" "same_outpoint row r"
      with au(2) show "\<not> eu_height r \<le> uint h"
        unfolding stored_below_def list_ex_iff same_outpoint_row [OF u(2)] by blast
    qed
  qed
next
  case (spend ops k d r d')
  then show ?case by (intro mark_spent_above) (auto simp: list_all_iff)
qed

text \<open>C16. A rollback undoes a scan: after any number of captures and spends above a height, rolling
  back to it gives the very rows a rollback before the scan would have given, and the stored rows
  themselves when nothing had been recorded above the height.\<close>

theorem rollback_undoes_scan:
  assumes "(scan_step c h)\<^sup>*\<^sup>* d d'"
    and "list_all (\<lambda>r. eu_height r \<le> uint h \<and> \<not> spent_above (uint h) r) (elements_utxos d)"
  shows "elements_utxos (snd (utxos_rollback_above h d')) = elements_utxos d"
proof -
  have "rolled_back (uint h) d' = rolled_back (uint h) d"
    using assms(1) by (induction rule: rtranclp_induct) (simp_all add: scan_step_rolled_back)
  moreover have "rolled_back (uint h) d = elements_utxos d"
    unfolding rolled_back_def using assms(2)
    by (induction "elements_utxos d" arbitrary: d)
      (simp_all add: undo_spend_def list_all_iff map_idI filter_True)
  ultimately show ?thesis by (simp add: utxos_rollback_rows rolled_back_def)
qed

theorem rollback_undoes_scan_witness:
  "elements_utxos (snd (utxos_rollback_above 8 sample_db_utxo)) = []"
proof -
  have "scan_step sample_codec 8 sample_db sample_db_utxo"
    by (rule scan_step.capture [OF sample_upsert])
      (simp add: sample_utxo_def stored_below_def sample_db_def empty_database_def)
  then have "(scan_step sample_codec 8)\<^sup>*\<^sup>* sample_db sample_db_utxo" by simp
  from rollback_undoes_scan [OF this] show ?thesis
    by (simp add: sample_db_def empty_database_def)
qed

end
