(* ===== verification/Schema.thy ===== *)
theory Schema
  imports ElementsStore
begin

text \<open>
  Every statement the program can run against its database, as one step relation, and the
  constraints of the schema as its invariant.
\<close>

inductive db_step :: "('txid, 'out, 'sec, 'hash) codec \<Rightarrow> database \<Rightarrow> database \<Rightarrow> bool"
  for c where
  "upsert_user_if_absent n t e h d = (r1, d') \<Longrightarrow> db_step c d d'"
| "insert_wallet n t w d = (r2, d') \<Longrightarrow> db_step c d d'"
| "update_wallet_changeset i cs tip d = (r3, d') \<Longrightarrow> db_step c d d'"
| "update_wallet_descriptor_and_changeset i desc cs d = (r3, d') \<Longrightarrow> db_step c d d'"
| "update_wallet_tip_only i tip d = (r3, d') \<Longrightarrow> db_step c d d'"
| "insert_transaction n t s d = (r4, d') \<Longrightarrow> db_step c d d'"
| "insert_elements_wallet n t e5 d = (r5, d') \<Longrightarrow> db_step c d d'"
| "update_elements_wallet_tip i tip d = (r3, d') \<Longrightarrow> db_step c d d'"
| "update_elements_wallet_descriptor i desc mbk d = (r3, d') \<Longrightarrow> db_step c d d'"
| "insert_elements_transaction n t s6 d = (r6, d') \<Longrightarrow> db_step c d d'"
| "insert_federation_version n t v d = (r7, d') \<Longrightarrow> db_step c d d'"
| "update_migration_status i status d = (r3, d') \<Longrightarrow> db_step c d d'"
| "set_migration_complete i x d = (r3, d') \<Longrightarrow> db_step c d d'"
| "reconcile_migration i x d = (r1, d') \<Longrightarrow> db_step c d d'"
| "set_pending_migration_for_older_versions i k d = (r3, d') \<Longrightarrow> db_step c d d'"
| "set_pending_migration_for_older_elements_versions i k d = (r3, d') \<Longrightarrow> db_step c d d'"
| "store_block c height hash raw d = (r8, d') \<Longrightarrow> db_step c d d'"
| "set_synced_tip c st d = (r8, d') \<Longrightarrow> db_step c d d'"
| "blocks_rollback_above height d = (r8, d') \<Longrightarrow> db_step c d d'"
| "checkpoints_save c wk st d = (r8, d') \<Longrightarrow> db_step c d d'"
| "checkpoints_rollback_above wk height d = (r8, d') \<Longrightarrow> db_step c d d'"
| "upsert_utxos c us d = (r8, d') \<Longrightarrow> db_step c d d'"
| "mark_spent c ops height d = (r8, d') \<Longrightarrow> db_step c d d'"
| "utxos_rollback_above height d = (r8, d') \<Longrightarrow> db_step c d d'"

lemma db_step_inv: "db_step c d d' \<Longrightarrow> db_inv d \<Longrightarrow> db_inv d'"
  by (induction rule: db_step.induct) (erule preserves_run, assumption, rule pres_intros)+



end
