(* ===== verification/RustText.thy ===== *)
theory RustText
  imports Prelude "HOL-Library.Char_ord"
begin

text \<open>
  Text handling: a Rust \<open>str\<close> is the list of its UTF-8 bytes. The first part models what the
  program uses of the standard library (slices with their character-boundary checks,
  splitting, trimming, integer parsing), the second the program's own helpers: the two strict
  and the one lenient decoder of SLIP-77 master blinding keys, the hex encoder, the two
  extractors of key-origin fingerprints and the display abbreviations.
\<close>

section \<open>Standard library\<close>

subsection \<open>Slices\<close>

definition byte_of :: "char \<Rightarrow> nat" where
  "byte_of c = of_char c"

definition is_char_boundary :: "string \<Rightarrow> nat \<Rightarrow> bool" where
  "is_char_boundary s i \<longleftrightarrow>
     i = 0 \<or> i = length s \<or> (i < length s \<and> \<not> (128 \<le> byte_of (s ! i) \<and> byte_of (s ! i) < 192))"

text \<open>\<open>s.get(a..b)\<close>; the indexing form \<open>&s[a..b]\<close> panics where this is \<open>None\<close>.\<close>

definition get_range :: "string \<Rightarrow> nat \<Rightarrow> nat \<Rightarrow> string option" where
  "get_range s a b =
     (if a \<le> b \<and> b \<le> length s \<and> is_char_boundary s a \<and> is_char_boundary s b
      then Some (take (b - a) (drop a s)) else None)"

definition slice :: "string \<Rightarrow> nat \<Rightarrow> nat \<Rightarrow> ('e, string) res" where
  "slice s a b = or_panic (get_range s a b)"

text \<open>A text is ASCII when every byte is below 128; all its indices are boundaries.\<close>

definition ascii :: "string \<Rightarrow> bool" where
  "ascii s \<longleftrightarrow> list_all (\<lambda>c. byte_of c < 128) s"

lemma ascii_boundary: "ascii s \<Longrightarrow> i \<le> length s \<Longrightarrow> is_char_boundary s i"
proof -
  assume s: "ascii s" "i \<le> length s"
  have "i < length s \<Longrightarrow> byte_of (s ! i) < 128"
    using s by (simp add: ascii_def list_all_length)
  with s show ?thesis by (cases "i = length s") (auto simp: is_char_boundary_def)
qed

lemma get_range_ascii:
  "ascii s \<Longrightarrow> a \<le> b \<Longrightarrow> b \<le> length s \<Longrightarrow> get_range s a b = Some (take (b - a) (drop a s))"
  by (simp add: get_range_def ascii_boundary)

lemma get_range_SomeD: "get_range s a b = Some t \<Longrightarrow> t = take (b - a) (drop a s) \<and> length t = b - a"
  by (auto simp: get_range_def split: if_splits)

subsection \<open>Splitting and trimming\<close>

fun split_on :: "(char \<Rightarrow> bool) \<Rightarrow> string \<Rightarrow> string list" where
  "split_on p [] = [[]]"
| "split_on p (c # cs) =
     (if p c then [] # split_on p cs
      else (case split_on p cs of [] \<Rightarrow> [[c]] | w # ws \<Rightarrow> (c # w) # ws))"

lemma split_on_nonempty [simp]: "split_on p s \<noteq> []"
  by (induction s) (auto split: list.splits)

lemma split_on_append_no_sep:
  "\<forall>c \<in> set xs. \<not> p c \<Longrightarrow> split_on p (xs @ ys) = (xs @ hd (split_on p ys)) # tl (split_on p ys)"
  by (induction xs) (auto split: list.splits)

lemma split_on_no_sep: "\<forall>c \<in> set xs. \<not> p c \<Longrightarrow> split_on p xs = [xs]"
  using split_on_append_no_sep [of xs p "[]"] by simp

lemma hd_split_on: "hd (split_on p s) = takeWhile (\<lambda>c. \<not> p c) s"
proof (induction s)
  case (Cons c s)
  then show ?case by (cases "split_on p s") auto
qed simp

text \<open>
  The Unicode \<open>White_Space\<close> characters as byte sequences; \<open>ws_len\<close> is the byte length of a
  white-space character that starts the text, 0 if there is none.
\<close>

fun ws_len :: "nat list \<Rightarrow> nat" where
  "ws_len (a # b # c # _) =
     (if (9 \<le> a \<and> a \<le> 13) \<or> a = 32 then 1
      else if a = 194 \<and> (b = 133 \<or> b = 160) then 2
      else if (a = 225 \<and> b = 154 \<and> c = 128)
        \<or> (a = 226 \<and> b = 128 \<and> ((128 \<le> c \<and> c \<le> 138) \<or> c = 168 \<or> c = 169 \<or> c = 175))
        \<or> (a = 226 \<and> b = 129 \<and> c = 159) \<or> (a = 227 \<and> b = 128 \<and> c = 128) then 3
      else 0)"
| "ws_len [a, b] =
     (if (9 \<le> a \<and> a \<le> 13) \<or> a = 32 then 1
      else if a = 194 \<and> (b = 133 \<or> b = 160) then 2 else 0)"
| "ws_len [a] = (if (9 \<le> a \<and> a \<le> 13) \<or> a = 32 then 1 else 0)"
| "ws_len [] = 0"

function trim_start :: "string \<Rightarrow> string" where
  "trim_start s = (let n = ws_len (map byte_of (take 3 s)) in
     if n = 0 \<or> s = [] then s else trim_start (drop n s))"
  by auto
termination by (relation "measure length") auto

text \<open>The last white-space character of a text has one, two or three bytes.\<close>

definition ws_suffix_len :: "string \<Rightarrow> nat" where
  "ws_suffix_len s =
     (if 1 \<le> length s \<and> ws_len (map byte_of (drop (length s - 1) s)) = 1 then 1
      else if 2 \<le> length s \<and> ws_len (map byte_of (drop (length s - 2) s)) = 2 then 2
      else if 3 \<le> length s \<and> ws_len (map byte_of (drop (length s - 3) s)) = 3 then 3 else 0)"

function trim_end :: "string \<Rightarrow> string" where
  "trim_end s = (let n = ws_suffix_len s in
     if n = 0 \<or> s = [] then s else trim_end (take (length s - n) s))"
  by auto
termination by (relation "measure length") auto

declare trim_start.simps [simp del] trim_end.simps [simp del]

definition trim :: "string \<Rightarrow> string" where
  "trim s = trim_end (trim_start s)"

lemma trim_start_fixed: "ws_len (map byte_of (take 3 (trim_start s))) = 0 \<or> trim_start s = []"
proof (induction s rule: trim_start.induct)
  case (1 s)
  then show ?case by (subst (1 2) trim_start.simps) (simp add: Let_def)
qed

lemma trim_end_fixed: "ws_suffix_len (trim_end s) = 0 \<or> trim_end s = []"
proof (induction s rule: trim_end.induct)
  case (1 s)
  then show ?case by (subst (1 2) trim_end.simps) (simp add: Let_def)
qed

lemma trim_end_prefix: "\<exists>k. trim_end s = take k s"
proof (induction s rule: trim_end.induct)
  case (1 s)
  show ?case
  proof (cases "ws_suffix_len s = 0 \<or> s = []")
    case True
    then have "trim_end s = take (length s) s" by (subst trim_end.simps) simp
    then show ?thesis ..
  next
    case False
    with 1 obtain k where "trim_end (take (length s - ws_suffix_len s) s) = take k (take (length s - ws_suffix_len s) s)"
      by auto
    with False show ?thesis by (subst trim_end.simps) (auto simp: Let_def)
  qed
qed

lemma trim_end_id: "ws_suffix_len s = 0 \<Longrightarrow> trim_end s = s"
  by (subst trim_end.simps) simp

lemma trim_start_id: "ws_len (map byte_of (take 3 s)) = 0 \<Longrightarrow> trim_start s = s"
  by (subst trim_start.simps) simp

definition to_ascii_lowercase :: "string \<Rightarrow> string" where
  "to_ascii_lowercase s =
     map (\<lambda>c. if 65 \<le> byte_of c \<and> byte_of c \<le> 90 then char_of (byte_of c + 32) else c) s"

lemma to_ascii_lowercase_idem [simp]:
  "to_ascii_lowercase (to_ascii_lowercase s) = to_ascii_lowercase s"
  by (auto simp: to_ascii_lowercase_def byte_of_def)

subsection \<open>Integers\<close>

definition digit_val :: "nat \<Rightarrow> char \<Rightarrow> nat option" where
  "digit_val radix c =
     (let b = byte_of c;
          v = (if 48 \<le> b \<and> b \<le> 57 then b - 48
               else if 97 \<le> b \<and> b \<le> 102 then b - 87
               else if 65 \<le> b \<and> b \<le> 70 then b - 55 else radix)
      in if v < radix then Some v else None)"

fun digits_val :: "nat \<Rightarrow> nat \<Rightarrow> string \<Rightarrow> nat option" where
  "digits_val radix acc [] = Some acc"
| "digits_val radix acc (c # cs) =
     (case digit_val radix c of None \<Rightarrow> None | Some d \<Rightarrow> digits_val radix (acc * radix + d) cs)"

text \<open>
  \<open>from_str_radix\<close> of an unsigned type with the given maximum: an optional plus sign, at
  least one digit, no overflow.
\<close>

definition parse_unsigned :: "nat \<Rightarrow> nat \<Rightarrow> string \<Rightarrow> nat option" where
  "parse_unsigned radix m s =
     (let ds = (case s of c # cs \<Rightarrow> if c = CHR ''+'' then cs else s | [] \<Rightarrow> [])
      in if ds = [] then None
         else case digits_val radix 0 ds of None \<Rightarrow> None | Some n \<Rightarrow> if n \<le> m then Some n else None)"

definition parse_signed :: "nat \<Rightarrow> string \<Rightarrow> int option" where
  "parse_signed bits s =
     (case s of
        [] \<Rightarrow> None
      | c # cs \<Rightarrow>
          if c = CHR ''-'' then
            (if cs = [] then None
             else case digits_val 10 0 cs of None \<Rightarrow> None
                  | Some n \<Rightarrow> if n \<le> 2 ^ (bits - 1) then Some (- int n) else None)
          else map_option int (parse_unsigned 10 (2 ^ (bits - 1) - 1) s))"

definition parse_u8_hex :: "string \<Rightarrow> u8 option" where
  "parse_u8_hex s = map_option word_of_nat (parse_unsigned 16 255 s)"

text \<open>\<open>Display\<close> of an unsigned and of a signed integer.\<close>

fun show_nat :: "nat \<Rightarrow> string" where
  "show_nat n = (if n < 10 then [char_of (48 + n)] else show_nat (n div 10) @ [char_of (48 + n mod 10)])"

declare show_nat.simps [simp del]

definition show_int :: "int \<Rightarrow> string" where
  "show_int i = (if i < 0 then CHR ''-'' # show_nat (nat (- i)) else show_nat (nat i))"

definition is_ascii_hexdigit :: "char \<Rightarrow> bool" where
  "is_ascii_hexdigit c \<longleftrightarrow> digit_val 16 c \<noteq> None"

section \<open>Master blinding keys in hex\<close>

definition parse_mbk :: "string \<Rightarrow> u8 list option" where
  "parse_mbk hex =
     (if length hex \<noteq> 64 then None
      else those (map (\<lambda>i. Option.bind (get_range hex (i * 2) (i * 2 + 2)) parse_u8_hex) [0..<32]))"

definition parse_mbk_hex :: "string \<Rightarrow> u8 list option" where
  "parse_mbk_hex s =
     (if length s \<noteq> 64 then None
      else those (map (\<lambda>i. case get_range s (i * 2) (i * 2 + 2) of
                              None \<Rightarrow> None | Some h \<Rightarrow> parse_u8_hex h) [0..<32]))"

definition hex_char :: "nat \<Rightarrow> char" where
  "hex_char n = ''0123456789abcdef'' ! (n mod 16)"

definition hex_encode_bytes :: "u8 list \<Rightarrow> string" where
  "hex_encode_bytes bytes = concat (map (\<lambda>b. [hex_char (unat b div 16), hex_char (unat b)]) bytes)"

text \<open>
  The migration's decoder has no error value: a byte it cannot parse or that lies past the
  end of the text stays zero, and an offset inside a character panics.
\<close>

definition hex_decode_bytes :: "string \<Rightarrow> ('e, u8 list) res" where
  "hex_decode_bytes s =
     map_res (\<lambda>i. let offset = i * 2 in
        if offset + 2 \<le> length s
        then bind_res (slice s offset (offset + 2))
               (\<lambda>h. Inr (case parse_u8_hex h of None \<Rightarrow> 0 | Some b \<Rightarrow> b))
        else Inr 0) [0..<32]"

section \<open>Fingerprints of a descriptor\<close>

definition extract_fingerprints_from_descriptor :: "string \<Rightarrow> string list" where
  "extract_fingerprints_from_descriptor descriptor =
     filter (\<lambda>fp. length fp = 8 \<and> list_all is_ascii_hexdigit fp)
       (map (\<lambda>chunk. hd (split_on (\<lambda>c. c = CHR ''/'') chunk))
         (drop 1 (split_on (\<lambda>c. c = CHR ''['') descriptor)))"

text \<open>\<open>Fingerprint::from_str\<close> belongs to the bitcoin crate and is an argument.\<close>

definition origin_fingerprints :: "(string \<Rightarrow> 'fp option) \<Rightarrow> string \<Rightarrow> 'fp list" where
  "origin_fingerprints from_str descriptor =
     List.map_filter (\<lambda>seg. let hex = hd (split_on (\<lambda>c. c = CHR ''/'' \<or> c = CHR '']'') seg) in
         if length hex = 8 \<and> list_all is_ascii_hexdigit hex then from_str hex else None)
       (drop 1 (split_on (\<lambda>c. c = CHR ''['') descriptor))"

section \<open>Display abbreviations\<close>

definition truncate_descriptor :: "string \<Rightarrow> nat \<Rightarrow> ('e, string) res" where
  "truncate_descriptor desc max_len =
     (if length desc \<le> max_len then Inr desc
      else let half = max_len div 2 in
        bind_res (slice desc 0 half) (\<lambda>a.
        bind_res (slice desc (length desc - half) (length desc)) (\<lambda>b.
        Inr (a @ ''...'' @ b))))"

definition ellipsis :: string where
  "ellipsis = map char_of [226, 128, 166 :: nat]"

definition abbreviate_address :: "string \<Rightarrow> nat \<Rightarrow> nat \<Rightarrow> ('e, string) res" where
  "abbreviate_address addr prefix_len suffix_len =
     (if length addr \<le> prefix_len + suffix_len + 3 then Inr addr
      else bind_res (slice addr 0 prefix_len) (\<lambda>a.
           bind_res (slice addr (length addr - suffix_len) (length addr)) (\<lambda>b.
           Inr (a @ ellipsis @ b))))"

definition truncate_address :: "string \<Rightarrow> ('e, string) res" where
  "truncate_address addr =
     (if 20 < length addr
      then bind_res (slice addr 0 10) (\<lambda>a.
           bind_res (slice addr (length addr - 4) (length addr)) (\<lambda>b.
           Inr (a @ ellipsis @ b)))
      else Inr addr)"

section \<open>Facts about the decoders\<close>

lemma all_below_16: "list_all P [0..<16] \<Longrightarrow> (n :: nat) < 16 \<Longrightarrow> P n"
  by (simp add: list_all_iff)

lemma digit_val_hex_char: "n < 16 \<Longrightarrow> digit_val 16 (hex_char n) = Some n"
  by (rule all_below_16 [of "\<lambda>n. digit_val 16 (hex_char n) = Some n"])
    (simp_all add: upt_rec digit_val_def hex_char_def byte_of_def)

lemma hex_char_mod: "hex_char n = hex_char (n mod 16)"
  by (simp add: hex_char_def)

lemma hex_char_not_plus: "hex_char n \<noteq> CHR ''+''"
  unfolding hex_char_mod [of n]
  by (rule all_below_16 [of "\<lambda>n. hex_char n \<noteq> CHR ''+''"]) (simp_all add: upt_rec hex_char_def)

lemma hex_char_ascii: "byte_of (hex_char n) < 128"
  unfolding hex_char_mod [of n]
  by (rule all_below_16 [of "\<lambda>n. byte_of (hex_char n) < 128"])
    (simp_all add: upt_rec hex_char_def byte_of_def)

lemma parse_u8_hex_encode: "parse_u8_hex [hex_char (unat b div 16), hex_char (unat b)] = Some (b :: u8)"
proof -
  have lt: "unat b < 256" using unsigned_less [of b] by simp
  then have "digit_val 16 (hex_char (unat b div 16)) = Some (unat b div 16)"
    by (intro digit_val_hex_char) simp
  moreover have "digit_val 16 (hex_char (unat b)) = Some (unat b mod 16)"
    using digit_val_hex_char [of "unat b mod 16"] by (simp add: hex_char_def)
  ultimately show ?thesis
    using lt hex_char_not_plus
    by (simp add: parse_u8_hex_def parse_unsigned_def)
qed

lemma length_hex_encode_bytes [simp]: "length (hex_encode_bytes bs) = 2 * length bs"
  by (induction bs) (auto simp: hex_encode_bytes_def)

lemma ascii_hex_encode_bytes: "ascii (hex_encode_bytes bs)"
  by (induction bs) (auto simp: hex_encode_bytes_def ascii_def hex_char_ascii)

lemma hex_encode_bytes_pair:
  "i < length bs \<Longrightarrow> take 2 (drop (i * 2) (hex_encode_bytes bs)) =
     [hex_char (unat (bs ! i) div 16), hex_char (unat (bs ! i))]"
proof (induction bs arbitrary: i)
  case (Cons b bs)
  then show ?case by (cases i) (auto simp: hex_encode_bytes_def)
qed simp

lemma get_range_hex_encode:
  "i < length bs \<Longrightarrow> get_range (hex_encode_bytes bs) (i * 2) (i * 2 + 2) =
     Some [hex_char (unat (bs ! i) div 16), hex_char (unat (bs ! i))]"
  using hex_encode_bytes_pair [of i bs]
  by (simp add: get_range_ascii ascii_hex_encode_bytes)

lemma those_map_Some: "(\<And>x. x \<in> set xs \<Longrightarrow> f x = Some (g x)) \<Longrightarrow> those (map f xs) = Some (map g xs)"
  by (induction xs) auto

lemma those_map_SomeD:
  "those (map f xs) = Some ys \<Longrightarrow> length ys = length xs \<and> (\<forall>i < length xs. f (xs ! i) = Some (ys ! i))"
proof (induction xs arbitrary: ys)
  case (Cons x xs)
  then obtain y zs where "f x = Some y" "those (map f xs) = Some zs" "ys = y # zs"
    by (auto split: option.splits)
  with Cons.IH [of zs] show ?case by (auto simp: nth_Cons split: nat.splits)
qed simp

lemma parse_mbk_hex_encode: "length key = 32 \<Longrightarrow> parse_mbk (hex_encode_bytes key) = Some key"
proof -
  assume len: "length key = 32"
  have "those (map (\<lambda>i. Option.bind (get_range (hex_encode_bytes key) (i * 2) (i * 2 + 2)) parse_u8_hex) [0..<32])
      = Some (map (\<lambda>i. key ! i) [0..<32])"
    using len by (intro those_map_Some) (simp add: get_range_hex_encode parse_u8_hex_encode del: add_2_eq_Suc')
  also have "map (\<lambda>i. key ! i) [0..<32] = key"
    using map_nth [of key] by (simp only: len)
  finally show ?thesis using len by (simp add: parse_mbk_def)
qed

lemma parse_mbk_eq: "parse_mbk_hex s = parse_mbk s"
proof -
  have "(case x of None \<Rightarrow> None | Some h \<Rightarrow> parse_u8_hex h) = Option.bind x parse_u8_hex" for x
    by (cases x) simp_all
  then show ?thesis by (simp only: parse_mbk_def parse_mbk_hex_def)
qed

lemma parse_mbk_length: "parse_mbk s = Some key \<Longrightarrow> length s = 64 \<and> length key = 32"
  by (auto simp: parse_mbk_def simp del: upt_rec_numeral split: if_splits dest: those_map_SomeD)

lemma hex_decode_of_parse:
  assumes "parse_mbk s = Some key"
  shows "hex_decode_bytes s = Inr key"
proof -
  have len: "length s = 64" "length key = 32"
    using parse_mbk_length [OF assms] by auto
  have byte: "Option.bind (get_range s (i * 2) (i * 2 + 2)) parse_u8_hex = Some (key ! i)" if "i < 32" for i
  proof -
    have "those (map (\<lambda>i. Option.bind (get_range s (i * 2) (i * 2 + 2)) parse_u8_hex) [0..<32]) = Some key"
      using assms len by (simp only: parse_mbk_def) simp
    from those_map_SomeD [OF this] that show ?thesis by (metis add_0 diff_zero length_upt nth_upt)
  qed
  have "hex_decode_bytes s = Inr (map (\<lambda>i. key ! i) [0..<32])"
    unfolding hex_decode_bytes_def
  proof (rule map_res_total)
    fix i :: nat
    assume "i \<in> set [0..<32]"
    then have i: "i < 32" by simp
    obtain h where "get_range s (i * 2) (i * 2 + 2) = Some h" "parse_u8_hex h = Some (key ! i)"
      using byte [OF i] by (auto simp: bind_eq_Some_conv)
    with i len show "(let offset = i * 2 in if offset + 2 \<le> length s
        then bind_res (slice s offset (offset + 2))
               (\<lambda>h. Inr (case parse_u8_hex h of None \<Rightarrow> 0 | Some b \<Rightarrow> b))
        else Inr 0) = Inr (key ! i)"
      by (simp add: slice_def Let_def)
  qed
  also have "map (\<lambda>i. key ! i) [0..<32] = key"
    using map_nth [of key] by (simp only: len)
  finally show ?thesis .
qed

lemma hex_decode_bytes_ascii:
  assumes "ascii s"
  shows "\<exists>key. hex_decode_bytes s = Inr key \<and> length key = 32"
proof -
  have "hex_decode_bytes s = Inr (map (\<lambda>i. if i * 2 + 2 \<le> length s
      then (case parse_u8_hex (take 2 (drop (i * 2) s)) of None \<Rightarrow> 0 | Some b \<Rightarrow> b) else 0) [0..<32])"
    unfolding hex_decode_bytes_def
    by (rule map_res_total) (simp add: slice_def Let_def get_range_ascii assms)
  then show ?thesis by (metis (no_types, lifting) diff_zero length_map length_upt)
qed

lemma slice_ascii:
  "ascii s \<Longrightarrow> a \<le> b \<Longrightarrow> b \<le> length s \<Longrightarrow> slice s a b = Inr (take (b - a) (drop a s))"
  by (simp add: slice_def get_range_ascii)

lemma digit_val_16_not_bracket:
  "is_ascii_hexdigit c \<Longrightarrow> c \<noteq> CHR ''['' \<and> c \<noteq> CHR ''/'' \<and> c \<noteq> CHR '']''"
  by (auto simp: is_ascii_hexdigit_def digit_val_def byte_of_def Let_def split: if_splits)

section \<open>Descriptors with key origins\<close>

text \<open>
  The shape of the descriptors the program stores: some text, then each key with its origin
  \<open>[fingerprint/path]key\<close>.
\<close>

definition key_origin :: "string \<times> string \<times> string \<Rightarrow> string" where
  "key_origin k = (case k of (fp, path, key) \<Rightarrow> ''['' @ fp @ ''/'' @ path @ '']'' @ key)"

definition no_bracket :: "string \<Rightarrow> bool" where
  "no_bracket s \<longleftrightarrow> list_all (\<lambda>c. c \<noteq> CHR ''['') s"

definition origin_ok :: "string \<times> string \<times> string \<Rightarrow> bool" where
  "origin_ok k = (case k of (fp, path, key) \<Rightarrow>
     length fp = 8 \<and> list_all is_ascii_hexdigit fp \<and> no_bracket path \<and> no_bracket key)"

definition origin_body :: "string \<times> string \<times> string \<Rightarrow> string" where
  "origin_body k = (case k of (fp, path, key) \<Rightarrow> fp @ ''/'' @ path @ '']'' @ key)"

lemma split_bracket_origins:
  "no_bracket s \<Longrightarrow> list_all origin_ok ks \<Longrightarrow>
     split_on (\<lambda>c. c = CHR ''['') (s @ concat (map key_origin ks)) = s # map origin_body ks"
proof (induction ks arbitrary: s)
  case Nil
  then show ?case by (simp add: split_on_no_sep no_bracket_def list_all_iff)
next
  case (Cons k ks)
  obtain fp path key where k: "k = (fp, path, key)" by (cases k)
  have body: "no_bracket (origin_body k)"
    using Cons.prems by (auto simp: k origin_body_def origin_ok_def no_bracket_def list_all_iff
        dest: digit_val_16_not_bracket)
  have "s @ concat (map key_origin (k # ks)) = s @ CHR ''['' # (origin_body k @ concat (map key_origin ks))"
    by (simp add: k key_origin_def origin_body_def)
  then show ?case
    using Cons.prems Cons.IH [OF body]
    by (simp add: split_on_append_no_sep no_bracket_def list_all_iff)
qed

lemma takeWhile_fp:
  assumes "list_all is_ascii_hexdigit fp" and "\<not> q (CHR ''/'')"
    and "\<And>c. c \<noteq> CHR ''/'' \<Longrightarrow> c \<noteq> CHR '']'' \<Longrightarrow> q c"
  shows "takeWhile q (fp @ CHR ''/'' # rest) = fp"
proof -
  have "q c" if "c \<in> set fp" for c
    using assms(1) that digit_val_16_not_bracket [of c] assms(3) [of c] by (simp add: list_all_iff)
  then have "takeWhile q (fp @ CHR ''/'' # rest) = fp @ takeWhile q (CHR ''/'' # rest)"
    by (rule takeWhile_append2)
  with assms(2) show ?thesis by simp
qed

lemma hd_split_body_slash:
  "origin_ok k \<Longrightarrow> hd (split_on (\<lambda>c. c = CHR ''/'') (origin_body k)) = fst k"
  by (cases k) (simp add: origin_body_def origin_ok_def hd_split_on takeWhile_fp)

lemma hd_split_body_either:
  "origin_ok k \<Longrightarrow> hd (split_on (\<lambda>c. c = CHR ''/'' \<or> c = CHR '']'') (origin_body k)) = fst k"
  by (cases k) (simp add: origin_body_def origin_ok_def hd_split_on takeWhile_fp)

lemma map_filter_id: "List.map_filter f xs = map g xs"
  if "\<And>x. x \<in> set xs \<Longrightarrow> f x = Some (g x)"
  using that by (induction xs) (auto simp: List.map_filter_def)

lemma extract_origins:
  "no_bracket s \<Longrightarrow> list_all origin_ok ks \<Longrightarrow>
     extract_fingerprints_from_descriptor (s @ concat (map key_origin ks)) = map fst ks"
proof -
  assume "no_bracket s" and ks: "list_all origin_ok ks"
  then have "map (\<lambda>chunk. hd (split_on (\<lambda>c. c = CHR ''/'') chunk))
      (drop 1 (split_on (\<lambda>c. c = CHR ''['') (s @ concat (map key_origin ks)))) = map fst ks"
    by (simp add: split_bracket_origins list_all_iff hd_split_body_slash)
  moreover have "filter (\<lambda>fp. length fp = 8 \<and> list_all is_ascii_hexdigit fp) (map fst ks) = map fst ks"
    using ks by (auto simp: filter_id_conv list_all_iff origin_ok_def)
  ultimately show ?thesis by (simp only: extract_fingerprints_from_descriptor_def)
qed

lemma origin_fingerprints_origins:
  assumes "no_bracket s" and "list_all origin_ok ks" and "\<And>k. k \<in> set ks \<Longrightarrow> from_str (fst k) = Some (g k)"
  shows "origin_fingerprints from_str (s @ concat (map key_origin ks)) = map g ks"
proof -
  let ?F = "\<lambda>seg. let hex = hd (split_on (\<lambda>c. c = CHR ''/'' \<or> c = CHR '']'') seg) in
         if length hex = 8 \<and> list_all is_ascii_hexdigit hex then from_str hex else None"
  have "origin_fingerprints from_str (s @ concat (map key_origin ks)) = List.map_filter ?F (map origin_body ks)"
    unfolding origin_fingerprints_def split_bracket_origins [OF assms(1,2)] by simp
  also have "\<dots> = List.map_filter (\<lambda>k. ?F (origin_body k)) ks"
    by (simp add: map_filter_def filter_map comp_def)
  also have "\<dots> = map g ks"
  proof (rule map_filter_id)
    fix k assume k: "k \<in> set ks"
    then have "origin_ok k" using assms(2) by (simp add: list_all_iff)
    then show "?F (origin_body k) = Some (g k)"
      using assms(3) [OF k] by (cases k) (simp add: hd_split_body_either origin_ok_def)
  qed
  finally show ?thesis .
qed

section \<open>Properties\<close>

text \<open>The lower-case hex a blinding key is stored as is read back as that key by both strict
  decoders and by the migration's lenient one, which agrees with them on everything they accept.\<close>

theorem blinding_key_hex_roundtrip:
  "(length key = 32 \<longrightarrow> parse_mbk (hex_encode_bytes key) = Some key
      \<and> hex_decode_bytes (hex_encode_bytes key) = Inr key)
   \<and> parse_mbk_hex s = parse_mbk s
   \<and> (\<forall>k. parse_mbk s = Some k \<longrightarrow> length s = 64 \<and> length k = 32 \<and> hex_decode_bytes s = Inr k)"
  by (auto simp: parse_mbk_hex_encode parse_mbk_eq hex_decode_of_parse dest: parse_mbk_length)

theorem blinding_key_hex_roundtrip_witness:
  "parse_mbk (hex_encode_bytes (replicate 32 7)) = Some (replicate 32 7)
   \<and> hex_decode_bytes (hex_encode_bytes (replicate 32 7)) = Inr (replicate 32 7)"
  by (rule blinding_key_hex_roundtrip [of "replicate 32 7" "[]", THEN conjunct1, THEN mp]) simp

text \<open>From a descriptor whose keys carry their origins both extractors return the fingerprints
  of the keys, all of them, in the order of the keys.\<close>

theorem descriptor_fingerprints_in_order:
  assumes "no_bracket s" and "list_all origin_ok ks" and "\<And>k. k \<in> set ks \<Longrightarrow> from_str (fst k) = Some (g k)"
  shows "extract_fingerprints_from_descriptor (s @ concat (map key_origin ks)) = map fst ks
    \<and> origin_fingerprints from_str (s @ concat (map key_origin ks)) = map g ks"
  using extract_origins [OF assms(1,2)]
    origin_fingerprints_origins [where from_str = from_str and g = g, OF assms] by blast

lemma no_bracket_simps [simp]:
  "no_bracket []" "no_bracket (c # s) \<longleftrightarrow> c \<noteq> CHR ''['' \<and> no_bracket s"
  by (simp_all add: no_bracket_def)

lemma hexdigit_ab: "is_ascii_hexdigit (CHR ''a'')" "is_ascii_hexdigit (CHR ''b'')"
  by (simp_all add: is_ascii_hexdigit_def digit_val_def byte_of_def)

theorem descriptor_fingerprints_in_order_witness:
  "extract_fingerprints_from_descriptor (''wsh('' @ concat (map key_origin
     [(''aaaaaaaa'', ''48h'', ''xpub1,''), (''bbbbbbbb'', ''48h'', ''xpub2)'')])) = [''aaaaaaaa'', ''bbbbbbbb'']"
proof -
  have s: "no_bracket ''wsh(''" by simp
  have ks: "list_all origin_ok [(''aaaaaaaa'', ''48h'', ''xpub1,''), (''bbbbbbbb'', ''48h'', ''xpub2)'')]"
    by (simp add: origin_ok_def hexdigit_ab)
  show ?thesis
    using descriptor_fingerprints_in_order [OF s ks, of Some fst] by simp
qed

end
