(* ===== verification/Config.thy ===== *)
theory Config
  imports RustText
begin

text \<open>
  The process configuration, \<open>src/config.rs\<close>. The accessors of \<open>emvault::config\<close>
  (\<open>optional\<close>, \<open>require\<close>, \<open>hex_decode\<close>), the parsers of network names and IP addresses and the
  child-number constructor of the bitcoin crate are arguments; \<open>from_env\<close> is composed of one
  definition per group of variables, in the order they are read. The reason text of a parse
  error is for display and is left out.
\<close>

section \<open>Types\<close>

datatype config_error = ParseError string | Missing string

datatype hsm_vendor = Dev | Securosys

record hsm_token_config =
  hsm_label :: string
  hsm_pin :: string
  hsm_so_pin :: string
  hsm_vendor :: hsm_vendor
  hsm_library_path :: "string option"
  hsm_seed :: "u8 list option"

datatype chain_backend = Rpc | Esplora | Waterfalls | Electrum

datatype elements_chain_backend = ElementsRpc | ElementsElectrum | ElementsEsplora | ElementsWaterfalls

datatype token_provider = Blockstream string string string

text \<open>\<open>optional\<close>, \<open>require\<close> and \<open>hex_decode\<close> of \<open>emvault::config\<close>, and the two parsers.\<close>

record 'ip env_api =
  env_optional :: "string \<Rightarrow> string option"
  env_require :: "string \<Rightarrow> config_error + string"
  env_hex_decode :: "string \<Rightarrow> u8 list option"
  env_network :: "string \<Rightarrow> network option"
  env_ip :: "string \<Rightarrow> 'ip option"

definition optional :: "'ip env_api \<Rightarrow> string \<Rightarrow> string option" where
  "optional env var = env_optional env var"

definition require :: "'ip env_api \<Rightarrow> string \<Rightarrow> (config_error, string) res" where
  "require env var = of_sum id (env_require env var)"

text \<open>\<open>require(var)?.parse()\<close> and the blank test the URL checks share.\<close>

definition parse_var :: "string \<Rightarrow> nat \<Rightarrow> string \<Rightarrow> (config_error, nat) res" where
  "parse_var var m s = of_option (ParseError var) (parse_unsigned 10 m s)"

definition blank :: "string option \<Rightarrow> bool" where
  "blank s \<longleftrightarrow> trim (case s of None \<Rightarrow> [] | Some t \<Rightarrow> t) = []"

section \<open>The Esplora token\<close>

definition nonempty_var :: "string \<Rightarrow> string option" where
  "nonempty_var s = (if trim s = [] then None else Some s)"

definition blockstream_token_url :: string where
  "blockstream_token_url = ''https://login.blockstream.com/realms/blockstream-public/protocol/openid-connect/token''"

definition elements_esplora_token_from_env :: "'ip env_api \<Rightarrow> token_provider option" where
  "elements_esplora_token_from_env env =
     Option.bind (Option.bind (optional env ''ESPLORA_CLIENT_ID'') nonempty_var) (\<lambda>client_id.
     Option.bind (Option.bind (optional env ''ESPLORA_CLIENT_SECRET'') nonempty_var) (\<lambda>client_secret.
     Some (Blockstream
       (case Option.bind (optional env ''ESPLORA_TOKEN_URL'') nonempty_var of
          None \<Rightarrow> blockstream_token_url | Some url \<Rightarrow> url) client_id client_secret)))"

section \<open>Backends\<close>

definition chain_backend_from_str :: "string \<Rightarrow> (config_error, chain_backend) res" where
  "chain_backend_from_str s = (let t = to_ascii_lowercase (trim s) in
     if t = ''rpc'' then Inr Rpc else if t = ''esplora'' then Inr Esplora
     else if t = ''waterfalls'' then Inr Waterfalls else if t = ''electrum'' then Inr Electrum
     else throw_res (ParseError ''APP_CHAIN_BACKEND''))"

definition elements_chain_backend_from_str :: "string \<Rightarrow> (config_error, elements_chain_backend) res" where
  "elements_chain_backend_from_str s = (let t = to_ascii_lowercase (trim s) in
     if t = ''rpc'' then Inr ElementsRpc else if t = ''electrum'' then Inr ElementsElectrum
     else if t = ''esplora'' then Inr ElementsEsplora else if t = ''waterfalls'' then Inr ElementsWaterfalls
     else throw_res (ParseError ''ELEMENTS_CHAIN_BACKEND''))"

section \<open>The configuration\<close>

record 'ip app_config =
  bind_ip :: 'ip
  bind_port :: nat
  session_secret :: "u8 list"
  database_url :: string
  network :: network
  bip48_coin_index :: u32
  bitcoin_rpc_url :: string
  bitcoin_rpc_user :: string
  bitcoin_rpc_password :: string
  bitcoin_wallet_name :: string
  chain_backend :: chain_backend
  esplora_url :: "string option"
  electrum_url :: "string option"
  pkcs11_library_path :: string
  hsm_tokens :: "hsm_token_config list"
  fed_threshold :: u32
  fed_signer_indices :: "nat list"
  fed_script_type :: script_type
  elements_rpc_url :: string
  elements_rpc_user :: string
  elements_rpc_password :: string
  elements_network :: elements_network
  elements_chain_backend :: elements_chain_backend
  elements_electrum_url :: "string option"
  elements_esplora_url :: "string option"
  elements_esplora_auth :: "token_provider option"

definition u16_max :: nat where "u16_max = 2 ^ 16 - 1"
definition u32_max :: nat where "u32_max = 2 ^ 32 - 1"
definition usize_max :: nat where "usize_max = 2 ^ 64 - 1"

definition read_bind :: "'ip env_api \<Rightarrow> (config_error, 'ip \<times> nat) res" where
  "read_bind env =
     bind_res (require env ''APP_HOST'') (\<lambda>host.
     bind_res (require env ''APP_PORT'') (\<lambda>port_str.
     bind_res (parse_var ''APP_PORT'' u16_max port_str) (\<lambda>port.
     bind_res (of_option (ParseError ''APP_HOST'') (env_ip env host)) (\<lambda>ip.
     Inr (ip, port)))))"

definition read_session_secret :: "'ip env_api \<Rightarrow> (config_error, u8 list) res" where
  "read_session_secret env =
     bind_res (require env ''APP_SESSION_SECRET'') (\<lambda>secret_hex.
     bind_res (of_option (ParseError ''APP_SESSION_SECRET'') (env_hex_decode env secret_hex)) (\<lambda>secret.
     if length secret < 64 then throw_res (ParseError ''APP_SESSION_SECRET'') else Inr secret))"

definition default_bip48_coin_index :: "network \<Rightarrow> u32" where
  "default_bip48_coin_index n = (if n \<noteq> Bitcoin then 1 else 0)"

definition read_network :: "'ip env_api \<Rightarrow> (config_error, network \<times> u32) res" where
  "read_network env =
     bind_res (require env ''BITCOIN_NETWORK'') (\<lambda>s.
     bind_res (of_option (ParseError ''BITCOIN_NETWORK'') (env_network env s)) (\<lambda>net.
     bind_res (case optional env ''APP_BIP48_COIN_INDEX'' of
         Some t \<Rightarrow> bind_res (parse_var ''APP_BIP48_COIN_INDEX'' u32_max t) (\<lambda>n. Inr (word_of_nat n))
       | None \<Rightarrow> Inr (default_bip48_coin_index net)) (\<lambda>coin.
     Inr (net, coin))))"

definition read_chain :: "'ip env_api \<Rightarrow> (config_error, chain_backend \<times> string option \<times> string option) res" where
  "read_chain env =
     bind_res (case optional env ''APP_CHAIN_BACKEND'' of
         Some s \<Rightarrow> chain_backend_from_str s | None \<Rightarrow> Inr Rpc) (\<lambda>backend.
     let esplora = optional env ''APP_ESPLORA_URL'' in
     if backend \<in> {Esplora, Waterfalls} \<and> blank esplora then throw_res (Missing ''APP_ESPLORA_URL'')
     else let electrum = optional env ''APP_ELECTRUM_URL'' in
     if backend = Electrum \<and> blank electrum then throw_res (Missing ''APP_ELECTRUM_URL'')
     else Inr (backend, esplora, electrum))"

definition rpc_url :: "string \<Rightarrow> nat \<Rightarrow> string" where
  "rpc_url host port = ''http://'' @ host @ '':'' @ show_nat port"

definition read_bitcoin_rpc :: "'ip env_api \<Rightarrow> chain_backend \<Rightarrow> (config_error, string \<times> string \<times> string) res" where
  "read_bitcoin_rpc env backend =
     (if backend = Rpc then
        bind_res (require env ''BITCOIN_RPC_HOST'') (\<lambda>host.
        bind_res (require env ''BITCOIN_RPC_PORT'') (\<lambda>port_str.
        bind_res (parse_var ''BITCOIN_RPC_PORT'' u16_max port_str) (\<lambda>port.
        bind_res (require env ''BITCOIN_RPC_USER'') (\<lambda>user.
        bind_res (require env ''BITCOIN_RPC_PASSWORD'') (\<lambda>password.
        Inr (rpc_url host port, user, password))))))
      else Inr ([], [], []))"

section \<open>HSM tokens\<close>

definition token_var :: "nat \<Rightarrow> string \<Rightarrow> string" where
  "token_var idx suffix = ''APP_HSM_'' @ show_nat idx @ suffix"

definition read_vendor :: "'ip env_api \<Rightarrow> nat \<Rightarrow> (config_error, hsm_vendor) res" where
  "read_vendor env idx = (case optional env (token_var idx ''_VENDOR'') of
       None \<Rightarrow> Inr Dev
     | Some v \<Rightarrow> if v = ''dev'' then Inr Dev else if v = ''securosys'' then Inr Securosys
                 else throw_res (ParseError (token_var idx ''_VENDOR'')))"

definition read_token :: "'ip env_api \<Rightarrow> nat \<Rightarrow> string \<Rightarrow> (config_error, hsm_token_config) res" where
  "read_token env idx label =
     bind_res (read_vendor env idx) (\<lambda>vendor.
     bind_res (case vendor of
         Dev \<Rightarrow> require env (token_var idx ''_SO_PIN'')
       | Securosys \<Rightarrow> Inr (case optional env (token_var idx ''_SO_PIN'') of None \<Rightarrow> [] | Some p \<Rightarrow> p)) (\<lambda>so_pin.
     bind_res (case optional env (token_var idx ''_SEED'') of
         Some hex \<Rightarrow> bind_res (of_option (ParseError (token_var idx ''_SEED'')) (env_hex_decode env hex))
                       (\<lambda>seed. Inr (Some seed))
       | None \<Rightarrow> if vendor = Securosys then throw_res (Missing (token_var idx ''_SEED'')) else Inr None) (\<lambda>seed.
     bind_res (require env (token_var idx ''_PIN'')) (\<lambda>pin.
     Inr \<lparr>hsm_label = label, hsm_pin = pin, hsm_so_pin = so_pin, hsm_vendor = vendor,
          hsm_library_path = optional env (token_var idx ''_LIB''), hsm_seed = seed\<rparr>))))"

text \<open>
  \<open>for idx in 1u32..\<close> stops at the first missing label; the counter overflows, which panics, before
  the last \<open>u32\<close> is reached.
\<close>

function discover_from :: "'ip env_api \<Rightarrow> nat \<Rightarrow> (config_error, hsm_token_config list) res" where
  "discover_from env idx =
     (if u32_max \<le> idx then Inl Panic
      else case optional env (token_var idx ''_LABEL'') of
        None \<Rightarrow> Inr []
      | Some label \<Rightarrow>
          bind_res (read_token env idx label) (\<lambda>token.
          bind_res (discover_from env (Suc idx)) (\<lambda>tokens. Inr (token # tokens))))"
  by auto
termination by (relation "measure (\<lambda>(env, idx). u32_max - idx)") auto

declare discover_from.simps [simp del]

definition discover_hsm_tokens :: "'ip env_api \<Rightarrow> (config_error, hsm_token_config list) res" where
  "discover_hsm_tokens env = discover_from env 1"

definition read_tokens :: "'ip env_api \<Rightarrow> (config_error, string \<times> hsm_token_config list) res" where
  "read_tokens env =
     bind_res (require env ''PKCS11_LIB'') (\<lambda>lib.
     bind_res (discover_hsm_tokens env) (\<lambda>tokens.
     if tokens = [] then throw_res (Missing ''APP_HSM_1_LABEL'') else Inr (lib, tokens)))"

section \<open>The federation\<close>

definition u32_of_len :: "nat \<Rightarrow> u32" where
  "u32_of_len n = (if n \<le> u32_max then word_of_nat n else - 1)"

definition read_threshold :: "'ip env_api \<Rightarrow> nat \<Rightarrow> (config_error, u32) res" where
  "read_threshold env token_count = (case optional env ''APP_FED_THRESHOLD'' of
       Some s \<Rightarrow> bind_res (parse_var ''APP_FED_THRESHOLD'' u32_max s) (\<lambda>n. Inr (word_of_nat n))
     | None \<Rightarrow> Inr (u32_of_len token_count))"

definition read_script_type :: "'ip env_api \<Rightarrow> (config_error, script_type) res" where
  "read_script_type env = (case optional env ''APP_SCRIPT_TYPE'' of
       Some s \<Rightarrow> (let t = to_ascii_lowercase (trim s) in
         if t \<in> {''taproot'', ''tr'', ''p2tr''} then Inr Tr
         else if t \<in> {''segwit'', ''wsh'', ''p2wsh''} then Inr Wsh
         else throw_res (ParseError ''APP_SCRIPT_TYPE''))
     | None \<Rightarrow> Inr Wsh)"

definition read_signer_index :: "nat \<Rightarrow> string \<Rightarrow> (config_error, nat) res" where
  "read_signer_index token_count part =
     bind_res (parse_var ''APP_FED_SIGNERS'' usize_max (trim part)) (\<lambda>idx.
     if idx = 0 \<or> idx > token_count then throw_res (ParseError ''APP_FED_SIGNERS'') else Inr (idx - 1))"

definition read_signers :: "'ip env_api \<Rightarrow> nat \<Rightarrow> (config_error, nat list) res" where
  "read_signers env token_count = (case optional env ''APP_FED_SIGNERS'' of
       Some s \<Rightarrow>
         bind_res (map_res (read_signer_index token_count) (split_on (\<lambda>c. c = CHR '','') s)) (\<lambda>indices.
         if indices = [] then throw_res (ParseError ''APP_FED_SIGNERS'') else Inr indices)
     | None \<Rightarrow> Inr [0..<token_count])"

definition check_threshold :: "u32 \<Rightarrow> nat \<Rightarrow> (config_error, unit) res" where
  "check_threshold threshold signer_count =
     (if threshold < 1 \<or> threshold > u32_of_len signer_count
      then throw_res (ParseError ''APP_FED_THRESHOLD'') else Inr ())"

section \<open>Elements\<close>

definition read_elements_network :: "'ip env_api \<Rightarrow> (config_error, elements_network) res" where
  "read_elements_network env =
     bind_res (require env ''ELEMENTS_NETWORK'') (\<lambda>s.
     if s = ''liquid'' then Inr Liquid else if s = ''liquidtestnet'' then Inr LiquidTestnet
     else if s = ''elementsregtest'' then Inr ElementsRegtest
     else throw_res (ParseError ''ELEMENTS_NETWORK''))"

definition read_elements_chain :: "'ip env_api \<Rightarrow>
    (config_error, elements_chain_backend \<times> string option \<times> string option) res" where
  "read_elements_chain env =
     bind_res (case optional env ''ELEMENTS_CHAIN_BACKEND'' of
         Some s \<Rightarrow> elements_chain_backend_from_str s | None \<Rightarrow> Inr ElementsRpc) (\<lambda>backend.
     let electrum = optional env ''ELEMENTS_ELECTRUM_URL'' in
     if backend = ElementsElectrum \<and> blank electrum then throw_res (Missing ''ELEMENTS_ELECTRUM_URL'')
     else let esplora = optional env ''ELEMENTS_ESPLORA_URL'' in
     if backend \<in> {ElementsEsplora, ElementsWaterfalls} \<and> blank esplora
     then throw_res (Missing ''ELEMENTS_ESPLORA_URL'')
     else Inr (backend, electrum, esplora))"

definition read_elements_rpc :: "'ip env_api \<Rightarrow> elements_chain_backend \<Rightarrow> elements_network \<Rightarrow>
    (config_error, string \<times> string \<times> string) res" where
  "read_elements_rpc env backend net =
     (if backend = ElementsRpc \<or> net = ElementsRegtest then
        bind_res (require env ''ELEMENTS_RPC_HOST'') (\<lambda>host.
        bind_res (require env ''ELEMENTS_RPC_PORT'') (\<lambda>port_str.
        bind_res (parse_var ''ELEMENTS_RPC_PORT'' u16_max port_str) (\<lambda>port.
        bind_res (require env ''ELEMENTS_RPC_USER'') (\<lambda>user.
        bind_res (require env ''ELEMENTS_RPC_PASSWORD'') (\<lambda>password.
        Inr (rpc_url host port, user, password))))))
      else Inr ([], [], []))"

definition from_env :: "'ip env_api \<Rightarrow> (config_error, 'ip app_config) res" where
  "from_env env =
     bind_res (read_bind env) (\<lambda>(ip, port).
     bind_res (read_session_secret env) (\<lambda>secret.
     bind_res (require env ''DATABASE_URL'') (\<lambda>db_url.
     bind_res (read_network env) (\<lambda>(net, coin).
     let wallet_name = (case optional env ''BITCOIN_WALLET_NAME'' of None \<Rightarrow> ''emvault-pkcs11'' | Some s \<Rightarrow> s) in
     bind_res (read_chain env) (\<lambda>(backend, esplora, electrum).
     bind_res (read_bitcoin_rpc env backend) (\<lambda>(rpc, rpc_user, rpc_password).
     bind_res (read_tokens env) (\<lambda>(lib, tokens).
     bind_res (read_threshold env (length tokens)) (\<lambda>threshold.
     bind_res (read_script_type env) (\<lambda>script.
     bind_res (read_signers env (length tokens)) (\<lambda>signers.
     bind_res (check_threshold threshold (length signers)) (\<lambda>_.
     bind_res (read_elements_network env) (\<lambda>enet.
     bind_res (read_elements_chain env) (\<lambda>(ebackend, eelectrum, eesplora).
     bind_res (read_elements_rpc env ebackend enet) (\<lambda>(erpc, euser, epassword).
     Inr \<lparr>bind_ip = ip, bind_port = port, session_secret = secret, database_url = db_url, network = net,
       bip48_coin_index = coin, bitcoin_rpc_url = rpc, bitcoin_rpc_user = rpc_user,
       bitcoin_rpc_password = rpc_password, bitcoin_wallet_name = wallet_name, chain_backend = backend,
       esplora_url = esplora, electrum_url = electrum, pkcs11_library_path = lib, hsm_tokens = tokens,
       fed_threshold = threshold, fed_signer_indices = signers, fed_script_type = script,
       elements_rpc_url = erpc, elements_rpc_user = euser, elements_rpc_password = epassword,
       elements_network = enet, elements_chain_backend = ebackend, elements_electrum_url = eelectrum,
       elements_esplora_url = eesplora, elements_esplora_auth = elements_esplora_token_from_env env\<rparr>))))))))))))))"

section \<open>Derivation paths\<close>

text \<open>\<open>ChildNumber::from_hardened_idx\<close> belongs to the bitcoin crate.\<close>

definition hardened :: "(u32 \<Rightarrow> string + 'child) \<Rightarrow> u32 \<Rightarrow> string \<Rightarrow> (config_error, 'child) res" where
  "hardened from_hardened_idx index label = of_sum (\<lambda>_. ParseError label) (from_hardened_idx index)"

definition config_derivation_path_for :: "(u32 \<Rightarrow> string + 'child) \<Rightarrow> 'ip app_config \<Rightarrow> u32 \<Rightarrow> (config_error, 'child list) res" where
  "config_derivation_path_for from_hardened_idx cfg account_idx =
     bind_res (hardened from_hardened_idx 48 ''BIP-48 purpose'') (\<lambda>a.
     bind_res (hardened from_hardened_idx (bip48_coin_index cfg) ''APP_BIP48_COIN_INDEX'') (\<lambda>b.
     bind_res (hardened from_hardened_idx account_idx ''account_idx'') (\<lambda>c.
     bind_res (hardened from_hardened_idx 2 ''BIP-48 script-type'') (\<lambda>d.
     Inr [a, b, c, d]))))"

section \<open>What a configuration guarantees\<close>

text \<open>A token as the discovery accepts it.\<close>

definition token_ok :: "hsm_token_config \<Rightarrow> bool" where
  "token_ok t \<longleftrightarrow> (hsm_vendor t = Securosys \<longrightarrow> hsm_seed t \<noteq> None)"

lemma not_dev: "v \<noteq> Dev \<longleftrightarrow> v = Securosys"
  by (cases v) simp_all

lemma read_token_ok: "read_token env idx label = Inr t \<Longrightarrow> token_ok t \<and> hsm_label t = label"
  by (auto simp: read_token_def bind_res_Inr_iff token_ok_def throw_res_def not_dev split: option.splits if_splits)

lemma discover_from_Inr:
  "discover_from env idx = Inr ts \<Longrightarrow>
     optional env (token_var (idx + length ts) ''_LABEL'') = None \<and> idx + length ts < u32_max
     \<and> (\<forall>i < length ts. optional env (token_var (idx + i) ''_LABEL'') = Some (hsm_label (ts ! i))
          \<and> read_token env (idx + i) (hsm_label (ts ! i)) = Inr (ts ! i))"
proof (induction env idx arbitrary: ts rule: discover_from.induct)
  case (1 env idx)
  have lt: "\<not> u32_max \<le> idx"
    using 1(2) by (subst (asm) discover_from.simps) (auto split: if_splits)
  show ?case
  proof (cases "optional env (token_var idx ''_LABEL'')")
    case None
    with 1(2) lt have "ts = []"
      by (subst (asm) discover_from.simps) simp
    with None lt show ?thesis by simp
  next
    case (Some label)
    with 1(2) lt obtain t us where t: "read_token env idx label = Inr t"
      and us: "discover_from env (Suc idx) = Inr us" "ts = t # us"
      by (subst (asm) discover_from.simps) (auto simp: bind_res_Inr_iff)
    have lab: "hsm_label t = label" using read_token_ok [OF t] by simp
    from 1(1) [OF lt Some us(1)] lab t Some show ?thesis
      by (auto simp: us(2) nth_Cons split: nat.splits)
  qed
qed

definition signers_in_range :: "nat \<Rightarrow> nat list \<Rightarrow> bool" where
  "signers_in_range n is \<longleftrightarrow> is \<noteq> [] \<and> list_all (\<lambda>i. i < n) is"

lemma read_signers_in_range:
  assumes "read_signers env n = Inr is" and "0 < n"
  shows "signers_in_range n is"
proof (cases "optional env ''APP_FED_SIGNERS''")
  case None
  with assms show ?thesis by (auto simp: read_signers_def signers_in_range_def list_all_iff)
next
  case (Some s)
  with assms(1) have "list_all2 (\<lambda>part i. read_signer_index n part = Inr i) (split_on (\<lambda>c. c = CHR '','') s) is" "is \<noteq> []"
    by (auto simp: read_signers_def bind_res_Inr_iff map_res_Inr_iff throw_res_def split: if_splits)
  moreover have "list_all (\<lambda>i. i < n) is" using calculation(1)
    by (induction rule: list_all2_induct)
      (auto simp: read_signer_index_def bind_res_Inr_iff throw_res_def split: if_splits)
  ultimately show ?thesis by (simp add: signers_in_range_def)
qed

lemma u32_of_len_le: "unat (u32_of_len n) \<le> n"
  by (auto simp: u32_of_len_def u32_max_def unat_of_nat unat_max_word_val)

lemma check_threshold_bounds:
  "check_threshold t n = Inr () \<Longrightarrow> 1 \<le> unat t \<and> unat t \<le> n"
proof -
  assume "check_threshold t n = Inr ()"
  then have "\<not> t < 1" "\<not> t > u32_of_len n"
    by (auto simp: check_threshold_def throw_res_def split: if_splits)
  then have "unat t \<le> unat (u32_of_len n)" "0 < unat t"
    by (simp_all add: not_less word_le_nat_alt unat_gt_0)
  with u32_of_len_le [of n] show ?thesis by simp
qed

definition chain_urls_ok :: "'ip app_config \<Rightarrow> bool" where
  "chain_urls_ok cfg \<longleftrightarrow>
     (chain_backend cfg \<in> {Esplora, Waterfalls} \<longrightarrow> \<not> blank (esplora_url cfg))
     \<and> (chain_backend cfg = Electrum \<longrightarrow> \<not> blank (electrum_url cfg))
     \<and> (elements_chain_backend cfg \<in> {ElementsEsplora, ElementsWaterfalls} \<longrightarrow> \<not> blank (elements_esplora_url cfg))
     \<and> (elements_chain_backend cfg = ElementsElectrum \<longrightarrow> \<not> blank (elements_electrum_url cfg))"

definition federation_ok :: "'ip app_config \<Rightarrow> bool" where
  "federation_ok cfg \<longleftrightarrow> hsm_tokens cfg \<noteq> [] \<and> list_all token_ok (hsm_tokens cfg)
     \<and> signers_in_range (length (hsm_tokens cfg)) (fed_signer_indices cfg)
     \<and> 1 \<le> unat (fed_threshold cfg) \<and> unat (fed_threshold cfg) \<le> length (fed_signer_indices cfg)"

lemma from_env_federation_ok:
  assumes "from_env env = Inr cfg"
  shows "federation_ok cfg"
proof -
  obtain lib tokens where t: "read_tokens env = Inr (lib, tokens)" "hsm_tokens cfg = tokens"
    and s: "read_signers env (length tokens) = Inr (fed_signer_indices cfg)"
    and c: "check_threshold (fed_threshold cfg) (length (fed_signer_indices cfg)) = Inr ()"
    using assms by (auto simp: from_env_def bind_res_Inr_iff Let_def split: prod.splits)
  from t have ne: "tokens \<noteq> []" and d: "discover_from env 1 = Inr tokens"
    by (auto simp: read_tokens_def bind_res_Inr_iff discover_hsm_tokens_def throw_res_def split: if_splits)
  have "list_all token_ok tokens"
    using discover_from_Inr [OF d] by (auto simp: list_all_length dest: read_token_ok)
  with ne t(2) s c show ?thesis
    by (simp add: federation_ok_def read_signers_in_range check_threshold_bounds [simplified])
qed

lemma from_env_urls:
  assumes "from_env env = Inr cfg"
  shows "chain_urls_ok cfg \<and> 64 \<le> length (session_secret cfg)"
proof -
  obtain e l where "read_chain env = Inr (chain_backend cfg, e, l)" "esplora_url cfg = e" "electrum_url cfg = l"
    using assms by (auto simp: from_env_def bind_res_Inr_iff Let_def split: prod.splits)
  moreover obtain e l where "read_elements_chain env = Inr (elements_chain_backend cfg, l, e)"
    "elements_esplora_url cfg = e" "elements_electrum_url cfg = l"
    using assms by (auto simp: from_env_def bind_res_Inr_iff Let_def split: prod.splits)
  moreover have "read_session_secret env = Inr (session_secret cfg)"
    using assms by (auto simp: from_env_def bind_res_Inr_iff Let_def split: prod.splits)
  ultimately show ?thesis
    by (auto simp: chain_urls_ok_def read_chain_def read_elements_chain_def read_session_secret_def
        bind_res_Inr_iff throw_res_def Let_def split: if_splits)
qed

text \<open>C20. A configuration that loads is usable: there is at least one token, every Securosys token
  has a seed, the federation names existing tokens, its threshold lies between 1 and the number of
  signers, every nodeless backend chosen has a URL, and the session secret has at least 64 bytes.\<close>

theorem loaded_configuration_is_usable:
  assumes "from_env env = Inr cfg"
  shows "federation_ok cfg \<and> chain_urls_ok cfg \<and> 64 \<le> length (session_secret cfg)"
  using from_env_federation_ok [OF assms] from_env_urls [OF assms] by blast

definition sample_vars :: "(string \<times> string) list" where
  "sample_vars = [(''APP_HOST'', ''::1''), (''APP_PORT'', ''8080''), (''APP_SESSION_SECRET'', ''s''),
     (''DATABASE_URL'', ''db''), (''BITCOIN_NETWORK'', ''regtest''), (''APP_CHAIN_BACKEND'', ''electrum ''),
     (''APP_ELECTRUM_URL'', ''tcp''), (''PKCS11_LIB'', ''lib''),
     (''APP_HSM_1_LABEL'', ''a''), (''APP_HSM_1_PIN'', ''1''), (''APP_HSM_1_SO_PIN'', ''2''),
     (''APP_HSM_2_LABEL'', ''b''), (''APP_HSM_2_PIN'', ''1''), (''APP_HSM_2_VENDOR'', ''securosys''),
     (''APP_HSM_2_SEED'', ''00''), (''APP_FED_THRESHOLD'', ''1''), (''APP_FED_SIGNERS'', ''2, 1''),
     (''ELEMENTS_NETWORK'', ''liquid''), (''ELEMENTS_CHAIN_BACKEND'', ''esplora''), (''ELEMENTS_ESPLORA_URL'', ''u'')]"

definition sample_env :: "string env_api" where
  "sample_env = \<lparr>env_optional = map_of sample_vars,
     env_require = (\<lambda>v. case map_of sample_vars v of None \<Rightarrow> Inl (Missing v) | Some s \<Rightarrow> Inr s),
     env_hex_decode = (\<lambda>s. Some (replicate 64 0)), env_network = (\<lambda>s. Some Regtest), env_ip = Some\<rparr>"

lemma show_nat_digit: "n < 10 \<Longrightarrow> show_nat n = [char_of (48 + n)]"
  by (subst show_nat.simps) simp

lemma show_small:
  "show_nat 0 = ''0''" "show_nat (Suc 0) = ''1''" "show_nat (Suc (Suc 0)) = ''2''"
  "show_nat (Suc (Suc (Suc 0))) = ''3''"
  by (simp_all add: show_nat_digit char_of_def bit_0)

lemmas sample_lookup = sample_env_def sample_vars_def require_def optional_def

lemmas sample_parse = parse_var_def parse_unsigned_def digit_val_def byte_of_def u16_max_def u32_max_def
  usize_max_def

lemma sample_trim:
  "trim ''electrum '' = ''electrum''" "trim ''2'' = ''2''" "trim '' 1'' = ''1''" "trim ''tcp'' = ''tcp''"
  "trim ''esplora'' = ''esplora''" "trim ''u'' = ''u''"
  by (simp_all add: trim_def trim_start.simps trim_end.simps ws_suffix_len_def byte_of_def Let_def)

lemma sample_chain: "read_chain sample_env = Inr (Electrum, None, Some ''tcp'')"
  by (simp add: read_chain_def sample_lookup chain_backend_from_str_def blank_def sample_trim
      to_ascii_lowercase_def byte_of_def)

lemma sample_elements_chain: "read_elements_chain sample_env = Inr (ElementsEsplora, None, Some ''u'')"
  by (simp add: read_elements_chain_def sample_lookup elements_chain_backend_from_str_def blank_def sample_trim
      to_ascii_lowercase_def byte_of_def)

definition sample_tokens :: "hsm_token_config list" where
  "sample_tokens = [\<lparr>hsm_label = ''a'', hsm_pin = ''1'', hsm_so_pin = ''2'', hsm_vendor = Dev,
       hsm_library_path = None, hsm_seed = None\<rparr>,
     \<lparr>hsm_label = ''b'', hsm_pin = ''1'', hsm_so_pin = [], hsm_vendor = Securosys,
       hsm_library_path = None, hsm_seed = Some (replicate 64 0)\<rparr>]"

lemma sample_discovery: "read_tokens sample_env = Inr (''lib'', sample_tokens)"
  by (simp add: read_tokens_def discover_hsm_tokens_def discover_from.simps [of _ "Suc 0"]
      discover_from.simps [of _ "Suc (Suc 0)"] discover_from.simps [of _ "Suc (Suc (Suc 0))"] u32_max_def
      token_var_def show_small read_token_def read_vendor_def sample_lookup sample_tokens_def)

lemma sample_signers: "read_signers sample_env 2 = Inr [1, 0]"
  by (simp add: read_signers_def sample_lookup read_signer_index_def sample_trim sample_parse)

lemma sample_config_loads: "\<exists>cfg. from_env sample_env = Inr cfg"
proof -
  have "read_bind sample_env = Inr (''::1'', 8080)"
    by (simp add: read_bind_def sample_lookup sample_parse)
  moreover have "read_session_secret sample_env = Inr (replicate 64 0)"
    by (simp add: read_session_secret_def sample_lookup)
  moreover have "read_network sample_env = Inr (Regtest, 1)"
    by (simp add: read_network_def sample_lookup default_bip48_coin_index_def)
  moreover have "read_threshold sample_env 2 = Inr 1"
    by (simp add: read_threshold_def sample_lookup sample_parse)
  moreover have "read_script_type sample_env = Inr Wsh"
    by (simp add: read_script_type_def sample_lookup)
  moreover have "read_elements_network sample_env = Inr Liquid"
    by (simp add: read_elements_network_def sample_lookup)
  moreover have "require sample_env ''DATABASE_URL'' = Inr ''db''"
    by (simp add: sample_lookup)
  moreover have "check_threshold 1 2 = Inr ()"
    by (simp add: check_threshold_def u32_of_len_def u32_max_def)
  moreover have "length sample_tokens = 2" by (simp add: sample_tokens_def)
  ultimately show ?thesis
    by (simp add: from_env_def sample_chain sample_elements_chain sample_discovery sample_signers
        read_bitcoin_rpc_def read_elements_rpc_def numeral_2_eq_2 [symmetric] Let_def)
qed

theorem loaded_configuration_is_usable_witness:
  "\<exists>cfg. from_env sample_env = Inr cfg \<and> federation_ok cfg"
proof -
  obtain cfg where "from_env sample_env = Inr cfg"
    using sample_config_loads by blast
  with loaded_configuration_is_usable show ?thesis by blast
qed

end
