(* ===== verification/Hsm.thy ===== *)
theory Hsm
  imports Config Models
begin

text \<open>
  The HSM fleet, \<open>src/hsm.rs\<close>. The PKCS#11 library, its sessions and signers are an argument,
  \<open>pkcs11_api\<close>, acting on an abstract world (the tokens' contents); the fleet adds the per-signer
  cache. The cache discipline (look up, build on a miss, keep what is there first) is an
  interface the wallet managers share.
\<close>

section \<open>The interface of a build cache\<close>

text \<open>
  \<open>fetch k a\<close> returns the cached value of \<open>k\<close> or builds it with the argument \<open>a\<close>; \<open>cached\<close>
  reads the cache.
\<close>

locale build_cache =
  fixes cached :: "'s \<Rightarrow> 'k \<Rightarrow> 'v option"
    and fetch :: "'k \<Rightarrow> 'a \<Rightarrow> ('s, 'e, 'v) st"
  assumes hit: "cached s k = Some v \<Longrightarrow> fetch k a s = (Inr v, s)"
    and stored: "fetch k a s = (Inr v, t) \<Longrightarrow> cached t k = Some v"
    and kept: "fetch k a s = (r, t) \<Longrightarrow> j \<noteq> k \<Longrightarrow> cached t j = cached s j"
    and failed: "fetch k a s = (Inl x, t) \<Longrightarrow> cached t k = cached s k"
begin

lemma second_fetch:
  "fetch k a s = (Inr v, t) \<Longrightarrow> fetch k b t = (Inr v, t)"
  by (rule hit) (rule stored)

lemma sticky_step: "cached s k = Some v \<Longrightarrow> cached (snd (fetch j a s)) k = Some v"
proof (cases "j = k")
  case True
  assume "cached s k = Some v"
  with True hit [of s k v a] show ?thesis by simp
next
  case False
  assume "cached s k = Some v"
  with False kept [of j a s "fst (fetch j a s)" "snd (fetch j a s)" k] show ?thesis by simp
qed

lemma sticky: "cached s k = Some v \<Longrightarrow> cached (fold (\<lambda>(j, a) u. snd (fetch j a u)) reqs s) k = Some v"
  by (induction reqs arbitrary: s) (auto simp: sticky_step)

lemma same_value_forever:
  assumes "fetch k a s = (Inr v, t)"
  shows "fetch k b (fold (\<lambda>(j, a) u. snd (fetch j a u)) reqs t)
       = (Inr v, fold (\<lambda>(j, a) u. snd (fetch j a u)) reqs t)"
  by (rule hit) (rule sticky, rule stored [OF assms])

end

section \<open>The PKCS#11 library\<close>

datatype pkcs11_error = ObjectNotFound string | OtherPkcs11 string

datatype hsm_backend = DevBackend | SecurosysBackend string

datatype hsm_error = InitToken string | Pkcs11 pkcs11_error | LibraryMissing string

record ('w, 'sess, 'signer, 'path) pkcs11_api =
  lib_exists :: "string \<Rightarrow> bool"
  init_dev_token :: "string \<Rightarrow> string \<Rightarrow> string \<Rightarrow> string \<Rightarrow> ('w, string, unit) st"
  session_open :: "string \<Rightarrow> string \<Rightarrow> string \<Rightarrow> 'path \<Rightarrow> ('w, pkcs11_error, 'sess) st"
  signer_load :: "'sess \<Rightarrow> string \<Rightarrow> 'path \<Rightarrow> network \<Rightarrow> hsm_backend \<Rightarrow> ('w, pkcs11_error, 'signer) st"
  signer_derive :: "'sess \<Rightarrow> string \<Rightarrow> 'path \<Rightarrow> network \<Rightarrow> hsm_backend \<Rightarrow> u8 list \<Rightarrow> ('w, pkcs11_error, 'signer) st"
  key_delete :: "'sess \<Rightarrow> string \<Rightarrow> ('w, pkcs11_error, unit) st"
  path_default :: 'path
  uuid_str :: "uuid \<Rightarrow> string"

section \<open>The fleet\<close>

record hsm_fleet =
  hf_library_path :: string
  hf_network :: network
  hf_tokens :: "hsm_token_config list"

record ('w, 'signer) hsm_state =
  hsm_world :: 'w
  hsm_cache :: "uuid \<Rightarrow> 'signer list option"

definition token_lib :: "hsm_token_config \<Rightarrow> string \<Rightarrow> string" where
  "token_lib token default_lib = (case hsm_library_path token of None \<Rightarrow> default_lib | Some l \<Rightarrow> l)"

definition token_backend :: "hsm_token_config \<Rightarrow> string \<Rightarrow> hsm_backend" where
  "token_backend token lib = (case hsm_vendor token of Dev \<Rightarrow> DevBackend | Securosys \<Rightarrow> SecurosysBackend lib)"

definition token_seed :: "hsm_token_config \<Rightarrow> u8 list" where
  "token_seed token = (case hsm_seed token of None \<Rightarrow> [] | Some s \<Rightarrow> s)"

definition hsm_fleet_new :: "('w, 'sess, 'signer, 'path) pkcs11_api \<Rightarrow> 'ip app_config \<Rightarrow> ('w, hsm_error, hsm_fleet) st" where
  "hsm_fleet_new api cfg =
     (if \<not> lib_exists api (pkcs11_library_path cfg)
      then lift_st (throw_res (LibraryMissing (pkcs11_library_path cfg)))
      else bind_st (for_st (\<lambda>token. case hsm_vendor token of
             Dev \<Rightarrow> map_err_st InitToken (init_dev_token api (pkcs11_library_path cfg)
                      (hsm_label token) (hsm_so_pin token) (hsm_pin token))
           | Securosys \<Rightarrow> ret_st ()) (hsm_tokens cfg)) (\<lambda>_.
           ret_st \<lparr>hf_library_path = pkcs11_library_path cfg, hf_network = network cfg,
                   hf_tokens = hsm_tokens cfg\<rparr>))"

definition signer_label :: "('w, 'sess, 'signer, 'path) pkcs11_api \<Rightarrow> uuid \<Rightarrow> string" where
  "signer_label api signer_id = ''signer-'' @ uuid_str api signer_id"

text \<open>A token's signer: the stored key, or a fresh one when there is none.\<close>

definition token_signer :: "('w, 'sess, 'signer, 'path) pkcs11_api \<Rightarrow> string \<Rightarrow> network \<Rightarrow> string \<Rightarrow> 'path \<Rightarrow>
    hsm_token_config \<Rightarrow> ('w, hsm_error, 'signer) st" where
  "token_signer api library_path net label path token =
     (let lib = token_lib token library_path in
      bind_st (map_err_st Pkcs11 (session_open api lib (hsm_label token) (hsm_pin token) path)) (\<lambda>session.
      \<lambda>w. case signer_load api session label path net (token_backend token lib) w of
          (Inr s, w') \<Rightarrow> (Inr s, w')
        | (Inl (Err (ObjectNotFound _)), w') \<Rightarrow>
            bind_st (map_err_st Pkcs11 (session_open api lib (hsm_label token) (hsm_pin token) path)) (\<lambda>session2.
            map_err_st Pkcs11 (signer_derive api session2 label path net (token_backend token lib) (token_seed token))) w'
        | (Inl (Err e), w') \<Rightarrow> (Inl (Err (Pkcs11 e)), w')
        | (Inl Panic, w') \<Rightarrow> (Inl Panic, w')))"

definition derive_signers :: "('w, 'sess, 'signer, 'path) pkcs11_api \<Rightarrow> string \<Rightarrow> network \<Rightarrow> hsm_token_config list \<Rightarrow>
    string \<Rightarrow> 'path \<Rightarrow> ('w, hsm_error, 'signer list) st" where
  "derive_signers api library_path net tokens label path =
     map_st (token_signer api library_path net label path) tokens"

definition delete_key_objects :: "('w, 'sess, 'signer, 'path) pkcs11_api \<Rightarrow> string \<Rightarrow> hsm_token_config list \<Rightarrow> string \<Rightarrow>
    ('w, hsm_error, unit) st" where
  "delete_key_objects api library_path tokens label =
     for_st (\<lambda>token. map_err_st Pkcs11
       (bind_st (session_open api (token_lib token library_path) (hsm_label token) (hsm_pin token) (path_default api))
         (\<lambda>session. key_delete api session label))) tokens"

text \<open>A computation on the tokens, run in the fleet's state.\<close>

definition on_tokens :: "('w, 'e, 'a) st \<Rightarrow> (('w, 'signer) hsm_state, 'e, 'a) st" where
  "on_tokens m = (\<lambda>s. case m (hsm_world s) of (r, w) \<Rightarrow> (r, s\<lparr>hsm_world := w\<rparr>))"

text \<open>\<open>cache.entry(k).or_insert(v).clone()\<close>\<close>

definition cache_or_insert :: "uuid \<Rightarrow> 'signer list \<Rightarrow> (('w, 'signer) hsm_state, 'e, 'signer list) st" where
  "cache_or_insert k v = (\<lambda>s. case hsm_cache s k of
       Some old \<Rightarrow> (Inr old, s)
     | None \<Rightarrow> (Inr v, s\<lparr>hsm_cache := (hsm_cache s)(k \<mapsto> v)\<rparr>))"

definition signers_for :: "('w, 'sess, 'signer, 'path) pkcs11_api \<Rightarrow> hsm_fleet \<Rightarrow> uuid \<Rightarrow> 'path \<Rightarrow>
    (('w, 'signer) hsm_state, hsm_error, 'signer list) st" where
  "signers_for api fleet signer_id path =
     bind_st (read_st (\<lambda>s. hsm_cache s signer_id)) (\<lambda>hit. case hit of
       Some signers \<Rightarrow> ret_st signers
     | None \<Rightarrow>
         bind_st (on_tokens (derive_signers api (hf_library_path fleet) (hf_network fleet) (hf_tokens fleet)
           (signer_label api signer_id) path)) (\<lambda>signers.
         cache_or_insert signer_id signers))"

definition evict :: "uuid \<Rightarrow> (('w, 'signer) hsm_state, 'e, unit) st" where
  "evict signer_id = write_st (\<lambda>s. s\<lparr>hsm_cache := (hsm_cache s)(signer_id := None)\<rparr>)"

definition delete_keys :: "('w, 'sess, 'signer, 'path) pkcs11_api \<Rightarrow> hsm_fleet \<Rightarrow> uuid \<Rightarrow>
    (('w, 'signer) hsm_state, hsm_error, unit) st" where
  "delete_keys api fleet signer_id =
     bind_st (on_tokens (delete_key_objects api (hf_library_path fleet) (hf_tokens fleet) (signer_label api signer_id)))
       (\<lambda>_. evict signer_id)"

section \<open>Facts\<close>

lemma map_st_length: "map_st f xs s = (Inr ys, t) \<Longrightarrow> length ys = length xs"
  by (induction xs arbitrary: s ys) (auto elim!: bind_st_InrE)

lemma derive_signers_length:
  "derive_signers api lib net tokens label path w = (Inr ss, w') \<Longrightarrow> length ss = length tokens"
  by (auto simp: derive_signers_def dest: map_st_length)

lemma on_tokens_cache: "on_tokens m s = (r, t) \<Longrightarrow> hsm_cache t = hsm_cache s"
  by (auto simp: on_tokens_def split: prod.splits)

lemma signers_for_miss:
  "hsm_cache s k = None \<Longrightarrow> signers_for api fleet k path s =
     (case on_tokens (derive_signers api (hf_library_path fleet) (hf_network fleet) (hf_tokens fleet)
           (signer_label api k) path) s of
        (Inl x, t) \<Rightarrow> (Inl x, t)
      | (Inr ss, t) \<Rightarrow> (Inr ss, t\<lparr>hsm_cache := (hsm_cache t)(k \<mapsto> ss)\<rparr>))"
  by (auto simp: signers_for_def bind_st_def cache_or_insert_def dest: on_tokens_cache
      split: prod.splits sum.splits option.splits)

lemma signers_for_hit: "hsm_cache s k = Some v \<Longrightarrow> signers_for api fleet k path s = (Inr v, s)"
  by (simp add: signers_for_def)

interpretation hsm_cache: build_cache hsm_cache "signers_for api fleet" for api fleet
proof unfold_locales
  fix s k v a
  show "hsm_cache s k = Some v \<Longrightarrow> signers_for api fleet k a s = (Inr v, s)"
    by (rule signers_for_hit)
next
  fix k a s v t
  assume "signers_for api fleet k a s = (Inr v, t)"
  then show "hsm_cache t k = Some v"
    by (cases "hsm_cache s k") (auto simp: signers_for_miss signers_for_hit split: prod.splits sum.splits)
next
  fix k a s r t j
  assume "signers_for api fleet k a s = (r, t)" and "j \<noteq> k"
  then show "hsm_cache t j = hsm_cache s j"
    by (cases "hsm_cache s k") (auto simp: signers_for_miss signers_for_hit dest: on_tokens_cache
        split: prod.splits sum.splits)
next
  fix k a s x t
  assume "signers_for api fleet k a s = (Inl x, t)"
  then show "hsm_cache t k = hsm_cache s k"
    by (cases "hsm_cache s k") (auto simp: signers_for_miss signers_for_hit dest: on_tokens_cache
        split: prod.splits sum.splits)
qed

text \<open>Every cached set has one signer per token.\<close>

definition fleet_inv :: "hsm_fleet \<Rightarrow> ('w, 'signer) hsm_state \<Rightarrow> bool" where
  "fleet_inv fleet s \<longleftrightarrow> (\<forall>k ss. hsm_cache s k = Some ss \<longrightarrow> length ss = length (hf_tokens fleet))"

lemma signers_for_inv [pres_intros]:
  fixes api :: "('w, 'sess, 'signer, 'path) pkcs11_api"
  shows "preserves (fleet_inv fleet) (signers_for api fleet k path)"
proof (rule preservesI)
  fix s :: "('w, 'signer) hsm_state"
  assume inv: "fleet_inv fleet s"
  show "fleet_inv fleet (snd (signers_for api fleet k path s))"
  proof (cases "hsm_cache s k")
    case None
    obtain r t where run: "on_tokens (derive_signers api (hf_library_path fleet) (hf_network fleet) (hf_tokens fleet)
           (signer_label api k) path) s = (r, t)" by force
    have "r = Inr ss \<Longrightarrow> length ss = length (hf_tokens fleet)" for ss
      using run by (auto simp: on_tokens_def dest: derive_signers_length split: prod.splits)
    with inv None run on_tokens_cache [OF run] show ?thesis
      by (auto simp: signers_for_miss fleet_inv_def split: sum.splits)
  next
    case (Some v)
    with inv show ?thesis by (simp add: signers_for_hit)
  qed
qed

lemma evict_inv [pres_intros]: "preserves (fleet_inv fleet) (evict k)"
  by (auto simp: evict_def fleet_inv_def intro!: pres_intros split: if_splits)

lemma on_tokens_inv [pres_intros]: "preserves (fleet_inv fleet) (on_tokens m)"
  by (rule preservesI) (auto simp: on_tokens_def fleet_inv_def split: prod.splits)

lemma delete_keys_inv [pres_intros]: "preserves (fleet_inv fleet) (delete_keys api fleet k)"
  unfolding delete_keys_def by (intro pres_intros)

lemma signers_for_length:
  assumes "fleet_inv fleet s" and "signers_for api fleet k path s = (Inr ss, t)"
  shows "length ss = length (hf_tokens fleet)"
proof -
  have "fleet_inv fleet t"
    using preserves_run [OF assms(2,1) signers_for_inv] .
  with hsm_cache.stored [OF assms(2)] show ?thesis by (simp add: fleet_inv_def)
qed

text \<open>The library reports its failures as errors.\<close>

definition pkcs11_safe :: "('w, 'sess, 'signer, 'path) pkcs11_api \<Rightarrow> bool" where
  "pkcs11_safe api \<longleftrightarrow> (\<forall>lib label pin path. safe (\<lambda>_. True) (session_open api lib label pin path))
     \<and> (\<forall>sess label path net b. safe (\<lambda>_. True) (signer_load api sess label path net b))
     \<and> (\<forall>sess label path net b seed. safe (\<lambda>_. True) (signer_derive api sess label path net b seed))"

lemma token_signer_safe: "pkcs11_safe api \<Longrightarrow> safe (\<lambda>_. True) (token_signer api lib net label path token)"
proof -
  assume api: "pkcs11_safe api"
  have "safe (\<lambda>_. True) (\<lambda>w. case signer_load api session label path net b w of
          (Inr s, w') \<Rightarrow> (Inr s, w')
        | (Inl (Err (ObjectNotFound _)), w') \<Rightarrow> m w'
        | (Inl (Err e), w') \<Rightarrow> (Inl (Err (Pkcs11 e)), w')
        | (Inl Panic, w') \<Rightarrow> (Inl Panic, w'))" if "safe (\<lambda>_. True) m" for session b and m :: "('a, hsm_error, 'c) st"
  proof (rule safeI)
    fix w
    obtain r w' where run: "signer_load api session label path net b w = (r, w')" by force
    have "r \<noteq> Inl Panic" using api run unfolding pkcs11_safe_def by (metis safe_run)
    then show "True \<and> fst (case signer_load api session label path net b w of
          (Inr s, w') \<Rightarrow> (Inr s, w')
        | (Inl (Err (ObjectNotFound _)), w') \<Rightarrow> m w'
        | (Inl (Err e), w') \<Rightarrow> (Inl (Err (Pkcs11 e)), w')
        | (Inl Panic, w') \<Rightarrow> (Inl Panic, w')) \<noteq> Inl Panic"
      using safe_no_panic [OF that] by (simp add: run split: sum.splits fail.splits pkcs11_error.splits)
  qed
  note load = this
  have opens: "safe (\<lambda>_. True) (map_err_st Pkcs11 (session_open api l t p path))" for l t p
    using api by (intro safe_map_err) (simp add: pkcs11_safe_def)
  have derive: "safe (\<lambda>_. True) (map_err_st Pkcs11 (signer_derive api session label path net b seed))" for session b seed
    using api by (intro safe_map_err) (simp add: pkcs11_safe_def)
  show ?thesis
    unfolding token_signer_def Let_def
    by (rule safe_bind [OF opens]) (rule load [OF safe_bind [OF opens derive]])
qed

lemma signers_for_safe: "pkcs11_safe api \<Longrightarrow> safe (\<lambda>_. True) (signers_for api fleet k path)"
proof -
  assume api: "pkcs11_safe api"
  have "safe (\<lambda>_. True) (derive_signers api lib net tokens label path)" for lib net tokens label
    unfolding derive_signers_def by (intro safe_intros token_signer_safe api)
  then have "safe (\<lambda>_. True) (on_tokens (derive_signers api lib net tokens label path))" for lib net tokens label
    by (auto simp: safe_def on_tokens_def split: prod.splits) (metis fst_conv)
  moreover have "safe (\<lambda>_. True) (cache_or_insert k v)" for v
    by (auto simp: safe_def cache_or_insert_def split: option.splits)
  ultimately show ?thesis
    unfolding signers_for_def by (intro safe_intros) auto
qed

section \<open>A small token store\<close>

text \<open>
  Tokens as the list of (token, key label) pairs they hold; a signer is a token with the path it
  was opened for. Used to evaluate the properties.
\<close>

definition sample_pkcs11 :: "'path \<Rightarrow> ((string \<times> string) list, string, string \<times> 'path, 'path) pkcs11_api" where
  "sample_pkcs11 p = \<lparr>lib_exists = (\<lambda>_. True), init_dev_token = (\<lambda>_ _ _ _. ret_st ()),
     session_open = (\<lambda>lib token pin path. ret_st token),
     signer_load = (\<lambda>sess label path net b w. if (sess, label) \<in> set w then (Inr (sess, path), w)
                      else (Inl (Err (ObjectNotFound label)), w)),
     signer_derive = (\<lambda>sess label path net b seed w. (Inr (sess, path), (sess, label) # w)),
     key_delete = (\<lambda>sess label w. (Inr (), filter (\<lambda>k. k \<noteq> (sess, label)) w)),
     path_default = p, uuid_str = (\<lambda>u. if u = 0 then ''0'' else ''1'')\<rparr>"

definition sample_fleet :: hsm_fleet where
  "sample_fleet = \<lparr>hf_library_path = ''lib'', hf_network = Regtest, hf_tokens = sample_tokens\<rparr>"

definition sample_hsm :: "((string \<times> string) list, string \<times> nat) hsm_state" where
  "sample_hsm = \<lparr>hsm_world = [], hsm_cache = (\<lambda>_. None)\<rparr>"

definition sample_hsm_after :: "((string \<times> string) list, string \<times> nat) hsm_state" where
  "sample_hsm_after = \<lparr>hsm_world = [(''b'', ''signer-0''), (''a'', ''signer-0'')],
     hsm_cache = (\<lambda>_. None)(0 \<mapsto> [(''a'', 7), (''b'', 7)])\<rparr>"

lemma sample_signers_for:
  "signers_for (sample_pkcs11 (0 :: nat)) sample_fleet 0 7 sample_hsm = (Inr [(''a'', 7), (''b'', 7)], sample_hsm_after)"
  by (simp add: signers_for_miss sample_hsm_def sample_hsm_after_def on_tokens_def derive_signers_def
      token_signer_def sample_pkcs11_def sample_fleet_def sample_tokens_def signer_label_def Let_def
      map_err_st_def bind_st_def ret_st_def)

section \<open>Properties\<close>

text \<open>A signer set has exactly one signer per configured token, whether it is built or comes
  from the cache, so an index that is in range for the tokens is in range for the signers; and the
  cache keeps that property.\<close>

theorem one_signer_per_token:
  assumes "fleet_inv fleet s" and "signers_for api fleet k path s = (Inr ss, t)"
  shows "length ss = length (hf_tokens fleet) \<and> fleet_inv fleet t"
  using signers_for_length [OF assms] preserves_run [OF assms(2,1) signers_for_inv] by blast

theorem one_signer_per_token_witness:
  "length [(''a'', 7 :: nat), (''b'', 7)] = length (hf_tokens sample_fleet)"
proof -
  have "fleet_inv sample_fleet sample_hsm" by (simp add: fleet_inv_def sample_hsm_def)
  from one_signer_per_token [OF this sample_signers_for] show ?thesis by blast
qed

text \<open>Once a signer set is built for a user it is what every later request for that user
  returns, after any other requests and whatever derivation path is asked for.\<close>

theorem cached_signers_ignore_the_path:
  assumes "signers_for api fleet k path s = (Inr ss, t)"
  shows "fst (signers_for api fleet k other (fold (\<lambda>(j, p) u. snd (signers_for api fleet j p u)) reqs t)) = Inr ss"
  using hsm_cache.same_value_forever [OF assms] by simp

theorem cached_signers_ignore_the_path_witness:
  "fst (signers_for (sample_pkcs11 (0 :: nat)) sample_fleet 0 8
     (fold (\<lambda>(j, p) u. snd (signers_for (sample_pkcs11 (0 :: nat)) sample_fleet j p u)) [(1, 9)] sample_hsm_after))
   = Inr [(''a'', 7), (''b'', 7)]"
  by (rule cached_signers_ignore_the_path [OF sample_signers_for])

end
