(* ===== verification/Host.thy ===== *)
theory Host
  imports Hsm Versions
begin

text \<open>
  What the wallet managers run on: the database, the world outside the process (tokens, nodes,
  backends) and the generators of row identifiers and timestamps; and the state of the whole
  application, which adds the three caches. A wallet handed out by a manager is the cache's own
  entry (the code shares it through an \<open>Arc\<close>), so an operation on it changes that entry.
\<close>

section \<open>The host\<close>

record 'w host =
  h_db :: database
  h_world :: 'w
  h_tick :: nat
  h_uuid :: "nat \<Rightarrow> uuid"
  h_now :: "nat \<Rightarrow> timestamp"

definition db_query :: "(db_error \<Rightarrow> 'e) \<Rightarrow> 'a query \<Rightarrow> ('w host, 'e, 'a) st" where
  "db_query g q = (\<lambda>h. case q (h_db h) of (r, d) \<Rightarrow> (map_err g r, h\<lparr>h_db := d\<rparr>))"

text \<open>A statement that generates a row identifier and a timestamp.\<close>

definition db_insert :: "(db_error \<Rightarrow> 'e) \<Rightarrow> (uuid \<Rightarrow> timestamp \<Rightarrow> 'a query) \<Rightarrow> ('w host, 'e, 'a) st" where
  "db_insert g q = (\<lambda>h. case q (h_uuid h (h_tick h)) (h_now h (h_tick h)) (h_db h) of
     (r, d) \<Rightarrow> (map_err g r, h\<lparr>h_db := d, h_tick := Suc (h_tick h)\<rparr>))"

definition outside :: "('d \<Rightarrow> 'e) \<Rightarrow> ('w, 'd, 'a) st \<Rightarrow> ('w host, 'e, 'a) st" where
  "outside g m = (\<lambda>h. case m (h_world h) of (r, w) \<Rightarrow> (map_err g r, h\<lparr>h_world := w\<rparr>))"

text \<open>What holds of the database holds after a host computation that only runs statements keeping it.\<close>

definition host_inv :: "(database \<Rightarrow> bool) \<Rightarrow> 'w host \<Rightarrow> bool" where
  "host_inv P h \<longleftrightarrow> P (h_db h)"

lemma db_query_inv [pres_intros]: "preserves P q \<Longrightarrow> preserves (host_inv P) (db_query g q)"
  by (auto simp: preserves_def db_query_def host_inv_def split: prod.splits)

lemma db_insert_inv [pres_intros]:
  "(\<And>n t. preserves P (q n t)) \<Longrightarrow> preserves (host_inv P) (db_insert g q)"
  by (auto simp: preserves_def db_insert_def host_inv_def split: prod.splits) (metis snd_conv)

lemma outside_inv [pres_intros]: "preserves (host_inv P) (outside g m)"
  by (auto simp: preserves_def outside_def host_inv_def split: prod.splits)

lemma db_query_read: "db_query g (read_st f) h = (Inr (f (h_db h)), h)"
  by (simp add: db_query_def)

lemma db_query_write: "db_query g (write_st f) h = (Inr (), h\<lparr>h_db := f (h_db h)\<rparr>)"
  by (simp add: db_query_def)

lemma outside_db: "outside g m h = (r, h') \<Longrightarrow> h_db h' = h_db h"
  by (auto simp: outside_def split: prod.splits)

section \<open>The application\<close>

record ('sig, 'uw, 'euw, 'w) app =
  ap_host :: "'w host"
  ap_signers :: "uuid \<Rightarrow> 'sig list option"
  ap_wallets :: "uuid \<Rightarrow> 'uw option"
  ap_elements :: "uuid \<Rightarrow> 'euw option"

definition on_host :: "('w host, 'e, 'a) st \<Rightarrow> (('sig, 'uw, 'euw, 'w) app, 'e, 'a) st" where
  "on_host m = (\<lambda>s. case m (ap_host s) of (r, h) \<Rightarrow> (r, s\<lparr>ap_host := h\<rparr>))"

text \<open>The fleet's state is the outside world and the signer cache.\<close>

definition on_hsm :: "(hsm_error \<Rightarrow> 'e) \<Rightarrow> (('w, 'sig) hsm_state, hsm_error, 'a) st \<Rightarrow>
    (('sig, 'uw, 'euw, 'w) app, 'e, 'a) st" where
  "on_hsm g m = (\<lambda>s. case m \<lparr>hsm_world = h_world (ap_host s), hsm_cache = ap_signers s\<rparr> of
     (r, t) \<Rightarrow> (map_err g r, s\<lparr>ap_host := (ap_host s)\<lparr>h_world := hsm_world t\<rparr>, ap_signers := hsm_cache t\<rparr>))"

definition app_inv :: "(database \<Rightarrow> bool) \<Rightarrow> ('sig, 'uw, 'euw, 'w) app \<Rightarrow> bool" where
  "app_inv P s \<longleftrightarrow> P (h_db (ap_host s))"

lemma on_host_inv [pres_intros]: "preserves (host_inv P) m \<Longrightarrow> preserves (app_inv P) (on_host m)"
  by (auto simp: preserves_def on_host_def host_inv_def app_inv_def split: prod.splits)

lemma on_hsm_inv [pres_intros]: "preserves (app_inv P) (on_hsm g m)"
  by (auto simp: preserves_def on_hsm_def app_inv_def split: prod.splits)

lemma on_host_Inr_iff:
  "on_host m s = (Inr a, t) \<longleftrightarrow> (\<exists>h. m (ap_host s) = (Inr a, h) \<and> t = s\<lparr>ap_host := h\<rparr>)"
  by (auto simp: on_host_def split: prod.splits)

lemma db_query_Inr_iff:
  "db_query g q h = (Inr a, h') \<longleftrightarrow> (\<exists>d. q (h_db h) = (Inr a, d) \<and> h' = h\<lparr>h_db := d\<rparr>)"
  by (auto simp: db_query_def split: prod.splits)

lemma on_host_caches: "on_host m s = (r, t) \<Longrightarrow>
  ap_wallets t = ap_wallets s \<and> ap_elements t = ap_elements s \<and> ap_signers t = ap_signers s"
  by (auto simp: on_host_def split: prod.splits)

lemma on_hsm_caches: "on_hsm g m s = (r, t) \<Longrightarrow>
  ap_wallets t = ap_wallets s \<and> ap_elements t = ap_elements s \<and> h_db (ap_host t) = h_db (ap_host s)
  \<and> h_tick (ap_host t) = h_tick (ap_host s)"
  by (auto simp: on_hsm_def split: prod.splits)

text \<open>A computation that leaves the wallet caches alone.\<close>

definition caches_kept where
  "caches_kept s = (\<lambda>t. ap_wallets t = ap_wallets s \<and> ap_elements t = ap_elements s)"

lemma caches_kept_refl [simp]: "caches_kept s s"
  by (simp add: caches_kept_def)

lemma on_host_kept [pres_intros]: "preserves (caches_kept s) (on_host m)"
  by (auto simp: preserves_def caches_kept_def on_host_def split: prod.splits)

lemma on_hsm_kept [pres_intros]: "preserves (caches_kept s) (on_hsm g m)"
  by (auto simp: preserves_def caches_kept_def on_hsm_def split: prod.splits)

text \<open>The fleet's invariant over the application's signer cache.\<close>

definition signers_ok :: "hsm_fleet \<Rightarrow> ('sig, 'uw, 'euw, 'w) app \<Rightarrow> bool" where
  "signers_ok fleet s \<longleftrightarrow> (\<forall>k ss. ap_signers s k = Some ss \<longrightarrow> length ss = length (hf_tokens fleet))"

lemma on_hsm_signers_ok:
  assumes "signers_ok fleet s" and "on_hsm g (signers_for papi fleet k path) s = (r, t)"
  shows "signers_ok fleet t \<and> (\<forall>ss. r = Inr ss \<longrightarrow> length ss = length (hf_tokens fleet))"
proof -
  let ?s = "\<lparr>hsm_world = h_world (ap_host s), hsm_cache = ap_signers s\<rparr>"
  obtain q u where run: "signers_for papi fleet k path ?s = (q, u)" by force
  have inv: "fleet_inv fleet ?s" using assms(1) by (simp add: signers_ok_def fleet_inv_def)
  have "fleet_inv fleet u" using preserves_run [OF run inv signers_for_inv] .
  moreover have "r = map_err g q" "ap_signers t = hsm_cache u"
    using assms(2) run by (auto simp: on_hsm_def)
  ultimately show ?thesis
    using signers_for_length [OF inv] run by (auto simp: signers_ok_def fleet_inv_def)
qed

subsection \<open>Absence of panics\<close>

lemma map_err_no_panic [simp]: "map_err g r = Inl Panic \<longleftrightarrow> r = Inl Panic"
  by (auto simp: map_err_def split: sum.splits fail.splits)

lemma safe_db_query [safe_intros]: "safe (\<lambda>_. True) q \<Longrightarrow> safe (\<lambda>_. True) (db_query g q)"
  by (simp add: safe_def db_query_def split_beta)

lemma safe_db_insert [safe_intros]: "(\<And>n t. safe (\<lambda>_. True) (q n t)) \<Longrightarrow> safe (\<lambda>_. True) (db_insert g q)"
  by (simp add: safe_def db_insert_def split_beta)

lemma safe_on_host [safe_intros]: "safe (\<lambda>_. True) m \<Longrightarrow> safe (signers_ok fleet) (on_host m)"
  by (simp add: safe_def on_host_def signers_ok_def split_beta)

lemma safe_on_hsm:
  fixes papi :: "('w, 'sess, 'sig, 'path) pkcs11_api"
  assumes "pkcs11_safe papi"
  shows "safe (signers_ok fleet) (on_hsm g (signers_for papi fleet k path))"
proof (rule safeI)
  fix s :: "('sig, 'uw, 'euw, 'w) app"
  assume s: "signers_ok fleet s"
  obtain r t where run: "on_hsm g (signers_for papi fleet k path) s = (r, t)" by force
  have "r \<noteq> Inl Panic"
    using run safe_no_panic [OF signers_for_safe [OF assms]]
    by (auto simp: on_hsm_def split_beta)
  with on_hsm_signers_ok [OF s run] run
  show "signers_ok fleet (snd (on_hsm g (signers_for papi fleet k path) s))
      \<and> fst (on_hsm g (signers_for papi fleet k path) s) \<noteq> Inl Panic" by simp
qed

end
