(* ===== verification/BtcWallet.thy ===== *)
theory BtcWallet
  imports Host
begin

text \<open>
  The Bitcoin wallet manager, \<open>src/wallet.rs\<close>: the wallet row created at first use, the
  federation rebuilt from the stored versions, and the self-healing load after a migration. BDK,
  the federation types of \<open>emvault-core\<close> and the chain backends are an argument, \<open>btc_api\<close>: BDK
  wallets, change sets, federations and PSBTs are abstract values the program passes around.
\<close>

section \<open>Data\<close>

type_synonym txid = string
type_synonym script = "u8 list"
type_synonym outpoint = "txid \<times> u32"

datatype keychain = External | Internal

record tx_out =
  to_value :: u64
  to_spk :: script

text \<open>A transaction as far as the program looks into it; its encoding is the API's.\<close>

record btx =
  bt_txid :: txid
  bt_inputs :: "outpoint list"
  bt_outputs :: "tx_out list"

record local_output =
  lo_outpoint :: outpoint
  lo_txout :: tx_out
  lo_is_spent :: bool

datatype chain_position = Confirmed u32 | Unconfirmed

record wallet_tx =
  wt_tx :: btx
  wt_position :: chain_position

record address_info =
  ai_keychain :: keychain
  ai_address :: string
  ai_spk :: script

record balance =
  b_confirmed :: u64
  b_trusted_pending :: u64
  b_untrusted_pending :: u64
  b_immature :: u64

record 'cs sync_result =
  sr_tip_height :: u32
  sr_blocks_synced :: u32
  sr_new_mempool_txs :: u32
  sr_reorg_rebuilt :: bool
  sr_changeset :: "'cs option"

section \<open>Errors\<close>

datatype wallet_error =
    NotFound uuid
  | BadAddress string network string
  | BadFeeRate u64
  | BadAmount string string
  | BuildTx string
  | Sign string
  | BroadcastRejected string
  | EsploraError string
  | ElectrumError string
  | RpcError string
  | RpcClientInit string
  | RpcClientMissing
  | EncodeChangeSet
  | DecodeChangeSet uuid
  | CreateWallet string
  | LoadWallet string
  | ApplyBlock u32 string
  | RebuildAfterReorg string
  | WalletHsm hsm_error
  | WalletDescriptor string
  | WalletFederation string
  | ScriptTypeUnavailable script_type
  | WalletPsbt string
  | WalletConfig config_error
  | ExtractTx string
  | WalletSqlx db_error

datatype chain_sync_error = CsRpc string | CsApplyBlock u32 string | CsRebuild string

datatype init_wallet_error = IwDecode | IwLoad string | IwEmptyChangeSet | IwCreate string

fun from_chain_sync :: "chain_sync_error \<Rightarrow> wallet_error" where
  "from_chain_sync (CsRpc source) = RpcError source"
| "from_chain_sync (CsApplyBlock height source) = ApplyBlock height source"
| "from_chain_sync (CsRebuild msg) = RebuildAfterReorg msg"

fun from_init_wallet :: "uuid \<Rightarrow> init_wallet_error \<Rightarrow> wallet_error" where
  "from_init_wallet i IwDecode = DecodeChangeSet i"
| "from_init_wallet i (IwLoad source) = LoadWallet source"
| "from_init_wallet i IwEmptyChangeSet = LoadWallet ''empty changeset''"
| "from_init_wallet i (IwCreate source) = CreateWallet source"

section \<open>The crates\<close>

text \<open>
  \<open>'sig\<close> is a \<open>Pkcs11Signer\<close> (a patched one is a pair with its network), \<open>'fed\<close> a federation,
  \<open>'fw\<close> a federated wallet, \<open>'wal\<close> a BDK wallet, \<open>'cs\<close> a change set, \<open>'psbt\<close> a PSBT, \<open>'tx\<close> a raw
  transaction. A function that mutates a wallet returns the wallet it leaves.
\<close>

record ('child, 'sig, 'fed, 'fw, 'wal, 'cs, 'psbt, 'w) btc_api =
  from_hardened_idx :: "u32 \<Rightarrow> string + 'child"
  fingerprint_str :: "'sig \<Rightarrow> string"
  available_script_types :: "('sig \<times> network) list \<Rightarrow> script_type list"
  federation_with_config :: "u32 \<Rightarrow> ('sig \<times> network) list \<Rightarrow> network \<Rightarrow> script_type \<Rightarrow> string + 'fed"
  fed_descriptor :: "'fed \<Rightarrow> string option"
  fed_threshold_of :: "'fed \<Rightarrow> u32"
  fed_total_signers :: "'fed \<Rightarrow> nat"
  json_policy :: "u32 \<Rightarrow> nat \<Rightarrow> json"
  uuid_to_string :: "uuid \<Rightarrow> string"
  create_two_path :: "string \<Rightarrow> network \<Rightarrow> string + 'wal"
  take_staged :: "'wal \<Rightarrow> 'cs option \<times> 'wal"
  cs_default :: 'cs
  cs_merge :: "'cs \<Rightarrow> 'cs \<Rightarrow> 'cs"
  cs_to_json :: "'cs \<Rightarrow> json option"
  tip_of :: "'wal \<Rightarrow> u32"
  derivation_index :: "keychain \<Rightarrow> 'wal \<Rightarrow> u32 option"
  reveal_addresses_to :: "keychain \<Rightarrow> u32 \<Rightarrow> 'wal \<Rightarrow> 'wal"
  init_or_load_wallet :: "network \<Rightarrow> string \<Rightarrow> json option \<Rightarrow> init_wallet_error + ('wal \<times> 'cs)"
  add_signer :: "keychain \<Rightarrow> 'sig \<Rightarrow> 'wal \<Rightarrow> 'wal"
  fw_new :: "'fed \<Rightarrow> 'wal \<Rightarrow> string + 'fw"
  fw_with_federation :: "'fw \<Rightarrow> 'fed \<Rightarrow> 'wal \<Rightarrow> string + 'fw"
  fw_wallets :: "'fw \<Rightarrow> (nat \<times> 'fed \<times> 'wal) list"
  fw_current_wallet :: "'fw \<Rightarrow> 'wal"
  emitter_sync :: "('wal \<times> 'w, chain_sync_error, 'cs sync_result) st"
  esplora_sync :: "('wal \<times> 'w, string, 'cs sync_result) st"
  electrum_sync :: "('wal \<times> 'w, string, 'cs sync_result) st"
  wallet_txs :: "'wal \<Rightarrow> wallet_tx list"
  list_output :: "'wal \<Rightarrow> local_output list"
  derivation_of_spk :: "'wal \<Rightarrow> script \<Rightarrow> (keychain \<times> u32) option"
  peek_address :: "'wal \<Rightarrow> keychain \<Rightarrow> u32 \<Rightarrow> address_info"
  wallet_balance :: "'wal \<Rightarrow> balance"
  get_utxo :: "'wal \<Rightarrow> outpoint \<Rightarrow> local_output option"
  get_psbt_input :: "'wal \<Rightarrow> local_output \<Rightarrow> string + 'psbt"
  apply_unconfirmed_tx :: "btx \<Rightarrow> u64 \<Rightarrow> 'wal \<Rightarrow> 'wal"
  fee_rate_ok :: "u64 \<Rightarrow> bool"
  build_drain :: "script \<Rightarrow> u64 \<Rightarrow> 'wal \<Rightarrow> (string + 'psbt) \<times> 'wal"
  build_spend :: "script \<Rightarrow> u64 \<Rightarrow> u64 \<Rightarrow> 'wal \<Rightarrow> (string + 'psbt) \<times> 'wal"
  psbt_outputs :: "'psbt \<Rightarrow> tx_out list"
  unsigned_psbt :: "'psbt \<Rightarrow> string + 'psbt"
  request_signatures :: "'fed \<Rightarrow> 'wal \<Rightarrow> 'psbt \<Rightarrow> ('w, string, 'psbt) st"
  finalize_psbt :: "'fed \<Rightarrow> 'wal \<Rightarrow> 'psbt \<Rightarrow> string + btx"
  consensus_encode :: "btx \<Rightarrow> string + u8 list"
  tx_deserialize :: "u8 list \<Rightarrow> string + btx"
  to_lower_hex :: "u8 list \<Rightarrow> string"
  electrum_broadcast :: "btx \<Rightarrow> ('w, string, txid) st"
  esplora_broadcast :: "btx \<Rightarrow> ('w, string, txid) st"
  rpc_broadcast :: "u8 list \<Rightarrow> ('w, string, txid) st"
  parse_txid :: "string \<Rightarrow> txid option"
  rpc_connect :: "string \<Rightarrow> string \<Rightarrow> string \<Rightarrow> string + unit"
  esplora_connect :: "string \<Rightarrow> network \<Rightarrow> bool \<Rightarrow> ('w, string, unit) st"
  electrum_connect :: "string \<Rightarrow> network \<Rightarrow> ('w, string, unit) st"
  watch_pool_connect :: "string \<Rightarrow> nat \<Rightarrow> ('w, string, unit) st"

section \<open>The manager\<close>

record wallet_manager =
  wm_has_rpc :: bool
  wm_network :: network
  wm_coin_index :: u32
  wm_threshold :: u32
  wm_signer_indices :: "nat list"
  wm_script_type :: script_type
  wm_fleet :: hsm_fleet
  wm_has_esplora :: bool
  wm_has_electrum :: bool
  wm_has_watch_pool :: bool

definition watch_pool_conns :: nat where "watch_pool_conns = 2"
definition reveal_count :: u32 where "reveal_count = 20"

definition wallet_manager_new where
  "wallet_manager_new bapi cfg fleet =
     bind_st (if chain_backend cfg = Rpc
       then lift_st (of_sum RpcClientInit (rpc_connect bapi (bitcoin_rpc_url cfg) (bitcoin_rpc_user cfg) (bitcoin_rpc_password cfg)))
       else ret_st ()) (\<lambda>_.
     bind_st (if chain_backend cfg \<in> {Esplora, Waterfalls}
       then map_err_st EsploraError (esplora_connect bapi (unwrap_or_default (esplora_url cfg)) (network cfg)
              (chain_backend cfg = Waterfalls))
       else ret_st ()) (\<lambda>_.
     bind_st (if chain_backend cfg = Electrum
       then map_err_st ElectrumError (electrum_connect bapi (unwrap_or_default (electrum_url cfg)) (network cfg))
       else ret_st ()) (\<lambda>_.
     bind_st (if chain_backend cfg = Electrum
       then map_err_st ElectrumError (watch_pool_connect bapi (unwrap_or_default (electrum_url cfg)) watch_pool_conns)
       else ret_st ()) (\<lambda>_.
     ret_st \<lparr>wm_has_rpc = (chain_backend cfg = Rpc), wm_network = network cfg,
       wm_coin_index = bip48_coin_index cfg, wm_threshold = fed_threshold cfg,
       wm_signer_indices = fed_signer_indices cfg, wm_script_type = fed_script_type cfg, wm_fleet = fleet,
       wm_has_esplora = (chain_backend cfg \<in> {Esplora, Waterfalls}),
       wm_has_electrum = (chain_backend cfg = Electrum),
       wm_has_watch_pool = (chain_backend cfg = Electrum)\<rparr>))))"

definition derivation_path_for where
  "derivation_path_for bapi m account_idx =
     bind_res (of_sum (\<lambda>e. Sign (''48': '' @ e)) (from_hardened_idx bapi 48)) (\<lambda>a.
     bind_res (of_sum (\<lambda>e. Sign (''coin: '' @ e)) (from_hardened_idx bapi (wm_coin_index m))) (\<lambda>b.
     bind_res (of_sum (\<lambda>e. Sign (''account: '' @ e)) (from_hardened_idx bapi account_idx)) (\<lambda>c.
     bind_res (of_sum (\<lambda>e. Sign (''script-type: '' @ e)) (from_hardened_idx bapi 2)) (\<lambda>d.
     Inr [a, b, c, d]))))"

definition patched_signers where
  "patched_signers m signers =
     map_res (\<lambda>idx. bind_res (index_of signers idx) (\<lambda>s. Inr (s, wm_network m))) (wm_signer_indices m)"

definition create_wallet_for_user_at where
  "create_wallet_for_user_at papi bapi m user_id account_idx =
     bind_st (lift_st (derivation_path_for bapi m (to_u32_or 0 account_idx))) (\<lambda>path.
     bind_st (on_hsm WalletHsm (signers_for papi (wm_fleet m) user_id path)) (\<lambda>all_signers.
     bind_st (lift_st (patched_signers m all_signers)) (\<lambda>patched.
     if wm_script_type m \<notin> set (available_script_types bapi patched)
     then lift_st (throw_res (ScriptTypeUnavailable (wm_script_type m)))
     else
     bind_st (lift_st (of_sum WalletFederation (federation_with_config bapi (wm_threshold m) patched
       (wm_network m) (wm_script_type m)))) (\<lambda>fed.
     bind_st (lift_st (or_panic (fed_descriptor bapi fed))) (\<lambda>multipath.
     bind_st (lift_st (of_sum CreateWallet (create_two_path bapi multipath (wm_network m)))) (\<lambda>probe.
     let initial = (case fst (take_staged bapi probe) of None \<Rightarrow> cs_default bapi | Some cs \<Rightarrow> cs) in
     bind_st (lift_st (of_option EncodeChangeSet (cs_to_json bapi initial))) (\<lambda>json.
     let tip = to_i32_or 0 (uint (tip_of bapi probe)) in
     on_host (db_insert WalletSqlx (\<lambda>new_id now. insert_wallet new_id now
       \<lparr>nw_user_id = user_id, nw_account_idx = account_idx, nw_descriptor = multipath,
        nw_bdk_changeset = json, nw_chain_tip_height = tip\<rparr>)))))))))"

definition create_wallet_for_user where
  "create_wallet_for_user papi bapi m user_id =
     bind_st (on_host (db_query WalletSqlx next_account_idx)) (\<lambda>account_idx.
     create_wallet_for_user_at papi bapi m user_id account_idx)"

definition ensure_wallet_for_user where
  "ensure_wallet_for_user papi bapi m user_id =
     bind_st (on_host (db_query WalletSqlx (find_wallet_for_user user_id))) (\<lambda>row. case row of
       Some r \<Rightarrow> ret_st r
     | None \<Rightarrow> create_wallet_for_user papi bapi m user_id)"

definition ensure_wallet_for_user_at where
  "ensure_wallet_for_user_at papi bapi m user_id account_idx =
     bind_st (on_host (db_query WalletSqlx (find_wallet_for_user user_id))) (\<lambda>row. case row of
       Some r \<Rightarrow> ret_st r
     | None \<Rightarrow> create_wallet_for_user_at papi bapi m user_id account_idx)"

section \<open>Rebuilding federations\<close>

definition create_metadata_wallet where
  "create_metadata_wallet bapi federation net =
     bind_res (or_panic (fed_descriptor bapi federation)) (\<lambda>desc.
     of_sum CreateWallet (create_two_path bapi desc net))"

definition version_script_type :: "string \<Rightarrow> script_type" where
  "version_script_type descriptor = (if take 3 (trim_start descriptor) = ''tr('' then Tr else Wsh)"

definition match_signer where
  "match_signer bapi all_signers net version fp_hex =
     (case find (\<lambda>s. fingerprint_str bapi s = fp_hex) all_signers of
        None \<Rightarrow> throw_res (CreateWallet (''signer with fingerprint '' @ fp_hex
          @ '' not found in HSM pool (needed for federation version '' @ show_int (fv_version_index version) @ '')''))
      | Some s \<Rightarrow> Inr (s, net))"

definition reconstruct_federation_from_version where
  "reconstruct_federation_from_version bapi version all_signers net =
     bind_res (map_res (match_signer bapi all_signers net version)
       (extract_fingerprints_from_descriptor (fv_descriptor version))) (\<lambda>matched.
     of_sum CreateWallet (federation_with_config bapi (to_u32_or 0 (fv_threshold version)) matched net
       (version_script_type (fv_descriptor version))))"

definition version_wallet_of where
  "version_wallet_of bapi all_signers net v =
     bind_res (reconstruct_federation_from_version bapi v all_signers net) (\<lambda>fed.
     bind_res (create_metadata_wallet bapi fed net) (\<lambda>w. Inr (fed, w)))"

fun extend_federated_wallet where
  "extend_federated_wallet bapi all_signers net fw [] = Inr fw"
| "extend_federated_wallet bapi all_signers net fw (v # vs) =
     bind_res (version_wallet_of bapi all_signers net v) (\<lambda>(fed, w).
     bind_res (of_sum CreateWallet (fw_with_federation bapi fw fed w)) (\<lambda>fw'.
     extend_federated_wallet bapi all_signers net fw' vs))"

text \<open>Version 0 as it is recorded on the first load; a failure to record it is dropped.\<close>

definition bootstrap_version where
  "bootstrap_version bapi wallet_id federation descriptor =
     \<lparr>nv_wallet_id = Some wallet_id, nv_elements_wallet_id = None, nv_version_index = 0,
      nv_descriptor = descriptor,
      nv_threshold = to_i32_or 0 (uint (fed_threshold_of bapi federation)),
      nv_signer_count = to_i32_or 0 (int (fed_total_signers bapi federation)),
      nv_federation_snapshot = json_policy bapi (fed_threshold_of bapi federation) (fed_total_signers bapi federation),
      nv_wallet_handle = uuid_to_string bapi wallet_id, nv_blinding_key = None\<rparr>"

definition build_federated_wallet where
  "build_federated_wallet bapi net wallet_id federation all_signers =
     bind_st (db_query WalletSqlx (list_federation_versions_for_wallet wallet_id)) (\<lambda>versions. case versions of
       [] \<Rightarrow>
         bind_st (lift_st (or_panic (fed_descriptor bapi federation))) (\<lambda>descriptor.
         bind_st (ignore_err (db_insert WalletSqlx (\<lambda>new_id now. insert_federation_version new_id now
           (bootstrap_version bapi wallet_id federation descriptor)))) (\<lambda>_.
         bind_st (lift_st (create_metadata_wallet bapi federation net)) (\<lambda>w.
         lift_st (of_sum CreateWallet (fw_new bapi federation w)))))
     | first # rest \<Rightarrow> lift_st (
         bind_res (version_wallet_of bapi all_signers net first) (\<lambda>(fed, w).
         bind_res (of_sum CreateWallet (fw_new bapi fed w)) (\<lambda>fw.
         extend_federated_wallet bapi all_signers net fw rest))))"

text \<open>
  The row's descriptor is not that of the current federation: a fresh wallet on the current one,
  revealed as far as the old wallet was, replaces it in the row.
\<close>

definition rebind_inner_to_current_federation where
  "rebind_inner_to_current_federation bapi net row current_desc =
     bind_st (lift_st (of_sum (from_init_wallet (w_id row))
       (init_or_load_wallet bapi net (w_descriptor row) (w_bdk_changeset row)))) (\<lambda>(old, _).
     let reveal_to = (case derivation_index bapi External old of None \<Rightarrow> 0 | Some i \<Rightarrow> i) in
     bind_st (lift_st (of_sum CreateWallet (create_two_path bapi current_desc net))) (\<lambda>fresh.
     let (staged, fresh') = take_staged bapi (reveal_addresses_to bapi External reveal_to fresh);
         changeset = (case staged of None \<Rightarrow> cs_default bapi | Some cs \<Rightarrow> cs) in
     bind_st (lift_st (of_option EncodeChangeSet (cs_to_json bapi changeset))) (\<lambda>json.
     bind_st (db_query WalletSqlx (update_wallet_descriptor_and_changeset (w_id row) current_desc json)) (\<lambda>_.
     ret_st (fresh', changeset)))))"

section \<open>A user's wallet\<close>

record ('fed, 'fw, 'wal, 'cs) user_wallet =
  uw_user_id :: uuid
  uw_wallet_id :: uuid
  uw_account_idx :: int
  uw_network :: network
  uw_federation :: 'fed
  uw_federated :: 'fw
  uw_versions :: "'wal list"
  uw_inner :: 'wal
  uw_aggregate :: 'cs
  uw_has_rpc :: bool
  uw_has_esplora :: bool
  uw_has_electrum :: bool

text \<open>The federation a load settles on: the latest stored version's, or the configured one.\<close>

definition current_federation where
  "current_federation bapi m versions signers = (case rev versions of
       latest # _ \<Rightarrow> reconstruct_federation_from_version bapi latest signers (wm_network m)
     | [] \<Rightarrow> bind_res (patched_signers m signers) (\<lambda>patched.
             of_sum WalletFederation (federation_with_config bapi (wm_threshold m) patched (wm_network m) (wm_script_type m))))"

definition load_inner where
  "load_inner bapi m row current_desc =
     (if current_desc = w_descriptor row
      then lift_st (of_sum (from_init_wallet (w_id row))
             (init_or_load_wallet bapi (wm_network m) (w_descriptor row) (w_bdk_changeset row)))
      else rebind_inner_to_current_federation bapi (wm_network m) row current_desc)"

definition register_signers where
  "register_signers bapi signers wallet =
     fold (\<lambda>s w. add_signer bapi Internal s (add_signer bapi External s w)) signers wallet"

definition build_user_wallet where
  "build_user_wallet papi bapi m user_id row =
     bind_st (lift_st (derivation_path_for bapi m (to_u32_or 0 (w_account_idx row)))) (\<lambda>path.
     bind_st (on_hsm WalletHsm (signers_for papi (wm_fleet m) user_id path)) (\<lambda>signers.
     bind_st (on_host (db_query WalletSqlx (list_federation_versions_for_wallet (w_id row)))) (\<lambda>versions.
     bind_st (lift_st (current_federation bapi m versions signers)) (\<lambda>federation.
     bind_st (lift_st (or_panic (fed_descriptor bapi federation))) (\<lambda>current_desc.
     bind_st (on_host (load_inner bapi m row current_desc)) (\<lambda>(wallet, initial_changeset).
     bind_st (on_host (build_federated_wallet bapi (wm_network m) (w_id row) federation signers)) (\<lambda>federated.
     bind_st (lift_st (map_res (\<lambda>(i, fed, w). create_metadata_wallet bapi fed (wm_network m))
       (fw_wallets bapi federated))) (\<lambda>version_wallets.
     ret_st \<lparr>uw_user_id = user_id, uw_wallet_id = w_id row, uw_account_idx = w_account_idx row,
       uw_network = wm_network m, uw_federation = federation, uw_federated = federated,
       uw_versions = version_wallets, uw_inner = register_signers bapi signers wallet,
       uw_aggregate = initial_changeset, uw_has_rpc = wm_has_rpc m, uw_has_esplora = wm_has_esplora m,
       uw_has_electrum = wm_has_electrum m\<rparr>))))))))"

definition wallet_or_insert where
  "wallet_or_insert user_id uw = (\<lambda>s. case ap_wallets s user_id of
       Some old \<Rightarrow> (Inr old, s)
     | None \<Rightarrow> (Inr uw, s\<lparr>ap_wallets := (ap_wallets s)(user_id \<mapsto> uw)\<rparr>))"

definition load_or_init where
  "load_or_init papi bapi m user_id =
     bind_st (read_st (\<lambda>s. ap_wallets s user_id)) (\<lambda>hit. case hit of
       Some uw \<Rightarrow> ret_st uw
     | None \<Rightarrow>
         bind_st (on_host (db_query WalletSqlx (find_wallet_for_user user_id))) (\<lambda>found.
         bind_st (case found of Some r \<Rightarrow> ret_st r | None \<Rightarrow> create_wallet_for_user papi bapi m user_id) (\<lambda>row.
         bind_st (build_user_wallet papi bapi m user_id row) (\<lambda>uw.
         wallet_or_insert user_id uw))))"

definition load_wallet_from_row where
  "load_wallet_from_row papi bapi m row =
     bind_st (read_st (\<lambda>s. ap_wallets s (w_user_id row))) (\<lambda>hit. case hit of
       Some uw \<Rightarrow> ret_st uw
     | None \<Rightarrow>
         bind_st (build_user_wallet papi bapi m (w_user_id row) row) (\<lambda>uw.
         wallet_or_insert (w_user_id row) uw))"

end
