(* ===== verification/BtcSync.thy ===== *)
theory BtcSync
  imports BtcWallet
begin

text \<open>
  Chain synchronisation of a loaded wallet, \<open>src/wallet.rs\<close>: the three sync paths, the persisted
  change set, and the reconciliation of migrations whose sweep transaction a reorganisation took
  out of the chain. An operation of a \<open>UserWallet\<close> is a computation over the wallet and the host.
\<close>

section \<open>Operations on a loaded wallet\<close>

type_synonym ('fed, 'fw, 'wal, 'cs, 'w, 'e, 'a) wallet_op =
  "(('fed, 'fw, 'wal, 'cs) user_wallet \<times> 'w host, 'e, 'a) st"

definition via_host :: "('w host, 'e, 'a) st \<Rightarrow> ('fed, 'fw, 'wal, 'cs, 'w, 'e, 'a) wallet_op" where
  "via_host m = (\<lambda>(uw, h). case m h of (r, h') \<Rightarrow> (r, (uw, h')))"

text \<open>A computation on the primary wallet, or on the wallet of one version, with the world.\<close>

definition on_inner :: "('wal \<times> 'w, 'e, 'a) st \<Rightarrow> ('fed, 'fw, 'wal, 'cs, 'w, 'e, 'a) wallet_op" where
  "on_inner m = (\<lambda>(uw, h). case m (uw_inner uw, h_world h) of
     (r, (wal, w)) \<Rightarrow> (r, (uw\<lparr>uw_inner := wal\<rparr>, h\<lparr>h_world := w\<rparr>)))"

definition on_version :: "('wal \<times> 'w, 'e, 'a) st \<Rightarrow> nat \<Rightarrow> ('fed, 'fw, 'wal, 'cs, 'w, 'e, 'a) wallet_op" where
  "on_version m i = (\<lambda>(uw, h). case m (uw_versions uw ! i, h_world h) of
     (r, (wal, w)) \<Rightarrow> (r, (uw\<lparr>uw_versions := (uw_versions uw)[i := wal]\<rparr>, h\<lparr>h_world := w\<rparr>)))"

definition the_wallet :: "(('fed, 'fw, 'wal, 'cs) user_wallet \<Rightarrow> 'a) \<Rightarrow> ('fed, 'fw, 'wal, 'cs, 'w, 'e, 'a) wallet_op" where
  "the_wallet f = read_st (\<lambda>(uw, h). f uw)"

definition change_wallet :: "(('fed, 'fw, 'wal, 'cs) user_wallet \<Rightarrow> ('fed, 'fw, 'wal, 'cs) user_wallet) \<Rightarrow>
    ('fed, 'fw, 'wal, 'cs, 'w, 'e, unit) wallet_op" where
  "change_wallet f = write_st (\<lambda>(uw, h). (f uw, h))"

text \<open>A user's wallet is the cache's entry, which \<open>load_or_init\<close> and \<open>load_wallet_from_row\<close> hand out as it is.\<close>

definition on_wallet where
  "on_wallet user m = (\<lambda>s. case ap_wallets s user of
       None \<Rightarrow> (Inl Panic, s)
     | Some uw \<Rightarrow> (case m (uw, ap_host s) of
         (r, (uw', h)) \<Rightarrow> (r, s\<lparr>ap_host := h, ap_wallets := (ap_wallets s)(user \<mapsto> uw')\<rparr>)))"

text \<open>The wallet as it is now.\<close>

definition wallet_of where
  "wallet_of user = on_wallet user (the_wallet (\<lambda>uw. uw))"

section \<open>Persistence\<close>

record sync_summary =
  ss_tip_height :: u32
  ss_new_blocks :: u32
  ss_new_mempool_txs :: u32
  ss_reorg_rebuilt :: bool
  ss_migrations_reverted :: u32

text \<open>The aggregate change set takes the delta in, and is written to the row with the tip.\<close>

definition store_delta where
  "store_delta bapi replace delta tip =
     bind_st (change_wallet (\<lambda>uw. uw\<lparr>uw_aggregate :=
       (if replace then delta else cs_merge bapi (uw_aggregate uw) delta)\<rparr>)) (\<lambda>_.
     bind_st (the_wallet (\<lambda>uw. (uw_wallet_id uw, cs_to_json bapi (uw_aggregate uw)))) (\<lambda>(wid, encoded).
     bind_st (lift_st (of_option EncodeChangeSet encoded)) (\<lambda>json.
     via_host (db_query WalletSqlx (update_wallet_changeset wid json (to_i32_or i32_max (uint tip)))))))"

definition persist_sync where
  "persist_sync bapi summary delta = (case delta of
       Some d \<Rightarrow> store_delta bapi (ss_reorg_rebuilt summary) d (ss_tip_height summary)
     | None \<Rightarrow> bind_st (the_wallet uw_wallet_id) (\<lambda>wid.
         via_host (db_query WalletSqlx (update_wallet_tip_only wid
           (to_i32_or i32_max (uint (ss_tip_height summary)))))))"

section \<open>Reverted migrations\<close>

definition txids_present_in_graph where
  "txids_present_in_graph bapi wanted uw =
     {t. t \<in> wanted \<and> t \<in> set (map (\<lambda>w. bt_txid (wt_tx w)) (concat (map (wallet_txs bapi) (uw_versions uw))))}
     \<union> {t. t \<in> wanted \<and> t \<in> set (map (\<lambda>w. bt_txid (wt_tx w)) (wallet_txs bapi (uw_inner uw)))}"

definition sweep_candidate where
  "sweep_candidate bapi v =
     (if fv_migration_status v = ''complete''
      then (case fv_migration_sweep_txid v of None \<Rightarrow> None
            | Some s \<Rightarrow> (case parse_txid bapi s of None \<Rightarrow> None | Some t \<Rightarrow> Some (fv_id v, t, s)))
      else None)"

fun revert_absent where
  "revert_absent present [] n = ret_st n"
| "revert_absent present ((i, t, s) # cs) n =
     (if t \<in> present then revert_absent present cs n
      else bind_st (db_query WalletSqlx (reconcile_migration i s)) (\<lambda>did.
        revert_absent present cs (if did then saturating_add n (1 :: u32) else n)))"

definition reconcile_reverted_migrations where
  "reconcile_reverted_migrations bapi reorg_rebuilt =
     (if \<not> reorg_rebuilt then ret_st 0
      else bind_st (the_wallet (\<lambda>uw. uw)) (\<lambda>uw.
        bind_st (via_host (db_query WalletSqlx (list_federation_versions_for_wallet (uw_wallet_id uw)))) (\<lambda>versions.
        let candidates = List.map_filter (sweep_candidate bapi) versions in
        if candidates = [] then ret_st 0
        else
          let wanted = set (map (\<lambda>(_, t, _). t) candidates);
              present = txids_present_in_graph bapi wanted uw in
          via_host (revert_absent present candidates 0))))"

section \<open>Sync\<close>

definition reveal_version_wallets_to_inner where
  "reveal_version_wallets_to_inner bapi = change_wallet (\<lambda>uw.
     case derivation_index bapi External (uw_inner uw) of
       None \<Rightarrow> uw
     | Some idx \<Rightarrow> uw\<lparr>uw_versions := map (reveal_addresses_to bapi External idx) (uw_versions uw)\<rparr>)"

definition summary_of where
  "summary_of result = \<lparr>ss_tip_height = sr_tip_height result, ss_new_blocks = sr_blocks_synced result,
     ss_new_mempool_txs = sr_new_mempool_txs result, ss_reorg_rebuilt = sr_reorg_rebuilt result,
     ss_migrations_reverted = 0\<rparr>"

text \<open>Every version wallet, then the primary one; any rebuild among them arms the reconciliation.\<close>

definition sync_wallets where
  "sync_wallets backend =
     bind_st (the_wallet (\<lambda>uw. length (uw_versions uw))) (\<lambda>n.
     bind_st (map_st (on_version backend) [0..<n]) (\<lambda>results.
     bind_st (on_inner backend) (\<lambda>result.
     ret_st (summary_of result, sr_changeset result,
             list_ex sr_reorg_rebuilt results \<or> sr_reorg_rebuilt result))))"

definition finish_sync where
  "finish_sync bapi = (\<lambda>(summary, delta, any_reorg).
     bind_st (persist_sync bapi summary delta) (\<lambda>_.
     bind_st (reconcile_reverted_migrations bapi any_reorg) (\<lambda>n.
     ret_st (summary\<lparr>ss_migrations_reverted := n\<rparr>))))"

definition sync_esplora where
  "sync_esplora bapi =
     bind_st (reveal_version_wallets_to_inner bapi) (\<lambda>_.
     bind_st (sync_wallets (map_err_st EsploraError (esplora_sync bapi))) (finish_sync bapi))"

definition sync_electrum where
  "sync_electrum bapi =
     bind_st (reveal_version_wallets_to_inner bapi) (\<lambda>_.
     bind_st (sync_wallets (map_err_st ElectrumError (electrum_sync bapi))) (finish_sync bapi))"

definition rpc_backend where
  "rpc_backend bapi has_rpc =
     (if has_rpc then map_err_st from_chain_sync (emitter_sync bapi) else lift_st (throw_res RpcClientMissing))"

definition sync_wallet where
  "sync_wallet bapi =
     bind_st (the_wallet (\<lambda>uw. (uw_has_esplora uw, uw_has_electrum uw, uw_has_rpc uw)))
       (\<lambda>(esplora, electrum, rpc).
     if esplora then sync_esplora bapi
     else if electrum then sync_electrum bapi
     else bind_st (sync_wallets (rpc_backend bapi rpc)) (finish_sync bapi))"

section \<open>Reverted migrations: facts\<close>

definition clear_sweep :: "federation_version_row \<Rightarrow> federation_version_row" where
  "clear_sweep v = v\<lparr>fv_migration_status := ''pending'', fv_migration_sweep_txid := None\<rparr>"

lemma clear_sweep_keys [simp]:
  "fv_id (clear_sweep v) = fv_id v" "fv_wallet_id (clear_sweep v) = fv_wallet_id v"
  "fv_migration_status (clear_sweep v) = ''pending''"
  by (simp_all add: clear_sweep_def)

text \<open>The version was swept by a transaction none of the wallet's graphs holds any more.\<close>

definition graph_txids where
  "graph_txids bapi uw = (\<lambda>w. bt_txid (wt_tx w)) `
     (\<Union>wal \<in> set (uw_inner uw # uw_versions uw). set (wallet_txs bapi wal))"

definition sweep_lost where
  "sweep_lost bapi uw v \<longleftrightarrow> (\<exists>i t s. sweep_candidate bapi v = Some (i, t, s) \<and> t \<notin> graph_txids bapi uw)"

lemma sweep_candidate_Some:
  "sweep_candidate bapi v = Some (i, t, s) \<longleftrightarrow> fv_migration_status v = ''complete''
     \<and> fv_migration_sweep_txid v = Some s \<and> parse_txid bapi s = Some t \<and> i = fv_id v"
  by (auto simp: sweep_candidate_def split: option.splits)

lemma present_iff: "t \<in> wanted \<Longrightarrow> t \<in> txids_present_in_graph bapi wanted uw \<longleftrightarrow> t \<in> graph_txids bapi uw"
  by (auto simp: txids_present_in_graph_def graph_txids_def)

lemma reconcile_member:
  assumes "distinct (map fv_id (federation_versions d))" and "v \<in> set (federation_versions d)"
    and "fv_migration_status v = ''complete''" and "fv_migration_sweep_txid v = Some s"
  shows "reconcile_migration (fv_id v) s d = (Inr True, d\<lparr>federation_versions :=
    map (\<lambda>x. if fv_id x = fv_id v then clear_sweep x else x) (federation_versions d)\<rparr>)"
proof -
  have same: "reverted (fv_id v) s x \<longleftrightarrow> x = v" if "x \<in> set (federation_versions d)" for x
    using that assms by (auto simp: reverted_def distinct_map dest: inj_onD)
  have "filter (reverted (fv_id v) s) vs = [v]"
    if "distinct (map fv_id vs)" "v \<in> set vs" "set vs \<subseteq> set (federation_versions d)" for vs
    using that
  proof (induction vs)
    case (Cons x xs)
    then show ?case
      by (cases "x = v") (auto simp: same filter_empty_conv subset_eq rev_image_eqI)
  qed simp
  with assms(1,2) have "filter (reverted (fv_id v) s) (federation_versions d) = [v]" by blast
  moreover have "update_where (reverted (fv_id v) s) clear_sweep (federation_versions d)
      = map (\<lambda>x. if fv_id x = fv_id v then clear_sweep x else x) (federation_versions d)"
    using assms(1,2) same by (auto simp: update_where_def distinct_map dest: inj_onD)
  ultimately show ?thesis
    by (simp add: reconcile_migration_eq count_where_def clear_sweep_def [abs_def])
qed

lemma revert_absent_run:
  fixes n :: u32
  assumes "distinct (map fv_id (federation_versions (h_db h)))" and "distinct (map fv_id vs)"
    and "set vs \<subseteq> set (federation_versions (h_db h))"
    and "\<And>v i t s. v \<in> set vs \<Longrightarrow> sweep_candidate bapi v = Some (i, t, s) \<Longrightarrow>
           t \<in> present \<longleftrightarrow> t \<in> graph_txids bapi uw"
  shows "\<exists>m. revert_absent present (List.map_filter (sweep_candidate bapi) vs) n h
      = (Inr m, h\<lparr>h_db := (h_db h)\<lparr>federation_versions :=
          map (\<lambda>x. if \<exists>v \<in> set vs. fv_id v = fv_id x \<and> sweep_lost bapi uw v then clear_sweep x else x)
            (federation_versions (h_db h))\<rparr>\<rparr>)
    \<and> unat m = min (unat n + length (filter (sweep_lost bapi uw) vs)) (2 ^ 32 - 1)"
  using assms
proof (induction vs arbitrary: h n)
  case Nil
  have "unat n \<le> 2 ^ 32 - 1" using unsigned_less [of n, where 'a = nat] by simp
  then show ?case by (simp add: map_filter_def)
next
  case (Cons v vs)
  have Cons_map: "List.map_filter (sweep_candidate bapi) (v # vs) = (case sweep_candidate bapi v of
      None \<Rightarrow> List.map_filter (sweep_candidate bapi) vs
    | Some c \<Rightarrow> c # List.map_filter (sweep_candidate bapi) vs)"
    by (simp add: map_filter_def split: option.splits)
  show ?case
  proof (cases "sweep_lost bapi uw v")
    case False
    have "revert_absent present (List.map_filter (sweep_candidate bapi) (v # vs)) n h
        = revert_absent present (List.map_filter (sweep_candidate bapi) vs) n h"
      using False Cons.prems(4) [of v] by (auto simp: Cons_map sweep_lost_def split: option.splits)
    moreover have "distinct (map fv_id vs)" "set vs \<subseteq> set (federation_versions (h_db h))"
      using Cons.prems(2,3) by simp_all
    moreover have "t \<in> present \<longleftrightarrow> t \<in> graph_txids bapi uw"
      if "u \<in> set vs" "sweep_candidate bapi u = Some (i, t, s)" for u i t s
      using that by (intro Cons.prems(4)) auto
    ultimately show ?thesis
      using Cons.IH [of h n, OF Cons.prems(1)] False by simp
  next
    case True
    then obtain t s where c: "sweep_candidate bapi v = Some (fv_id v, t, s)" and t: "t \<notin> graph_txids bapi uw"
      by (auto simp: sweep_lost_def sweep_candidate_Some)
    let ?vs' = "map (\<lambda>x. if fv_id x = fv_id v then clear_sweep x else x) (federation_versions (h_db h))"
    let ?h' = "h\<lparr>h_db := (h_db h)\<lparr>federation_versions := ?vs'\<rparr>\<rparr>"
    have "reconcile_migration (fv_id v) s (h_db h) = (Inr True, (h_db h)\<lparr>federation_versions := ?vs'\<rparr>)"
      using Cons.prems(1,3) c by (intro reconcile_member) (auto simp: sweep_candidate_Some)
    then have step: "revert_absent present (List.map_filter (sweep_candidate bapi) (v # vs)) n h
        = revert_absent present (List.map_filter (sweep_candidate bapi) vs) (saturating_add n 1) ?h'"
      using t c Cons.prems(4) [of v] by (simp add: Cons_map db_query_def bind_st_def)
    have sub: "set vs \<subseteq> set ?vs'"
    proof
      fix x assume x: "x \<in> set vs"
      then have "fv_id x \<noteq> fv_id v" using Cons.prems(2) by (auto simp: rev_image_eqI)
      moreover have "x \<in> set (federation_versions (h_db h))" using x Cons.prems(3) by auto
      ultimately show "x \<in> set ?vs'" by force
    qed
    have IH: "\<exists>m. revert_absent present (List.map_filter (sweep_candidate bapi) vs) (saturating_add n 1) ?h'
      = (Inr m, ?h'\<lparr>h_db := (h_db ?h')\<lparr>federation_versions :=
          map (\<lambda>x. if \<exists>v \<in> set vs. fv_id v = fv_id x \<and> sweep_lost bapi uw v then clear_sweep x else x)
            (federation_versions (h_db ?h'))\<rparr>\<rparr>)
      \<and> unat m = min (unat (saturating_add n 1) + length (filter (sweep_lost bapi uw) vs)) (2 ^ 32 - 1)"
    proof (rule Cons.IH)
      show "distinct (map fv_id (federation_versions (h_db ?h')))"
        using Cons.prems(1) by (simp add: comp_def if_distrib [of fv_id] cong: if_cong)
      show "set vs \<subseteq> set (federation_versions (h_db ?h'))" using sub by simp
      show "distinct (map fv_id vs)" using Cons.prems(2) by simp
      show "t \<in> present \<longleftrightarrow> t \<in> graph_txids bapi uw"
        if "u \<in> set vs" "sweep_candidate bapi u = Some (i, t, s)" for u i t s
        using that by (intro Cons.prems(4)) auto
    qed
    have "map (\<lambda>x. if \<exists>v \<in> set vs. fv_id v = fv_id x \<and> sweep_lost bapi uw v then clear_sweep x else x) ?vs'
        = map (\<lambda>x. if \<exists>v \<in> set (v # vs). fv_id v = fv_id x \<and> sweep_lost bapi uw v then clear_sweep x else x)
            (federation_versions (h_db h))"
      using True Cons.prems(2) by (auto simp: rev_image_eqI)
    with IH True show ?thesis
      unfolding step by (auto simp: unat_saturating_add)
  qed
qed

section \<open>The stored change set\<close>

text \<open>The row of the wallet holds the encoding of the aggregate kept in memory.\<close>

definition row_in_step where
  "row_in_step bapi = (\<lambda>(uw, h). \<forall>row \<in> set (wallets (h_db h)). w_id row = uw_wallet_id uw \<longrightarrow>
     w_bdk_changeset row = cs_to_json bapi (uw_aggregate uw))"

lemma store_delta_Inr:
  "store_delta bapi replace delta tip (uw, h) = (Inr (), s') \<longleftrightarrow>
    (let agg = (if replace then delta else cs_merge bapi (uw_aggregate uw) delta) in
     \<exists>json. cs_to_json bapi agg = Some json \<and>
       s' = (uw\<lparr>uw_aggregate := agg\<rparr>, h\<lparr>h_db := (h_db h)\<lparr>wallets := update_where (\<lambda>w. w_id w = uw_wallet_id uw)
         (\<lambda>w. w\<lparr>w_bdk_changeset := Some json, w_chain_tip_height := Some (to_i32_or i32_max (uint tip))\<rparr>)
         (wallets (h_db h))\<rparr>\<rparr>))"
  by (cases "cs_to_json bapi (if replace then delta else cs_merge bapi (uw_aggregate uw) delta)")
    (auto simp: store_delta_def change_wallet_def the_wallet_def via_host_def bind_st_lift
      db_query_def update_wallet_changeset_def Let_def split_beta)

lemma store_delta_in_step:
  assumes "store_delta bapi replace delta tip s = (Inr (), s')"
  shows "row_in_step bapi s' \<and> uw_wallet_id (fst s') = uw_wallet_id (fst s)"
proof (cases s)
  case (Pair uw h)
  with assms show ?thesis
    by (auto simp: store_delta_Inr row_in_step_def set_update_where Let_def)
qed

lemma persist_sync_in_step:
  assumes "persist_sync bapi summary delta s = (Inr (), s')" and "row_in_step bapi s"
  shows "row_in_step bapi s'"
proof (cases delta)
  case None
  with assms show ?thesis
    by (cases s) (auto simp: persist_sync_def the_wallet_def via_host_def db_query_def
        update_wallet_tip_only_def row_in_step_def set_update_where)
next
  case (Some d)
  with assms(1) show ?thesis
    using store_delta_in_step [of bapi _ d _ s s'] by (auto simp: persist_sync_def)
qed

text \<open>Scanning and reconciling leave the stored change set and the aggregate alone.\<close>

definition same_aggregate :: "('fed, 'fw, 'wal, 'cs) user_wallet \<times> 'w host \<Rightarrow>
    ('fed, 'fw, 'wal, 'cs) user_wallet \<times> 'w host \<Rightarrow> bool" where
  "same_aggregate s = (\<lambda>s'. uw_wallet_id (fst s') = uw_wallet_id (fst s)
     \<and> uw_aggregate (fst s') = uw_aggregate (fst s) \<and> wallets (h_db (snd s')) = wallets (h_db (snd s)))"

lemma same_aggregate_in_step: "same_aggregate s s' \<Longrightarrow> row_in_step bapi s \<Longrightarrow> row_in_step bapi s'"
  by (auto simp: same_aggregate_def row_in_step_def split: prod.splits)

lemma same_aggregate_refl [simp]: "same_aggregate s s"
  by (simp add: same_aggregate_def)

lemma on_version_same [pres_intros]: "preserves (same_aggregate s) (on_version m i)"
  by (rule preservesI) (auto simp: on_version_def same_aggregate_def split: prod.splits)

lemma on_inner_same [pres_intros]: "preserves (same_aggregate s) (on_inner m)"
  by (rule preservesI) (auto simp: on_inner_def same_aggregate_def split: prod.splits)

lemma the_wallet_pres [pres_intros]: "preserves P (the_wallet f)"
  by (simp add: the_wallet_def)

lemma reveal_versions_same [pres_intros]: "preserves (same_aggregate s) (reveal_version_wallets_to_inner bapi)"
  by (auto simp: reveal_version_wallets_to_inner_def change_wallet_def preserves_def same_aggregate_def
      split: prod.splits option.splits)

lemma sync_wallets_same [pres_intros]: "preserves (same_aggregate s) (sync_wallets backend)"
  unfolding sync_wallets_def by (intro pres_intros)

lemma via_host_same [pres_intros]:
  fixes m :: "('w host, 'e, 'a) st" and s :: "('fed, 'fw, 'wal, 'cs) user_wallet \<times> 'w host"
  assumes keep: "\<And>ws. preserves (\<lambda>h. wallets (h_db h) = ws) m"
  shows "preserves (same_aggregate s) (via_host m)"
proof (rule preservesI)
  fix t :: "('fed, 'fw, 'wal, 'cs) user_wallet \<times> 'w host"
  assume t: "same_aggregate s t"
  obtain r h' where run: "m (snd t) = (r, h')" by force
  have "wallets (h_db h') = wallets (h_db (snd t))"
    by (rule preserves_run [OF run refl keep])
  with t run show "same_aggregate s (snd (via_host m t))"
    by (simp add: via_host_def same_aggregate_def split_beta)
qed

lemma revert_absent_wallets: "preserves (\<lambda>h. wallets (h_db h) = ws) (revert_absent present cs n)"
proof (induction cs arbitrary: n)
  case (Cons c cs)
  have "preserves (\<lambda>h. wallets (h_db h) = ws) (db_query WalletSqlx (reconcile_migration i x))" for i x
    by (auto simp: preserves_def db_query_def reconcile_migration_eq)
  then show ?case
    using Cons.IH by (cases c) (auto intro!: pres_intros)
qed simp

lemma reconcile_same [pres_intros]: "preserves (same_aggregate s) (reconcile_reverted_migrations bapi b)"
  unfolding reconcile_reverted_migrations_def
  by (intro pres_intros revert_absent_wallets)
    (auto simp: preserves_def db_query_def list_federation_versions_for_wallet_def)

lemma preserves_in_step:
  assumes "m s = (r, s')" and "row_in_step bapi s" and "preserves (same_aggregate s) m"
  shows "row_in_step bapi s'"
  using preserves_run [OF assms(1) same_aggregate_refl assms(3)] assms(2) by (rule same_aggregate_in_step)

lemma finish_sync_in_step:
  assumes "finish_sync bapi p s = (Inr r, s')" and "row_in_step bapi s"
  shows "row_in_step bapi s'"
proof -
  obtain summary delta b where p: "p = (summary, delta, b)" by (cases p)
  with assms(1) obtain t n where "persist_sync bapi summary delta s = (Inr (), t)"
    and rest: "reconcile_reverted_migrations bapi b t = (Inr n, s')"
    by (auto simp: finish_sync_def elim!: bind_st_InrE)
  with assms(2) have "row_in_step bapi t" by (blast intro: persist_sync_in_step)
  with rest show ?thesis by (rule preserves_in_step [OF _ _ reconcile_same])
qed

lemma sync_and_finish_in_step:
  assumes "bind_st (sync_wallets backend) (finish_sync bapi) s = (Inr r, s')" and "row_in_step bapi s"
  shows "row_in_step bapi s'"
  using assms(1)
proof (rule bind_st_InrE)
  fix p t
  assume scan: "sync_wallets backend s = (Inr p, t)" and fin: "finish_sync bapi p t = (Inr r, s')"
  from scan assms(2) have "row_in_step bapi t" by (rule preserves_in_step [OF _ _ sync_wallets_same])
  with fin show ?thesis by (rule finish_sync_in_step)
qed

lemma reveal_sync_in_step:
  assumes "bind_st (reveal_version_wallets_to_inner bapi) (\<lambda>_. bind_st (sync_wallets backend) (finish_sync bapi)) s
    = (Inr r, s')" and "row_in_step bapi s"
  shows "row_in_step bapi s'"
  using assms(1)
proof (rule bind_st_InrE)
  fix u t
  assume rev: "reveal_version_wallets_to_inner bapi s = (Inr u, t)"
    and fin: "bind_st (sync_wallets backend) (finish_sync bapi) t = (Inr r, s')"
  from rev assms(2) have "row_in_step bapi t" by (rule preserves_in_step [OF _ _ reveal_versions_same])
  with fin show ?thesis by (rule sync_and_finish_in_step)
qed

section \<open>Properties\<close>


text \<open>What a rebuild staged replaces the aggregate, anything else is merged into it; without a
  delta only the recorded tip moves, and a tip beyond the 32-bit column is recorded as its
  largest value.\<close>

theorem persist_sync_merges_or_replaces:
  assumes "persist_sync bapi summary delta (uw, h) = (Inr (), (uw', h'))"
  shows "uw_aggregate uw' = (case delta of None \<Rightarrow> uw_aggregate uw
      | Some d \<Rightarrow> if ss_reorg_rebuilt summary then d else cs_merge bapi (uw_aggregate uw) d)
    \<and> wallets (h_db h') = map (\<lambda>w. if w_id w \<noteq> uw_wallet_id uw then w
        else (if delta = None then w else w\<lparr>w_bdk_changeset := cs_to_json bapi (uw_aggregate uw')\<rparr>)
               \<lparr>w_chain_tip_height := Some (min (uint (ss_tip_height summary)) (2 ^ 31 - 1))\<rparr>) (wallets (h_db h))"
proof -
  have nonneg: "- 2147483648 \<le> uint (ss_tip_height summary)"
    by (rule order_trans [OF _ uint_ge_0]) simp
  have tip: "to_i32_or i32_max (uint (ss_tip_height summary)) = min (uint (ss_tip_height summary)) (2 ^ 31 - 1)"
    unfolding to_i32_or_def in_i32_def i32_max_def by (simp add: nonneg min_def)
  show ?thesis
  proof (cases delta)
    case None
    with assms show ?thesis
      by (auto simp: persist_sync_def the_wallet_def via_host_def db_query_def
          update_wallet_tip_only_def update_where_def tip)
  next
    case (Some d)
    with assms show ?thesis
      by (auto simp: persist_sync_def store_delta_Inr Let_def update_where_def tip)
  qed
qed

text \<open>C3. After a reorganisation the reconciliation reverts exactly the completed versions of this
  wallet whose recorded sweep is in none of its graphs, and reports their number; every other row
  stays as it is. Without a rebuild it does nothing.\<close>

theorem reconciliation_is_exact:
  fixes h :: "'w host"
  assumes "db_inv (h_db h)"
  shows "\<exists>n. reconcile_reverted_migrations bapi True (uw, h) = (Inr n,
      (uw, h\<lparr>h_db := (h_db h)\<lparr>federation_versions := map (\<lambda>v.
         if fv_wallet_id v = Some (uw_wallet_id uw) \<and> sweep_lost bapi uw v then clear_sweep v else v)
           (federation_versions (h_db h))\<rparr>\<rparr>))
    \<and> unat n = min (length (filter (\<lambda>v. fv_wallet_id v = Some (uw_wallet_id uw) \<and> sweep_lost bapi uw v)
        (federation_versions (h_db h)))) (2 ^ 32 - 1)
    \<and> reconcile_reverted_migrations bapi False (uw, h) = (Inr 0, (uw, h))"
proof -
  let ?fvs = "federation_versions (h_db h)"
  let ?own = "filter (\<lambda>v. fv_wallet_id v = Some (uw_wallet_id uw)) ?fvs"
  let ?vs = "sort_key fv_version_index ?own"
  let ?cs = "List.map_filter (sweep_candidate bapi) ?vs"
  let ?present = "txids_present_in_graph bapi (set (map (\<lambda>(_, t, _). t) ?cs)) uw"
  have dist: "distinct (map fv_id ?fvs)"
    using assms by (simp add: db_inv_def federation_versions_ok_def)
  have "\<exists>m. revert_absent ?present ?cs 0 h
      = (Inr m, h\<lparr>h_db := (h_db h)\<lparr>federation_versions :=
          map (\<lambda>x. if \<exists>v \<in> set ?vs. fv_id v = fv_id x \<and> sweep_lost bapi uw v then clear_sweep x else x) ?fvs\<rparr>\<rparr>)
    \<and> unat m = min (unat (0 :: u32) + length (filter (sweep_lost bapi uw) ?vs)) (2 ^ 32 - 1)"
  proof (rule revert_absent_run [OF dist])
    show "distinct (map fv_id ?vs)"
      using dist by (auto simp: distinct_map inj_on_def)
    fix v i t s assume v: "v \<in> set ?vs" "sweep_candidate bapi v = Some (i, t, s)"
    then have "(i, t, s) \<in> set ?cs" by (force simp: map_filter_def)
    then show "t \<in> ?present \<longleftrightarrow> t \<in> graph_txids bapi uw"
      by (intro present_iff) force
  qed auto
  moreover have "(\<exists>v \<in> set ?vs. fv_id v = fv_id x \<and> sweep_lost bapi uw v)
      \<longleftrightarrow> fv_wallet_id x = Some (uw_wallet_id uw) \<and> sweep_lost bapi uw x" if "x \<in> set ?fvs" for x
    using that dist by (auto simp: distinct_map dest: inj_onD)
  then have "map (\<lambda>x. if \<exists>v \<in> set ?vs. fv_id v = fv_id x \<and> sweep_lost bapi uw v then clear_sweep x else x) ?fvs
      = map (\<lambda>v. if fv_wallet_id v = Some (uw_wallet_id uw) \<and> sweep_lost bapi uw v then clear_sweep v else v) ?fvs"
    by (intro map_cong) auto
  moreover have "length (filter (sweep_lost bapi uw) ?vs)
      = length (filter (\<lambda>v. fv_wallet_id v = Some (uw_wallet_id uw) \<and> sweep_lost bapi uw v) ?fvs)"
    by (simp add: filter_sort conj_commute)
  moreover have "reconcile_reverted_migrations bapi True (uw, h) =
      via_host (revert_absent ?present ?cs 0) (uw, h)"
    by (cases "?cs = []") (simp_all add: reconcile_reverted_migrations_def the_wallet_def via_host_def db_query_def
        list_federation_versions_for_wallet_def Let_def bind_st_def)
  moreover have "reconcile_reverted_migrations bapi False (uw, h) = (Inr 0, (uw, h))"
    by (simp add: reconcile_reverted_migrations_def)
  ultimately show ?thesis
    by (auto simp: via_host_def simp del: map_map)
qed

end
