(* ===== verification/BtcLoad.thy ===== *)
theory BtcLoad
  imports BtcSync
begin

text \<open>
  What loading a Bitcoin wallet guarantees: derivation paths that differ between accounts, the
  federation rebuilt from the key origins of the stored descriptor, the row healed to the current
  federation, one wallet per user, and no panic on a loaded configuration. The last part is a
  small wallet kit on which the properties are evaluated.
\<close>

section \<open>Derivation paths\<close>

text \<open>The hardened child constructor gives different children to different indices.\<close>

definition hardened_injective where
  "hardened_injective f \<longleftrightarrow> (\<forall>i j c. f i = Inr c \<longrightarrow> f j = Inr c \<longrightarrow> i = j)"

lemma derivation_path_Inr:
  "derivation_path_for bapi m i = Inr p \<longleftrightarrow> (\<exists>a b c d. from_hardened_idx bapi 48 = Inr a
     \<and> from_hardened_idx bapi (wm_coin_index m) = Inr b \<and> from_hardened_idx bapi i = Inr c
     \<and> from_hardened_idx bapi 2 = Inr d \<and> p = [a, b, c, d])"
  by (auto simp: derivation_path_for_def bind_res_Inr_iff)

lemma derivation_path_inj:
  "hardened_injective (from_hardened_idx bapi) \<Longrightarrow> derivation_path_for bapi m i = Inr p
    \<Longrightarrow> derivation_path_for bapi m j = Inr p \<Longrightarrow> i = j"
  by (auto simp: derivation_path_Inr hardened_injective_def)

lemma account_index_inj:
  assumes "db_inv d" and "r \<in> set (wallets d)" and "r' \<in> set (wallets d)" and "r \<noteq> r'"
  shows "to_u32_or 0 (w_account_idx r) \<noteq> to_u32_or 0 (w_account_idx r')"
proof
  assume eq: "to_u32_or 0 (w_account_idx r) = to_u32_or 0 (w_account_idx r')"
  have range: "0 \<le> w_account_idx x \<and> w_account_idx x < 2 ^ 32" if "x \<in> set (wallets d)" for x
    using assms(1) that by (auto simp: db_inv_def wallets_ok_def list_all_iff in_i32_def i32_max_def)
  have "uint (to_u32_or 0 (w_account_idx x)) = w_account_idx x" if "x \<in> set (wallets d)" for x
    using range [OF that] by (intro uint_to_u32_or) auto
  with eq assms(2,3) have "w_account_idx r = w_account_idx r'" by metis
  moreover have "distinct (map w_account_idx (wallets d))"
    using assms(1) by (simp add: db_inv_def wallets_ok_def)
  ultimately show False using assms(2-4) by (auto simp: distinct_map dest: inj_onD)
qed

section \<open>Rebuilding a federation\<close>

lemma match_signer_found:
  assumes "distinct (map (fingerprint_str bapi) pool)" and "s \<in> set pool"
  shows "match_signer bapi pool net v (fingerprint_str bapi s) = Inr (s, net)"
  using find_unique [OF assms] by (simp add: match_signer_def)

lemma match_signers_in_order:
  assumes "distinct (map (fingerprint_str bapi) pool)" and "set ss \<subseteq> set pool"
  shows "map_res (match_signer bapi pool net v) (map (fingerprint_str bapi) ss) = Inr (map (\<lambda>s. (s, net)) ss)"
  using assms(2) by (induction ss) (auto simp: match_signer_found [OF assms(1)])

lemma match_signers_missing:
  assumes "fp \<in> set fps" and "fp \<notin> fingerprint_str bapi ` set pool"
  shows "\<exists>msg. map_res (match_signer bapi pool net v) fps = Inl (Err (CreateWallet msg))"
  using assms(1)
proof (induction fps)
  case (Cons f fps)
  show ?case
  proof (cases "find (\<lambda>s. fingerprint_str bapi s = f) pool")
    case None
    then show ?thesis by (simp add: match_signer_def throw_res_def)
  next
    case (Some s)
    with assms(2) find_Some_in [of _ pool s] have "f \<noteq> fp" by blast
    with Cons obtain msg where "map_res (match_signer bapi pool net v) fps = Inl (Err (CreateWallet msg))"
      by auto
    moreover have "match_signer bapi pool net v f = Inr (s, net)"
      using Some by (simp add: match_signer_def)
    ultimately show ?thesis by simp
  qed
qed simp

section \<open>The row after a load\<close>

text \<open>Recording the first version keeps the wallet table.\<close>

lemma insert_version_wallets: "wallets (snd (insert_federation_version n t s d)) = wallets d"
  by (cases "version_refusal n s d") (simp_all add: insert_federation_version_def st_simps)

lemma build_federated_wallets:
  "preserves (\<lambda>h. wallets (h_db h) = ws) (build_federated_wallet bapi net wid fed signers)"
  unfolding build_federated_wallet_def
  by (intro pres_intros)
    (auto simp: preserves_def db_query_def db_insert_def list_federation_versions_for_wallet_def split_beta
      insert_version_wallets)

lemma load_inner_wallets:
  assumes "load_inner bapi m row desc h = (Inr (w, cs), h')"
  shows "wallets (h_db h') = (if desc = w_descriptor row then wallets (h_db h)
      else update_where (\<lambda>r. w_id r = w_id row) (\<lambda>r. r\<lparr>w_descriptor := desc,
             w_bdk_changeset := cs_to_json bapi cs, w_chain_tip_height := Some 0\<rparr>) (wallets (h_db h)))
    \<and> federation_versions (h_db h') = federation_versions (h_db h)"
  using assms
  by (auto simp: load_inner_def rebind_inner_to_current_federation_def db_query_def Let_def split_beta
      update_wallet_descriptor_and_changeset_def elim!: bind_st_InrE split: if_splits)

text \<open>The stages of a load that succeeds.\<close>

lemma build_user_wallet_stages:
  assumes "build_user_wallet papi bapi m u row s = (Inr uw, s')"
  obtains path signers s1 versions fed desc wal cs h2 fw h3 where
    "derivation_path_for bapi m (to_u32_or 0 (w_account_idx row)) = Inr path"
    "on_hsm WalletHsm (signers_for papi (wm_fleet m) u path) s = (Inr signers, s1)"
    "list_federation_versions_for_wallet (w_id row) (h_db (ap_host s1)) = (Inr versions, h_db (ap_host s1))"
    "current_federation bapi m versions signers = Inr fed"
    "fed_descriptor bapi fed = Some desc"
    "load_inner bapi m row desc (ap_host s1) = (Inr (wal, cs), h2)"
    "build_federated_wallet bapi (wm_network m) (w_id row) fed signers h2 = (Inr fw, h3)"
    "s' = s1\<lparr>ap_host := h3\<rparr>" "uw_federation uw = fed" "uw_wallet_id uw = w_id row" "uw_federated uw = fw"
    "uw_aggregate uw = cs"
    "map_res (\<lambda>(i, fed, w). create_metadata_wallet bapi fed (wm_network m)) (fw_wallets bapi fw) = Inr (uw_versions uw)"
  using assms unfolding build_user_wallet_def
  by (fastforce simp: on_host_Inr_iff db_query_Inr_iff list_federation_versions_for_wallet_def
      elim!: bind_st_InrE)

lemma load_heals_row:
  assumes "build_user_wallet papi bapi m u row s = (Inr uw, s')" and "db_inv (h_db (ap_host s))"
    and "row \<in> set (wallets (h_db (ap_host s)))"
  shows "\<exists>row'. wallets (h_db (ap_host s')) = map (\<lambda>r. if r = row then row' else r) (wallets (h_db (ap_host s)))
    \<and> fed_descriptor bapi (uw_federation uw) = Some (w_descriptor row')
    \<and> w_id row' = w_id row \<and> w_user_id row' = w_user_id row \<and> w_account_idx row' = w_account_idx row"
  using assms(1)
proof (rule build_user_wallet_stages)
  fix path signers s1 versions fed desc wal cs h2 fw h3
  assume hsm: "on_hsm WalletHsm (signers_for papi (wm_fleet m) u path) s = (Inr signers, s1)"
    and desc: "fed_descriptor bapi fed = Some desc"
    and inner: "load_inner bapi m row desc (ap_host s1) = (Inr (wal, cs), h2)"
    and fws: "build_federated_wallet bapi (wm_network m) (w_id row) fed signers h2 = (Inr fw, h3)"
    and s': "s' = s1\<lparr>ap_host := h3\<rparr>" and fed: "uw_federation uw = fed"
  let ?ws = "wallets (h_db (ap_host s))"
  have "wallets (h_db (ap_host s')) = wallets (h_db h2)"
    using preserves_run [OF fws refl build_federated_wallets] s' by simp
  also have "\<dots> = (if desc = w_descriptor row then ?ws
      else update_where (\<lambda>r. w_id r = w_id row) (\<lambda>r. r\<lparr>w_descriptor := desc,
             w_bdk_changeset := cs_to_json bapi cs, w_chain_tip_height := Some 0\<rparr>) ?ws)"
    using load_inner_wallets [OF inner] on_hsm_caches [OF hsm] by simp
  finally have ws: "wallets (h_db (ap_host s')) = \<dots>" .
  have same: "w_id r = w_id row \<longleftrightarrow> r = row" if "r \<in> set ?ws" for r
    using assms(2,3) that by (auto simp: db_inv_def wallets_ok_def distinct_map dest: inj_onD)
  let ?row = "if desc = w_descriptor row then row
    else row\<lparr>w_descriptor := desc, w_bdk_changeset := cs_to_json bapi cs, w_chain_tip_height := Some 0\<rparr>"
  show ?thesis
  proof (intro exI [of _ ?row] conjI)
    show "wallets (h_db (ap_host s')) = map (\<lambda>r. if r = row then ?row else r) ?ws"
      unfolding ws using same by (auto simp: update_where_def map_idI)
  qed (use desc fed in auto)
qed

text \<open>A second load from a healed row, with versions recorded: the same federation, no rebinding.\<close>

lemma versions_kept:
  assumes "list_federation_versions_for_wallet wid (h_db h) = (Inr vs, h_db h)" and "vs \<noteq> []"
    and "build_federated_wallet bapi net wid fed signers h = (r, h')"
  shows "h' = h"
  using assms
  by (cases vs) (auto simp: build_federated_wallet_def db_query_def list_federation_versions_for_wallet_def
      bind_st_def)

lemma second_load:
  assumes first: "build_user_wallet papi bapi m u row s = (Inr uw, s')"
    and versions: "\<exists>v \<in> set (federation_versions (h_db (ap_host s))). fv_wallet_id v = Some (w_id row)"
    and row': "w_id row' = w_id row" "w_account_idx row' = w_account_idx row"
      "Some (w_descriptor row') = fed_descriptor bapi (uw_federation uw)"
    and again: "build_user_wallet papi bapi m u row' s' = (Inr uw', s'')"
  shows "uw_federation uw' = uw_federation uw \<and> s'' = s'"
  using first
proof (rule build_user_wallet_stages)
  fix path signers s1 vs fed desc wal cs h2 fw h3
  assume path: "derivation_path_for bapi m (to_u32_or 0 (w_account_idx row)) = Inr path"
    and hsm: "on_hsm WalletHsm (signers_for papi (wm_fleet m) u path) s = (Inr signers, s1)"
    and list: "list_federation_versions_for_wallet (w_id row) (h_db (ap_host s1)) = (Inr vs, h_db (ap_host s1))"
    and current: "current_federation bapi m vs signers = Inr fed"
    and desc: "fed_descriptor bapi fed = Some desc"
    and inner: "load_inner bapi m row desc (ap_host s1) = (Inr (wal, cs), h2)"
    and fws: "build_federated_wallet bapi (wm_network m) (w_id row) fed signers h2 = (Inr fw, h3)"
    and s': "s' = s1\<lparr>ap_host := h3\<rparr>" and fed: "uw_federation uw = fed"
  have db1: "h_db (ap_host s1) = h_db (ap_host s)" using on_hsm_caches [OF hsm] by simp
  have list2: "list_federation_versions_for_wallet (w_id row) (h_db h2) = (Inr vs, h_db h2)"
    using list load_inner_wallets [OF inner] by (simp add: list_federation_versions_for_wallet_def)
  have "vs \<noteq> []"
    using list versions by (auto simp: list_federation_versions_for_wallet_def db1 filter_empty_conv
        simp flip: set_empty)
  note h3 = versions_kept [OF list2 this fws]
  have cached: "ap_signers s1 u = Some signers"
    using hsm hsm_cache.stored by (fastforce simp: on_hsm_def split: prod.splits)
  have hsm': "on_hsm WalletHsm (signers_for papi (wm_fleet m) u p) s' = (Inr signers, s')" for p
    using cached by (simp add: on_hsm_def signers_for_hit s')
  show ?thesis
    using again
  proof (rule build_user_wallet_stages)
    fix path' signers' t1 vs' fed' desc' wal' cs' h2' fw' h3'
    assume "on_hsm WalletHsm (signers_for papi (wm_fleet m) u path') s' = (Inr signers', t1)"
      and l: "list_federation_versions_for_wallet (w_id row') (h_db (ap_host t1)) = (Inr vs', h_db (ap_host t1))"
      and c: "current_federation bapi m vs' signers' = Inr fed'"
      and d: "fed_descriptor bapi fed' = Some desc'"
      and i: "load_inner bapi m row' desc' (ap_host t1) = (Inr (wal', cs'), h2')"
      and f: "build_federated_wallet bapi (wm_network m) (w_id row') fed' signers' h2' = (Inr fw', h3')"
      and s'': "s'' = t1\<lparr>ap_host := h3'\<rparr>" and fed': "uw_federation uw' = fed'"
    then have t1: "signers' = signers" "t1 = s'" using hsm' by auto
    have "vs' = vs" using l list2 by (simp add: t1 s' h3 row')
    with c current t1 have "fed' = fed" by simp
    with d desc fed row'(3) have "desc' = w_descriptor row'" by simp
    then have h2': "h2' = h3"
      using i by (auto simp: load_inner_def t1 s' split: sum.splits)
    have "h3' = h2'"
      by (rule versions_kept [OF _ \<open>vs \<noteq> []\<close> f]) (use l list2 \<open>vs' = vs\<close> in \<open>simp add: h2' h3 row'\<close>)
    then show ?thesis
      using fed fed' \<open>fed' = fed\<close> s'' s' t1 h2' by simp
  qed
qed

section \<open>One wallet per user\<close>

text \<open>The stages before the cache is filled leave it alone.\<close>

lemma create_at_kept [pres_intros]: "preserves (caches_kept s) (create_wallet_for_user_at papi bapi m u i)"
  unfolding create_wallet_for_user_at_def by (intro pres_intros)

lemma create_kept [pres_intros]: "preserves (caches_kept s) (create_wallet_for_user papi bapi m u)"
  unfolding create_wallet_for_user_def by (intro pres_intros)

lemma build_kept [pres_intros]: "preserves (caches_kept s) (build_user_wallet papi bapi m u row)"
  unfolding build_user_wallet_def by (intro pres_intros)

definition load_missing where
  "load_missing papi bapi m user_id =
     bind_st (on_host (db_query WalletSqlx (find_wallet_for_user user_id))) (\<lambda>found.
     bind_st (case found of Some r \<Rightarrow> ret_st r | None \<Rightarrow> create_wallet_for_user papi bapi m user_id) (\<lambda>row.
     build_user_wallet papi bapi m user_id row))"

lemma load_missing_kept: "preserves (caches_kept s) (load_missing papi bapi m u)"
  unfolding load_missing_def by (intro pres_intros)

lemma load_or_init_hit: "ap_wallets s u = Some uw \<Longrightarrow> load_or_init papi bapi m u s = (Inr uw, s)"
  by (simp add: load_or_init_def)

lemma load_or_init_miss:
  assumes "ap_wallets s u = None"
  shows "load_or_init papi bapi m u s = (case load_missing papi bapi m u s of
      (Inl x, t) \<Rightarrow> (Inl x, t)
    | (Inr uw, t) \<Rightarrow> (Inr uw, t\<lparr>ap_wallets := (ap_wallets t)(u \<mapsto> uw)\<rparr>))"
proof -
  have "load_or_init papi bapi m u s = bind_st (load_missing papi bapi m u) (wallet_or_insert u) s"
    using assms by (simp add: load_or_init_def load_missing_def bind_st_assoc)
  moreover obtain r t where run: "load_missing papi bapi m u s = (r, t)" by force
  moreover have "ap_wallets t u = None"
    using preserves_run [OF run caches_kept_refl load_missing_kept] assms by (simp add: caches_kept_def)
  ultimately show ?thesis
    by (cases r) (simp_all add: bind_st_def wallet_or_insert_def)
qed

lemma load_or_init_caches:
  assumes "load_or_init papi bapi m u s = (r, t)"
  shows "case r of Inl _ \<Rightarrow> ap_wallets t = ap_wallets s | Inr uw \<Rightarrow> ap_wallets t = (ap_wallets s)(u \<mapsto> uw)"
proof (cases "ap_wallets s u")
  case None
  obtain q t' where run: "load_missing papi bapi m u s = (q, t')" by force
  with preserves_run [OF run caches_kept_refl load_missing_kept] assms show ?thesis
    by (cases q) (auto simp: load_or_init_miss [where m = m, OF None] caches_kept_def)
next
  case (Some uw)
  with assms show ?thesis by (auto simp: load_or_init_hit fun_upd_idem)
qed

interpretation wallet_cache: build_cache ap_wallets "\<lambda>u (_ :: unit). load_or_init papi bapi m u"
  for papi bapi m
  by unfold_locales (auto simp: load_or_init_hit dest!: load_or_init_caches split: sum.splits)

section \<open>No panic on a loaded configuration\<close>

text \<open>A federation the crate builds has a descriptor.\<close>

definition feds_have_descriptors where
  "feds_have_descriptors bapi \<longleftrightarrow> (\<forall>fed. fed_descriptor bapi fed \<noteq> None)"

definition manager_fits where
  "manager_fits m \<longleftrightarrow> list_all (\<lambda>i. i < length (hf_tokens (wm_fleet m))) (wm_signer_indices m)"

lemma manager_new_fits:
  assumes "wallet_manager_new bapi cfg fleet w = (Inr m, w')" and "federation_ok cfg"
    and "hf_tokens fleet = hsm_tokens cfg"
  shows "manager_fits m \<and> wm_fleet m = fleet"
  using assms
  by (auto simp: wallet_manager_new_def manager_fits_def federation_ok_def signers_in_range_def list_all_iff
      elim!: bind_st_InrE)

lemma patched_signers_ok:
  assumes "manager_fits m" and "length ss = length (hf_tokens (wm_fleet m))"
  shows "patched_signers m ss = Inr (map (\<lambda>i. (ss ! i, wm_network m)) (wm_signer_indices m))"
  unfolding patched_signers_def
  by (rule map_res_total) (use assms in \<open>auto simp: manager_fits_def list_all_iff\<close>)

lemma derivation_path_no_panic: "derivation_path_for bapi m i \<noteq> Inl Panic"
  unfolding derivation_path_for_def by (intro bind_res_no_panic) auto

lemma metadata_wallet_no_panic:
  "feds_have_descriptors bapi \<Longrightarrow> create_metadata_wallet bapi fed net \<noteq> Inl Panic"
  unfolding create_metadata_wallet_def
  by (intro bind_res_no_panic) (auto simp: feds_have_descriptors_def or_panic_def split: option.splits)

lemma reconstruct_no_panic: "reconstruct_federation_from_version bapi v pool net \<noteq> Inl Panic"
  unfolding reconstruct_federation_from_version_def
  by (intro bind_res_no_panic map_res_no_panic) (auto simp: match_signer_def split: option.splits)

lemma version_wallet_no_panic:
  "feds_have_descriptors bapi \<Longrightarrow> version_wallet_of bapi pool net v \<noteq> Inl Panic"
  unfolding version_wallet_of_def
  by (intro bind_res_no_panic reconstruct_no_panic metadata_wallet_no_panic) auto

lemma extend_no_panic:
  "feds_have_descriptors bapi \<Longrightarrow> extend_federated_wallet bapi pool net fw vs \<noteq> Inl Panic"
proof (induction vs arbitrary: fw)
  case (Cons v vs)
  then show ?case by (auto simp: version_wallet_no_panic)
qed simp

lemma safe_load_inner: "safe (\<lambda>_. True) (load_inner bapi m row desc)"
  unfolding load_inner_def rebind_inner_to_current_federation_def update_wallet_descriptor_and_changeset_def
  by (intro safe_intros) simp_all

lemma safe_build_federated:
  assumes "feds_have_descriptors bapi"
  shows "safe (\<lambda>_. True) (build_federated_wallet bapi net wid fed pool)"
proof -
  have desc: "or_panic (fed_descriptor bapi fed) \<noteq> Inl Panic"
    using assms by (auto simp: feds_have_descriptors_def or_panic_def split: option.splits)
  have stored: "safe (\<lambda>_. True) (lift_st (bind_res (version_wallet_of bapi pool net v) (\<lambda>(fed, w).
      bind_res (of_sum CreateWallet (fw_new bapi fed w)) (\<lambda>fw. extend_federated_wallet bapi pool net fw vs))))" for v vs
    using assms by (intro safe_lift) (auto simp: version_wallet_no_panic extend_no_panic)
  show ?thesis
    unfolding build_federated_wallet_def list_federation_versions_for_wallet_def
  proof (rule safe_bind [OF safe_db_query [OF safe_read]])
    fix vs :: "federation_version_row list"
    have "safe (\<lambda>_. True) (insert_federation_version n t sp)" for n t sp
      unfolding insert_federation_version_def by (rule safe_intros)
    with desc assms show "safe (\<lambda>_. True) (case vs of [] \<Rightarrow>
         bind_st (lift_st (or_panic (fed_descriptor bapi fed))) (\<lambda>descriptor.
         bind_st (ignore_err (db_insert WalletSqlx (\<lambda>new_id now. insert_federation_version new_id now
           (bootstrap_version bapi wid fed descriptor)))) (\<lambda>_.
         bind_st (lift_st (create_metadata_wallet bapi fed net)) (\<lambda>w.
         lift_st (of_sum CreateWallet (fw_new bapi fed w)))))
     | first # rest \<Rightarrow> lift_st (
         bind_res (version_wallet_of bapi pool net first) (\<lambda>(fed, w).
         bind_res (of_sum CreateWallet (fw_new bapi fed w)) (\<lambda>fw.
         extend_federated_wallet bapi pool net fw rest))))"
      using stored
      by (cases vs) (auto intro!: safe_intros metadata_wallet_no_panic
          simp: version_wallet_no_panic extend_no_panic)
  qed
qed

lemma signers_post:
  assumes "signers_ok fleet s" and "on_hsm g (signers_for papi fleet k path) s = (Inr ss, t)"
  shows "length ss = length (hf_tokens fleet)"
  using on_hsm_signers_ok [OF assms] by blast

lemma safe_create_at:
  assumes "pkcs11_safe papi" and "manager_fits m" and "feds_have_descriptors bapi"
  shows "safe (signers_ok (wm_fleet m)) (create_wallet_for_user_at papi bapi m u i)"
proof -
  have ins: "safe (\<lambda>_. True) (insert_wallet n t sp)" for n t sp
    unfolding insert_wallet_def by (rule safe_intros)
  have desc: "or_panic (fed_descriptor bapi fed) \<noteq> Inl Panic" for fed
    using assms(3) by (auto simp: feds_have_descriptors_def or_panic_def split: option.splits)
  show ?thesis
    unfolding create_wallet_for_user_at_def Let_def
    by (rule safe_bind, rule safe_lift, rule derivation_path_no_panic, rule safe_bind_post,
        rule safe_on_hsm [OF assms(1)], erule signers_post, assumption)
      (auto intro!: safe_intros ins desc simp: patched_signers_ok [OF assms(2)])
qed

lemma safe_build_wallet:
  assumes "pkcs11_safe papi" and "manager_fits m" and "feds_have_descriptors bapi"
  shows "safe (signers_ok (wm_fleet m)) (build_user_wallet papi bapi m u row)"
proof -
  have current: "current_federation bapi m vs ss \<noteq> Inl Panic"
    if "length ss = length (hf_tokens (wm_fleet m))" for vs ss
    using that by (auto simp: current_federation_def patched_signers_ok [OF assms(2)] reconstruct_no_panic
        split: list.splits)
  have desc: "or_panic (fed_descriptor bapi fed) \<noteq> Inl Panic" for fed
    using assms(3) by (auto simp: feds_have_descriptors_def or_panic_def split: option.splits)
  show ?thesis
    unfolding build_user_wallet_def Let_def
    by (rule safe_bind, rule safe_lift, rule derivation_path_no_panic, rule safe_bind_post,
        rule safe_on_hsm [OF assms(1)], erule signers_post, assumption)
      (auto intro!: safe_intros desc current safe_load_inner safe_build_federated map_res_no_panic
      metadata_wallet_no_panic assms(3) simp: list_federation_versions_for_wallet_def)
qed

lemma safe_load_or_init:
  assumes "pkcs11_safe papi" and "manager_fits m" and "feds_have_descriptors bapi"
  shows "safe (signers_ok (wm_fleet m)) (load_or_init papi bapi m u)"
proof -
  have idx: "safe (\<lambda>_. True) next_account_idx"
    unfolding next_account_idx_def next_idx_of_def by (rule safe_intros)
  have "safe (signers_ok (wm_fleet m)) (create_wallet_for_user papi bapi m u)"
    unfolding create_wallet_for_user_def
    by (intro safe_intros idx safe_create_at assms)
  moreover have "safe (signers_ok (wm_fleet m)) (wallet_or_insert u uw)" for uw
    by (auto simp: safe_def wallet_or_insert_def signers_ok_def split: option.splits)
  ultimately show ?thesis
    unfolding load_or_init_def find_wallet_for_user_def
    by (intro safe_intros safe_build_wallet assms) auto
qed

section \<open>The version chains\<close>

lemma versions_inv_other:
  assumes "preserves db_inv q" and "\<And>d. federation_versions (snd (q d)) = federation_versions d"
  shows "preserves versions_inv q"
  using assms by (auto simp: preserves_def versions_inv_def)

lemma versions_inv_insert_first:
  "nv_version_index sp = 0 \<Longrightarrow> preserves versions_inv (insert_federation_version n t sp)"
proof (rule preservesI)
  fix d assume first: "nv_version_index sp = 0" and inv: "versions_inv d"
  let ?r = "insert_federation_version n t sp d"
  have "insert_federation_version n t sp d = (fst ?r, snd ?r)" by simp
  then have "version_step d (snd ?r)"
    by (rule version_step.ins) (simp_all add: first)
  then show "versions_inv (snd ?r)" using inv by (rule version_step_inv)
qed

lemma query_versions_inv [pres_intros]:
  "preserves versions_inv next_account_idx" "preserves versions_inv (find_wallet_for_user u)"
  "preserves versions_inv (list_federation_versions_for_wallet w)"
  "preserves versions_inv (insert_wallet n t sp)"
  "preserves versions_inv (update_wallet_descriptor_and_changeset w x j)"
proof -
  show "preserves versions_inv next_account_idx"
    by (simp add: preserves_def next_account_idx_def)
  show "preserves versions_inv (find_wallet_for_user u)" "preserves versions_inv (list_federation_versions_for_wallet w)"
    by (simp_all add: find_wallet_for_user_def list_federation_versions_for_wallet_def)
  show "preserves versions_inv (insert_wallet n t sp)"
    by (rule versions_inv_other, rule insert_wallet_inv)
      (simp add: insert_wallet_def statement_def split: option.splits)
  show "preserves versions_inv (update_wallet_descriptor_and_changeset w x j)"
    by (rule versions_inv_other, intro pres_intros) (simp add: update_wallet_descriptor_and_changeset_def)
qed

lemma create_versions_inv: "preserves (app_inv versions_inv) (create_wallet_for_user papi bapi m u)"
  unfolding create_wallet_for_user_def create_wallet_for_user_at_def Let_def by (intro pres_intros)

lemma build_versions_inv: "preserves (app_inv versions_inv) (build_user_wallet papi bapi m u row)"
proof -
  have inner: "preserves (host_inv versions_inv) (load_inner bapi m row desc)" for desc
    unfolding load_inner_def rebind_inner_to_current_federation_def Let_def by (intro pres_intros)
  have fws: "preserves (host_inv versions_inv) (build_federated_wallet bapi net w fed pool)" for net w fed pool
    unfolding build_federated_wallet_def
    by (intro pres_intros versions_inv_insert_first) (simp add: bootstrap_version_def)
  show ?thesis unfolding build_user_wallet_def by (intro pres_intros inner fws)
qed

lemma load_versions_inv: "preserves (app_inv versions_inv) (load_or_init papi bapi m u)"
proof -
  have "preserves (app_inv versions_inv) (wallet_or_insert u uw)" for uw
    by (auto simp: preserves_def wallet_or_insert_def app_inv_def split: option.splits)
  then show ?thesis
    unfolding load_or_init_def by (intro pres_intros create_versions_inv build_versions_inv)
qed

section \<open>A small wallet kit\<close>

text \<open>
  A signer is a token label with its path, a federation its threshold and fingerprints, a BDK
  wallet its descriptor with what it has seen, a change set a text.
\<close>

record toy_wallet =
  tw_descriptor :: string
  tw_revealed :: "u32 option"
  tw_txs :: "wallet_tx list"
  tw_outputs :: "local_output list"
  tw_staged :: "string option"

type_synonym toy_signer = "string \<times> u32 list"
type_synonym toy_fed = "u32 \<times> string list"
type_synonym toy_world = "(string \<times> string) list"

definition toy_fp :: "toy_signer \<Rightarrow> string" where
  "toy_fp s = replicate 8 (hd (fst s))"

definition toy_key :: "string \<Rightarrow> string \<times> string \<times> string" where
  "toy_key fp = (fp, ''48h'', '','')"

definition toy_new :: "string \<Rightarrow> toy_wallet" where
  "toy_new desc = \<lparr>tw_descriptor = desc, tw_revealed = None, tw_txs = [], tw_outputs = [], tw_staged = Some ''n''\<rparr>"

definition toy_tx :: "script \<Rightarrow> u64 \<Rightarrow> btx" where
  "toy_tx spk v = \<lparr>bt_txid = ''t1'', bt_inputs = [(''t0'', 0)], bt_outputs = [\<lparr>to_value = v, to_spk = spk\<rparr>]\<rparr>"

definition toy_sync :: "('wal \<times> 'w, 'e, string sync_result) st" where
  "toy_sync = ret_st \<lparr>sr_tip_height = 7, sr_blocks_synced = 1, sr_new_mempool_txs = 0,
     sr_reorg_rebuilt = True, sr_changeset = Some ''c''\<rparr>"

definition toy_send :: "btx \<Rightarrow> (toy_world, string, txid) st" where
  "toy_send tx = (\<lambda>w. (Inr (bt_txid tx), (''sent'', bt_txid tx) # w))"

definition sample_btc :: "(u32, toy_signer, toy_fed, (nat \<times> toy_fed \<times> toy_wallet) list, toy_wallet, string, btx,
    toy_world) btc_api" where
  "sample_btc = \<lparr>from_hardened_idx = (\<lambda>i. if unat i < 2 ^ 31 then Inr i else Inl ''index''),
     fingerprint_str = toy_fp, available_script_types = (\<lambda>_. [Wsh, Tr]),
     federation_with_config = (\<lambda>k ss net st. Inr (k, map (\<lambda>(s, _). toy_fp s) ss)),
     fed_descriptor = (\<lambda>(k, fps). Some (''wsh('' @ concat (map (\<lambda>fp. key_origin (toy_key fp)) fps))),
     fed_threshold_of = fst, fed_total_signers = (\<lambda>fed. length (snd fed)), json_policy = (\<lambda>_ _. ''{}''),
     uuid_to_string = (\<lambda>_. ''u''), create_two_path = (\<lambda>desc _. Inr (toy_new desc)),
     take_staged = (\<lambda>w. (tw_staged w, w\<lparr>tw_staged := None\<rparr>)), cs_default = [], cs_merge = (@),
     cs_to_json = Some, tip_of = (\<lambda>_. 7), derivation_index = (\<lambda>_. tw_revealed),
     reveal_addresses_to = (\<lambda>_ i w. w\<lparr>tw_revealed := Some i, tw_staged := Some ''r''\<rparr>),
     init_or_load_wallet = (\<lambda>_ desc cs. Inr (toy_new desc, case cs of None \<Rightarrow> [] | Some j \<Rightarrow> j)),
     add_signer = (\<lambda>_ _ w. w), fw_new = (\<lambda>fed w. Inr [(0, fed, w)]),
     fw_with_federation = (\<lambda>fw fed w. Inr (fw @ [(length fw, fed, w)])), fw_wallets = (\<lambda>fw. fw),
     fw_current_wallet = (\<lambda>fw. snd (snd (last fw))), emitter_sync = toy_sync, esplora_sync = toy_sync,
     electrum_sync = toy_sync, wallet_txs = tw_txs, list_output = tw_outputs,
     derivation_of_spk = (\<lambda>_ _. None),
     peek_address = (\<lambda>w k i. \<lparr>ai_keychain = k, ai_address = ''addr'', ai_spk = [ucast i]\<rparr>),
     wallet_balance = (\<lambda>w. \<lparr>b_confirmed = 5, b_trusted_pending = 1, b_untrusted_pending = 0, b_immature = 0\<rparr>),
     get_utxo = (\<lambda>w p. find (\<lambda>o'. lo_outpoint o' = p) (tw_outputs w)), get_psbt_input = (\<lambda>_ _. Inl ''none''),
     apply_unconfirmed_tx = (\<lambda>tx _ w. w\<lparr>tw_txs := tw_txs w @ [\<lparr>wt_tx = tx, wt_position = Unconfirmed\<rparr>]\<rparr>),
     fee_rate_ok = (\<lambda>r. unat r < 2 ^ 40), build_drain = (\<lambda>spk _ w. (Inr (toy_tx spk 90), w\<lparr>tw_staged := Some ''d''\<rparr>)),
     build_spend = (\<lambda>spk v _ w. (Inr (toy_tx spk v), w\<lparr>tw_staged := Some ''s''\<rparr>)), psbt_outputs = bt_outputs,
     unsigned_psbt = Inr, request_signatures = (\<lambda>_ _ p. ret_st p), finalize_psbt = (\<lambda>_ _ p. Inr p),
     consensus_encode = (\<lambda>_. Inr [1]), tx_deserialize = (\<lambda>_. Inr (toy_tx [0] 90)), to_lower_hex = (\<lambda>_. ''01''),
     electrum_broadcast = toy_send, esplora_broadcast = toy_send,
     rpc_broadcast = (\<lambda>_. ret_st ''t1''), parse_txid = Some, rpc_connect = (\<lambda>_ _ _. Inr ()),
     esplora_connect = (\<lambda>_ _ _. ret_st ()), electrum_connect = (\<lambda>_ _. ret_st ()),
     watch_pool_connect = (\<lambda>_ _. ret_st ())\<rparr>"

lemma sample_btc_sel [simp]:
  "from_hardened_idx sample_btc = (\<lambda>i. if unat i < 2 ^ 31 then Inr i else Inl ''index'')"
  "fingerprint_str sample_btc = toy_fp"
  "available_script_types sample_btc = (\<lambda>_. [Wsh, Tr])"
  "federation_with_config sample_btc = (\<lambda>k ss net st. Inr (k, map (\<lambda>(s, _). toy_fp s) ss))"
  "fed_threshold_of sample_btc = fst"
  "fed_total_signers sample_btc = (\<lambda>fed. length (snd fed))"
  "json_policy sample_btc = (\<lambda>_ _. ''{}'')"
  "uuid_to_string sample_btc = (\<lambda>_. ''u'')"
  "create_two_path sample_btc = (\<lambda>desc _. Inr (toy_new desc))"
  "take_staged sample_btc = (\<lambda>w. (tw_staged w, w\<lparr>tw_staged := None\<rparr>))"
  "cs_default sample_btc = []"
  "cs_merge sample_btc = (@)"
  "cs_to_json sample_btc = Some"
  "tip_of sample_btc = (\<lambda>_. 7)"
  "derivation_index sample_btc = (\<lambda>_. tw_revealed)"
  "reveal_addresses_to sample_btc = (\<lambda>_ i w. w\<lparr>tw_revealed := Some i, tw_staged := Some ''r''\<rparr>)"
  "init_or_load_wallet sample_btc = (\<lambda>_ desc cs. Inr (toy_new desc, case cs of None \<Rightarrow> [] | Some j \<Rightarrow> j))"
  "add_signer sample_btc = (\<lambda>_ _ w. w)"
  "fw_new sample_btc = (\<lambda>fed w. Inr [(0, fed, w)])"
  "fw_with_federation sample_btc = (\<lambda>fw fed w. Inr (fw @ [(length fw, fed, w)]))"
  "fw_wallets sample_btc = (\<lambda>fw. fw)"
  "fw_current_wallet sample_btc = (\<lambda>fw. snd (snd (last fw)))"
  "emitter_sync sample_btc = toy_sync"
  "esplora_sync sample_btc = toy_sync"
  "electrum_sync sample_btc = toy_sync"
  "wallet_txs sample_btc = tw_txs"
  "list_output sample_btc = tw_outputs"
  "derivation_of_spk sample_btc = (\<lambda>_ _. None)"
  "peek_address sample_btc = (\<lambda>w k i. \<lparr>ai_keychain = k, ai_address = ''addr'', ai_spk = [ucast i]\<rparr>)"
  "wallet_balance sample_btc = (\<lambda>w. \<lparr>b_confirmed = 5, b_trusted_pending = 1, b_untrusted_pending = 0, b_immature = 0\<rparr>)"
  "get_utxo sample_btc = (\<lambda>w p. find (\<lambda>o'. lo_outpoint o' = p) (tw_outputs w))"
  "get_psbt_input sample_btc = (\<lambda>_ _. Inl ''none'')"
  "apply_unconfirmed_tx sample_btc = (\<lambda>tx _ w. w\<lparr>tw_txs := tw_txs w @ [\<lparr>wt_tx = tx, wt_position = Unconfirmed\<rparr>]\<rparr>)"
  "fee_rate_ok sample_btc = (\<lambda>r. unat r < 2 ^ 40)"
  "build_drain sample_btc = (\<lambda>spk _ w. (Inr (toy_tx spk 90), w\<lparr>tw_staged := Some ''d''\<rparr>))"
  "build_spend sample_btc = (\<lambda>spk v _ w. (Inr (toy_tx spk v), w\<lparr>tw_staged := Some ''s''\<rparr>))"
  "psbt_outputs sample_btc = bt_outputs"
  "unsigned_psbt sample_btc = Inr"
  "request_signatures sample_btc = (\<lambda>_ _ p. ret_st p)"
  "finalize_psbt sample_btc = (\<lambda>_ _ p. Inr p)"
  "consensus_encode sample_btc = (\<lambda>_. Inr [1])"
  "tx_deserialize sample_btc = (\<lambda>_. Inr (toy_tx [0] 90))"
  "to_lower_hex sample_btc = (\<lambda>_. ''01'')"
  "electrum_broadcast sample_btc = toy_send"
  "esplora_broadcast sample_btc = toy_send"
  "rpc_broadcast sample_btc = (\<lambda>_. ret_st ''t1'')"
  "parse_txid sample_btc = Some"
  "rpc_connect sample_btc = (\<lambda>_ _ _. Inr ())"
  "esplora_connect sample_btc = (\<lambda>_ _ _. ret_st ())"
  "electrum_connect sample_btc = (\<lambda>_ _. ret_st ())"
  "watch_pool_connect sample_btc = (\<lambda>_ _. ret_st ())"
  by (simp_all add: sample_btc_def)

definition sample_manager :: wallet_manager where
  "sample_manager = \<lparr>wm_has_rpc = False, wm_network = Regtest, wm_coin_index = 1, wm_threshold = 2,
     wm_signer_indices = [1, 0], wm_script_type = Wsh, wm_fleet = sample_fleet, wm_has_esplora = False,
     wm_has_electrum = True, wm_has_watch_pool = True\<rparr>"

definition sample_host :: "database \<Rightarrow> toy_world host" where
  "sample_host d = \<lparr>h_db = d, h_world = [], h_tick = 0, h_uuid = (\<lambda>n. 100 + word_of_nat n), h_now = int\<rparr>"

definition sample_app :: "database \<Rightarrow> (toy_signer, (toy_fed, (nat \<times> toy_fed \<times> toy_wallet) list, toy_wallet, string)
    user_wallet, unit, toy_world) app" where
  "sample_app d = \<lparr>ap_host = sample_host d, ap_signers = (\<lambda>_. None), ap_wallets = (\<lambda>_. None),
     ap_elements = (\<lambda>_. None)\<rparr>"

definition sample_fed_version :: new_federation_version where
  "sample_fed_version = sample_version\<lparr>nv_descriptor :=
     ''wsh('' @ concat (map (\<lambda>fp. key_origin (toy_key fp)) [''bbbbbbbb'', ''aaaaaaaa''])\<rparr>"

definition sample_db_fed :: database where
  "sample_db_fed = sample_db\<lparr>federation_versions := [version_of_spec 40 7 sample_fed_version]\<rparr>"

definition sample_row :: wallet_row where
  "sample_row = hd (wallets sample_db)"

lemmas toy_simps = toy_fp_def toy_key_def toy_new_def sample_manager_def sample_host_def
  sample_app_def

lemma replicate_8: "replicate 8 c = [c, c, c, c, c, c, c, c]"
  by (simp add: numeral_eq_Suc)

lemma sample_fingerprints:
  "extract_fingerprints_from_descriptor (nv_descriptor sample_fed_version) = [''bbbbbbbb'', ''aaaaaaaa'']"
proof -
  have "nv_descriptor sample_fed_version
      = ''wsh('' @ concat (map key_origin (map toy_key [''bbbbbbbb'', ''aaaaaaaa'']))"
    by (simp add: sample_fed_version_def)
  then show ?thesis
    by (simp only:) (subst extract_origins, simp_all add: toy_key_def origin_ok_def hexdigit_ab)
qed

lemma toy_signers_for:
  "signers_for (sample_pkcs11 []) sample_fleet 1 p \<lparr>hsm_world = [], hsm_cache = (\<lambda>_. None)\<rparr> =
     (Inr [(''a'', p), (''b'', p)], \<lparr>hsm_world = [(''b'', ''signer-1''), (''a'', ''signer-1'')],
        hsm_cache = (\<lambda>_. None)(1 \<mapsto> [(''a'', p), (''b'', p)])\<rparr>)"
  by (simp add: signers_for_miss on_tokens_def derive_signers_def token_signer_def sample_pkcs11_def
      sample_fleet_def sample_tokens_def signer_label_def Let_def map_err_st_def bind_st_def ret_st_def)

lemma toy_match:
  "match_signer sample_btc [(''a'', p), (''b'', q)] net v ''bbbbbbbb'' = Inr ((''b'', q), net)"
  "match_signer sample_btc [(''a'', p), (''b'', q)] net v ''aaaaaaaa'' = Inr ((''a'', p), net)"
  by (simp_all add: match_signer_def toy_fp_def replicate_8)

lemma toy_path: "derivation_path_for sample_btc sample_manager 0 = Inr [48, 1, 0, 2]"
  by (simp add: derivation_path_for_def sample_manager_def)

definition toy_descriptor :: string where
  "toy_descriptor = nv_descriptor sample_fed_version"

lemma toy_fed_descriptor [simp]: "fed_descriptor sample_btc (2, [''bbbbbbbb'', ''aaaaaaaa'']) = Some toy_descriptor"
  by (simp add: toy_descriptor_def sample_fed_version_def sample_btc_def)

lemma toy_descriptors: "feds_have_descriptors sample_btc"
  by (simp add: feds_have_descriptors_def sample_btc_def split: prod.splits)

lemma toy_reconstruct:
  "reconstruct_federation_from_version sample_btc (version_of_spec 40 7 sample_fed_version)
     [(''a'', p), (''b'', q)] net = Inr (2, [''bbbbbbbb'', ''aaaaaaaa''])"
proof -
  have "fv_descriptor (version_of_spec 40 7 sample_fed_version) = nv_descriptor sample_fed_version"
    "fv_threshold (version_of_spec 40 7 sample_fed_version) = 2"
    by (simp_all add: version_of_spec_def sample_fed_version_def sample_version_def)
  then show ?thesis
    by (simp add: reconstruct_federation_from_version_def sample_fingerprints toy_match to_u32_or_def
        toy_fp_def replicate_8)
qed

definition toy_user_wallet :: "(toy_fed, (nat \<times> toy_fed \<times> toy_wallet) list, toy_wallet, string) user_wallet" where
  "toy_user_wallet = \<lparr>uw_user_id = 1, uw_wallet_id = 10, uw_account_idx = 0, uw_network = Regtest,
     uw_federation = (2, [''bbbbbbbb'', ''aaaaaaaa'']),
     uw_federated = [(0, (2, [''bbbbbbbb'', ''aaaaaaaa'']), toy_new toy_descriptor)],
     uw_versions = [toy_new toy_descriptor],
     uw_inner = (toy_new toy_descriptor)\<lparr>tw_revealed := Some 0, tw_staged := None\<rparr>, uw_aggregate = ''r'',
     uw_has_rpc = False, uw_has_esplora = False, uw_has_electrum = True\<rparr>"

lemma toy_build_stages:
  "on_hsm WalletHsm (signers_for (sample_pkcs11 []) (wm_fleet sample_manager) 1 p) (sample_app d) =
     (Inr [(''a'', p), (''b'', p)], (sample_app d)\<lparr>
        ap_host := (sample_host d)\<lparr>h_world := [(''b'', ''signer-1''), (''a'', ''signer-1'')]\<rparr>,
        ap_signers := (\<lambda>_. None)(1 \<mapsto> [(''a'', p), (''b'', p)])\<rparr>)"
  "list_federation_versions_for_wallet 10 sample_db_fed =
     (Inr [version_of_spec 40 7 sample_fed_version], sample_db_fed)"
  "current_federation sample_btc sample_manager [version_of_spec 40 7 sample_fed_version]
     [(''a'', p), (''b'', p)] = Inr (2, [''bbbbbbbb'', ''aaaaaaaa''])"
proof -
  show "list_federation_versions_for_wallet 10 sample_db_fed =
      (Inr [version_of_spec 40 7 sample_fed_version], sample_db_fed)"
    by (simp add: list_federation_versions_for_wallet_def sample_db_fed_def sample_fed_version_def
        sample_version_def version_of_spec_def)
  show "current_federation sample_btc sample_manager [version_of_spec 40 7 sample_fed_version]
     [(''a'', p), (''b'', p)] = Inr (2, [''bbbbbbbb'', ''aaaaaaaa''])"
    by (simp add: current_federation_def toy_reconstruct)
qed (simp add: on_hsm_def sample_manager_def sample_app_def sample_host_def toy_signers_for)

lemma toy_descriptor_new: "toy_descriptor \<noteq> ''d0''"
  by (simp add: toy_descriptor_def sample_fed_version_def)

definition sample_db_healed :: database where
  "sample_db_healed = snd (update_wallet_descriptor_and_changeset 10 toy_descriptor ''r'' sample_db_fed)"

lemma toy_load_inner:
  "h_db h = sample_db_fed \<Longrightarrow> load_inner sample_btc sample_manager sample_row toy_descriptor h
     = (Inr ((toy_new toy_descriptor)\<lparr>tw_revealed := Some 0, tw_staged := None\<rparr>, ''r''), h\<lparr>h_db := sample_db_healed\<rparr>)"
  using toy_descriptor_new
  by (simp add: load_inner_def rebind_inner_to_current_federation_def sample_row_def sample_db_def toy_new_def
      db_query_def update_wallet_descriptor_and_changeset_def sample_db_healed_def st_simps Let_def)

lemma toy_list_healed:
  "list_federation_versions_for_wallet 10 sample_db_healed =
     (Inr [version_of_spec 40 7 sample_fed_version], sample_db_healed)"
proof -
  have "federation_versions sample_db_healed = federation_versions sample_db_fed"
    by (simp add: sample_db_healed_def update_wallet_descriptor_and_changeset_def)
  with toy_build_stages(2) show ?thesis by (simp add: list_federation_versions_for_wallet_def)
qed

lemma toy_metadata:
  "create_metadata_wallet sample_btc (2, [''bbbbbbbb'', ''aaaaaaaa'']) net = Inr (toy_new toy_descriptor)"
  by (simp add: create_metadata_wallet_def)

lemma toy_build_federated:
  "h_db h = sample_db_healed \<Longrightarrow> build_federated_wallet sample_btc net 10 fed [(''a'', p), (''b'', p)] h
     = (Inr [(0, (2, [''bbbbbbbb'', ''aaaaaaaa'']), toy_new toy_descriptor)], h)"
  by (simp add: build_federated_wallet_def db_query_def toy_list_healed bind_st_def version_wallet_of_def
      toy_reconstruct toy_metadata)

definition toy_state :: "(toy_signer, (toy_fed, (nat \<times> toy_fed \<times> toy_wallet) list, toy_wallet, string)
    user_wallet, unit, toy_world) app" where
  "toy_state = (sample_app sample_db_healed)\<lparr>
     ap_host := (sample_host sample_db_healed)\<lparr>h_world := [(''b'', ''signer-1''), (''a'', ''signer-1'')]\<rparr>,
     ap_signers := (\<lambda>_. None)(1 \<mapsto> [(''a'', [48, 1, 0, 2]), (''b'', [48, 1, 0, 2])])\<rparr>"

lemma toy_build:
  "build_user_wallet (sample_pkcs11 []) sample_btc sample_manager 1 sample_row (sample_app sample_db_fed)
     = (Inr toy_user_wallet, toy_state)"
proof -
  have row: "w_account_idx sample_row = 0" "w_id sample_row = 10"
    by (simp_all add: sample_row_def sample_db_def)
  have m: "wm_network sample_manager = Regtest" "wm_has_rpc sample_manager = False"
    "wm_has_esplora sample_manager = False" "wm_has_electrum sample_manager = True"
    by (simp_all add: sample_manager_def)
  have h: "h_db (sample_host d) = d" "ap_host (sample_app d) = sample_host d" for d
    by (simp_all add: sample_host_def sample_app_def)
  show ?thesis
    by (simp add: build_user_wallet_def row toy_path to_u32_or_def toy_build_stages(1) bind_st_def on_host_def
        db_query_def toy_build_stages(2,3) toy_load_inner toy_build_federated toy_metadata h m
        register_signers_def toy_user_wallet_def)
      (simp add: toy_state_def sample_app_def sample_host_def)
qed

lemma sample_row_in: "sample_row \<in> set (wallets sample_db_fed)"
  by (simp add: sample_row_def sample_db_fed_def sample_db_def)

lemma db_inv_sample_fed: "db_inv sample_db_fed"
  by (simp add: db_inv_def db_ok_defs sample_db_fed_def sample_db_def empty_database_def i32_max_def
      version_of_spec_def sample_fed_version_def sample_version_def migration_statuses_def in_i32_def fv_row_ok_def)

lemma toy_load:
  "load_or_init (sample_pkcs11 []) sample_btc sample_manager 1 (sample_app sample_db_fed)
     = (Inr toy_user_wallet, toy_state\<lparr>ap_wallets := (\<lambda>_. None)(1 \<mapsto> toy_user_wallet)\<rparr>)"
proof -
  have u: "ap_wallets (sample_app sample_db_fed) 1 = None" by (simp add: sample_app_def)
  have "load_missing (sample_pkcs11 []) sample_btc sample_manager 1 (sample_app sample_db_fed)
      = build_user_wallet (sample_pkcs11 []) sample_btc sample_manager 1 sample_row (sample_app sample_db_fed)"
    by (simp add: load_missing_def on_host_def db_query_def find_wallet_for_user_def sample_app_def sample_host_def
        sample_db_fed_def sample_db_def sample_row_def bind_st_def)
  then show ?thesis
    by (simp add: load_or_init_miss [OF u] toy_build) (simp add: toy_state_def sample_app_def)
qed

section \<open>Properties\<close>

text \<open>Two wallet rows never share a derivation path: their account indices differ, and so do the
  paths the signers are opened for.\<close>

theorem accounts_have_distinct_paths:
  assumes "db_inv d" and "r \<in> set (wallets d)" and "r' \<in> set (wallets d)" and "r \<noteq> r'"
    and "hardened_injective (from_hardened_idx bapi)"
    and "derivation_path_for bapi m (to_u32_or 0 (w_account_idx r)) = Inr p"
    and "derivation_path_for bapi m (to_u32_or 0 (w_account_idx r')) = Inr p'"
  shows "p \<noteq> p'"
  using derivation_path_inj [OF assms(5,6)] assms(7) account_index_inj [OF assms(1-4)] by blast

theorem accounts_have_distinct_paths_witness: "[48, 1, 0, 2 :: u32] \<noteq> [48, 1, 1, 2]"
proof -
  have inv: "db_inv sample_db_two"
    by (simp add: db_inv_def db_ok_defs sample_db_two_def sample_db_def empty_database_def i32_max_def
        wallet_of_spec_def sample_new_wallet_def in_i32_def)
  have inj: "hardened_injective (from_hardened_idx sample_btc)"
    by (simp add: hardened_injective_def sample_btc_def)
  have rows: "sample_row \<in> set (wallets sample_db_two)"
    "wallet_of_spec 11 5 sample_new_wallet \<in> set (wallets sample_db_two)"
    "sample_row \<noteq> wallet_of_spec 11 5 sample_new_wallet"
    by (simp_all add: sample_db_two_def sample_row_def sample_db_def wallet_of_spec_def sample_new_wallet_def)
  have "derivation_path_for sample_btc sample_manager (to_u32_or 0 (w_account_idx sample_row)) = Inr [48, 1, 0, 2]"
    "derivation_path_for sample_btc sample_manager (to_u32_or 0 (w_account_idx (wallet_of_spec 11 5 sample_new_wallet)))
       = Inr [48, 1, 1, 2]"
    by (simp_all add: derivation_path_for_def toy_simps sample_row_def sample_db_def to_u32_or_def wallet_of_spec_def
        sample_new_wallet_def)
  from accounts_have_distinct_paths [OF inv rows inj this] show ?thesis .
qed

text \<open>C21. A stored version is rebuilt from the key origins of its descriptor: the pool's signers with
  those fingerprints, in the descriptor's order, with the stored threshold and the descriptor's
  script type; if a fingerprint belongs to no signer, the rebuild fails with that reason.\<close>

theorem version_reconstruction:
  assumes "fv_descriptor v = pre @ concat (map key_origin ks)" and "no_bracket pre" and "list_all origin_ok ks"
  shows "\<exists>msg. reconstruct_federation_from_version bapi v pool net =
    (if list_all (\<lambda>k. fst k \<in> fingerprint_str bapi ` set pool) ks
     then of_sum CreateWallet (federation_with_config bapi (to_u32_or 0 (fv_threshold v))
       (map (\<lambda>k. (the (find (\<lambda>s. fingerprint_str bapi s = fst k) pool), net)) ks) net
       (version_script_type (fv_descriptor v)))
     else Inl (Err (CreateWallet msg)))"
proof (cases "list_all (\<lambda>k. fst k \<in> fingerprint_str bapi ` set pool) ks")
  case True
  have "map_res (match_signer bapi pool net v) (map fst ks)
      = Inr (map (\<lambda>fp. (the (find (\<lambda>s. fingerprint_str bapi s = fp) pool), net)) (map fst ks))"
  proof (rule map_res_total)
    fix fp assume "fp \<in> set (map fst ks)"
    then obtain k where "k \<in> set ks" and fp: "fp = fst k" by auto
    with True have "fst k \<in> fingerprint_str bapi ` set pool" by (simp add: list_all_iff)
    then obtain x where "x \<in> set pool" "fingerprint_str bapi x = fst k" by auto
    then have "find (\<lambda>s. fingerprint_str bapi s = fp) pool \<noteq> None"
      unfolding find_None fp by blast
    then show "match_signer bapi pool net v fp = Inr (the (find (\<lambda>s. fingerprint_str bapi s = fp) pool), net)"
      by (auto simp: match_signer_def)
  qed
  with True show ?thesis
    by (simp add: reconstruct_federation_from_version_def assms(1) extract_origins [OF assms(2,3)] comp_def)
next
  case False
  then obtain fp where "fp \<in> set (map fst ks)" "fp \<notin> fingerprint_str bapi ` set pool"
    by (auto simp: list_all_iff)
  from match_signers_missing [OF this, of net v] False show ?thesis
    by (auto simp: reconstruct_federation_from_version_def assms(1) extract_origins [OF assms(2,3)])
qed

theorem version_reconstruction_witness:
  "reconstruct_federation_from_version sample_btc (version_of_spec 40 7 sample_fed_version)
     [(''a'', []), (''b'', [])] Regtest = Inr (2, [''bbbbbbbb'', ''aaaaaaaa''])"
proof -
  have d: "fv_descriptor (version_of_spec 40 7 sample_fed_version)
      = ''wsh('' @ concat (map key_origin (map toy_key [''bbbbbbbb'', ''aaaaaaaa'']))"
    by (simp add: sample_fed_version_def version_of_spec_def)
  have p: "no_bracket ''wsh(''" by simp
  have o: "list_all origin_ok (map toy_key [''bbbbbbbb'', ''aaaaaaaa''])"
    by (simp add: origin_ok_def toy_key_def hexdigit_ab)
  let ?ks = "map toy_key [''bbbbbbbb'', ''aaaaaaaa'']" and ?pool = "[(''a'', []), (''b'', [])] :: toy_signer list"
  let ?v = "version_of_spec 40 7 sample_fed_version"
  have all: "list_all (\<lambda>k. fst k \<in> fingerprint_str sample_btc ` set ?pool) ?ks"
    by (simp add: toy_key_def toy_fp_def replicate_8)
  have "reconstruct_federation_from_version sample_btc ?v ?pool Regtest
      = of_sum CreateWallet (federation_with_config sample_btc (to_u32_or 0 (fv_threshold ?v))
       (map (\<lambda>k. (the (find (\<lambda>s. fingerprint_str sample_btc s = fst k) ?pool), Regtest)) ?ks) Regtest
       (version_script_type (fv_descriptor ?v)))"
    using version_reconstruction [OF d p o, of sample_btc ?pool Regtest] by (simp only: all if_True simp_thms)
  also have "\<dots> = Inr (2, [''bbbbbbbb'', ''aaaaaaaa''])"
    by (simp add: toy_key_def toy_fp_def replicate_8 to_u32_or_def version_of_spec_def sample_fed_version_def
        sample_version_def)
  finally show ?thesis .
qed

text \<open>C1. A load leaves the wallet's row with the descriptor of the federation it settled on, and the
  other rows alone; loading again from that row, with versions recorded, yields the same
  federation and changes nothing at all.\<close>

theorem load_heals_descriptor:
  assumes "build_user_wallet papi bapi m u row s = (Inr uw, s')" and "db_inv (h_db (ap_host s))"
    and "row \<in> set (wallets (h_db (ap_host s)))"
    and "\<exists>v \<in> set (federation_versions (h_db (ap_host s))). fv_wallet_id v = Some (w_id row)"
  shows "\<exists>row'. wallets (h_db (ap_host s')) = map (\<lambda>r. if r = row then row' else r) (wallets (h_db (ap_host s)))
    \<and> fed_descriptor bapi (uw_federation uw) = Some (w_descriptor row')
    \<and> w_id row' = w_id row \<and> w_user_id row' = w_user_id row \<and> w_account_idx row' = w_account_idx row
    \<and> (\<forall>uw' s''. build_user_wallet papi bapi m u row' s' = (Inr uw', s'')
         \<longrightarrow> uw_federation uw' = uw_federation uw \<and> s'' = s')"
proof -
  obtain row' where row': "wallets (h_db (ap_host s')) = map (\<lambda>r. if r = row then row' else r) (wallets (h_db (ap_host s)))"
    "fed_descriptor bapi (uw_federation uw) = Some (w_descriptor row')"
    "w_id row' = w_id row" "w_user_id row' = w_user_id row" "w_account_idx row' = w_account_idx row"
    using load_heals_row [OF assms(1-3)] by blast
  have "uw_federation uw' = uw_federation uw \<and> s'' = s'"
    if "build_user_wallet papi bapi m u row' s' = (Inr uw', s'')" for uw' s''
    using that row' by (intro second_load [OF assms(1,4)]) auto
  with row' show ?thesis by blast
qed

theorem load_heals_descriptor_witness:
  "\<exists>row' :: wallet_row. fed_descriptor sample_btc (uw_federation toy_user_wallet) = Some (w_descriptor row') \<and> w_id row' = 10"
proof -
  have v: "\<exists>v \<in> set (federation_versions (h_db (ap_host (sample_app sample_db_fed)))). fv_wallet_id v = Some (w_id sample_row)"
    by (simp add: sample_app_def sample_host_def sample_db_fed_def version_of_spec_def sample_fed_version_def
        sample_version_def sample_row_def sample_db_def)
  have "db_inv (h_db (ap_host (sample_app sample_db_fed)))"
    "sample_row \<in> set (wallets (h_db (ap_host (sample_app sample_db_fed))))"
    by (simp_all add: sample_app_def sample_host_def db_inv_sample_fed sample_row_in)
  from load_heals_descriptor [OF toy_build this v] obtain row' :: wallet_row where
    "fed_descriptor sample_btc (uw_federation toy_user_wallet) = Some (w_descriptor row')"
    "w_id row' = w_id sample_row" by blast
  then show ?thesis
    by (intro exI [of _ row']) (simp add: sample_row_def sample_db_def)
qed

text \<open>C18. Once a wallet is loaded for a user, every later load for that user returns that same wallet
  and changes nothing, whatever other users' wallets were loaded in between.\<close>

theorem one_wallet_per_user:
  assumes "load_or_init papi bapi m u s = (Inr uw, t)"
  shows "load_or_init papi bapi m u (fold (\<lambda>j a. snd (load_or_init papi bapi m j a)) others t)
       = (Inr uw, fold (\<lambda>j a. snd (load_or_init papi bapi m j a)) others t)"
  using wallet_cache.same_value_forever [OF assms, of "map (\<lambda>j. (j, ())) others"]
  by (simp add: fold_map comp_def)

theorem one_wallet_per_user_witness:
  "fst (load_or_init (sample_pkcs11 []) sample_btc sample_manager 1
     (snd (load_or_init (sample_pkcs11 []) sample_btc sample_manager 2
        (toy_state\<lparr>ap_wallets := (\<lambda>_. None)(1 \<mapsto> toy_user_wallet)\<rparr>)))) = Inr toy_user_wallet"
  using one_wallet_per_user [OF toy_load, of "[2]"] by simp

text \<open>C40. Loading or creating a wallet never panics when the manager was built from a configuration
  that was read from the environment: every signer index it looks up exists.\<close>

theorem wallet_loading_never_panics:
  assumes "from_env env = Inr cfg" and "wallet_manager_new bapi cfg fleet w = (Inr m, w')"
    and "hf_tokens fleet = hsm_tokens cfg" and "pkcs11_safe papi" and "feds_have_descriptors bapi"
    and "signers_ok fleet s"
  shows "fst (load_or_init papi bapi m u s) \<noteq> Inl Panic \<and> signers_ok fleet (snd (load_or_init papi bapi m u s))"
proof -
  have m: "manager_fits m" "wm_fleet m = fleet"
    using manager_new_fits [OF assms(2) from_env_federation_ok [OF assms(1)] assms(3)] by auto
  obtain r t where run: "load_or_init papi bapi m u s = (r, t)" by force
  from safe_run [OF run _ safe_load_or_init [OF assms(4) m(1) assms(5)]] assms(6) show ?thesis
    by (simp add: m(2) run)
qed

lemma sample_pkcs11_safe: "pkcs11_safe (sample_pkcs11 p)"
  by (simp add: pkcs11_safe_def safe_def sample_pkcs11_def)

theorem wallet_loading_never_panics_witness:
  "\<exists>cfg m. from_env sample_env = Inr cfg
     \<and> fst (wallet_manager_new sample_btc cfg \<lparr>hf_library_path = ''lib'', hf_network = Regtest, hf_tokens = hsm_tokens cfg\<rparr> []) = Inr m
     \<and> fst (load_or_init (sample_pkcs11 []) sample_btc m 1 (sample_app sample_db_fed)) \<noteq> Inl Panic"
proof -
  obtain cfg where cfg: "from_env sample_env = Inr cfg" using sample_config_loads by blast
  let ?fleet = "\<lparr>hf_library_path = ''lib'', hf_network = Regtest, hf_tokens = hsm_tokens cfg\<rparr>"
  obtain m w where m: "wallet_manager_new sample_btc cfg ?fleet [] = (Inr m, w)"
    by (cases "chain_backend cfg") (auto simp: wallet_manager_new_def bind_st_def map_err_st_def)
  have "signers_ok ?fleet (sample_app sample_db_fed)" by (simp add: signers_ok_def sample_app_def)
  from wallet_loading_never_panics [OF cfg m _ sample_pkcs11_safe toy_descriptors this, where u = 1] cfg m
  show ?thesis by force
qed

text \<open>Loading or creating a wallet, which records version 0 when there is none, keeps the version
  table's chains: consecutive indices, and a newest version that was never swept.\<close>

theorem loading_keeps_version_chains:
  assumes "versions_inv (h_db (ap_host s))"
  shows "versions_inv (h_db (ap_host (snd (load_or_init papi bapi m u s))))"
proof -
  obtain r t where run: "load_or_init papi bapi m u s = (r, t)" by force
  from preserves_run [OF run _ load_versions_inv] assms show ?thesis by (simp add: run app_inv_def)
qed

theorem loading_keeps_version_chains_witness: "versions_inv sample_db_healed"
proof -
  have inv: "versions_inv sample_db_fed"
    by (rule version_step_inv [OF version_step.ins [where n = 40 and t = 7 and s = sample_fed_version
          and d = sample_db and r = "Inr (version_of_spec 40 7 sample_fed_version)"]])
      (simp_all add: insert_federation_version_def version_refusal_None version_exists_def st_simps
        sample_fed_version_def sample_version_def sample_db_fed_def sample_db_def empty_database_def
        versions_inv_start [OF db_inv_sample, unfolded sample_db_def empty_database_def, simplified])
  have "h_db (ap_host (sample_app sample_db_fed)) = sample_db_fed"
    by (simp add: sample_app_def sample_host_def)
  with loading_keeps_version_chains [of "sample_app sample_db_fed" "sample_pkcs11 []" sample_btc sample_manager 1] inv
  show ?thesis by (simp add: toy_load toy_state_def sample_host_def)
qed

section \<open>A sync, evaluated\<close>

lemma toy_sync_run:
  "\<exists>s'. sync_wallet sample_btc (toy_user_wallet, sample_host sample_db_healed)
     = (Inr \<lparr>ss_tip_height = 7, ss_new_blocks = 1, ss_new_mempool_txs = 0, ss_reorg_rebuilt = True,
          ss_migrations_reverted = 0\<rparr>, s') \<and> uw_aggregate (fst s') = ''c''
     \<and> uw_wallet_id (fst s') = 10"
  by (simp add: sync_wallet_def the_wallet_def toy_user_wallet_def sync_electrum_def bind_st_def
      reveal_version_wallets_to_inner_def change_wallet_def sync_wallets_def on_version_def on_inner_def
      toy_sync_def finish_sync_def persist_sync_def summary_of_def store_delta_def via_host_def
      db_query_def update_wallet_changeset_def reconcile_reverted_migrations_def map_err_st_def
      list_federation_versions_for_wallet_def sample_host_def sample_db_healed_def sample_db_fed_def
      update_wallet_descriptor_and_changeset_def sample_fed_version_def sample_version_def version_of_spec_def
      sweep_candidate_def map_filter_def Let_def split_beta)


theorem persist_sync_merges_or_replaces_witness:
  "\<exists>uw' h'. persist_sync sample_btc \<lparr>ss_tip_height = 9, ss_new_blocks = 1, ss_new_mempool_txs = 0,
       ss_reorg_rebuilt = False, ss_migrations_reverted = 0\<rparr> (Some ''c'') (toy_user_wallet, sample_host sample_db_healed)
     = (Inr (), (uw', h')) \<and> uw_aggregate uw' = ''rc''"
proof -
  obtain uw' h' where run: "persist_sync sample_btc \<lparr>ss_tip_height = 9, ss_new_blocks = 1, ss_new_mempool_txs = 0,
       ss_reorg_rebuilt = False, ss_migrations_reverted = 0\<rparr> (Some ''c'') (toy_user_wallet, sample_host sample_db_healed)
     = (Inr (), (uw', h'))"
    by (simp add: persist_sync_def store_delta_Inr Let_def)
  with persist_sync_merges_or_replaces [OF run] show ?thesis
    by (simp add: toy_user_wallet_def)
qed

theorem reconciliation_is_exact_witness:
  "\<exists>n s'. reconcile_reverted_migrations sample_btc True (toy_user_wallet, sample_host sample_db_done)
     = (Inr n, s') \<and> unat n = 1"
proof -
  have inv: "db_inv (h_db (sample_host sample_db_done))"
    by (simp add: sample_host_def db_inv_sample_done)
  have "filter (\<lambda>v. fv_wallet_id v = Some (uw_wallet_id toy_user_wallet) \<and> sweep_lost sample_btc toy_user_wallet v)
      (federation_versions (h_db (sample_host sample_db_done))) = federation_versions sample_db_done"
    by (simp add: sample_host_def sample_db_done_def sample_db_v0_def set_migration_complete_def version_of_spec_def
        sample_version_def toy_user_wallet_def sweep_lost_def sweep_candidate_def graph_txids_def toy_new_def)
  moreover have "length (federation_versions sample_db_done) = 1"
    by (simp add: sample_db_done_def sample_db_v0_def set_migration_complete_def)
  ultimately show ?thesis
    using reconciliation_is_exact [OF inv, of sample_btc toy_user_wallet] by auto
qed

end
