(* ===== verification/Selective.thy ===== *)
theory Selective
  imports Prelude
begin

text \<open>
  Signing some inputs of a partially signed transaction only, as both chains' migrations do
  (\<open>sign_migration_inputs\<close> in \<open>src/wallet.rs\<close>, \<open>sign_migration_pset_inputs\<close> in
  \<open>src/elements_wallet.rs\<close>): the key origins of the other inputs are hidden from the signers
  and put back.
\<close>

text \<open>
  A PSBT as far as the code looks into it: per input the key origins the signers
  match by, and the rest. BDK's signer is an argument acting on the inputs.
\<close>

type_synonym key_origins = "(string \<times> string \<times> string) list"

record 'rest psbt_input =
  pi_derivation :: key_origins
  pi_rest :: 'rest

text \<open>A transaction of the migration tool is its inputs and the rest.\<close>

record ('rest, 'g) pset_data =
  ps_inputs :: "'rest psbt_input list"
  ps_rest :: 'g

definition hide_others :: "nat list \<Rightarrow> 'rest psbt_input list \<Rightarrow> 'rest psbt_input list" where
  "hide_others input_indices inputs = map (\<lambda>(i, inp).
     if i \<in> set input_indices then inp else inp\<lparr>pi_derivation := []\<rparr>) (enumerate 0 inputs)"

definition saved_derivations :: "nat list \<Rightarrow> 'rest psbt_input list \<Rightarrow> (nat \<times> key_origins) list" where
  "saved_derivations input_indices inputs =
     map (\<lambda>(i, inp). (i, pi_derivation inp)) (filter (\<lambda>(i, inp). i \<notin> set input_indices) (enumerate 0 inputs))"

fun restore_derivations :: "(nat \<times> key_origins) list \<Rightarrow> 'rest psbt_input list \<Rightarrow>
    ('e, unit) res \<times> 'rest psbt_input list" where
  "restore_derivations [] inputs = (Inr (), inputs)"
| "restore_derivations ((i, d) # saved) inputs =
     (if i < length inputs then restore_derivations saved (inputs[i := (inputs ! i)\<lparr>pi_derivation := d\<rparr>])
      else (Inl Panic, inputs))"

section \<open>Facts about signing\<close>

text \<open>
  What a signer does to the inputs: their number and key origins stay, and an input without
  key origins is skipped.
\<close>

definition signs_by_origin :: "('rest psbt_input list \<Rightarrow> 'r \<times> 'rest psbt_input list) \<Rightarrow> bool" where
  "signs_by_origin sign \<longleftrightarrow> (\<forall>inputs r inputs'. sign inputs = (r, inputs') \<longrightarrow> length inputs' = length inputs
     \<and> (\<forall>i < length inputs. pi_derivation (inputs' ! i) = pi_derivation (inputs ! i)
          \<and> (pi_derivation (inputs ! i) = [] \<longrightarrow> inputs' ! i = inputs ! i)))"

lemma restore_derivations_run:
  assumes "distinct (map fst saved)" and "\<forall>(i, d) \<in> set saved. i < length inputs"
  shows "\<exists>inputs'. restore_derivations saved inputs = (Inr () :: ('e, unit) res, inputs') \<and> length inputs' = length inputs
    \<and> (\<forall>j < length inputs. inputs' ! j = (case map_of saved j of None \<Rightarrow> inputs ! j
         | Some d \<Rightarrow> (inputs ! j)\<lparr>pi_derivation := d\<rparr>))"
  using assms
proof (induction saved arbitrary: inputs)
  case (Cons p saved)
  obtain i d where p: "p = (i, d)" by (cases p)
  let ?in = "inputs[i := (inputs ! i)\<lparr>pi_derivation := d\<rparr>]"
  have i: "i < length inputs" using Cons.prems(2) p by auto
  have none: "map_of saved i = None" using Cons.prems(1) p by (auto simp: map_of_eq_None_iff)
  obtain out where out: "restore_derivations saved ?in = (Inr () :: ('e, unit) res, out)" "length out = length inputs"
    "\<forall>j < length inputs. out ! j = (case map_of saved j of None \<Rightarrow> ?in ! j
         | Some d \<Rightarrow> (?in ! j)\<lparr>pi_derivation := d\<rparr>)"
    using Cons.IH [of ?in] Cons.prems by auto
  have "out ! j = (case map_of (p # saved) j of None \<Rightarrow> inputs ! j
         | Some d \<Rightarrow> (inputs ! j)\<lparr>pi_derivation := d\<rparr>)" if "j < length inputs" for j
    using out(3) that none i p by (cases "j = i") (auto split: option.splits)
  with out(1,2) i p show ?case by simp
qed simp

lemma saved_derivations_facts:
  fixes inputs :: "'a psbt_input list"
  shows
  "distinct (map fst (saved_derivations idxs inputs))"
  "(i, d) \<in> set (saved_derivations idxs inputs) \<longleftrightarrow>
     i < length inputs \<and> i \<notin> set idxs \<and> d = pi_derivation (inputs ! i)"
proof -
  have "map fst (saved_derivations idxs inputs) = filter (\<lambda>i. i \<notin> set idxs) (map fst (enumerate 0 inputs))"
  proof -
    have "map fst (filter (\<lambda>(i, inp). Q i) xs) = filter Q (map fst xs)" for Q and xs :: "(nat \<times> 'a psbt_input) list"
      by (induction xs) auto
    then show ?thesis by (simp add: saved_derivations_def comp_def case_prod_beta del: map_fst_enumerate)
  qed
  then show "distinct (map fst (saved_derivations idxs inputs))"
    by (simp add: map_fst_enumerate)
  show "(i, d) \<in> set (saved_derivations idxs inputs) \<longleftrightarrow>
     i < length inputs \<and> i \<notin> set idxs \<and> d = pi_derivation (inputs ! i)"
    by (auto simp: saved_derivations_def in_set_enumerate_eq)
qed

lemma map_of_saved:
  "j < length inputs \<Longrightarrow> map_of (saved_derivations idxs inputs) j =
     (if j \<in> set idxs then None else Some (pi_derivation (inputs ! j)))"
  using map_of_is_SomeI [OF saved_derivations_facts(1), of j "pi_derivation (inputs ! j)" idxs inputs]
    saved_derivations_facts(2) [of j _ idxs inputs]
  by (auto simp: map_of_eq_None_iff)

lemma signed_hidden:
  assumes "signs_by_origin sign" and "sign (hide_others idxs inputs) = (r, mid)" and "i < length inputs"
  shows "length mid = length inputs"
    and "pi_derivation (mid ! i) = (if i \<in> set idxs then pi_derivation (inputs ! i) else [])"
    and "i \<notin> set idxs \<Longrightarrow> mid ! i = (inputs ! i)\<lparr>pi_derivation := []\<rparr>"
proof -
  have hidden: "length (hide_others idxs inputs) = length inputs"
    "hide_others idxs inputs ! i = (if i \<in> set idxs then inputs ! i else (inputs ! i)\<lparr>pi_derivation := []\<rparr>)"
    using assms(3) by (simp_all add: hide_others_def nth_enumerate_eq)
  with assms show "length mid = length inputs"
    "pi_derivation (mid ! i) = (if i \<in> set idxs then pi_derivation (inputs ! i) else [])"
    "i \<notin> set idxs \<Longrightarrow> mid ! i = (inputs ! i)\<lparr>pi_derivation := []\<rparr>"
    unfolding signs_by_origin_def by (force split: if_splits)+
qed

lemma hidden_origins:
  assumes "signs_by_origin sign" and "sign (hide_others idxs inputs) = (r, mid)" and "i < length inputs"
  shows "i \<notin> set idxs \<Longrightarrow> pi_derivation (mid ! i) = []"
  using signed_hidden(2) [OF assms] by simp

lemma selective_signing:
  assumes sign: "signs_by_origin sign" "sign (hide_others idxs inputs) = (r, mid)"
  shows "\<exists>out. restore_derivations (saved_derivations idxs inputs) mid = (Inr () :: ('e, unit) res, out)
    \<and> length out = length inputs \<and> map pi_derivation out = map pi_derivation inputs
    \<and> (\<forall>i < length inputs. i \<notin> set idxs \<longrightarrow> out ! i = inputs ! i)"
proof -
  have "length (hide_others idxs inputs) = length inputs" by (simp add: hide_others_def)
  then have len: "length mid = length inputs" using sign unfolding signs_by_origin_def by metis
  then have "\<forall>(i, d) \<in> set (saved_derivations idxs inputs). i < length mid"
    by (auto simp: saved_derivations_facts)
  from restore_derivations_run [where 'e = 'e, OF saved_derivations_facts(1) this] obtain out where
    out: "restore_derivations (saved_derivations idxs inputs) mid = (Inr () :: ('e, unit) res, out)"
      "length out = length mid" and nth: "\<And>j. j < length mid \<Longrightarrow> out ! j =
        (case map_of (saved_derivations idxs inputs) j of None \<Rightarrow> mid ! j | Some d \<Rightarrow> (mid ! j)\<lparr>pi_derivation := d\<rparr>)"
    by blast
  have "pi_derivation (out ! j) = pi_derivation (inputs ! j) \<and> (j \<notin> set idxs \<longrightarrow> out ! j = inputs ! j)"
    if "j < length inputs" for j
    using nth [of j] that len signed_hidden [OF sign that] by (auto simp: map_of_saved)
  with out len show ?thesis by (auto intro: nth_equalityI)
qed

end
