(* ===== verification/BtcSpend.thy ===== *)
theory BtcSpend
  imports BtcLoad Selective
begin

text \<open>
  Addresses, balances and spending of a loaded Bitcoin wallet, the rest of \<open>src/wallet.rs\<close>:
  what is shown to the user (revealed addresses, address history, balance), the send and sweep
  pipelines, and the helpers the migration tool uses. Sums of amounts panic on overflow, as
  \<open>Amount\<close>'s addition does; the fee totals saturate.
\<close>

section \<open>Addresses\<close>

record revealed_address =
  ra_index :: u32
  ra_keychain :: keychain
  ra_address :: string
  ra_received :: u64
  ra_unspent :: u64

text \<open>What an output script received, and what of it is unspent.\<close>

fun tally_spk :: "script \<Rightarrow> local_output list \<Rightarrow> u64 \<times> u64 \<Rightarrow> ('e, u64 \<times> u64) res" where
  "tally_spk spk [] acc = Inr acc"
| "tally_spk spk (utxo # utxos) (received, unspent) =
     (if to_spk (lo_txout utxo) = spk
      then bind_res (or_panic (checked_add received (to_value (lo_txout utxo)))) (\<lambda>received'.
           bind_res (if \<not> lo_is_spent utxo then or_panic (checked_add unspent (to_value (lo_txout utxo)))
                     else Inr unspent) (\<lambda>unspent'.
           tally_spk spk utxos (received', unspent')))
      else tally_spk spk utxos (received, unspent))"

definition revealed_address_at where
  "revealed_address_at bapi wal outputs index =
     (let info = peek_address bapi wal External index in
      bind_res (tally_spk (ai_spk info) outputs (0, 0)) (\<lambda>(received, unspent).
      Inr \<lparr>ra_index = index, ra_keychain = ai_keychain info, ra_address = ai_address info,
           ra_received = received, ra_unspent = unspent\<rparr>))"

text \<open>A change set staged by revealing or building is merged into the aggregate and stored.\<close>

definition take_delta :: "('child, 'sig, 'fed, 'fw, 'wal, 'cs, 'psbt, 'w) btc_api \<Rightarrow>
    ('fed, 'fw, 'wal, 'cs, 'w, wallet_error, 'cs option \<times> u32) wallet_op" where
  "take_delta bapi = (\<lambda>(uw, h). case take_staged bapi (uw_inner uw) of
     (delta, wal) \<Rightarrow> (Inr (delta, tip_of bapi wal), (uw\<lparr>uw_inner := wal\<rparr>, h)))"

definition store_staged where
  "store_staged bapi delta tip = (case delta of None \<Rightarrow> ret_st () | Some d \<Rightarrow> store_delta bapi False d tip)"

definition reveal_addresses where
  "reveal_addresses bapi target_count =
     (if target_count = 0 then ret_st []
      else
        bind_st (the_wallet (\<lambda>uw. fw_current_wallet bapi (uw_federated uw))) (\<lambda>current_wallet.
        bind_st (change_wallet (\<lambda>uw. uw\<lparr>uw_inner :=
          reveal_addresses_to bapi External (target_count - 1) (uw_inner uw)\<rparr>)) (\<lambda>_.
        bind_st (the_wallet (\<lambda>uw. list_output bapi (uw_inner uw))) (\<lambda>outputs.
        bind_st (lift_st (map_res (revealed_address_at bapi current_wallet outputs) (indices_below target_count))) (\<lambda>results.
        bind_st (take_delta bapi) (\<lambda>(delta, tip).
        bind_st (store_staged bapi delta tip) (\<lambda>_. ret_st results)))))))"

definition revealed_addresses_all_versions where
  "revealed_addresses_all_versions bapi uw count =
     map_res (\<lambda>(i, vw).
       bind_res (index_of (fw_wallets bapi (uw_federated uw)) i) (\<lambda>(fw_index, fed, fw_wallet).
       bind_res (map_res (revealed_address_at bapi fw_wallet (list_output bapi vw)) (indices_below count)) (\<lambda>addrs.
       Inr (fw_index, addrs)))) (enumerate 0 (uw_versions uw))"

text \<open>The totals per change index, kept in index order as the code's map is.\<close>

fun seen_add :: "u32 \<Rightarrow> u64 \<Rightarrow> bool \<Rightarrow> (u32 \<times> u64 \<times> u64) list \<Rightarrow> ('e, (u32 \<times> u64 \<times> u64) list) res" where
  "seen_add idx v spent [] = Inr [(idx, v, if spent then 0 else v)]"
| "seen_add idx v spent ((j, received, unspent) # seen) =
     (if idx < j then Inr ((idx, v, if spent then 0 else v) # (j, received, unspent) # seen)
      else if idx = j then
        bind_res (or_panic (checked_add received v)) (\<lambda>received'.
        bind_res (if spent then Inr unspent else or_panic (checked_add unspent v)) (\<lambda>unspent'.
        Inr ((j, received', unspent') # seen)))
      else bind_res (seen_add idx v spent seen) (\<lambda>seen'. Inr ((j, received, unspent) # seen')))"

fun change_totals where
  "change_totals bapi vw [] seen = Inr seen"
| "change_totals bapi vw (utxo # utxos) seen =
     (case derivation_of_spk bapi vw (to_spk (lo_txout utxo)) of
        Some (Internal, idx) \<Rightarrow>
          bind_res (seen_add idx (to_value (lo_txout utxo)) (lo_is_spent utxo) seen) (\<lambda>seen'.
          change_totals bapi vw utxos seen')
      | _ \<Rightarrow> change_totals bapi vw utxos seen)"

definition change_addresses where
  "change_addresses bapi uw =
     bind_res (map_res (\<lambda>vw. bind_res (change_totals bapi vw (list_output bapi vw) []) (\<lambda>seen.
       Inr (map (\<lambda>(index, received, unspent).
         let info = peek_address bapi vw Internal index in
         \<lparr>ra_index = index, ra_keychain = ai_keychain info, ra_address = ai_address info,
          ra_received = received, ra_unspent = unspent\<rparr>) seen))) (uw_versions uw)) (\<lambda>parts. Inr (concat parts))"

text \<open>Address parsing belongs to the bitcoin crate and is an argument.\<close>

definition parse_address where
  "parse_address parse require_network uw raw =
     bind_res (of_sum (BadAddress raw (uw_network uw)) (parse raw)) (\<lambda>unchecked.
     of_sum (BadAddress raw (uw_network uw)) (require_network unchecked (uw_network uw)))"

fun first_some :: "('a \<Rightarrow> 'b option) \<Rightarrow> 'a list \<Rightarrow> 'b option" where
  "first_some f [] = None"
| "first_some f (x # xs) = (case f x of Some y \<Rightarrow> Some y | None \<Rightarrow> first_some f xs)"

definition locate_address where
  "locate_address bapi uw spk = (case derivation_of_spk bapi (uw_inner uw) spk of
       Some r \<Rightarrow> Some r
     | None \<Rightarrow> first_some (\<lambda>(i, fed, w). derivation_of_spk bapi w spk) (fw_wallets bapi (uw_federated uw)))"

definition watched_scripts where
  "watched_scripts bapi uw = (case derivation_index bapi External (uw_inner uw) of
       None \<Rightarrow> []
     | Some last_idx \<Rightarrow> map (\<lambda>i. ai_spk (peek_address bapi (fw_current_wallet bapi (uw_federated uw)) External i))
         (map word_of_nat [0..<Suc (unat last_idx)]))"

section \<open>Address history\<close>

record address_receipt =
  rc_txid :: txid
  rc_vout :: u32
  rc_amount :: u64
  rc_height :: "u32 option"
  rc_confirmations :: u32
  rc_is_spent :: bool

record address_activity =
  aa_tip_height :: u32
  aa_total_received :: u64
  aa_unspent :: u64
  aa_receipts :: "address_receipt list"

definition confirmation_of :: "u32 \<Rightarrow> chain_position \<Rightarrow> u32 option \<times> u32" where
  "confirmation_of tip_height pos = (case pos of
       Confirmed h \<Rightarrow> (Some h, saturating_add (saturating_sub tip_height h) 1)
     | Unconfirmed \<Rightarrow> (None, 0))"

definition vout_of :: "nat \<Rightarrow> u32" where
  "vout_of i = to_u32_or (- 1) (int i)"

definition receipt_of :: "(outpoint \<rightharpoonup> bool) \<Rightarrow> u32 \<Rightarrow> wallet_tx \<Rightarrow> nat \<Rightarrow> tx_out \<Rightarrow> address_receipt" where
  "receipt_of spent_status tip_height wtx vout txout =
     (let txid = bt_txid (wt_tx wtx); (height, confs) = confirmation_of tip_height (wt_position wtx) in
      \<lparr>rc_txid = txid, rc_vout = vout_of vout, rc_amount = to_value txout, rc_height = height,
       rc_confirmations = confs,
       rc_is_spent = (case spent_status (txid, vout_of vout) of None \<Rightarrow> False | Some b \<Rightarrow> b)\<rparr>)"

text \<open>The receipts in the order the loops meet them, one version wallet after the other.\<close>

definition version_receipts where
  "version_receipts bapi tip_height spk vw =
     (let spent_status = map_of (rev (map (\<lambda>o'. (lo_outpoint o', lo_is_spent o')) (list_output bapi vw))) in
      concat (map (\<lambda>wtx. map (\<lambda>(vout, txout). receipt_of spent_status tip_height wtx vout txout)
        (filter (\<lambda>(vout, txout). to_spk txout = spk) (enumerate 0 (bt_outputs (wt_tx wtx)))))
        (wallet_txs bapi vw)))"

definition receipt_point :: "address_receipt \<Rightarrow> outpoint" where
  "receipt_point r = (rc_txid r, rc_vout r)"

fun collect_receipts where
  "collect_receipts [] seen activity = Inr activity"
| "collect_receipts (r # rs) seen activity =
     (if receipt_point r \<in> seen then collect_receipts rs seen activity
      else
        bind_res (or_panic (checked_add (aa_total_received activity) (rc_amount r))) (\<lambda>total.
        bind_res (if \<not> rc_is_spent r then or_panic (checked_add (aa_unspent activity) (rc_amount r))
                  else Inr (aa_unspent activity)) (\<lambda>unspent.
        collect_receipts rs (insert (receipt_point r) seen)
          (activity\<lparr>aa_total_received := total, aa_unspent := unspent,
             aa_receipts := aa_receipts activity @ [r]\<rparr>))))"

definition receipt_key :: "address_receipt \<Rightarrow> nat" where
  "receipt_key r = (case rc_height r of None \<Rightarrow> 2 ^ 32 - 1 | Some h \<Rightarrow> unat h)"

definition address_history where
  "address_history bapi uw spk =
     (let tip_height = tip_of bapi (uw_inner uw) in
      bind_res (collect_receipts (concat (map (version_receipts bapi tip_height spk) (uw_versions uw))) {}
        \<lparr>aa_tip_height = tip_height, aa_total_received = 0, aa_unspent = 0, aa_receipts = []\<rparr>) (\<lambda>activity.
      Inr (activity\<lparr>aa_receipts := sort_key receipt_key (aa_receipts activity)\<rparr>)))"

section \<open>Balance and unspent outputs\<close>

fun add_balances where
  "add_balances bapi [] acc = Inr acc"
| "add_balances bapi (vw # vws) acc =
     (let b = wallet_balance bapi vw in
      bind_res (or_panic (checked_add (b_confirmed acc) (b_confirmed b))) (\<lambda>confirmed.
      bind_res (or_panic (checked_add (b_trusted_pending acc) (b_trusted_pending b))) (\<lambda>trusted.
      bind_res (or_panic (checked_add (b_untrusted_pending acc) (b_untrusted_pending b))) (\<lambda>untrusted.
      bind_res (or_panic (checked_add (b_immature acc) (b_immature b))) (\<lambda>immature.
      add_balances bapi vws \<lparr>b_confirmed = confirmed, b_trusted_pending = trusted,
        b_untrusted_pending = untrusted, b_immature = immature\<rparr>)))))"

definition wallet_total where
  "wallet_total bapi uw = add_balances bapi (uw_versions uw)
     \<lparr>b_confirmed = 0, b_trusted_pending = 0, b_untrusted_pending = 0, b_immature = 0\<rparr>"

definition list_unspent where
  "list_unspent bapi uw = concat (map (\<lambda>vw. filter (\<lambda>o'. \<not> lo_is_spent o') (list_output bapi vw)) (uw_versions uw))"

section \<open>Broadcasting\<close>

definition broadcast_raw where
  "broadcast_raw bapi raw_tx =
     bind_st (the_wallet (\<lambda>uw. (uw_has_electrum uw, uw_has_esplora uw, uw_has_rpc uw))) (\<lambda>(electrum, esplora, rpc).
     if electrum then
       bind_st (lift_st (of_sum ExtractTx (tx_deserialize bapi raw_tx))) (\<lambda>tx.
       via_host (outside ElectrumError (electrum_broadcast bapi tx)))
     else if esplora then
       bind_st (lift_st (of_sum ExtractTx (tx_deserialize bapi raw_tx))) (\<lambda>tx.
       via_host (outside EsploraError (esplora_broadcast bapi tx)))
     else if rpc then via_host (outside BroadcastRejected (rpc_broadcast bapi raw_tx))
     else lift_st (throw_res RpcClientMissing))"

section \<open>Spending\<close>

record address =
  ad_string :: string
  ad_spk :: script

record broadcast_transaction =
  bx_txid :: txid
  bx_recipient :: string
  bx_amount_sat :: int
  bx_fee_sat :: int

definition saturating_total :: "u64 list \<Rightarrow> u64" where
  "saturating_total vs = fold (\<lambda>v total. saturating_add total v) vs 0"

definition outputs_to :: "script \<Rightarrow> btx \<Rightarrow> u64 list" where
  "outputs_to spk tx = map to_value (filter (\<lambda>out. to_spk out = spk) (bt_outputs tx))"

definition own_inputs where
  "own_inputs bapi wal tx = map (\<lambda>utxo. to_value (lo_txout utxo)) (List.map_filter (get_utxo bapi wal) (bt_inputs tx))"

definition to_i64 :: "u64 \<Rightarrow> int" where
  "to_i64 v = min (uint v) i64_max"

text \<open>Signing, finalising and the accounting of the final transaction, under the wallet's lock.\<close>

definition sign_and_finalize where
  "sign_and_finalize bapi psbt =
     bind_st (lift_st (of_sum WalletPsbt (unsigned_psbt bapi psbt))) (\<lambda>unsigned.
     bind_st (the_wallet (\<lambda>uw. (uw_federation uw, uw_inner uw))) (\<lambda>(fed, wal).
     bind_st (via_host (outside Sign (request_signatures bapi fed wal unsigned))) (\<lambda>signed.
     lift_st (of_sum Sign (finalize_psbt bapi fed wal signed)))))"

definition spend_accounts where
  "spend_accounts bapi wal spk tx =
     (let output_total = saturating_total (map to_value (bt_outputs tx));
          recipient_total = saturating_total (outputs_to spk tx);
          input_total = saturating_total (own_inputs bapi wal tx) in
      (recipient_total, saturating_sub input_total output_total))"

text \<open>What both pipelines do with the PSBT they built.\<close>

definition finish_spend where
  "finish_spend bapi recipient label psbt =
     bind_st (sign_and_finalize bapi psbt) (\<lambda>tx.
     bind_st (the_wallet (\<lambda>uw. (uw_wallet_id uw, spend_accounts bapi (uw_inner uw) (ad_spk recipient) tx)))
       (\<lambda>(wallet_id, recipient_sat, fee_sat).
     bind_st (lift_st (of_sum ExtractTx (consensus_encode bapi tx))) (\<lambda>raw_tx.
     bind_st (take_delta bapi) (\<lambda>(delta, tip).
     bind_st (store_staged bapi delta tip) (\<lambda>_.
     bind_st (broadcast_raw bapi raw_tx) (\<lambda>txid_after_broadcast.
     bind_st (lift_st (if txid_after_broadcast = bt_txid tx then Inr () else Inl Panic)) (\<lambda>_.
     bind_st (via_host (db_insert WalletSqlx (\<lambda>new_id now. insert_transaction new_id now
       \<lparr>nt_wallet_id = wallet_id, nt_txid = bt_txid tx, nt_recipient = ad_string recipient,
        nt_amount_sat = to_i64 recipient_sat, nt_fee_sat = to_i64 fee_sat,
        nt_raw_tx_hex = to_lower_hex bapi raw_tx, nt_label = label\<rparr>))) (\<lambda>_.
     ret_st \<lparr>bx_txid = bt_txid tx, bx_recipient = ad_string recipient,
             bx_amount_sat = to_i64 recipient_sat, bx_fee_sat = to_i64 fee_sat\<rparr>))))))))"

text \<open>A builder consumes the wallet and leaves what it staged.\<close>

definition build_on_inner where
  "build_on_inner build = (\<lambda>(uw, h). case build (uw_inner uw) of
     (r, wal) \<Rightarrow> (of_sum BuildTx r, (uw\<lparr>uw_inner := wal\<rparr>, h)))"

definition sweep_to where
  "sweep_to bapi recipient fee_rate label =
     (if \<not> fee_rate_ok bapi fee_rate then lift_st (throw_res (BadFeeRate fee_rate))
      else bind_st (build_on_inner (build_drain bapi (ad_spk recipient) fee_rate))
             (finish_spend bapi recipient label))"

definition build_sign_and_broadcast where
  "build_sign_and_broadcast bapi recipient amount fee_rate label =
     (if \<not> fee_rate_ok bapi fee_rate then lift_st (throw_res (BadFeeRate fee_rate))
      else bind_st (build_on_inner (build_spend bapi (ad_spk recipient) amount fee_rate))
             (finish_spend bapi recipient label))"

definition compute_drain_amount where
  "compute_drain_amount bapi recipient fee_rate =
     (if \<not> fee_rate_ok bapi fee_rate then lift_st (throw_res (BadFeeRate fee_rate))
      else bind_st (build_on_inner (build_drain bapi (ad_spk recipient) fee_rate)) (\<lambda>psbt.
        ret_st (case find (\<lambda>out. to_spk out = ad_spk recipient) (psbt_outputs bapi psbt) of
            None \<Rightarrow> (0 :: u64) | Some out \<Rightarrow> to_value out)))"

section \<open>Helpers of the migration\<close>

definition satisfaction_weight :: u64 where "satisfaction_weight = 260"

fun input_from_versions where
  "input_from_versions bapi outpoint [] = None"
| "input_from_versions bapi outpoint (vw # vws) = (case get_utxo bapi vw outpoint of
       Some local \<Rightarrow> Some (of_sum BuildTx (get_psbt_input bapi vw local))
     | None \<Rightarrow> input_from_versions bapi outpoint vws)"

definition psbt_input_for_utxo where
  "psbt_input_for_utxo bapi show_outpoint uw outpoint =
     bind_res (case input_from_versions bapi outpoint (uw_versions uw) of
       Some r \<Rightarrow> r
     | None \<Rightarrow>
         bind_res (of_option (BuildTx (''UTXO '' @ show_outpoint outpoint @ '' not found in wallet''))
           (get_utxo bapi (uw_inner uw) outpoint)) (\<lambda>local.
         of_sum BuildTx (get_psbt_input bapi (uw_inner uw) local))) (\<lambda>input.
     Inr (input, satisfaction_weight))"

text \<open>BDK's signer acts on the inputs of the PSBT.\<close>

definition sign_migration_inputs ::
    "('rest psbt_input list, string, unit) st \<Rightarrow> nat list \<Rightarrow> ('rest psbt_input list, wallet_error, unit) st" where
  "sign_migration_inputs sign input_indices = (\<lambda>inputs.
     let saved = saved_derivations input_indices inputs in
     bind_st (map_err_st Sign sign) (\<lambda>_. restore_derivations saved) (hide_others input_indices inputs))"

definition insert_unconfirmed_tx where
  "insert_unconfirmed_tx bapi now tx = change_wallet (\<lambda>uw. uw\<lparr>
     uw_versions := map (apply_unconfirmed_tx bapi tx now) (uw_versions uw),
     uw_inner := apply_unconfirmed_tx bapi tx now (uw_inner uw)\<rparr>)"

section \<open>Facts about the totals\<close>

text \<open>A running total that does not overflow, one step at a time.\<close>

lemma split_total:
  fixes a v x :: u64
  shows "(\<exists>c :: u64. unat c = unat a + unat v \<and> unat x = unat c + n) \<longleftrightarrow> unat x = unat a + (unat v + n)"
proof
  assume eq: "unat x = unat a + (unat v + n)"
  then have "unat a + unat v < 2 ^ 64" using unsigned_less [of x, where 'a = nat] by simp
  then have "unat (a + v) = unat a + unat v" by (simp add: unat_word_ariths)
  with eq show "\<exists>c :: u64. unat c = unat a + unat v \<and> unat x = unat c + n"
    by (intro exI [of _ "a + v"]) simp
qed auto

lemma tally_spk_Inr:
  "(tally_spk spk utxos (r, u) :: ('e, u64 \<times> u64) res) = Inr (r', u') \<longleftrightarrow>
     unat r' = unat r + sum_list (map (\<lambda>o'. unat (to_value (lo_txout o'))) (filter (\<lambda>o'. to_spk (lo_txout o') = spk) utxos))
   \<and> unat u' = unat u + sum_list (map (\<lambda>o'. unat (to_value (lo_txout o')))
        (filter (\<lambda>o'. to_spk (lo_txout o') = spk \<and> \<not> lo_is_spent o') utxos))"
proof (induction utxos arbitrary: r u)
  case Nil
  show ?case by (auto simp: eq_commute simp flip: word_unat_eq_iff)
next
  case (Cons o' utxos)
  let ?v = "to_value (lo_txout o')"
  show ?case
  proof (cases "to_spk (lo_txout o') = spk")
    case False
    with Cons.IH show ?thesis by simp
  next
    case True
    let ?n = "sum_list (map (\<lambda>o'. unat (to_value (lo_txout o'))) (filter (\<lambda>o'. to_spk (lo_txout o') = spk) utxos))"
    let ?m = "sum_list (map (\<lambda>o'. unat (to_value (lo_txout o')))
        (filter (\<lambda>o'. to_spk (lo_txout o') = spk \<and> \<not> lo_is_spent o') utxos))"
    have "(tally_spk spk (o' # utxos) (r, u) :: ('e, u64 \<times> u64) res) = Inr (r', u') \<longleftrightarrow>
        (\<exists>c :: u64. unat c = unat r + unat ?v \<and> unat r' = unat c + ?n) \<and>
        (if lo_is_spent o' then unat u' = unat u + ?m
         else \<exists>c :: u64. unat c = unat u + unat ?v \<and> unat u' = unat c + ?m)"
      by (simp add: True bind_res_Inr_iff checked_add_Some_iff Cons.IH) blast
    then show ?thesis
      unfolding split_total using True by simp
  qed
qed

lemma add_balances_Inr:
  "add_balances bapi vws acc = Inr (b :: balance) \<longleftrightarrow>
     unat (b_confirmed b) = unat (b_confirmed acc) + sum_list (map (\<lambda>w. unat (b_confirmed (wallet_balance bapi w))) vws)
   \<and> unat (b_trusted_pending b) = unat (b_trusted_pending acc)
       + sum_list (map (\<lambda>w. unat (b_trusted_pending (wallet_balance bapi w))) vws)
   \<and> unat (b_untrusted_pending b) = unat (b_untrusted_pending acc)
       + sum_list (map (\<lambda>w. unat (b_untrusted_pending (wallet_balance bapi w))) vws)
   \<and> unat (b_immature b) = unat (b_immature acc) + sum_list (map (\<lambda>w. unat (b_immature (wallet_balance bapi w))) vws)"
proof (induction vws arbitrary: acc)
  case Nil
  show ?case by (cases acc; cases b) (auto simp: eq_commute simp flip: word_unat_eq_iff)
next
  case (Cons w vws)
  show ?case
    unfolding sum_list.Cons list.map split_total [symmetric]
    by (auto simp: Let_def bind_res_Inr_iff checked_add_Some_iff Cons.IH simp del: word_unat_eq_iff)
qed

lemma saturating_total_le: "unat (saturating_total vs) = min (sum_list (map unat vs)) (2 ^ 64 - 1)"
proof -
  have "unat (fold (\<lambda>v t. saturating_add t v) vs a) = min (unat a + sum_list (map unat vs)) (2 ^ 64 - 1)" for a :: u64
  proof (induction vs arbitrary: a)
    case Nil
    show ?case using unsigned_less [of a, where 'a = nat] by simp
  next
    case (Cons v vs)
    show ?case by (simp add: Cons.IH unat_saturating_add)
  qed
  then show ?thesis by (simp add: saturating_total_def)
qed

section \<open>Facts about the history\<close>

lemma collect_receipts_Inr:
  assumes "(collect_receipts rs seen act :: ('e, address_activity) res) = Inr act'"
  shows "\<exists>new. aa_receipts act' = aa_receipts act @ new \<and> aa_tip_height act' = aa_tip_height act
    \<and> distinct (map receipt_point new) \<and> set new \<subseteq> set rs
    \<and> receipt_point ` set new = receipt_point ` set rs - seen
    \<and> unat (aa_total_received act') = unat (aa_total_received act) + sum_list (map (\<lambda>r. unat (rc_amount r)) new)
    \<and> unat (aa_unspent act') = unat (aa_unspent act)
        + sum_list (map (\<lambda>r. unat (rc_amount r)) (filter (\<lambda>r. \<not> rc_is_spent r) new))"
  using assms
proof (induction rs arbitrary: seen act)
  case Nil
  then show ?case by (intro exI [of _ "[]"]) auto
next
  case (Cons r rs)
  show ?case
  proof (cases "receipt_point r \<in> seen")
    case True
    with Cons.prems have "(collect_receipts rs seen act :: ('e, address_activity) res) = Inr act'" by simp
    from Cons.IH [OF this] obtain new where new: "aa_receipts act' = aa_receipts act @ new"
      "aa_tip_height act' = aa_tip_height act" "distinct (map receipt_point new)" "set new \<subseteq> set rs"
      "receipt_point ` set new = receipt_point ` set rs - seen"
      "unat (aa_total_received act') = unat (aa_total_received act) + sum_list (map (\<lambda>r. unat (rc_amount r)) new)"
      "unat (aa_unspent act') = unat (aa_unspent act)
        + sum_list (map (\<lambda>r. unat (rc_amount r)) (filter (\<lambda>r. \<not> rc_is_spent r) new))" by blast
    with True show ?thesis by (intro exI [of _ new]) auto
  next
    case False
    with Cons.prems obtain tot uns where tot: "unat tot = unat (aa_total_received act) + unat (rc_amount r)"
      and uns: "unat uns = unat (aa_unspent act) + (if rc_is_spent r then 0 else unat (rc_amount r))"
      and rest: "(collect_receipts rs (insert (receipt_point r) seen) (act\<lparr>aa_total_received := tot,
             aa_unspent := uns, aa_receipts := aa_receipts act @ [r]\<rparr>) :: ('e, address_activity) res) = Inr act'"
      by (auto simp: bind_res_Inr_iff checked_add_Some_iff split: if_splits)
    from Cons.IH [OF rest] obtain new where new: "aa_receipts act' = aa_receipts act @ [r] @ new"
      "aa_tip_height act' = aa_tip_height act" "distinct (map receipt_point new)" "set new \<subseteq> set rs"
      "receipt_point ` set new = receipt_point ` set rs - insert (receipt_point r) seen"
      "unat (aa_total_received act') = unat tot + sum_list (map (\<lambda>r. unat (rc_amount r)) new)"
      "unat (aa_unspent act') = unat uns + sum_list (map (\<lambda>r. unat (rc_amount r)) (filter (\<lambda>r. \<not> rc_is_spent r) new))"
      by auto
    have "receipt_point r \<notin> receipt_point ` set new" using new(5) by blast
    with False new tot uns show ?thesis
      by (intro exI [of _ "r # new"]) (auto simp: image_iff)
  qed
qed

lemma receipt_points:
  "receipt_point ` set (version_receipts bapi tip spk vw) =
     {(bt_txid (wt_tx wtx), vout_of i) | wtx i. wtx \<in> set (wallet_txs bapi vw) \<and> i < length (bt_outputs (wt_tx wtx))
        \<and> to_spk (bt_outputs (wt_tx wtx) ! i) = spk}"
  by (force simp: version_receipts_def Let_def receipt_of_def receipt_point_def in_set_enumerate_eq
      split: prod.splits)

lemma receipt_confirmations:
  assumes "r \<in> set (version_receipts bapi tip spk vw)"
  shows "case rc_height r of None \<Rightarrow> rc_confirmations r = 0
    | Some h \<Rightarrow> unat (rc_confirmations r) = min (unat tip - unat h + 1) (2 ^ 32 - 1)"
proof -
  obtain status wtx vout txout where "r = receipt_of status tip wtx vout txout"
    using assms by (auto simp: version_receipts_def Let_def)
  then show ?thesis
    by (cases "wt_position wtx")
      (simp_all add: receipt_of_def confirmation_of_def Let_def unat_saturating_add unat_saturating_sub)
qed

section \<open>Facts about sends\<close>

definition same_transactions :: "transaction_row list \<Rightarrow> ('fed, 'fw, 'wal, 'cs) user_wallet \<times> 'w host \<Rightarrow> bool" where
  "same_transactions ts = (\<lambda>(uw, h). transactions (h_db h) = ts)"

lemma via_outside_same [pres_intros]: "preserves (same_transactions ts) (via_host (outside g m))"
  by (auto simp: preserves_def same_transactions_def via_host_def outside_def split: prod.splits)

lemma change_wallet_same [pres_intros]: "preserves (same_transactions ts) (change_wallet f)"
  by (auto simp: preserves_def same_transactions_def change_wallet_def)

lemma take_delta_same [pres_intros]: "preserves (same_transactions ts) (take_delta bapi)"
  by (auto simp: preserves_def same_transactions_def take_delta_def split: prod.splits)

lemma build_on_inner_same [pres_intros]: "preserves (same_transactions ts) (build_on_inner b)"
  by (auto simp: preserves_def same_transactions_def build_on_inner_def split: prod.splits)

lemma store_staged_same [pres_intros]: "preserves (same_transactions ts) (store_staged bapi delta tip)"
proof -
  have "preserves (same_transactions ts) (via_host (db_query WalletSqlx (update_wallet_changeset w j k)))" for w j k
    by (auto simp: preserves_def same_transactions_def via_host_def db_query_def update_wallet_changeset_def)
  then show ?thesis unfolding store_staged_def store_delta_def by (intro pres_intros)
qed

lemma sign_and_finalize_same [pres_intros]: "preserves (same_transactions ts) (sign_and_finalize bapi psbt)"
  unfolding sign_and_finalize_def by (intro pres_intros)

lemma broadcast_raw_same [pres_intros]: "preserves (same_transactions ts) (broadcast_raw bapi raw)"
  unfolding broadcast_raw_def by (intro pres_intros)

lemma insert_transaction_fails:
  "insert_transaction n t sp d = (Inl x, d') \<Longrightarrow> d' = d"
  by (auto simp: insert_transaction_def statement_def Let_def split: option.splits)

lemma insert_transaction_present:
  "fst (insert_transaction n t sp d) = Inr r \<Longrightarrow>
     list_ex (\<lambda>tr. t_wallet_id tr = nt_wallet_id sp \<and> t_txid tr = nt_txid sp)
       (transactions (snd (insert_transaction n t sp d)))"
  by (auto simp: insert_transaction_def statement_def Let_def transaction_of_spec_def list_ex_iff
      split: option.splits if_splits)

lemma insert_transaction_wallets: "wallets (snd (insert_transaction n t sp d)) = wallets d"
  by (auto simp: insert_transaction_def statement_def Let_def split: option.splits)

lemma finish_spend_keeps: "keeps_on_error (same_transactions ts) (finish_spend bapi recipient label psbt)"
proof -
  have last: "keeps_on_error (same_transactions ts) (bind_st (via_host (db_insert WalletSqlx
      (\<lambda>new_id now. insert_transaction new_id now sp))) (\<lambda>_. ret_st bx))" for sp and bx :: broadcast_transaction
    by (auto simp: keeps_on_error_def bind_st_def via_host_def db_insert_def map_err_def same_transactions_def
        dest: insert_transaction_fails split: prod.splits sum.splits fail.splits)
  show ?thesis
    unfolding finish_spend_def
    by (intro keeps_on_error_bind pres_intros, clarify, intro keeps_on_error_bind pres_intros, clarify,
        intro keeps_on_error_bind pres_intros last)
qed

lemma sends_keep:
  "keeps_on_error (same_transactions ts) (sweep_to bapi recipient fee_rate label)"
  "keeps_on_error (same_transactions ts) (build_sign_and_broadcast bapi recipient amount fee_rate label)"
  unfolding sweep_to_def build_sign_and_broadcast_def
  by (simp_all add: keeps_on_error_lift keeps_on_error_bind build_on_inner_same finish_spend_keeps)

lemma take_delta_aggregate:
  "take_delta bapi s = (r, t) \<Longrightarrow> row_in_step bapi s \<Longrightarrow> row_in_step bapi t"
  by (auto simp: take_delta_def row_in_step_def split: prod.splits)

lemma store_staged_in_step:
  "store_staged bapi delta tip s = (Inr (), t) \<Longrightarrow> row_in_step bapi s \<Longrightarrow> row_in_step bapi t"
  by (cases delta) (auto simp: store_staged_def dest: store_delta_in_step)

lemma outside_wallets [pres_intros]: "preserves (\<lambda>h. wallets (h_db h) = ws) (outside g m)"
  by (auto simp: preserves_def outside_def split: prod.splits)

lemma sign_and_finalize_pure [pres_intros]: "preserves (same_aggregate s) (sign_and_finalize bapi psbt)"
  unfolding sign_and_finalize_def by (intro pres_intros)

lemma broadcast_raw_pure [pres_intros]: "preserves (same_aggregate s) (broadcast_raw bapi raw)"
  unfolding broadcast_raw_def by (intro pres_intros)

lemma build_on_inner_pure [pres_intros]: "preserves (same_aggregate s) (build_on_inner b)"
  by (rule preservesI) (auto simp: build_on_inner_def same_aggregate_def split: prod.splits)

text \<open>The stages of a spend that succeeds.\<close>

lemma finish_spend_stages:
  assumes "finish_spend bapi recipient label psbt s = (Inr bx, s')"
  obtains tx s1 raw delta tip s2 s3 s4 where
    "sign_and_finalize bapi psbt s = (Inr tx, s1)" "take_delta bapi s1 = (Inr (delta, tip), s2)"
    "store_staged bapi delta tip s2 = (Inr (), s3)" "broadcast_raw bapi raw s3 = (Inr (bt_txid tx), s4)"
    "fst s' = fst s4" "wallets (h_db (snd s')) = wallets (h_db (snd s4))"
    "list_ex (\<lambda>tr. t_wallet_id tr = uw_wallet_id (fst s1) \<and> t_txid tr = bt_txid tx) (transactions (h_db (snd s')))"
    "bx = \<lparr>bx_txid = bt_txid tx, bx_recipient = ad_string recipient,
       bx_amount_sat = to_i64 (fst (spend_accounts bapi (uw_inner (fst s1)) (ad_spk recipient) tx)),
       bx_fee_sat = to_i64 (snd (spend_accounts bapi (uw_inner (fst s1)) (ad_spk recipient) tx))\<rparr>"
proof -
  show thesis
    using assms unfolding finish_spend_def
    by (elim bind_st_InrE)
      (auto simp: the_wallet_def via_host_def db_insert_def split_beta insert_transaction_wallets
        elim!: bind_st_InrE split: if_splits intro!: that dest!: insert_transaction_present)
qed

lemma finish_spend_record:
  assumes "finish_spend bapi recipient label psbt s = (Inr bx, s')" and "row_in_step bapi s"
  shows "row_in_step bapi s'
    \<and> list_ex (\<lambda>tr. t_wallet_id tr = uw_wallet_id (fst s) \<and> t_txid tr = bx_txid bx) (transactions (h_db (snd s')))
    \<and> (\<exists>tx wal. bt_txid tx = bx_txid bx
        \<and> bx_amount_sat bx = int (min (sum_list (map unat (outputs_to (ad_spk recipient) tx))) (2 ^ 63 - 1))
        \<and> bx_fee_sat bx = to_i64 (saturating_sub (saturating_total (own_inputs bapi wal tx))
             (saturating_total (map to_value (bt_outputs tx)))))"
  using assms(1)
proof (rule finish_spend_stages)
  fix tx s1 raw delta tip s2 s3 s4
  assume sign: "sign_and_finalize bapi psbt s = (Inr tx, s1)" and take: "take_delta bapi s1 = (Inr (delta, tip), s2)"
    and store: "store_staged bapi delta tip s2 = (Inr (), s3)" and send: "broadcast_raw bapi raw s3 = (Inr (bt_txid tx), s4)"
    and s': "fst s' = fst s4" "wallets (h_db (snd s')) = wallets (h_db (snd s4))"
    and tr: "list_ex (\<lambda>tr. t_wallet_id tr = uw_wallet_id (fst s1) \<and> t_txid tr = bt_txid tx) (transactions (h_db (snd s')))"
    and bx: "bx = \<lparr>bx_txid = bt_txid tx, bx_recipient = ad_string recipient,
       bx_amount_sat = to_i64 (fst (spend_accounts bapi (uw_inner (fst s1)) (ad_spk recipient) tx)),
       bx_fee_sat = to_i64 (snd (spend_accounts bapi (uw_inner (fst s1)) (ad_spk recipient) tx))\<rparr>"
  have "row_in_step bapi s1" by (rule preserves_in_step [OF sign assms(2) sign_and_finalize_pure])
  then have "row_in_step bapi s3" using store_staged_in_step [OF store] take_delta_aggregate [OF take] by blast
  then have "row_in_step bapi s4" by (rule preserves_in_step [OF send _ broadcast_raw_pure])
  then have step: "row_in_step bapi s'" using s' by (simp add: row_in_step_def split_beta)
  have id: "uw_wallet_id (fst s1) = uw_wallet_id (fst s)"
    using preserves_run [OF sign same_aggregate_refl sign_and_finalize_pure] by (simp add: same_aggregate_def)
  have "to_i64 (saturating_total vs) = int (min (sum_list (map unat vs)) (2 ^ 63 - 1))" for vs
  proof -
    have "uint (saturating_total vs) = int (min (sum_list (map unat vs)) (2 ^ 64 - 1))"
      using saturating_total_le [of vs] by (simp add: uint_nat)
    then show ?thesis by (simp add: to_i64_def i64_max_def min_def)
  qed
  then show ?thesis
    using step tr bx id by (auto simp: spend_accounts_def Let_def)
qed

lemma build_on_inner_in_step:
  "build_on_inner b s = (r, t) \<Longrightarrow> row_in_step bapi s \<Longrightarrow> row_in_step bapi t \<and> uw_wallet_id (fst t) = uw_wallet_id (fst s)"
  by (auto simp: build_on_inner_def row_in_step_def split: prod.splits)

lemma reveal_results:
  assumes "(map_res (revealed_address_at bapi wal outputs) idxs :: ('e, revealed_address list) res) = Inr rs"
  shows "map ra_index rs = idxs \<and> list_all (\<lambda>ra. let spk = ai_spk (peek_address bapi wal External (ra_index ra)) in
      ra_address ra = ai_address (peek_address bapi wal External (ra_index ra))
    \<and> unat (ra_received ra) = sum_list (map (\<lambda>o'. unat (to_value (lo_txout o')))
          (filter (\<lambda>o'. to_spk (lo_txout o') = spk) outputs))
    \<and> unat (ra_unspent ra) = sum_list (map (\<lambda>o'. unat (to_value (lo_txout o')))
          (filter (\<lambda>o'. to_spk (lo_txout o') = spk \<and> \<not> lo_is_spent o') outputs))) rs"
proof -
  have "list_all2 (\<lambda>i ra. (revealed_address_at bapi wal outputs i :: ('e, revealed_address) res) = Inr ra) idxs rs"
    using assms by (simp add: map_res_Inr_iff)
  then show ?thesis
    by (induction rule: list_all2_induct)
      (auto simp: revealed_address_at_def bind_res_Inr_iff Let_def tally_spk_Inr)
qed

lemma sum_list_sort_key: "(\<Sum>r\<leftarrow>sort_key k xs. f r :: nat) = (\<Sum>r\<leftarrow>xs. f r)"
proof -
  have ins: "(\<Sum>r\<leftarrow>insort_key k x xs. f r) = f x + (\<Sum>r\<leftarrow>xs. f r)" for x xs
    by (induction xs) auto
  show ?thesis by (induction xs) (simp_all add: ins)
qed

section \<open>Properties\<close>

text \<open>The balance shown is, in every field, the sum over the wallets of all federation versions, so
  funds on an old federation are counted; there is no balance exactly when a sum does not fit.\<close>

theorem balance_is_the_sum:
  "wallet_total bapi uw = Inr b \<longleftrightarrow>
     unat (b_confirmed b) = (\<Sum>w\<leftarrow>uw_versions uw. unat (b_confirmed (wallet_balance bapi w)))
   \<and> unat (b_trusted_pending b) = (\<Sum>w\<leftarrow>uw_versions uw. unat (b_trusted_pending (wallet_balance bapi w)))
   \<and> unat (b_untrusted_pending b) = (\<Sum>w\<leftarrow>uw_versions uw. unat (b_untrusted_pending (wallet_balance bapi w)))
   \<and> unat (b_immature b) = (\<Sum>w\<leftarrow>uw_versions uw. unat (b_immature (wallet_balance bapi w)))"
  by (simp add: wallet_total_def add_balances_Inr)


definition toy_paid :: toy_wallet where
  "toy_paid = (toy_new toy_descriptor)\<lparr>tw_txs := [\<lparr>wt_tx = toy_tx [0] 90, wt_position = Confirmed 5\<rparr>],
     tw_outputs := [\<lparr>lo_outpoint = (''t1'', 0), lo_txout = \<lparr>to_value = 90, to_spk = [0]\<rparr>, lo_is_spent = False\<rparr>]\<rparr>"

lemma toy_history:
  "address_history sample_btc (toy_user_wallet\<lparr>uw_versions := [toy_paid, toy_paid]\<rparr>) [0] = Inr \<lparr>aa_tip_height = 7,
     aa_total_received = 90, aa_unspent = 90, aa_receipts = [\<lparr>rc_txid = ''t1'', rc_vout = 0, rc_amount = 90,
       rc_height = Some 5, rc_confirmations = 3, rc_is_spent = False\<rparr>]\<rparr>"
  by (simp add: address_history_def version_receipts_def toy_paid_def toy_tx_def enumerate_eq_zip receipt_of_def
      confirmation_of_def vout_of_def to_u32_or_def Let_def saturating_add_def saturating_sub_def receipt_point_def
      checked_add_def)


lemma signed_migration_inputs:
  assumes "signs_by_origin sign" and "sign_migration_inputs sign idxs inputs = (Inr (), inputs')"
  shows "length inputs' = length inputs \<and> map pi_derivation inputs' = map pi_derivation inputs
    \<and> (\<forall>i < length inputs. i \<notin> set idxs \<longrightarrow> inputs' ! i = inputs ! i)"
proof -
  obtain r mid where run: "sign (hide_others idxs inputs) = (r, mid)" by force
  then have "restore_derivations (saved_derivations idxs inputs) mid = (Inr () :: (wallet_error, unit) res, inputs')"
    using assms(2) by (cases r rule: sum.exhaust)
      (auto simp: sign_migration_inputs_def Let_def bind_st_def map_err_st_def map_err_def split: fail.splits)
  with selective_signing [where 'e = wallet_error, OF assms(1) run] show ?thesis by auto
qed


text \<open>When the signer fails the function returns before the restoration: the caller's PSBT has lost
  the key origins of every input outside the selection.\<close>

lemma failed_signing_loses_origins:
  assumes "signs_by_origin sign" and "sign (hide_others idxs inputs) = (Inl (Err e), mid)"
    and "i < length inputs" and "i \<notin> set idxs"
  shows "\<exists>inputs'. sign_migration_inputs sign idxs inputs = (Inl (Err (Sign e)), inputs') \<and> pi_derivation (inputs' ! i) = []"
  using assms hidden_origins [OF assms(1,2,3)]
  by (auto simp: sign_migration_inputs_def Let_def bind_st_def map_err_st_def map_err_def)

definition toy_sign :: "(bool psbt_input list, string, unit) st" where
  "toy_sign = (\<lambda>inputs. (Inr (), map (\<lambda>inp. if pi_derivation inp = [] then inp else inp\<lparr>pi_rest := True\<rparr>) inputs))"



definition toy_recipient :: address where
  "toy_recipient = \<lparr>ad_string = ''addr'', ad_spk = [0]\<rparr>"

lemma toy_row_in_step: "row_in_step sample_btc (toy_user_wallet, sample_host sample_db_healed)"
  by (auto simp: row_in_step_def toy_user_wallet_def sample_host_def sample_db_healed_def
      update_wallet_descriptor_and_changeset_def set_update_where)

lemma toy_send_run:
  "\<exists>s'. build_sign_and_broadcast sample_btc toy_recipient 90 1 None (toy_user_wallet, sample_host sample_db_healed)
     = (Inr \<lparr>bx_txid = ''t1'', bx_recipient = ''addr'', bx_amount_sat = 90, bx_fee_sat = 0\<rparr>, s')"
proof -
  obtain r where db: "transactions sample_db_healed = []" "wallets sample_db_healed = [r]" "w_id r = 10"
    by (simp add: sample_db_healed_def update_wallet_descriptor_and_changeset_def sample_db_fed_def sample_db_def
        empty_database_def)
  show ?thesis
    by (simp add: build_sign_and_broadcast_def build_on_inner_def finish_spend_def sign_and_finalize_def the_wallet_def
        via_host_def outside_def toy_recipient_def toy_tx_def spend_accounts_def outputs_to_def own_inputs_def
        saturating_total_def saturating_add_def saturating_sub_def map_filter_def take_delta_def store_staged_def
        store_delta_def change_wallet_def db_query_def update_wallet_changeset_def broadcast_raw_def toy_send_def
        db_insert_def insert_transaction_def statement_def Let_def to_i64_def i64_max_def sample_host_def
        toy_user_wallet_def toy_new_def bind_st_def db)
qed


text \<open>A send or a sweep that fails, at whatever stage, leaves no transaction row behind.\<close>

theorem failed_send_leaves_no_record:
  assumes "sweep_to bapi recipient fee_rate label s = (Inl x, t)
    \<or> build_sign_and_broadcast bapi recipient amount fee_rate label s = (Inl x, t)"
  shows "transactions (h_db (snd t)) = transactions (h_db (snd s))"
proof -
  let ?P = "same_transactions (transactions (h_db (snd s)))"
  have "?P s" by (simp add: same_transactions_def split_beta)
  with assms have "?P t" by (blast intro: keeps_on_error_run sends_keep)
  then show ?thesis by (simp add: same_transactions_def split_beta)
qed

theorem failed_send_leaves_no_record_witness:
  "transactions (h_db (snd (snd (sweep_to sample_btc toy_recipient (2 ^ 40) None
     (toy_user_wallet, sample_host sample_db_done))))) = transactions sample_db_done"
proof -
  have "sweep_to sample_btc toy_recipient (2 ^ 40) None (toy_user_wallet, sample_host sample_db_done)
      = (Inl (Err (BadFeeRate (2 ^ 40))), (toy_user_wallet, sample_host sample_db_done))"
    by (simp add: sweep_to_def throw_res_def)
  with failed_send_leaves_no_record [OF disjI1 [OF this]] show ?thesis
    by (simp add: sample_host_def)
qed

text \<open>Revealing \<open>n\<close> addresses shows exactly the first \<open>n\<close> of the current federation, in order, each
  with what its outputs received and hold, and stores the change set.\<close>

theorem revealed_addresses_are_the_first:
  assumes "reveal_addresses bapi n s = (Inr rs, s')" and "row_in_step bapi s"
  shows "map ra_index rs = indices_below n \<and> row_in_step bapi s'
    \<and> (let current = fw_current_wallet bapi (uw_federated (fst s));
            outputs = list_output bapi (reveal_addresses_to bapi External (n - 1) (uw_inner (fst s))) in
        list_all (\<lambda>ra. let spk = ai_spk (peek_address bapi current External (ra_index ra)) in
          ra_address ra = ai_address (peek_address bapi current External (ra_index ra))
        \<and> unat (ra_received ra) = sum_list (map (\<lambda>o'. unat (to_value (lo_txout o')))
            (filter (\<lambda>o'. to_spk (lo_txout o') = spk) outputs))
        \<and> unat (ra_unspent ra) = sum_list (map (\<lambda>o'. unat (to_value (lo_txout o')))
            (filter (\<lambda>o'. to_spk (lo_txout o') = spk \<and> \<not> lo_is_spent o') outputs))) rs)"
proof (cases "n = 0")
  case True
  with assms show ?thesis by (simp add: reveal_addresses_def indices_below_def)
next
  case False
  obtain uw h where s: "s = (uw, h)" by (cases s)
  let ?uw = "uw\<lparr>uw_inner := reveal_addresses_to bapi External (n - 1) (uw_inner uw)\<rparr>"
  obtain delta tip t where rs: "(map_res (revealed_address_at bapi (fw_current_wallet bapi (uw_federated uw))
        (list_output bapi (uw_inner ?uw))) (indices_below n) :: (wallet_error, revealed_address list) res) = Inr rs"
    and take: "take_delta bapi (?uw, h) = (Inr (delta, tip), t)"
    and store: "store_staged bapi delta tip t = (Inr (), s')"
    using assms(1) False
    by (auto simp: reveal_addresses_def s the_wallet_def change_wallet_def elim!: bind_st_InrE)
  have "row_in_step bapi (?uw, h)" using assms(2) by (simp add: s row_in_step_def)
  then have "row_in_step bapi s'"
    using store_staged_in_step [OF store] take_delta_aggregate [OF take] by blast
  then show ?thesis
    using reveal_results [OF rs] by (simp add: s Let_def)
qed

theorem revealed_addresses_are_the_first_witness:
  "\<exists>rs s'. reveal_addresses sample_btc 2 (toy_user_wallet, sample_host sample_db_healed) = (Inr rs, s')
     \<and> map ra_index rs = [0, 1]"
proof -
  obtain rs s' where run: "reveal_addresses sample_btc 2 (toy_user_wallet, sample_host sample_db_healed) = (Inr rs, s')"
    by (simp add: reveal_addresses_def the_wallet_def change_wallet_def indices_below_def revealed_address_at_def
        take_delta_def store_staged_def store_delta_def via_host_def db_query_def update_wallet_changeset_def
        toy_user_wallet_def toy_new_def bind_st_def upt_rec Let_def)
  with revealed_addresses_are_the_first [OF run toy_row_in_step] show ?thesis
    by (auto simp: indices_below_def upt_rec)
qed

end
