(* ===== verification/Migration.thy ===== *)
theory Migration
  imports Host RustText
begin

text \<open>
  What the operator's migration tool, \<open>examples/federation_migration.rs\<close>, does for both chains: its
  command line and configuration, the prompts, recording the new federation of every account
  (step 1) and stamping the swept versions afterwards. The tool ends early through
  \<open>process::exit\<close>, modelled as an error; what it prints is not modelled.
\<close>

section \<open>Configuration\<close>

record new_federation_config =
  nf_threshold :: u32
  nf_signers :: "string list"
  nf_script_type :: "string option"

record migration_strategy_config =
  ms_strategy :: string
  ms_fee_account_idx :: "u32 option"
  ms_small_account_threshold :: u64
  ms_fee_rate_sat_per_vb :: u64

record elements_config =
  ec_enabled :: bool
  ec_rotate_blinding_key :: bool

record migration_config =
  mc_federation :: new_federation_config
  mc_migration :: migration_strategy_config
  mc_elements :: elements_config

definition default_fee_rate :: u64 where
  "default_fee_rate = 2"

definition default_small_account_threshold :: u64 where
  "default_small_account_threshold = 100000"

text \<open>The \<open>[migration]\<close> table with the defaults of the keys it may leave out.\<close>

definition strategy_config_of :: "string \<Rightarrow> u32 option \<Rightarrow> u64 option \<Rightarrow> u64 option \<Rightarrow> migration_strategy_config" where
  "strategy_config_of strategy fee_account small fee_rate =
     \<lparr>ms_strategy = strategy, ms_fee_account_idx = fee_account,
      ms_small_account_threshold = (case small of None \<Rightarrow> default_small_account_threshold | Some n \<Rightarrow> n),
      ms_fee_rate_sat_per_vb = (case fee_rate of None \<Rightarrow> default_fee_rate | Some n \<Rightarrow> n)\<rparr>"

text \<open>\<open>Exit n\<close> is \<open>process::exit(n)\<close>; \<open>Complaint\<close> an error message on its way to \<open>main\<close>.\<close>

datatype tool_exit = Exit nat | Complaint string

definition exit_1 :: "'d \<Rightarrow> tool_exit" where
  "exit_1 e = Exit 1"

definition resolve_migration_script_type :: "migration_config \<Rightarrow> 'ip app_config \<Rightarrow> (tool_exit, script_type) res" where
  "resolve_migration_script_type cfg app = (case nf_script_type (mc_federation cfg) of
       None \<Rightarrow> Inr (fed_script_type app)
     | Some s \<Rightarrow> let t = to_ascii_lowercase (trim s) in
         if t \<in> set [''taproot'', ''tr'', ''p2tr''] then Inr Tr
         else if t \<in> set [''segwit'', ''wsh'', ''p2wsh''] then Inr Wsh
         else throw_res (Exit 1))"

section \<open>Command line\<close>

record cli_args =
  cli_config_path :: "string option"
  cli_dry_run :: bool
  cli_sweep_only :: bool
  cli_elements :: bool

definition no_args :: cli_args where
  "no_args = \<lparr>cli_config_path = None, cli_dry_run = False, cli_sweep_only = False, cli_elements = False\<rparr>"

text \<open>The arguments after the program's name, taken from the left.\<close>

fun parse_arg_list :: "string list \<Rightarrow> cli_args \<Rightarrow> (tool_exit, cli_args) res" where
  "parse_arg_list [] cli = Inr cli"
| "parse_arg_list (arg # args) cli =
     (if arg = ''--config'' \<or> arg = ''-c'' then (case args of
          [] \<Rightarrow> throw_res (Complaint ''--config requires a path argument'')
        | path # rest \<Rightarrow> parse_arg_list rest (cli\<lparr>cli_config_path := Some path\<rparr>))
      else if arg = ''--dry-run'' then parse_arg_list args (cli\<lparr>cli_dry_run := True\<rparr>)
      else if arg = ''--sweep-only'' then parse_arg_list args (cli\<lparr>cli_sweep_only := True\<rparr>)
      else if arg = ''--elements'' then parse_arg_list args (cli\<lparr>cli_elements := True\<rparr>)
      else if arg = ''--help'' \<or> arg = ''-h'' then throw_res (Exit 0)
      else throw_res (Complaint (''unknown argument: '' @ arg)))"

definition newline :: string where
  "newline = [CHR 0x0A]"

definition parse_args :: "string list \<Rightarrow> (tool_exit, cli_args) res" where
  "parse_args args = bind_res (parse_arg_list args no_args) (\<lambda>cli.
     if cli_config_path cli = None then throw_res (Complaint
       (''missing required --config <path> argument'' @ newline @ newline @ ''Run with --help for usage information.''))
     else Inr cli)"

section \<open>Validation\<close>

definition quoted :: "string \<Rightarrow> string" where
  "quoted s = [CHR 0x22] @ s @ [CHR 0x22]"

text \<open>UTF-8 of the em dash and of \<open>\<le>\<close>.\<close>

definition em_dash :: string where
  "em_dash = map char_of [226, 128, 148 :: nat]"

definition at_most_sign :: string where
  "at_most_sign = map char_of [226, 137, 164 :: nat]"

fun join_lines :: "string list \<Rightarrow> string" where
  "join_lines [] = []"
| "join_lines [l] = l"
| "join_lines (l # ls) = l @ newline @ join_lines ls"

definition strategies :: "string list" where
  "strategies = [''account-for-account'', ''account-for-account-batched'']"

definition unknown_strategy :: "string \<Rightarrow> string" where
  "unknown_strategy other = join_lines [''unrecognized migration strategy: '' @ quoted other, [],
     ''Valid strategies are:'',
     ''account-for-account        '' @ em_dash @ '' all accounts in one transaction'',
     ''account-for-account-batched '' @ em_dash @ '' one tx per account, small accounts bundled'']"

definition unknown_token :: "string list \<Rightarrow> string \<Rightarrow> string" where
  "unknown_token known_labels label = join_lines
     ([''signer '' @ quoted label @ '' is not a discovered HSM token'', [],
       ''Available tokens (from APP_HSM_{N}_LABEL env vars):'',
       join_lines (map (\<lambda>l. ''  - '' @ l) known_labels), [],
       ''Make sure the token is configured in .env and the app has'', ''been restarted to discover it.''])"

definition bad_threshold :: "u32 \<Rightarrow> u32 \<Rightarrow> string" where
  "bad_threshold t n = ''threshold '' @ show_nat (unat t) @ '' is invalid for '' @ show_nat (unat n)
     @ '' signers (must satisfy 1 '' @ at_most_sign @ '' t '' @ at_most_sign @ '' '' @ show_nat (unat n) @ '')''"

definition validate_config :: "migration_config \<Rightarrow> 'ip app_config \<Rightarrow> (string, unit) res" where
  "validate_config cfg app =
     (let strategy = ms_strategy (mc_migration cfg); signers = nf_signers (mc_federation cfg);
          threshold = nf_threshold (mc_federation cfg);
          known_labels = map hsm_label (hsm_tokens app); n = word_of_nat (length signers) in
      if strategy \<notin> set strategies then throw_res (unknown_strategy strategy)
      else if ms_fee_account_idx (mc_migration cfg) = None then throw_res (join_lines
        [''account-for-account strategies require fee_account_idx to be set'', [],
         ''Add to [migration]:'', ''fee_account_idx = 0''])
      else (case find (\<lambda>label. label \<notin> set known_labels) signers of
          Some label \<Rightarrow> throw_res (unknown_token known_labels label)
        | None \<Rightarrow>
            if threshold < 1 \<or> threshold > n then throw_res (bad_threshold threshold n)
            else if signers = [] then throw_res ''federation must have at least one signer''
            else if ms_fee_rate_sat_per_vb (mc_migration cfg) = 0
              then throw_res ''fee_rate_sat_per_vb must be at least 1''
            else Inr ()))"

section \<open>Prompts\<close>

text \<open>\<open>read_line\<close> is what standard input gives; a failed read leaves the line empty.\<close>

definition confirm :: "('w \<Rightarrow> string \<times> 'w) \<Rightarrow> ('w, 'e, bool) st" where
  "confirm read_line = (\<lambda>w. case read_line w of (line, w') \<Rightarrow>
     (Inr (trim line \<in> set [''y'', ''Y'', ''yes'', ''Yes'']), w'))"

text \<open>A prompt that ends the tool when it is not confirmed.\<close>

definition confirm_or_exit :: "('w \<Rightarrow> string \<times> 'w) \<Rightarrow> ('w host, tool_exit, unit) st" where
  "confirm_or_exit read_line = bind_st (outside id (confirm read_line)) (\<lambda>yes.
     if yes then ret_st () else lift_st (throw_res (Exit 0)))"

definition stop :: "nat \<Rightarrow> ('s, tool_exit, 'a) st" where
  "stop code = lift_st (throw_res (Exit code))"

section \<open>The new federation\<close>

fun position :: "('a \<Rightarrow> bool) \<Rightarrow> 'a list \<Rightarrow> nat option" where
  "position p [] = None"
| "position p (x # xs) = (if p x then Some 0 else map_option Suc (position p xs))"

definition new_signer_indices :: "migration_config \<Rightarrow> 'ip app_config \<Rightarrow> ('e, nat list) res" where
  "new_signer_indices cfg app = map_res (\<lambda>label. or_panic (position (\<lambda>t. hsm_label t = label) (hsm_tokens app)))
     (nf_signers (mc_federation cfg))"

definition patch_signers :: "'ip app_config \<Rightarrow> 'sig list \<Rightarrow> nat list \<Rightarrow> ('e, ('sig \<times> network) list) res" where
  "patch_signers app all_signers = map_res (\<lambda>idx.
     bind_res (index_of all_signers idx) (\<lambda>s. Inr (s, network app)))"

definition new_patched_signers :: "migration_config \<Rightarrow> 'ip app_config \<Rightarrow> 'sig list \<Rightarrow> ('e, ('sig \<times> network) list) res" where
  "new_patched_signers cfg app all_signers = bind_res (new_signer_indices cfg app) (patch_signers app all_signers)"

text \<open>The display of the change shows the first eight bytes of a signer's identifier.\<close>

definition short_ids :: "string list \<Rightarrow> ('e, string list) res" where
  "short_ids = map_res (\<lambda>i. if 8 < length i then slice i 0 8 else Inr i)"

text \<open>The configured federation is the current one: as many labels, the same ones, the same threshold.\<close>

definition new_is_same :: "string list \<Rightarrow> u32 \<Rightarrow> migration_config \<Rightarrow> bool" where
  "new_is_same current_labels current_threshold cfg \<longleftrightarrow>
     length current_labels = length (nf_signers (mc_federation cfg))
     \<and> list_all (\<lambda>l. l \<in> set (nf_signers (mc_federation cfg))) current_labels
     \<and> current_threshold = nf_threshold (mc_federation cfg)"

text \<open>Step 1 for one account: the new version, then the flags of the older ones, whose failure is
  only a warning.\<close>

definition record_version where
  "record_version set_pending wallet_id spec =
     bind_st (db_insert exit_1 (\<lambda>new_id now. insert_federation_version new_id now spec)) (\<lambda>_.
     bind_st (ignore_err (db_query id (set_pending wallet_id (nv_version_index spec)))) (\<lambda>_.
     ret_st ()))"

definition next_version_index :: "'a list \<Rightarrow> int" where
  "next_version_index versions = to_i32_or 0 (int (length versions))"

section \<open>Completion\<close>

definition max_version :: "federation_version_row list \<Rightarrow> int" where
  "max_version versions = (case map fv_version_index versions of [] \<Rightarrow> 0 | i # is \<Rightarrow> fold max is i)"

text \<open>One older version: complete with the sweep's txid, or a bare status without one.\<close>

definition stamp_version :: "string option \<Rightarrow> federation_version_row \<Rightarrow> ('w host, 'e, unit) st" where
  "stamp_version sweep v = bind_st (ignore_err (db_query id (case sweep of
       Some txid \<Rightarrow> set_migration_complete (fv_id v) txid
     | None \<Rightarrow> update_migration_status (fv_id v) ''complete''))) (\<lambda>_. ret_st ())"

definition complete_account where
  "complete_account listing wallet_id sweep =
     bind_st (ignore_err (db_query id (listing wallet_id))) (\<lambda>found. case found of
       None \<Rightarrow> ret_st ()
     | Some versions \<Rightarrow> for_st (stamp_version sweep)
         (filter (\<lambda>v. fv_version_index v < max_version versions) versions))"

definition mark_migrated where
  "mark_migrated listing accounts =
     for_st (\<lambda>(wallet_id, sweep). complete_account listing wallet_id sweep) accounts"
section \<open>Facts about the configuration\<close>

lemma position_Some:
  "position p xs = Some i \<Longrightarrow> i < length xs \<and> p (xs ! i)"
  by (induction xs arbitrary: i) (auto split: if_splits)

lemma position_member: "p x \<Longrightarrow> x \<in> set xs \<Longrightarrow> \<exists>i. position p xs = Some i"
  by (induction xs) auto

lemma find_None_all: "find p xs = None \<Longrightarrow> x \<in> set xs \<Longrightarrow> \<not> p x"
  by (auto simp: find_None_iff)

lemma validate_config_Inr:
  "validate_config cfg app = Inr () \<longleftrightarrow>
     ms_strategy (mc_migration cfg) \<in> set strategies \<and> ms_fee_account_idx (mc_migration cfg) \<noteq> None
     \<and> set (nf_signers (mc_federation cfg)) \<subseteq> hsm_label ` set (hsm_tokens app)
     \<and> nf_threshold (mc_federation cfg) \<noteq> 0
     \<and> nf_threshold (mc_federation cfg) \<le> word_of_nat (length (nf_signers (mc_federation cfg)))
     \<and> nf_signers (mc_federation cfg) \<noteq> [] \<and> ms_fee_rate_sat_per_vb (mc_migration cfg) \<noteq> 0"
  by (auto simp: validate_config_def Let_def throw_res_def find_None_iff not_less split: option.splits if_splits)
    (auto simp: find_Some_iff nth_mem subset_iff)

lemma new_signer_index:
  assumes "label \<in> hsm_label ` set tokens"
  obtains i where "position (\<lambda>t. hsm_label t = label) tokens = Some i" and "i < length tokens"
    and "hsm_label (tokens ! i) = label"
proof -
  from assms obtain t where "hsm_label t = label" "t \<in> set tokens" by blast
  then obtain i where "position (\<lambda>t. hsm_label t = label) tokens = Some i"
    using position_member [of "\<lambda>t. hsm_label t = label"] by blast
  with position_Some [OF this] that show thesis by blast
qed

definition label_index :: "'ip app_config \<Rightarrow> string \<Rightarrow> nat" where
  "label_index app label = the (position (\<lambda>t. hsm_label t = label) (hsm_tokens app))"

lemma label_index:
  assumes "label \<in> hsm_label ` set (hsm_tokens app)"
  shows "position (\<lambda>t. hsm_label t = label) (hsm_tokens app) = Some (label_index app label)"
    and "label_index app label < length (hsm_tokens app)"
    and "hsm_label (hsm_tokens app ! label_index app label) = label"
proof -
  obtain i where i: "position (\<lambda>t. hsm_label t = label) (hsm_tokens app) = Some i"
    "i < length (hsm_tokens app)" "hsm_label (hsm_tokens app ! i) = label"
    using new_signer_index [OF assms] by metis
  then show "position (\<lambda>t. hsm_label t = label) (hsm_tokens app) = Some (label_index app label)"
    "label_index app label < length (hsm_tokens app)" "hsm_label (hsm_tokens app ! label_index app label) = label"
    by (simp_all add: label_index_def)
qed

lemma new_patched_signers_run:
  assumes "set (nf_signers (mc_federation cfg)) \<subseteq> hsm_label ` set (hsm_tokens app)"
    and "length all_signers = length (hsm_tokens app)"
  shows "(new_patched_signers cfg app all_signers :: ('e, _) res) = Inr (map (\<lambda>label. (all_signers ! label_index app label, network app))
     (nf_signers (mc_federation cfg)))"
proof -
  have "(new_signer_indices cfg app :: ('e, _) res) = Inr (map (label_index app) (nf_signers (mc_federation cfg)))"
    unfolding new_signer_indices_def
    by (rule map_res_total) (simp add: label_index(1) subsetD [OF assms(1)])
  moreover have "(map_res (\<lambda>idx. bind_res (index_of all_signers idx) (\<lambda>s. Inr (s, network app)))
      (map (label_index app) (nf_signers (mc_federation cfg))) :: ('e, _) res)
    = Inr (map (\<lambda>idx. (all_signers ! idx, network app)) (map (label_index app) (nf_signers (mc_federation cfg))))"
    by (rule map_res_total) (auto simp: assms(2) label_index(2) subsetD [OF assms(1)])
  ultimately show ?thesis by (simp add: new_patched_signers_def patch_signers_def comp_def)
qed

text \<open>C22. A migration configuration that passes validation can be carried out: every signer it
  names resolves to the signer of the token with that label, so the \<open>expect\<close> behind the lookup
  never fires, and the threshold is between one and the number of those signers.\<close>

theorem validated_configuration_resolves:
  assumes "validate_config cfg app = Inr ()" and "length all_signers = length (hsm_tokens app)"
  shows "\<exists>patched. (new_patched_signers cfg app all_signers :: ('e, _) res) = Inr patched
    \<and> length patched = length (nf_signers (mc_federation cfg))
    \<and> 1 \<le> unat (nf_threshold (mc_federation cfg)) \<and> unat (nf_threshold (mc_federation cfg)) \<le> length patched
    \<and> (\<forall>j < length patched. \<exists>i < length (hsm_tokens app).
         hsm_label (hsm_tokens app ! i) = nf_signers (mc_federation cfg) ! j
         \<and> patched ! j = (all_signers ! i, network app))"
proof -
  let ?t = "nf_threshold (mc_federation cfg)" and ?ls = "nf_signers (mc_federation cfg)"
  have ok: "set ?ls \<subseteq> hsm_label ` set (hsm_tokens app)" "?t \<noteq> 0" "?t \<le> word_of_nat (length ?ls)"
    using assms(1) by (auto simp: validate_config_Inr)
  have "unat ?t \<le> unat (word_of_nat (length ?ls) :: u32)" using ok(3) by (simp add: word_le_nat_alt)
  also have "\<dots> \<le> length ?ls" by (simp add: unsigned_of_nat)
  finally have "unat ?t \<le> length ?ls" .
  moreover have "1 \<le> unat ?t" using ok(2) by (simp add: unat_eq_0 Suc_le_eq unat_gt_0)
  moreover have "\<exists>i < length (hsm_tokens app). hsm_label (hsm_tokens app ! i) = ?ls ! j
      \<and> (all_signers ! label_index app (?ls ! j), network app) = (all_signers ! i, network app)" if "j < length ?ls" for j
    using label_index(2,3) [of "?ls ! j" app] subsetD [OF ok(1) nth_mem [OF that]] by blast
  ultimately show ?thesis using new_patched_signers_run [OF ok(1) assms(2), where 'e = 'e] by simp
qed

definition sample_migration :: migration_config where
  "sample_migration = \<lparr>mc_federation = \<lparr>nf_threshold = 2, nf_signers = [''b'', ''a''], nf_script_type = Some ''Taproot''\<rparr>,
     mc_migration = strategy_config_of ''account-for-account-batched'' (Some 0) None None,
     mc_elements = \<lparr>ec_enabled = True, ec_rotate_blinding_key = False\<rparr>\<rparr>"

definition sample_app_config :: "string app_config" where
  "sample_app_config = \<lparr>bind_ip = ''::1'', bind_port = 8080, session_secret = replicate 64 0, database_url = ''db'',
     network = Regtest, bip48_coin_index = 1, bitcoin_rpc_url = [], bitcoin_rpc_user = [], bitcoin_rpc_password = [],
     bitcoin_wallet_name = [], chain_backend = Electrum, esplora_url = None, electrum_url = Some ''tcp'',
     pkcs11_library_path = ''lib'', hsm_tokens = sample_tokens, fed_threshold = 1, fed_signer_indices = [1, 0],
     fed_script_type = Wsh, elements_rpc_url = [], elements_rpc_user = [], elements_rpc_password = [],
     elements_network = Liquid, elements_chain_backend = ElementsEsplora, elements_electrum_url = None,
     elements_esplora_url = Some ''u'', elements_esplora_auth = None\<rparr>"

lemma sample_migration_valid: "validate_config sample_migration sample_app_config = Inr ()"
  by (simp add: validate_config_Inr sample_migration_def sample_app_config_def strategy_config_of_def strategies_def
      sample_tokens_def default_fee_rate_def)

theorem validated_configuration_resolves_witness:
  "\<exists>patched. (new_patched_signers sample_migration sample_app_config [''sa'', ''sb''] :: (unit, _) res) = Inr patched \<and> length patched = 2"
  using validated_configuration_resolves [OF sample_migration_valid, of "[''sa'', ''sb'']"]
  by (auto simp: sample_migration_def sample_app_config_def sample_tokens_def)

end
