(* ===== verification/MigrationVersions.thy ===== *)
theory MigrationVersions
  imports Migration
begin

text \<open>
  What the migration tool does to the version table, for both chains: the effect of stamping the
  swept versions, and of recording the next federation of several wallets. The lemmas are in the
  contract \<open>version_chain\<close> and reach the properties through its two interpretations.
\<close>

section \<open>Stamping\<close>

definition stamped :: "string option \<Rightarrow> federation_version_row \<Rightarrow> federation_version_row" where
  "stamped sweep v = (case sweep of
       Some txid \<Rightarrow> v\<lparr>fv_migration_status := ''complete'', fv_migration_sweep_txid := Some txid\<rparr>
     | None \<Rightarrow> v\<lparr>fv_migration_status := ''complete''\<rparr>)"

lemma stamped_simps [simp]:
  "fv_id (stamped sweep v) = fv_id v" "fv_version_index (stamped sweep v) = fv_version_index v"
  "stamped sweep (stamped sweep v) = stamped sweep v"
  by (simp_all add: stamped_def split: option.splits)

definition with_versions :: "'w host \<Rightarrow> federation_version_row list \<Rightarrow> 'w host" where
  "with_versions h vs = h\<lparr>h_db := (h_db h)\<lparr>federation_versions := vs\<rparr>\<rparr>"

lemma with_versions_simps [simp]:
  "federation_versions (h_db (with_versions h vs)) = vs"
  "with_versions (with_versions h vs) us = with_versions h us"
  "with_versions h (federation_versions (h_db h)) = h"
  by (simp_all add: with_versions_def)

lemma stamp_version_run:
  "stamp_version sweep v h = (Inr (), with_versions h
     (update_where (\<lambda>r. fv_id r = fv_id v) (stamped sweep) (federation_versions (h_db h))))"
proof -
  have "stamped None = (\<lambda>r. r\<lparr>fv_migration_status := ''complete''\<rparr>)"
    "stamped (Some t) = (\<lambda>r. r\<lparr>fv_migration_status := ''complete'', fv_migration_sweep_txid := Some t\<rparr>)" for t
    by (simp_all add: stamped_def fun_eq_iff)
  then show ?thesis
    by (cases sweep) (simp_all add: stamp_version_def bind_st_def ignore_err_def db_query_def with_versions_def
        update_migration_status_def set_migration_complete_def statement_def migration_statuses_def)
qed

lemma update_where_twice:
  assumes "\<And>v. f (f v) = f v" and "\<And>v. p (f v) = p v" and "\<And>v. q (f v) = q v"
  shows "update_where p f (update_where q f vs) = update_where (\<lambda>v. q v \<or> p v) f vs"
  using assms by (simp add: update_where_def)

lemma stamp_versions_run:
  "for_st (stamp_version sweep) vs h = (Inr (), with_versions h
     (update_where (\<lambda>r. fv_id r \<in> fv_id ` set vs) (stamped sweep) (federation_versions (h_db h))))"
proof (induction vs arbitrary: h)
  case Nil
  then show ?case by (simp add: update_where_def)
next
  case (Cons v vs)
  then show ?case by (simp add: bind_st_def stamp_version_run update_where_twice)
qed

lemma max_version_of:
  "map fv_version_index vs = map int [0..<length vs] \<Longrightarrow> vs \<noteq> [] \<Longrightarrow> max_version vs = int (length vs) - 1"
proof -
  assume idx: "map fv_version_index vs = map int [0..<length vs]" and ne: "vs \<noteq> []"
  obtain i "is" where cons: "map fv_version_index vs = i # is" using ne by (cases vs) auto
  have "max_version vs = Max (set (i # is))"
    unfolding max_version_def cons by (simp only: list.case Max.set_eq_fold)
  also have "set (i # is) = int ` {0..<length vs}" by (simp flip: cons add: idx)
  also have "Max (int ` {0..<length vs}) = int (Max {0..<length vs})"
    using ne by (intro mono_Max_commute [symmetric]) (auto simp: mono_def)
  also have "Max {0..<length vs} = length vs - 1"
    using ne by (intro Max_eqI) (auto simp: Suc_le_eq)
  finally show ?thesis using ne by (simp add: of_nat_diff Suc_le_eq)
qed

text \<open>What stamping does to the table as a whole: a wallet's rows below its newest one.\<close>

definition swept_row where
  "swept_row owner accounts vs r = (case owner r of
       None \<Rightarrow> r
     | Some w \<Rightarrow> (case map_of accounts w of
         None \<Rightarrow> r
       | Some sweep \<Rightarrow> if fv_version_index r < int (length (owned owner w vs)) - 1 then stamped sweep r else r))"

text \<open>What recording a newer version does to an older row.\<close>

definition flagged :: "federation_version_row \<Rightarrow> federation_version_row" where
  "flagged v = (if fv_migration_status v = ''not_applicable'' then v\<lparr>fv_migration_status := ''pending''\<rparr> else v)"

lemma flagged_simps [simp]:
  "fv_id (flagged v) = fv_id v" "fv_migration_status (flagged v) \<noteq> ''not_applicable''"
  by (simp_all add: flagged_def)

definition ids_distinct :: "federation_version_row list \<Rightarrow> bool" where
  "ids_distinct vs \<longleftrightarrow> distinct (map fv_id vs)"

context version_chain
begin

lemma owner_stamped [simp]: "owner (stamped sweep v) = owner v"
  by (cases sweep) (simp_all add: stamped_def)

lemma complete_account_run:
  assumes "chain_ok owner w (federation_versions (h_db h))" and "ids_distinct (federation_versions (h_db h))"
  shows "complete_account list_versions w sweep h = (Inr (), with_versions h
     (update_where (\<lambda>r. owner r = Some w \<and>
          fv_version_index r < int (length (owned owner w (federation_versions (h_db h)))) - 1)
        (stamped sweep) (federation_versions (h_db h))))"
proof -
  let ?fvs = "federation_versions (h_db h)"
  let ?vs = "sort_key fv_version_index (owned owner w ?fvs)"
  let ?old = "filter (\<lambda>v. fv_version_index v < max_version ?vs) ?vs"
  have run: "db_query id (list_versions w) h = (Inr ?vs, h)" by (simp add: db_query_def list_eq)
  have idx: "map fv_version_index ?vs = map int [0..<length ?vs]"
    using sorted_indices [OF assms(1)] by simp
  have same: "fv_id r \<in> fv_id ` set ?old \<longleftrightarrow> owner r = Some w \<and> fv_version_index r < int (length (owned owner w ?fvs)) - 1"
    if r: "r \<in> set ?fvs" for r
  proof -
    have inj: "fv_id r = fv_id v \<Longrightarrow> v \<in> set ?fvs \<Longrightarrow> r = v" for v
      using assms(2) r by (auto simp: ids_distinct_def distinct_map dest: inj_onD)
    have "fv_id r \<in> fv_id ` set ?old \<longleftrightarrow> r \<in> set ?old" using inj by auto
    also have "\<dots> \<longleftrightarrow> r \<in> set (owned owner w ?fvs) \<and> fv_version_index r < max_version ?vs" by simp
    also have "\<dots> \<longleftrightarrow> r \<in> set (owned owner w ?fvs) \<and> fv_version_index r < int (length (owned owner w ?fvs)) - 1"
    proof (cases "owned owner w ?fvs = []")
      case False
      then have "?vs \<noteq> []" by (metis length_0_conv length_sort)
      from max_version_of [OF idx this] show ?thesis by simp
    qed simp
    finally show ?thesis using r by simp
  qed
  have "complete_account list_versions w sweep h = for_st (stamp_version sweep) ?old h"
    by (simp add: complete_account_def bind_st_def ignore_err_def run)
  also have "\<dots> = (Inr (), with_versions h (update_where (\<lambda>r. fv_id r \<in> fv_id ` set ?old) (stamped sweep) ?fvs))"
    by (rule stamp_versions_run)
  also have "update_where (\<lambda>r. fv_id r \<in> fv_id ` set ?old) (stamped sweep) ?fvs =
      update_where (\<lambda>r. owner r = Some w \<and> fv_version_index r < int (length (owned owner w ?fvs)) - 1) (stamped sweep) ?fvs"
    unfolding update_where_def using same by (intro map_cong) auto
  finally show ?thesis .
qed

lemma mark_migrated_run:
  assumes "\<And>w. chain_ok owner w (federation_versions (h_db h))" and "ids_distinct (federation_versions (h_db h))"
    and "distinct (map fst accounts)"
  shows "mark_migrated list_versions accounts h = (Inr () :: ('e, unit) res, with_versions h
     (map (swept_row owner accounts (federation_versions (h_db h))) (federation_versions (h_db h))))"
  using assms
proof (induction accounts arbitrary: h)
  case Nil
  have "swept_row owner [] vs r = r" for vs r by (simp add: swept_row_def split: option.splits)
  then show ?case by (simp add: mark_migrated_def)
next
  case (Cons a accounts)
  obtain w sweep where a: "a = (w, sweep)" by (cases a)
  let ?fvs = "federation_versions (h_db h)"
  let ?p = "\<lambda>r. owner r = Some w \<and> fv_version_index r < int (length (owned owner w ?fvs)) - 1"
  let ?us = "update_where ?p (stamped sweep) ?fvs"
  let ?h = "with_versions h ?us"
  have first: "complete_account list_versions w sweep h = (Inr () :: ('e, unit) res, ?h)"
    by (rule complete_account_run [OF Cons.prems(1,2)])
  have len: "length (owned owner u ?us) = length (owned owner u ?fvs)" for u
    by (simp add: owned_update)
  have chain: "chain_ok owner u (federation_versions (h_db ?h))" for u
    using Cons.prems(1) [of u] by (simp, intro chain_ok_update) auto
  have ids: "ids_distinct (federation_versions (h_db ?h))"
    using Cons.prems(2) by (simp add: ids_distinct_def map_update_where)
  have "mark_migrated list_versions (a # accounts) h = (mark_migrated list_versions accounts ?h :: ('e, unit) res \<times> _)"
    by (simp add: mark_migrated_def a bind_st_def first)
  also have "\<dots> = (Inr (), with_versions h (map (swept_row owner accounts ?us) ?us))"
    using Cons.IH [OF chain ids] Cons.prems(3) by simp
  also have "map (swept_row owner accounts ?us) ?us = map (swept_row owner (a # accounts) ?fvs) ?fvs"
  proof -
    have none: "map_of accounts w = None" using Cons.prems(3) a by (auto simp: map_of_eq_None_iff)
    have "swept_row owner accounts ?us (if ?p r then stamped sweep r else r) = swept_row owner (a # accounts) ?fvs r" for r
      using none by (auto simp: swept_row_def a len split: option.splits)
    then show ?thesis by (simp add: update_where_def [of ?p] comp_def)
  qed
  finally show ?case .
qed

subsection \<open>Recording\<close>

lemma record_version_Inr:
  assumes "record_version set_pending w spec h = (Inr (), h')"
  obtains n t where "version_refusal n spec (h_db h) = None"
    and "federation_versions (h_db h') = update_where
      (\<lambda>v. owner v = Some w \<and> fv_version_index v < nv_version_index spec \<and> fv_migration_status v = ''not_applicable'')
      (\<lambda>v. v\<lparr>fv_migration_status := ''pending''\<rparr>) (federation_versions (h_db h) @ [version_of_spec n t spec])"
proof -
  let ?n = "h_uuid h (h_tick h)" and ?t = "h_now h (h_tick h)"
  have none: "version_refusal ?n spec (h_db h) = None"
    using assms by (auto simp: record_version_def bind_st_def db_insert_def insert_federation_version_def statement_def
        exit_1_def split: option.splits)
  with assms that [OF none, of ?t] show thesis
    by (auto simp: record_version_def bind_st_def db_insert_def insert_federation_version_def statement_def
        ignore_err_def db_query_def pending_eq)
qed

lemma record_version_listing:
  assumes chain: "chain_ok owner w (federation_versions (h_db h))" and spec: "spec_owner spec = Some w"
    "nv_version_index spec = int (length (owned owner w (federation_versions (h_db h))))"
    and run: "record_version set_pending w spec h = (Inr (), h')"
  shows "\<exists>n t. list_versions w (h_db h') = (Inr (map flagged
      (sort_key fv_version_index (owned owner w (federation_versions (h_db h)))) @ [version_of_spec n t spec]), h_db h')"
    and "u \<noteq> w \<Longrightarrow> owned owner u (federation_versions (h_db h')) = owned owner u (federation_versions (h_db h))"
proof -
  let ?fvs = "federation_versions (h_db h)"
  let ?p = "\<lambda>v. owner v = Some w \<and> fv_version_index v < nv_version_index spec \<and> fv_migration_status v = ''not_applicable''"
  let ?f = "\<lambda>v. v\<lparr>fv_migration_status := ''pending''\<rparr>"
  obtain n t where fvs': "federation_versions (h_db h') = update_where ?p ?f (?fvs @ [version_of_spec n t spec])"
    using record_version_Inr [OF run] by blast
  let ?row = "version_of_spec n t spec"
  have row: "owner ?row = Some w" "fv_version_index ?row = nv_version_index spec"
    using spec(1) by (simp add: spec_owner_eq) (simp add: version_of_spec_def)
  have old: "owned owner u (federation_versions (h_db h')) = update_where ?p ?f (owned owner u (?fvs @ [?row]))" for u
    unfolding fvs' by (rule owned_update) simp
  have le: "\<forall>v \<in> set (owned owner w ?fvs). fv_version_index v \<le> fv_version_index ?row"
    using chain_index_bound [OF chain] spec(2) row(2) by force
  have "sort_key fv_version_index (owned owner w (federation_versions (h_db h')))
      = update_where ?p ?f (sort_key fv_version_index (owned owner w ?fvs) @ [?row])"
    unfolding old by (subst sort_key_update_where) (simp_all add: row sort_key_append_max [OF le])
  also have "\<dots> = map flagged (sort_key fv_version_index (owned owner w ?fvs)) @ [?row]"
    using chain_index_bound [OF chain] spec(2) row by (auto simp: update_where_def flagged_def)
  finally show "\<exists>n t. list_versions w (h_db h') = (Inr (map flagged
      (sort_key fv_version_index (owned owner w ?fvs)) @ [version_of_spec n t spec]), h_db h')"
    by (auto simp: list_eq)
  show "owned owner u (federation_versions (h_db h')) = owned owner u ?fvs" if "u \<noteq> w"
    unfolding old using that row by (auto simp: update_where_none)
qed

lemma record_version_chain:
  assumes "\<And>u. chain_ok owner u (federation_versions (h_db h))" and "spec_owner spec = Some w"
    and "nv_version_index spec = int (length (owned owner w (federation_versions (h_db h))))"
    and "record_version set_pending w spec h = (Inr (), h')"
  shows "chain_ok owner u (federation_versions (h_db h'))"
proof -
  obtain n t where fvs': "version_refusal n spec (h_db h) = None" "federation_versions (h_db h') = update_where
      (\<lambda>v. owner v = Some w \<and> fv_version_index v < nv_version_index spec \<and> fv_migration_status v = ''not_applicable'')
      (\<lambda>v. v\<lparr>fv_migration_status := ''pending''\<rparr>) (federation_versions (h_db h) @ [version_of_spec n t spec])"
    using record_version_Inr [OF assms(4)] .
  let ?d = "(h_db h)\<lparr>federation_versions := federation_versions (h_db h) @ [version_of_spec n t spec]\<rparr>"
  have ins: "insert_federation_version n t spec (h_db h) = (Inr (version_of_spec n t spec), ?d)"
    using fvs'(1) by (simp add: insert_federation_version_def st_simps)
  have "chain_ok owner u (federation_versions ?d)"
    by (rule insert_extends [OF assms(1) ins]) (use assms(2,3) in simp)
  then show ?thesis unfolding fvs'(2)
    by (intro chain_ok_update) (use assms(2,3) in \<open>auto simp: spec_owner_eq\<close>)
qed

end

section \<open>Completed versions\<close>

text \<open>The completed versions and the sweeps they record.\<close>

definition completed :: "database \<Rightarrow> (uuid \<times> string option) list" where
  "completed d = map (\<lambda>v. (fv_id v, fv_migration_sweep_txid v))
     (filter (\<lambda>v. fv_migration_status v = ''complete'') (federation_versions d))"

lemma completed_flag:
  assumes "\<And>v. p v \<Longrightarrow> fv_migration_status v = ''not_applicable''"
  shows "completed (d\<lparr>federation_versions := update_where p (\<lambda>v. v\<lparr>fv_migration_status := ''pending''\<rparr>) (federation_versions d)\<rparr>)
    = completed d"
proof -
  have "filter (\<lambda>v. fv_migration_status v = ''complete'') (update_where p (\<lambda>v. v\<lparr>fv_migration_status := ''pending''\<rparr>) vs)
      = filter (\<lambda>v. fv_migration_status v = ''complete'') vs" for vs
    using assms by (induction vs) auto
  then show ?thesis by (simp add: completed_def)
qed

lemma completed_insert [pres_intros]: "preserves (\<lambda>d. completed d = C) (insert_federation_version n t s)"
  by (auto simp: preserves_def completed_def insert_federation_version_def statement_def version_of_spec_def split: option.splits)

lemma confirm_inv [pres_intros]: "preserves (host_inv P) (confirm_or_exit read_line)"
  unfolding confirm_or_exit_def by (intro pres_intros)

section \<open>Properties\<close>

lemma versions_inv_ids: "versions_inv d \<Longrightarrow> ids_distinct (federation_versions d)"
  by (simp add: versions_inv_def db_inv_def federation_versions_ok_def ids_distinct_def)

text \<open>C4. Stamping after a migration, on every history of the version table and for any accounts and
  sweep transactions: it never fails, and exactly the versions below the newest of the given
  wallets become \<open>complete\<close>, all with the new sweep's txid where the account has one, whatever
  status and txid they had from earlier migrations; the newest versions, the other wallets
  and the rest of the database are untouched.\<close>

theorem completed_migrations_are_stamped:
  assumes "version_history (h_db h)" and "distinct (map fst accounts)"
  shows "mark_migrated list_federation_versions_for_wallet accounts h = (Inr () :: ('e, unit) res,
      with_versions h (map (swept_row fv_wallet_id accounts (federation_versions (h_db h))) (federation_versions (h_db h))))
    \<and> mark_migrated list_federation_versions_for_elements_wallet accounts h = (Inr () :: ('e, unit) res,
      with_versions h (map (swept_row fv_elements_wallet_id accounts (federation_versions (h_db h))) (federation_versions (h_db h))))"
proof -
  have "versions_inv (h_db h)" using assms(1) by (rule version_history_inv)
  then have "ids_distinct (federation_versions (h_db h))"
    "\<And>w. chain_ok fv_wallet_id w (federation_versions (h_db h))"
    "\<And>w. chain_ok fv_elements_wallet_id w (federation_versions (h_db h))"
    by (simp_all add: versions_inv_ids) (simp_all add: versions_inv_def)
  with btc_chain.mark_migrated_run [OF _ _ assms(2)] elements_chain.mark_migrated_run [OF _ _ assms(2)]
  show ?thesis by blast
qed

definition sample_db_v1 :: database where
  "sample_db_v1 = sample_db_v0\<lparr>federation_versions := [version_of_spec 40 7 sample_version,
     version_of_spec 41 9 (sample_version\<lparr>nv_version_index := 1\<rparr>)]\<rparr>"

lemma sample_insert_v1:
  "insert_federation_version 41 9 (sample_version\<lparr>nv_version_index := 1\<rparr>) sample_db_v0 =
     (Inr (version_of_spec 41 9 (sample_version\<lparr>nv_version_index := 1\<rparr>)), sample_db_v1)"
  by (simp add: insert_federation_version_def version_refusal_None version_exists_def st_simps sample_version_def
      sample_db_v0_def sample_db_v1_def sample_db_def empty_database_def version_of_spec_def)

lemma sample_history_v1: "version_history sample_db_v1"
  by (rule version_history.step [OF sample_history_v0], rule version_step.ins [OF sample_insert_v1])
    (simp_all add: sample_version_def sample_db_v0_def version_of_spec_def)

definition migration_host :: "database \<Rightarrow> unit host" where
  "migration_host d = \<lparr>h_db = d, h_world = (), h_tick = 0, h_uuid = (\<lambda>n. 100 + word_of_nat n), h_now = int\<rparr>"

theorem completed_migrations_are_stamped_witness:
  "mark_migrated list_federation_versions_for_wallet [(10, Some ''t'')] (migration_host sample_db_v1) =
     (Inr () :: (unit, unit) res, with_versions (migration_host sample_db_v1)
        [stamped (Some ''t'') (version_of_spec 40 7 sample_version),
         version_of_spec 41 9 (sample_version\<lparr>nv_version_index := 1\<rparr>)])"
proof -
  have "version_history (h_db (migration_host sample_db_v1))"
    using sample_history_v1 by (simp add: migration_host_def)
  from completed_migrations_are_stamped [OF this, of "[(10, Some ''t'')]", where 'e = unit]
  show ?thesis by (simp add: migration_host_def sample_db_v1_def swept_row_def version_of_spec_def sample_version_def)
qed

end
