(* ===== verification/MigrationBtc.thy ===== *)
theory MigrationBtc
  imports BtcSpend MigrationVersions
begin

text \<open>
  The Bitcoin side of the migration tool, \<open>main\<close> in \<open>examples/federation_migration.rs\<close>: loading and
  synchronising the wallets, planning the sweep, recording the new federation, the chain of sweep
  transactions with the fee account's change, stamping and the last check. The planners, the
  transaction builder and BDK's signer are arguments.
\<close>

section \<open>The libraries\<close>

record btc_utxo_set =
  bu_account_idx :: u32
  bu_utxos :: "local_output list"
  bu_destination :: address

datatype btc_output =
    BtcCustomer u32 address u64
  | BtcFeeChange u32 u64

record btc_sweep_transaction =
  bs_source_utxos :: "outpoint list"
  bs_outputs :: "btc_output list"
  bs_is_fee_final :: bool

text \<open>What the transaction builder is told, in order; it selects no outputs of its own.\<close>

datatype 'input build_step =
    AddForeign outpoint 'input u64
  | AddRecipient script u64
  | DrainTo script

record ('fed, 'wal, 'psbt, 'rest, 'g, 'w) btc_tool =
  mt_read_line :: "'w \<Rightarrow> string \<times> 'w"
  mt_hash_order :: "nat list \<Rightarrow> nat list"
  mt_clock :: "'w \<Rightarrow> u64"
  mt_fed_signers :: "'fed \<Rightarrow> (string \<times> string) list"
  mt_fed_network :: "'fed \<Rightarrow> network"
  mt_fed_snapshot :: "'fed \<Rightarrow> json option"
  mt_plan :: "u32 \<Rightarrow> btc_utxo_set list \<Rightarrow> network \<Rightarrow> network \<Rightarrow> u64 \<Rightarrow> string + btc_sweep_transaction list"
  mt_plan_batched :: "u32 \<Rightarrow> u64 \<Rightarrow> btc_utxo_set list \<Rightarrow> network \<Rightarrow> network \<Rightarrow> u64 \<Rightarrow>
     string + btc_sweep_transaction list"
  mt_build :: "'psbt build_step list \<Rightarrow> u64 \<Rightarrow> 'wal \<Rightarrow> (string + ('rest, 'g) pset_data) \<times> 'wal"
  mt_prev_outs :: "('rest, 'g) pset_data \<Rightarrow> outpoint list"
  mt_sign :: "'wal \<Rightarrow> ('rest psbt_input list, string, unit) st"
  mt_finalize :: "('rest, 'g) pset_data \<Rightarrow> string + ('rest, 'g) pset_data"
  mt_extract :: "('rest, 'g) pset_data \<Rightarrow> string + btx"
  mt_show_outpoint :: "outpoint \<Rightarrow> string"

section \<open>Wallets\<close>

definition balance_total :: "balance \<Rightarrow> ('e, u64) res" where
  "balance_total b = or_panic (checked_sum [b_confirmed b, b_trusted_pending b, b_untrusted_pending b, b_immature b])"

record account_summary =
  am_account_idx :: int
  am_balance :: u64
  am_utxo_count :: nat
  am_is_fee_account :: bool
  am_destination_address :: "string option"
  am_is_small :: bool

text \<open>One wallet: loaded, synchronised (a failure is only a warning), checked and summarised.\<close>

definition load_account where
  "load_account papi bapi m fee_account row =
     bind_st (map_err_st exit_1 (load_wallet_from_row papi bapi m row)) (\<lambda>uw.
     let user = uw_user_id uw in
     bind_st (ignore_err (on_wallet user (sync_wallet bapi))) (\<lambda>_.
     bind_st (on_host (db_query exit_1 (has_in_progress_migration (uw_wallet_id uw)))) (\<lambda>busy.
     if busy then lift_st (throw_res (Exit 1))
     else
     bind_st (on_wallet user (the_wallet (\<lambda>uw. uw))) (\<lambda>uw.
     bind_st (lift_st (bind_res (wallet_total bapi uw) balance_total)) (\<lambda>total.
     ret_st (user, \<lparr>am_account_idx = w_account_idx row, am_balance = total,
       am_utxo_count = length (list_unspent bapi uw),
       am_is_fee_account = (fee_account = Some (word_of_int (w_account_idx row) :: u32)),
       am_destination_address = None, am_is_small = False\<rparr>))))))"

definition discover_accounts where
  "discover_accounts papi bapi app fleet fee_account =
     bind_st (on_host (db_query exit_1 list_all_wallets)) (\<lambda>rows.
     if rows = [] then lift_st (throw_res (Exit 1))
     else
     bind_st (on_host (outside exit_1 (wallet_manager_new bapi app fleet))) (\<lambda>m.
     bind_st (map_st (load_account papi bapi m fee_account) rows) (\<lambda>accounts. ret_st (m, accounts))))"

section \<open>The current federation\<close>

text \<open>Fingerprint to token label over the signer pool; a later token with the same one wins.\<close>

definition fp_to_label where
  "fp_to_label bapi app pool = map_of (rev (List.map_filter (\<lambda>(idx, ps).
     if idx < length (hsm_tokens app) then Some (fingerprint_str bapi ps, hsm_label (hsm_tokens app ! idx)) else None)
     (enumerate 0 pool)))"

definition signer_label_of :: "(string \<Rightarrow> string option) \<Rightarrow> string \<times> string \<Rightarrow> string \<times> string" where
  "signer_label_of labels = (\<lambda>(id, fp). (id, case labels fp of
     Some l \<Rightarrow> l | None \<Rightarrow> ''unknown ('' @ id @ '')''))"

definition current_signers where
  "current_signers tapi papi bapi app m uw =
     bind_st (lift_st (map_err exit_1 (derivation_path_for bapi m (to_u32_or 0 (uw_account_idx uw))))) (\<lambda>path.
     bind_st (on_hsm exit_1 (signers_for papi (wm_fleet m) (uw_user_id uw) path)) (\<lambda>pool.
     ret_st (map (signer_label_of (fp_to_label bapi app pool)) (mt_fed_signers tapi (uw_federation uw)))))"

section \<open>The new federation\<close>

definition new_federation where
  "new_federation papi bapi cfg app m uw =
     bind_st (lift_st (map_err exit_1 (derivation_path_for bapi m (word_of_int (uw_account_idx uw))))) (\<lambda>path.
     bind_st (lift_st (new_signer_indices cfg app)) (\<lambda>idxs.
     bind_st (on_hsm exit_1 (signers_for papi (wm_fleet m) (uw_user_id uw) path)) (\<lambda>all_signers.
     bind_st (lift_st (patch_signers app all_signers idxs)) (\<lambda>patched.
     bind_st (lift_st (resolve_migration_script_type cfg app)) (\<lambda>script.
     lift_st (of_sum exit_1 (federation_with_config bapi (nf_threshold (mc_federation cfg)) patched
       (network app) script)))))))"

text \<open>The first address of a throwaway wallet on a descriptor.\<close>

definition temp_wallet where
  "temp_wallet bapi net desc = (case create_two_path bapi desc net of
       Inl e \<Rightarrow> Inl Panic | Inr wal \<Rightarrow> Inr (reveal_addresses_to bapi External 0 wal))"

definition first_address_of where
  "first_address_of bapi net desc = bind_res (temp_wallet bapi net desc) (\<lambda>wal.
     let a = peek_address bapi wal External 0 in Inr \<lparr>ad_string = ai_address a, ad_spk = ai_spk a\<rparr>)"

definition btc_fee_rate where
  "btc_fee_rate bapi cfg = (let rate = ms_fee_rate_sat_per_vb (mc_migration cfg) in
     if fee_rate_ok bapi rate then rate else 1)"

fun enrich :: "int \<Rightarrow> string \<Rightarrow> u64 \<Rightarrow> account_summary list \<Rightarrow> account_summary list" where
  "enrich acct dest small [] = []"
| "enrich acct dest small (s # ss) = (if am_account_idx s = acct
     then s\<lparr>am_destination_address := Some dest, am_is_small := (\<not> am_is_fee_account s \<and> am_balance s < small)\<rparr> # ss
     else s # enrich acct dest small ss)"

definition utxo_set where
  "utxo_set papi bapi cfg app m user =
     bind_st (wallet_of user) (\<lambda>uw.
     let utxos = list_unspent bapi uw in
     bind_st (new_federation papi bapi cfg app m uw) (\<lambda>fed.
     bind_st (lift_st (or_panic (fed_descriptor bapi fed))) (\<lambda>desc.
     bind_st (lift_st (first_address_of bapi (network app) desc)) (\<lambda>dest.
     ret_st \<lparr>bu_account_idx = word_of_int (uw_account_idx uw), bu_utxos = utxos, bu_destination = dest\<rparr>))))"

definition enriched where
  "enriched cfg sets summaries = fold (\<lambda>set. enrich (sint (bu_account_idx set)) (ad_string (bu_destination set))
     (ms_small_account_threshold (mc_migration cfg))) sets summaries"

definition plan_btc_sweep where
  "plan_btc_sweep tapi cfg net rate sets =
     bind_res (or_panic (ms_fee_account_idx (mc_migration cfg))) (\<lambda>fee_idx.
     of_sum exit_1 (if ms_strategy (mc_migration cfg) = ''account-for-account'' then mt_plan tapi fee_idx sets net net rate
       else mt_plan_batched tapi fee_idx (ms_small_account_threshold (mc_migration cfg)) sets net net rate))"

text \<open>The account table shows the destinations shortened.\<close>

definition account_table :: "account_summary list \<Rightarrow> ('e, string list) res" where
  "account_table summaries = map_res truncate_address (List.map_filter am_destination_address summaries)"

definition prepare_sweep where
  "prepare_sweep tapi papi bapi cfg app m net handles summaries =
     bind_st (map_st (utxo_set papi bapi cfg app m) handles) (\<lambda>sets.
     bind_st (lift_st (account_table (enriched cfg sets summaries))) (\<lambda>_.
     bind_st (lift_st (plan_btc_sweep tapi cfg net (btc_fee_rate bapi cfg) sets)) (\<lambda>plan.
     ret_st (sets, plan))))"
section \<open>Step 1: recording\<close>

definition new_btc_version where
  "new_btc_version tapi bapi cfg uw fed desc snapshot index =
     \<lparr>nv_wallet_id = Some (uw_wallet_id uw), nv_elements_wallet_id = None, nv_version_index = index,
      nv_descriptor = desc, nv_threshold = to_i32_or 0 (uint (nf_threshold (mc_federation cfg))),
      nv_signer_count = to_i32_or 0 (int (length (nf_signers (mc_federation cfg)))),
      nv_federation_snapshot = snapshot, nv_wallet_handle = uuid_to_string bapi (uw_wallet_id uw),
      nv_blinding_key = None\<rparr>"

definition record_btc_federation where
  "record_btc_federation tapi papi bapi cfg app m user =
     bind_st (wallet_of user) (\<lambda>uw.
     bind_st (new_federation papi bapi cfg app m uw) (\<lambda>fed.
     bind_st (on_host (db_query exit_1 (list_federation_versions_for_wallet (uw_wallet_id uw)))) (\<lambda>versions.
     bind_st (lift_st (or_panic (fed_descriptor bapi fed))) (\<lambda>desc.
     bind_st (lift_st (or_panic (mt_fed_snapshot tapi fed))) (\<lambda>snapshot.
     on_host (record_version set_pending_migration_for_older_versions (uw_wallet_id uw)
       (new_btc_version tapi bapi cfg uw fed desc snapshot (next_version_index versions))))))))"

definition btc_step_1 where
  "btc_step_1 tapi papi bapi cfg app m sweep_only handles =
     (if sweep_only then ret_st ()
      else bind_st (on_host (confirm_or_exit (mt_read_line tapi))) (\<lambda>_.
        for_st (record_btc_federation tapi papi bapi cfg app m) handles))"

section \<open>Step 2: the chain of sweeps\<close>

text \<open>What the loop works with: the wallets by account (the last one of an account), the owner of
  every output, the fee account's wallet, and its two destinations.\<close>

record btc_sweep =
  bw_users :: "uuid list"
  bw_by_account :: "u32 \<Rightarrow> nat option"
  bw_owner :: "outpoint \<Rightarrow> (nat \<times> u32) option"
  bw_fee_wallet :: nat
  bw_fee_descriptor :: string
  bw_fee_old :: address
  bw_fee_new :: address

definition wallets_by_account :: "u32 list \<Rightarrow> u32 \<Rightarrow> nat option" where
  "wallets_by_account accounts = map_of (rev (zip accounts [0..<length accounts]))"

definition utxo_owners where
  "utxo_owners by_account sets = map_of (rev (concat (map (\<lambda>set. case by_account (bu_account_idx set) of
       None \<Rightarrow> []
     | Some wi \<Rightarrow> map (\<lambda>u. (lo_outpoint u, (wi, bu_account_idx set))) (bu_utxos set)) sets)))"

text \<open>The federation before the newest one holds the funds.\<close>

definition fee_old_descriptor where
  "fee_old_descriptor wallet_id =
     bind_st (ignore_err (db_query id (list_federation_versions_for_wallet wallet_id))) (\<lambda>found.
     case rev (case found of None \<Rightarrow> [] | Some versions \<Rightarrow> versions) of
       newest # old # _ \<Rightarrow> ret_st (fv_descriptor old)
     | _ \<Rightarrow> lift_st (throw_res (Exit 1)))"

definition zero_txid :: txid where
  "zero_txid = replicate 64 (CHR ''0'')"

text \<open>The inputs of one sweep: the chained change first, then the owned outputs with what their
  wallets know about them. An outpoint nobody owns is passed over.\<close>

definition chained_input where
  "chained_input fee_wallet needed change = (if needed then (case change of
         Some (op, input, weight) \<Rightarrow> Inr ([(op, input, weight, fee_wallet)], None)
       | None \<Rightarrow> throw_res (Exit 1))
     else Inr ([], change))"

definition owned_input where
  "owned_input tapi bapi sw outpoint = (case bw_owner sw outpoint of
       None \<Rightarrow> ret_st None
     | Some (wi, acct) \<Rightarrow>
         bind_st (lift_st (index_of (bw_users sw) wi)) (\<lambda>user.
         bind_st (wallet_of user) (\<lambda>uw.
         bind_st (lift_st (map_err exit_1 (psbt_input_for_utxo bapi (mt_show_outpoint tapi) uw outpoint))) (\<lambda>(input, weight).
         ret_st (Some (outpoint, input, weight, wi))))))"

definition sweep_inputs where
  "sweep_inputs tapi bapi sw source change =
     bind_st (lift_st (chained_input (bw_fee_wallet sw) (list_ex (\<lambda>op. fst op = zero_txid) source) change)) (\<lambda>(chained, change').
     bind_st (map_st (owned_input tapi bapi sw) (filter (\<lambda>op. fst op \<noteq> zero_txid) source)) (\<lambda>owned.
     ret_st (chained @ List.map_filter id owned, change')))"

definition fee_destination where
  "fee_destination sw final = (if final then bw_fee_new sw else bw_fee_old sw)"

fun output_step where
  "output_step sw final (BtcCustomer acct address amount) = AddRecipient (ad_spk address) amount"
| "output_step sw final (BtcFeeChange acct amount) = DrainTo (ad_spk (fee_destination sw final))"

definition build_steps where
  "build_steps sw sweep data = map (\<lambda>(op, input, weight, wi). AddForeign op input weight) data
     @ map (output_step sw (bs_is_fee_final sweep)) (bs_outputs sweep)"

text \<open>Each wallet signs the inputs it owns; which wallets take part is read off the built PSBT, whose
  inputs come in an order of their own.\<close>

definition input_wallets where
  "input_wallets tapi data pset = map (\<lambda>op. map_of (rev (map (\<lambda>(op, input, weight, wi). (op, wi)) data)) op)
     (mt_prev_outs tapi pset)"

definition indices_of :: "'a option list \<Rightarrow> 'a \<Rightarrow> nat list" where
  "indices_of owners wi = filter (\<lambda>i. owners ! i = Some wi) [0..<length owners]"

definition signing_wallets where
  "signing_wallets tapi owners = mt_hash_order tapi (remdups (List.map_filter id owners))"

text \<open>The wallets as the loop finds them: signing reads them only.\<close>

fun sign_all where
  "sign_all tapi wals owners [] inputs = (Inr (), inputs)"
| "sign_all tapi wals owners (wi # wis) inputs =
     bind_st (\<lambda>inputs. case index_of wals wi of
         Inl e \<Rightarrow> (Inl e, inputs)
       | Inr wal \<Rightarrow> map_err_st exit_1 (sign_migration_inputs (mt_sign tapi wal) (indices_of owners wi)) inputs)
       (\<lambda>_. sign_all tapi wals owners wis) inputs"

definition sign_sweep where
  "sign_sweep tapi wals data pset =
     (let owners = input_wallets tapi data pset in
      case sign_all tapi wals owners (signing_wallets tapi owners) (ps_inputs pset) of
        (Inl e, inputs) \<Rightarrow> Inl e
      | (Inr _, inputs) \<Rightarrow> Inr (pset\<lparr>ps_inputs := inputs\<rparr>))"

text \<open>The fee account's change of a broadcast, rebuilt in a throwaway wallet on the old descriptor; what
  cannot be rebuilt is only a warning.\<close>

definition capture_change where
  "capture_change bapi net now sw tx =
     (case position (\<lambda>out. to_spk out = ad_spk (bw_fee_old sw)) (bt_outputs tx) of
        None \<Rightarrow> Inr None
      | Some vout \<Rightarrow>
          let change_op = (bt_txid tx, word_of_nat vout :: u32) in
          bind_res (temp_wallet bapi net (bw_fee_descriptor sw)) (\<lambda>wal.
          let wal' = apply_unconfirmed_tx bapi tx now wal in
          Inr (case get_utxo bapi wal' change_op of
              None \<Rightarrow> None
            | Some local \<Rightarrow> (case get_psbt_input bapi wal' local of
                Inl e \<Rightarrow> None
              | Inr input \<Rightarrow> Some (change_op, input, satisfaction_weight)))))"

section \<open>Accounting\<close>

fun out_account :: "btc_output \<Rightarrow> u32" where
  "out_account (BtcCustomer acct address amount) = acct"
| "out_account (BtcFeeChange acct amount) = acct"

fun out_amount :: "btc_output \<Rightarrow> u64" where
  "out_amount (BtcCustomer acct address amount) = amount"
| "out_amount (BtcFeeChange acct amount) = amount"

fun bind_txid :: "txid \<Rightarrow> btc_output \<Rightarrow> (u32 \<Rightarrow> txid option) \<Rightarrow> u32 \<Rightarrow> txid option" where
  "bind_txid txid (BtcCustomer acct address amount) m = m(acct \<mapsto> txid)"
| "bind_txid txid (BtcFeeChange acct amount) m = m"

fun out_recipient where
  "out_recipient sw final (BtcCustomer acct address amount) = ad_string address"
| "out_recipient sw final (BtcFeeChange acct amount) = ad_string (fee_destination sw final)"

text \<open>A row for the account of every output; a failure is dropped.\<close>

definition record_output where
  "record_output sw final txid raw_hex out = (case bw_by_account sw (out_account out) of
       None \<Rightarrow> ret_st ()
     | Some wi \<Rightarrow>
         bind_st (lift_st (index_of (bw_users sw) wi)) (\<lambda>user.
         bind_st (wallet_of user) (\<lambda>uw.
         bind_st (on_host (ignore_err (db_insert id (\<lambda>new_id now. insert_transaction new_id now
           \<lparr>nt_wallet_id = uw_wallet_id uw, nt_txid = txid, nt_recipient = out_recipient sw final out,
            nt_amount_sat = to_i64 (out_amount out), nt_fee_sat = 0, nt_raw_tx_hex = raw_hex,
            nt_label = Some (''federation-migration-account-'' @ show_nat (unat (out_account out)))\<rparr>)))) (\<lambda>_.
         ret_st ()))))"
section \<open>One sweep, and the chain\<close>

text \<open>The change that is left for the next transaction: a new one replaces what was not used.\<close>

definition next_change where
  "next_change final captured change = (if final then change else case captured of
       None \<Rightarrow> change | Some c \<Rightarrow> Some c)"

definition sweep_once where
  "sweep_once tapi bapi cfg net sw sweep change =
     bind_st (sweep_inputs tapi bapi sw (bs_source_utxos sweep) change) (\<lambda>(data, change').
     bind_st (lift_st (index_of (bw_users sw) (bw_fee_wallet sw))) (\<lambda>fee_user.
     bind_st (on_wallet fee_user (map_err_st exit_1 (build_on_inner (mt_build tapi (build_steps sw sweep data)
       (btc_fee_rate bapi cfg))))) (\<lambda>pset.
     bind_st (map_st wallet_of (bw_users sw)) (\<lambda>uws.
     bind_st (lift_st (sign_sweep tapi (map uw_inner uws) data pset)) (\<lambda>signed.
     bind_st (lift_st (of_sum exit_1 (mt_finalize tapi signed))) (\<lambda>final.
     bind_st (lift_st (of_sum exit_1 (mt_extract tapi final))) (\<lambda>tx.
     bind_st (lift_st (case consensus_encode bapi tx of Inl e \<Rightarrow> Inl Panic | Inr raw \<Rightarrow> Inr raw)) (\<lambda>raw.
     bind_st (on_wallet fee_user (map_err_st exit_1 (broadcast_raw bapi raw))) (\<lambda>_.
     bind_st (read_st (\<lambda>s. mt_clock tapi (h_world (ap_host s)))) (\<lambda>now.
     bind_st (lift_st (if bs_is_fee_final sweep then Inr None else capture_change bapi net now sw tx)) (\<lambda>captured.
     bind_st (for_st (record_output sw (bs_is_fee_final sweep) (bt_txid tx) (to_lower_hex bapi raw)) (bs_outputs sweep)) (\<lambda>_.
     ret_st (tx, next_change (bs_is_fee_final sweep) captured change')))))))))))))"

fun run_sweeps where
  "run_sweeps tapi bapi cfg net sw [] change txids = ret_st txids"
| "run_sweeps tapi bapi cfg net sw (sweep # sweeps) change txids =
     bind_st (sweep_once tapi bapi cfg net sw sweep change) (\<lambda>(tx, change').
     run_sweeps tapi bapi cfg net sw sweeps change' (fold (bind_txid (bt_txid tx)) (bs_outputs sweep) txids))"

definition btc_sweep_for where
  "btc_sweep_for bapi cfg net handles sets =
     bind_st (map_st wallet_of handles) (\<lambda>uws.
     let by_account = wallets_by_account (map (\<lambda>uw. word_of_int (uw_account_idx uw)) uws) in
     bind_st (lift_st (or_panic (ms_fee_account_idx (mc_migration cfg)))) (\<lambda>fee_idx.
     bind_st (lift_st (or_panic (by_account fee_idx))) (\<lambda>wi.
     bind_st (lift_st (index_of uws wi)) (\<lambda>fee_uw.
     bind_st (on_host (fee_old_descriptor (uw_wallet_id fee_uw))) (\<lambda>old_desc.
     bind_st (lift_st (first_address_of bapi net old_desc)) (\<lambda>old.
     bind_st (lift_st (or_panic (find (\<lambda>set. bu_account_idx set = fee_idx) sets))) (\<lambda>fee_set.
     ret_st \<lparr>bw_users = handles, bw_by_account = by_account, bw_owner = utxo_owners by_account sets,
       bw_fee_wallet = wi, bw_fee_descriptor = old_desc, bw_fee_old = old,
       bw_fee_new = bu_destination fee_set\<rparr>)))))))"

definition btc_step_2 where
  "btc_step_2 tapi bapi cfg app handles balance prepared =
     bind_st (if balance = 0 then stop 0 else on_host (confirm_or_exit (mt_read_line tapi))) (\<lambda>_.
     bind_st (lift_st (or_panic prepared)) (\<lambda>(sets, plan).
     bind_st (btc_sweep_for bapi cfg (network app) handles sets) (\<lambda>sw.
     run_sweeps tapi bapi cfg (network app) sw plan None Map.empty)))"

section \<open>The tool\<close>

definition mark_btc_accounts where
  "mark_btc_accounts uws txids = mark_migrated list_federation_versions_for_wallet
     (map (\<lambda>uw. (uw_wallet_id uw, txids (to_u32_or 0 (uw_account_idx uw)))) uws)"

definition verify_account where
  "verify_account bapi user =
     bind_st (ignore_err (on_wallet user (sync_wallet bapi))) (\<lambda>_.
     bind_st (wallet_of user) (\<lambda>uw.
     bind_st (lift_st (bind_res (wallet_total bapi uw) balance_total)) (\<lambda>total. ret_st ())))"

definition btc_step_3 where
  "btc_step_3 tapi bapi handles =
     bind_st (on_host (confirm_or_exit (mt_read_line tapi))) (\<lambda>_. for_st (verify_account bapi) handles)"

text \<open>Everything up to the first prompt: the wallets, their total and the plan.\<close>

definition btc_survey where
  "btc_survey tapi papi bapi cfg app fleet =
     bind_st (discover_accounts papi bapi app fleet (ms_fee_account_idx (mc_migration cfg))) (\<lambda>(m, accounts).
     let handles = map fst accounts in
     bind_st (lift_st (index_of handles 0)) (\<lambda>first.
     bind_st (wallet_of first) (\<lambda>uw.
     bind_st (current_signers tapi papi bapi app m uw) (\<lambda>signers.
     bind_st (lift_st (short_ids (map fst signers))) (\<lambda>_.
     if new_is_same (map snd signers) (fed_threshold_of bapi (uw_federation uw)) cfg then stop 0
     else
     bind_st (lift_st (or_panic (checked_sum (map (am_balance \<circ> snd) accounts)))) (\<lambda>total.
     bind_st (if 0 < total then bind_st (prepare_sweep tapi papi bapi cfg app m (mt_fed_network tapi (uw_federation uw))
           handles (map snd accounts)) (\<lambda>p. ret_st (Some p)) else ret_st None) (\<lambda>prepared.
     ret_st (m, handles, total, prepared))))))))"

definition run_btc_migration where
  "run_btc_migration tapi papi bapi cfg app fleet dry_run sweep_only =
     bind_st (btc_survey tapi papi bapi cfg app fleet) (\<lambda>(m, handles, total, prepared).
     if dry_run then stop 0
     else
     bind_st (btc_step_1 tapi papi bapi cfg app m sweep_only handles) (\<lambda>_.
     bind_st (btc_step_2 tapi bapi cfg app handles total prepared) (\<lambda>txids.
     bind_st (map_st wallet_of handles) (\<lambda>uws.
     bind_st (on_host (mark_btc_accounts uws txids)) (\<lambda>_.
     btc_step_3 tapi bapi handles)))))"

end
