(* ===== verification/WalletFrame.thy ===== *)
theory WalletFrame
  imports BtcSpend
begin

text \<open>
  What the Bitcoin wallet's operations keep of the database. Loading, synchronising and broadcasting
  run few statements: a property of the database that these keep is kept by all of them.
\<close>

lemma wallet_reads [pres_intros]:
  "preserves P (has_in_progress_migration w)" "preserves P (list_federation_versions_for_wallet w)"
  by (simp_all add: has_in_progress_migration_def list_federation_versions_for_wallet_def)

section \<open>Operations on a wallet\<close>

definition wallet_inv :: "(database \<Rightarrow> bool) \<Rightarrow> ('fed, 'fw, 'wal, 'cs) user_wallet \<times> 'w host \<Rightarrow> bool" where
  "wallet_inv P = (\<lambda>(uw, h). P (h_db h))"

lemma via_host_wallet_inv [pres_intros]: "preserves (host_inv P) m \<Longrightarrow> preserves (wallet_inv P) (via_host m)"
  by (auto simp: preserves_def wallet_inv_def host_inv_def via_host_def split: prod.splits)

lemma on_inner_wallet_inv [pres_intros]:
  "preserves (wallet_inv P) (on_inner m)" "preserves (wallet_inv P) (on_version m i)"
  "preserves (wallet_inv P) (build_on_inner b)" "preserves (wallet_inv P) (change_wallet f)"
  "preserves (wallet_inv P) (take_delta bapi)"
  by (auto simp: preserves_def wallet_inv_def on_inner_def on_version_def build_on_inner_def change_wallet_def take_delta_def
      split: prod.splits)

lemma on_wallet_inv [pres_intros]: "preserves (wallet_inv P) m \<Longrightarrow> preserves (app_inv P) (on_wallet user m)"
  unfolding preserves_def wallet_inv_def app_inv_def on_wallet_def
  by (auto split: option.splits prod.splits) (metis snd_conv)

lemma on_wallet_keeps: "keeps_on_error (wallet_inv P) m \<Longrightarrow> keeps_on_error (app_inv P) (on_wallet user m)"
  unfolding keeps_on_error_def wallet_inv_def app_inv_def on_wallet_def
  by (auto split: option.splits prod.splits)

lemma wallet_of_inv [pres_intros]: "preserves (app_inv P) (wallet_of user)"
  unfolding wallet_of_def the_wallet_def by (intro pres_intros)

lemma wallet_or_insert_inv [pres_intros]: "preserves (app_inv P) (wallet_or_insert user uw)"
  by (auto simp: preserves_def app_inv_def wallet_or_insert_def split: option.splits)

lemma broadcast_raw_wallet_inv [pres_intros]: "preserves (wallet_inv P) (broadcast_raw bapi raw)"
  unfolding broadcast_raw_def case_prod_unfold by (intro pres_intros)

section \<open>The statements of a wallet\<close>

locale wallet_frame =
  fixes P :: "database \<Rightarrow> bool"
  assumes frame_descriptor: "preserves P (update_wallet_descriptor_and_changeset w desc json)"
    and frame_changeset: "preserves P (update_wallet_changeset w json tip)"
    and frame_tip: "preserves P (update_wallet_tip_only w tip)"
    and frame_version: "preserves P (insert_federation_version n t version)"
    and frame_wallet: "preserves P (insert_wallet n t wallet)"
    and frame_reconcile: "preserves P (reconcile_migration i txid)"
begin

lemmas frame = frame_descriptor frame_changeset frame_tip frame_version frame_wallet frame_reconcile

lemma store_staged_frame: "preserves (wallet_inv P) (store_staged bapi delta tip)"
  unfolding store_staged_def store_delta_def case_prod_unfold by (intro pres_intros frame)

lemma revert_absent_frame: "preserves (host_inv P) (revert_absent present cs n)"
proof (induction present cs n rule: revert_absent.induct)
  case (1 present n)
  show ?case unfolding revert_absent.simps by (rule preserves_ret)
next
  case (2 present i t s cs n)
  then show ?case by (cases "t \<in> present") (auto intro!: pres_intros frame)
qed

lemma sync_frame: "preserves (wallet_inv P) (sync_wallet bapi)"
proof -
  have fin: "preserves (wallet_inv P) (finish_sync bapi x)" for x
    unfolding finish_sync_def persist_sync_def store_delta_def reconcile_reverted_migrations_def Let_def case_prod_unfold
    by (intro pres_intros frame revert_absent_frame)
  show ?thesis
    unfolding sync_wallet_def sync_esplora_def sync_electrum_def sync_wallets_def reveal_version_wallets_to_inner_def
      case_prod_unfold by (intro pres_intros fin)
qed

lemma reveal_frame: "preserves (wallet_inv P) (reveal_addresses bapi n)"
  unfolding reveal_addresses_def the_wallet_def case_prod_unfold by (intro pres_intros store_staged_frame)

lemma build_frame: "preserves (app_inv P) (build_user_wallet papi bapi m user row)"
  unfolding build_user_wallet_def load_inner_def rebind_inner_to_current_federation_def build_federated_wallet_def
    Let_def case_prod_unfold by (intro pres_intros frame)

lemma create_frame: "preserves (app_inv P) (create_wallet_for_user_at papi bapi m user i)"
  "preserves (app_inv P) (create_wallet_for_user papi bapi m user)"
  unfolding create_wallet_for_user_def create_wallet_for_user_at_def Let_def by (intro pres_intros frame)+

lemma load_frame: "preserves (app_inv P) (load_or_init papi bapi m user)"
  "preserves (app_inv P) (load_wallet_from_row papi bapi m row)"
  unfolding load_or_init_def load_wallet_from_row_def by (intro pres_intros build_frame create_frame)+

end

section \<open>Frames\<close>

interpretation keeps_transactions: wallet_frame "\<lambda>d. transactions d = ts"
  by unfold_locales (auto simp: preserves_def update_wallet_descriptor_and_changeset_def update_wallet_changeset_def
      update_wallet_tip_only_def insert_federation_version_def insert_wallet_def reconcile_migration_def bind_st_def
      statement_def write_st_def split: option.splits if_splits)

end
