(* ===== verification/BtcMigrated.thy ===== *)
theory BtcMigrated
  imports MigrationBtc WalletFrame
begin

text \<open>
  What a run of the Bitcoin migration leaves in the version table, where the chained change goes,
  which accounts a sweep is recorded for, and what the wallets' signers may touch.
\<close>

section \<open>Failures complete nothing\<close>

text \<open>
  Synchronising may revert completed versions after a reorganisation; no statement before the
  stamping completes one.
\<close>

definition completes_within :: "(uuid \<times> string option) set \<Rightarrow> database \<Rightarrow> bool" where
  "completes_within C d \<longleftrightarrow> set (completed d) \<subseteq> C"

lemma completes_within_write [pres_intros]:
  "preserves (completes_within C) (update_wallet_descriptor_and_changeset w desc json)"
  "preserves (completes_within C) (update_wallet_changeset w json tip)"
  "preserves (completes_within C) (update_wallet_tip_only w tip)"
  by (auto simp: preserves_def completes_within_def completed_def update_wallet_descriptor_and_changeset_def
      update_wallet_changeset_def update_wallet_tip_only_def write_st_def)

lemma completes_within_insert [pres_intros]:
  "preserves (completes_within C) (insert_federation_version n t spec)"
  "preserves (completes_within C) (insert_transaction n t txspec)"
  using completed_insert [of _ n t spec]
  by (auto simp: preserves_def completes_within_def completed_def insert_transaction_def statement_def Let_def
      split: option.splits)

lemma completes_within_pending [pres_intros]:
  "preserves (completes_within C) (set_pending_migration_for_older_versions w k)"
  using completed_flag [of "\<lambda>v. fv_wallet_id v = Some w \<and> fv_version_index v < k
      \<and> fv_migration_status v = ''not_applicable''"]
  by (simp add: preserves_def completes_within_def set_pending_migration_for_older_versions_def write_st_def)

lemma completes_within_reconcile [pres_intros]:
  "preserves (completes_within C) (reconcile_migration i txid)"
  by (auto simp: preserves_def completes_within_def completed_def reconcile_migration_def bind_st_def
      update_where_def write_st_def split: if_splits)

lemma completes_within_wallet [pres_intros]: "preserves (completes_within C) (insert_wallet n t sp)"
  by (auto simp: preserves_def completes_within_def completed_def insert_wallet_def statement_def split: option.splits)

interpretation completes_nothing: wallet_frame "completes_within C"
  by unfold_locales (rule completes_within_write completes_within_insert completes_within_wallet completes_within_reconcile)+

subsection \<open>The run\<close>

lemmas wallet_completes_nothing [pres_intros] = completes_nothing.load_frame completes_nothing.sync_frame

lemma btc_discovery_completes_nothing [pres_intros]:
  "preserves (app_inv (completes_within C)) (discover_accounts papi bapi app fleet fee)"
  unfolding discover_accounts_def load_account_def Let_def by (intro pres_intros)

lemma new_federation_completes_nothing [pres_intros]:
  "preserves (app_inv P) (new_federation papi bapi cfg app m uw)"
  unfolding new_federation_def by (intro pres_intros)

lemma survey_completes_nothing [pres_intros]:
  "preserves (app_inv (completes_within C)) (btc_survey tapi papi bapi cfg app fleet)"
  unfolding btc_survey_def current_signers_def prepare_sweep_def utxo_set_def stop_def Let_def case_prod_unfold
  by (intro pres_intros)

lemma btc_step_1_completes_nothing [pres_intros]:
  "preserves (app_inv (completes_within C)) (btc_step_1 tapi papi bapi cfg app m sweep_only handles)"
  unfolding btc_step_1_def record_btc_federation_def record_version_def by (intro pres_intros)

lemma sweep_once_completes_nothing [pres_intros]:
  "preserves (app_inv (completes_within C)) (sweep_once tapi bapi cfg net sw sweep change)"
  unfolding sweep_once_def sweep_inputs_def owned_input_def record_output_def case_prod_unfold by (intro pres_intros)

lemma run_sweeps_completes_nothing [pres_intros]:
  "preserves (app_inv (completes_within C)) (run_sweeps tapi bapi cfg net sw sweeps change txids)"
proof (induction sweeps arbitrary: change txids)
  case (Cons sweep sweeps)
  show ?case unfolding run_sweeps.simps case_prod_unfold by (intro pres_intros Cons.IH)
qed (simp only: run_sweeps.simps preserves_ret)

lemma btc_step_2_completes_nothing [pres_intros]:
  "preserves (app_inv (completes_within C)) (btc_step_2 tapi bapi cfg app handles balance prepared)"
  unfolding btc_step_2_def btc_sweep_for_def fee_old_descriptor_def stop_def Let_def case_prod_unfold by (intro pres_intros)

text \<open>What follows the stamping never ends with exit code 1.\<close>

definition no_exit_1 :: "('s, tool_exit, 'a) st \<Rightarrow> bool" where
  "no_exit_1 m \<longleftrightarrow> (\<forall>s. fst (m s) \<noteq> Inl (Err (Exit 1)))"

lemma no_exit_1_bind: "no_exit_1 m \<Longrightarrow> (\<And>a. no_exit_1 (f a)) \<Longrightarrow> no_exit_1 (bind_st m f)"
  by (auto simp: no_exit_1_def bind_st_def split: prod.splits sum.splits) (metis fst_conv)+

lemma no_exit_1_for: "(\<And>x. no_exit_1 (f x)) \<Longrightarrow> no_exit_1 (for_st f xs)"
proof (induction xs)
  case (Cons x xs)
  then show ?case by (simp, intro no_exit_1_bind) simp_all
qed (simp add: no_exit_1_def)

lemma no_exit_1_ignore: "no_exit_1 (ignore_err m)"
  by (auto simp: no_exit_1_def ignore_err_def split: prod.splits sum.splits fail.splits)

lemma no_exit_1_ret: "no_exit_1 (ret_st a)" "no_exit_1 (lift_st (bind_res (wallet_total bapi uw) balance_total))"
  "no_exit_1 (wallet_of user)"
proof -
  have panics: "r = Inl (Err x) \<Longrightarrow> False" if "r = or_panic o'" for r :: "(tool_exit, 'x) res" and x and o' :: "'x option"
    using that by (cases o') auto
  have sums: "fst (add_balances bapi ws acc, ()) \<noteq> Inl (Err (x :: tool_exit))" for ws acc x
    by (induction ws arbitrary: acc) (auto simp: Let_def bind_res_def or_panic_def split: sum.splits option.splits)
  show "no_exit_1 (lift_st (bind_res (wallet_total bapi uw) balance_total))"
    using sums [of "uw_versions uw"]
    by (auto simp: no_exit_1_def lift_st_def wallet_total_def balance_total_def bind_res_def or_panic_def
        split: sum.splits option.splits)
qed (auto simp: no_exit_1_def wallet_of_def on_wallet_def the_wallet_def split: option.splits prod.splits)

lemma no_exit_1_confirm: "no_exit_1 (on_host (confirm_or_exit read_line))"
  by (auto simp: no_exit_1_def on_host_def confirm_or_exit_def bind_st_def outside_def confirm_def lift_st_def throw_res_def
      ret_st_def split: prod.splits)

lemma no_exit_1_on_host: "no_exit_1 m \<Longrightarrow> no_exit_1 (on_host m)"
  by (auto simp: no_exit_1_def on_host_def split: prod.splits) (metis fst_conv)

lemma no_exit_1_mark: "no_exit_1 (on_host (mark_btc_accounts uws txids))"
proof (rule no_exit_1_on_host)
  have stamp: "no_exit_1 (stamp_version sweep v)" for sweep v
    unfolding stamp_version_def by (intro no_exit_1_bind no_exit_1_ignore no_exit_1_ret)
  have "no_exit_1 (complete_account list_federation_versions_for_wallet w sweep)" for w sweep
    unfolding complete_account_def
  proof (intro no_exit_1_bind no_exit_1_ignore)
    show "no_exit_1 (case found of None \<Rightarrow> ret_st () | Some versions \<Rightarrow> for_st (stamp_version sweep)
        (filter (\<lambda>v. fv_version_index v < max_version versions) versions))" for found
      by (cases found) (auto intro: no_exit_1_for stamp no_exit_1_ret)
  qed
  then show "no_exit_1 (mark_btc_accounts uws txids)"
    unfolding mark_btc_accounts_def mark_migrated_def by (intro no_exit_1_for) (simp add: case_prod_unfold)
qed

lemma no_exit_1_step_3: "no_exit_1 (btc_step_3 tapi bapi handles)"
  unfolding btc_step_3_def verify_account_def
  by (intro no_exit_1_bind no_exit_1_confirm no_exit_1_for no_exit_1_ignore no_exit_1_ret)

definition keeps_on_exit_1 where
  "keeps_on_exit_1 P m \<longleftrightarrow> (\<forall>s t. P s \<longrightarrow> m s = (Inl (Err (Exit 1)), t) \<longrightarrow> P t)"

lemma keeps_on_exit_1_bind:
  "preserves P m \<Longrightarrow> (\<And>a. keeps_on_exit_1 P (f a)) \<Longrightarrow> keeps_on_exit_1 P (bind_st m f)"
  by (fastforce simp: keeps_on_exit_1_def preserves_def bind_st_def split: prod.splits sum.splits)

lemma keeps_on_exit_1_if: "keeps_on_exit_1 P m \<Longrightarrow> keeps_on_exit_1 P k \<Longrightarrow> keeps_on_exit_1 P (if b then m else k)"
  by simp

lemma keeps_on_exit_1_never: "no_exit_1 m \<Longrightarrow> keeps_on_exit_1 P m"
  by (auto simp: keeps_on_exit_1_def no_exit_1_def) (metis fst_conv)

text \<open>C7. A run of the Bitcoin migration that fails, that is, ends with exit code 1, has completed
  nothing, also when transactions of its chain were already broadcast and recorded: every version
  that is complete afterwards was complete before, with the same sweep.\<close>

theorem failed_btc_run_completes_nothing:
  assumes "run_btc_migration tapi papi bapi cfg app fleet dry_run sweep_only s = (Inl (Err (Exit 1)), s')"
  shows "set (completed (h_db (ap_host s'))) \<subseteq> set (completed (h_db (ap_host s)))"
proof -
  let ?P = "app_inv (completes_within (set (completed (h_db (ap_host s)))))"
  have "keeps_on_exit_1 ?P (stop 0)"
    by (rule keeps_on_exit_1_never) (simp add: no_exit_1_def stop_def throw_res_def)
  then have "keeps_on_exit_1 ?P (run_btc_migration tapi papi bapi cfg app fleet dry_run sweep_only)"
    unfolding run_btc_migration_def case_prod_unfold
    apply -
    apply (rule keeps_on_exit_1_bind, rule survey_completes_nothing)
    apply (rule keeps_on_exit_1_if, assumption)
    apply (rule keeps_on_exit_1_bind, rule btc_step_1_completes_nothing)
    apply (rule keeps_on_exit_1_bind, rule btc_step_2_completes_nothing)
    apply (rule keeps_on_exit_1_bind, intro pres_intros)
    apply (intro keeps_on_exit_1_never no_exit_1_bind no_exit_1_mark no_exit_1_step_3)
    done
  moreover have "?P s" by (simp add: app_inv_def completes_within_def)
  ultimately have "?P s'" using assms unfolding keeps_on_exit_1_def by blast
  then show ?thesis by (simp add: app_inv_def completes_within_def)
qed

section \<open>The chained change\<close>


section \<open>Signing\<close>

lemma index_of_member: "index_of xs i = Inr x \<Longrightarrow> x \<in> set xs"
  by (auto simp: index_of_def split: if_splits)

lemma sign_all_Inr:
  assumes "\<And>wal. wal \<in> set wals \<Longrightarrow> signs_by_origin (mt_sign tapi wal)"
    and "sign_all tapi wals owners wis inputs = (Inr (), inputs')"
  shows "length inputs' = length inputs \<and> map pi_derivation inputs' = map pi_derivation inputs
    \<and> (\<forall>i < length inputs. (\<forall>wi \<in> set wis. i \<notin> set (indices_of owners wi)) \<longrightarrow> inputs' ! i = inputs ! i)"
  using assms(2)
proof (induction wis arbitrary: inputs)
  case (Cons wi wis)
  obtain wal where wal: "(index_of wals wi :: (tool_exit, _) res) = Inr wal"
    using Cons.prems by (cases "index_of wals wi :: (tool_exit, _) res") (auto simp: bind_st_def)
  obtain r mid where run: "sign_migration_inputs (mt_sign tapi wal) (indices_of owners wi) inputs = (r, mid)" by force
  have step: "sign_all tapi wals owners (wi # wis) inputs = (case map_err exit_1 r of
      Inl x \<Rightarrow> (Inl x, mid) | Inr _ \<Rightarrow> sign_all tapi wals owners wis mid)"
    by (simp add: wal run bind_st_def map_err_st_def)
  then have r: "r = Inr ()" using Cons.prems by (cases r) (auto simp: map_err_def split: fail.splits)
  with step Cons.prems have rest: "sign_all tapi wals owners wis mid = (Inr (), inputs')" by (simp add: map_err_def)
  from run r have first: "sign_migration_inputs (mt_sign tapi wal) (indices_of owners wi) inputs = (Inr (), mid)" by simp
  have "signs_by_origin (mt_sign tapi wal)" using assms(1) index_of_member [OF wal] .
  from signed_migration_inputs [OF this first] Cons.IH [OF rest] show ?case by auto
qed simp

text \<open>All wallets sign one sweep, in whatever order the hash map gives: a sweep that comes out signed
  has the inputs it went in with, every one with its key origins back, and an input that none of
  the wallets owns is untouched.\<close>

theorem sweep_signing_is_selective:
  assumes "\<And>wal. wal \<in> set wals \<Longrightarrow> signs_by_origin (mt_sign tapi wal)"
    and "(sign_sweep tapi wals data pset :: (tool_exit, _) res) = Inr pset'"
  shows "ps_rest pset' = ps_rest pset \<and> length (ps_inputs pset') = length (ps_inputs pset)
    \<and> map pi_derivation (ps_inputs pset') = map pi_derivation (ps_inputs pset)
    \<and> (\<forall>i < length (ps_inputs pset). mt_prev_outs tapi pset ! i \<notin> fst ` set data
         \<longrightarrow> ps_inputs pset' ! i = ps_inputs pset ! i)"
proof -
  let ?owners = "input_wallets tapi data pset"
  obtain inputs where run: "sign_all tapi wals ?owners (signing_wallets tapi ?owners) (ps_inputs pset) = (Inr (), inputs)"
    and signed: "pset' = pset\<lparr>ps_inputs := inputs\<rparr>"
    using assms(2) by (auto simp: sign_sweep_def Let_def split: sum.splits prod.splits)
  have "i \<notin> set (indices_of ?owners wi)" if "mt_prev_outs tapi pset ! i \<notin> fst ` set data" for i wi
  proof
    assume "i \<in> set (indices_of ?owners wi)"
    then have "i < length (mt_prev_outs tapi pset)"
      "map_of (rev (map (\<lambda>(op, input, weight, wi). (op, wi)) data)) (mt_prev_outs tapi pset ! i) = Some wi"
      by (auto simp: indices_of_def input_wallets_def)
    then have "(mt_prev_outs tapi pset ! i, wi) \<in> (\<lambda>(op, input, weight, wi). (op, wi)) ` set data"
      by (auto dest: map_of_SomeD)
    with that show False by (force simp: image_iff)
  qed
  with sign_all_Inr [OF assms(1) run] signed show ?thesis by auto
qed

section \<open>Whose sweep is recorded\<close>

lemma dom_bind_txid: "dom (bind_txid txid out m) = dom m \<union> (case out of BtcCustomer acct address amount \<Rightarrow> {acct} | _ \<Rightarrow> {})"
  by (cases out) auto

lemma dom_bind_txids: "dom (fold (bind_txid txid) outs m) = dom m \<union> {acct. \<exists>address amount. BtcCustomer acct address amount \<in> set outs}"
  by (induction outs arbitrary: m) (auto simp: dom_bind_txid split: btc_output.splits)

definition customers :: "btc_sweep_transaction list \<Rightarrow> u32 set" where
  "customers plan = {acct. \<exists>sweep \<in> set plan. \<exists>address amount. BtcCustomer acct address amount \<in> set (bs_outputs sweep)}"

lemma run_sweeps_dom:
  assumes "run_sweeps tapi bapi cfg net sw plan change txids0 s = (Inr txids, s')"
  shows "dom txids = dom txids0 \<union> customers plan"
  using assms
proof (induction plan arbitrary: change txids0 s)
  case (Cons sweep plan)
  from Cons.prems obtain tx :: btx and change' t where
    "run_sweeps tapi bapi cfg net sw plan change' (fold (bind_txid (bt_txid tx)) (bs_outputs sweep) txids0) t = (Inr txids, s')"
    by (auto elim!: bind_st_InrE split: prod.splits)
  from Cons.IH [OF this] show ?case by (auto simp: dom_bind_txids customers_def)
qed (simp add: customers_def)
text \<open>C9. The chain of sweeps records a sweep for exactly the accounts it pays as customers. An account
  it does not pay, as the fee account, which receives change only, has its older versions marked
  complete all the same, without a txid: the check that reverts a migration after a
  reorganisation passes them over for good.\<close>

theorem unpaid_accounts_escape_reconciliation:
  assumes sweeps: "run_sweeps tapi bapi cfg net sw plan None Map.empty s = (Inr txids, s')"
    and hist: "version_history (h_db h)" and dist: "distinct (map uw_wallet_id uws)" and uw: "uw \<in> set uws"
    and unpaid: "to_u32_or 0 (uw_account_idx uw) \<notin> customers plan"
    and v: "v \<in> set (federation_versions (h_db h))" "fv_wallet_id v = Some (uw_wallet_id uw)"
      "fv_migration_status v = ''pending''"
    and newer: "u \<in> set (federation_versions (h_db h))" "fv_wallet_id u = Some (uw_wallet_id uw)"
      "fv_version_index v < fv_version_index u"
  shows "dom txids = customers plan
    \<and> (\<exists>v' \<in> set (federation_versions (h_db (snd (mark_btc_accounts uws txids h :: ('e, unit) res \<times> _)))).
         fv_id v' = fv_id v \<and> fv_migration_status v' = ''complete'' \<and> sweep_candidate bapi v' = None)"
proof -
  let ?vs = "federation_versions (h_db h)"
  let ?w = "uw_wallet_id uw"
  let ?accounts = "map (\<lambda>uw. (uw_wallet_id uw, txids (to_u32_or 0 (uw_account_idx uw)))) uws"
  have dom: "dom txids = customers plan" using run_sweeps_dom [OF sweeps] by simp
  have none: "txids (to_u32_or 0 (uw_account_idx uw)) = None" using unpaid dom by auto
  have inv: "versions_inv (h_db h)" using hist by (rule version_history_inv)
  then have chain: "chain_ok fv_wallet_id w ?vs" for w by (simp add: versions_inv_def)
  have "status_ok v" using inv v(1) by (simp add: versions_inv_def list_all_iff)
  with v(3) have no_txid: "fv_migration_sweep_txid v = None" by (auto simp: status_ok_def)
  have "distinct (map fst ?accounts)" using dist by (simp add: comp_def)
  then have run: "mark_btc_accounts uws txids h = (Inr () :: ('e, unit) res, with_versions h (map (swept_row fv_wallet_id ?accounts ?vs) ?vs))"
    unfolding mark_btc_accounts_def by (rule btc_chain.mark_migrated_run [OF chain versions_inv_ids [OF inv]])
  have "(?w, None) \<in> set ?accounts" using uw none by force
  then have "map_of ?accounts ?w = Some None" using dist by (intro map_of_is_SomeI) (simp_all add: comp_def)
  moreover have "u \<in> set (owned fv_wallet_id ?w ?vs)" using newer by (simp add: owned_def)
  then have "fv_version_index v < int (length (owned fv_wallet_id ?w ?vs)) - 1"
    using chain_index_bound [OF chain] newer(3) by force
  ultimately have "swept_row fv_wallet_id ?accounts ?vs v = stamped None v"
    using v(2) by (simp add: swept_row_def)
  moreover have "swept_row fv_wallet_id ?accounts ?vs v \<in> set (map (swept_row fv_wallet_id ?accounts ?vs) ?vs)"
    using v(1) by simp
  ultimately have "stamped None v \<in> set (federation_versions (h_db (snd (mark_btc_accounts uws txids h :: ('e, unit) res \<times> _))))"
    unfolding run by (simp only: snd_conv with_versions_simps)
  moreover have "fv_migration_status (stamped None v) = ''complete''" "sweep_candidate bapi (stamped None v) = None"
    using no_txid by (simp_all add: stamped_def sweep_candidate_def)
  ultimately show ?thesis using dom by (metis stamped_simps(1))
qed
section \<open>Instances\<close>

definition toy_tool :: "(toy_fed, toy_wallet, btx, bool, nat, toy_world) btc_tool" where
  "toy_tool = \<lparr>mt_read_line = (\<lambda>w. (''y'', w)), mt_hash_order = rev, mt_clock = (\<lambda>_. 99),
     mt_fed_signers = (\<lambda>fed. map (\<lambda>fp. (fp, fp)) (snd fed)), mt_fed_network = (\<lambda>_. Regtest), mt_fed_snapshot = (\<lambda>_. Some ''{}''),
     mt_plan = (\<lambda>_ _ _ _ _. Inr []), mt_plan_batched = (\<lambda>_ _ _ _ _ _. Inl ''fee account has no outputs''),
     mt_build = (\<lambda>steps _ wal. (Inr \<lparr>ps_inputs = [], ps_rest = length steps\<rparr>, wal)),
     mt_prev_outs = (\<lambda>p. map (\<lambda>i. (if i = 0 then ''t0'' else ''t1'', 0)) [0..<length (ps_inputs p)]), mt_sign = (\<lambda>_. toy_sign), mt_finalize = Inr,
     mt_extract = (\<lambda>_. Inr (toy_tx [0] 90)), mt_show_outpoint = fst\<rparr>"

lemma toy_tool_sel [simp]:
  "mt_read_line toy_tool = (\<lambda>w. (''y'', w))" "mt_hash_order toy_tool = rev" "mt_clock toy_tool = (\<lambda>_. 99)"
  "mt_fed_signers toy_tool = (\<lambda>fed. map (\<lambda>fp. (fp, fp)) (snd fed))" "mt_fed_network toy_tool = (\<lambda>_. Regtest)"
  "mt_plan_batched toy_tool = (\<lambda>_ _ _ _ _ _. Inl ''fee account has no outputs'')"
  "mt_build toy_tool = (\<lambda>steps _ wal. (Inr \<lparr>ps_inputs = [], ps_rest = length steps\<rparr>, wal))"
  "mt_prev_outs toy_tool = (\<lambda>p. map (\<lambda>i. (if i = 0 then ''t0'' else ''t1'', 0)) [0..<length (ps_inputs p)])"
  "mt_sign toy_tool = (\<lambda>_. toy_sign)"
  "mt_finalize toy_tool = Inr" "mt_extract toy_tool = (\<lambda>_. Inr (toy_tx [0] 90))"
  by (simp_all add: toy_tool_def)


definition toy_pset :: "(bool, nat) pset_data" where
  "toy_pset = \<lparr>ps_inputs = [\<lparr>pi_derivation = [(''a'', ''f'', ''p'')], pi_rest = False\<rparr>,
     \<lparr>pi_derivation = [(''b'', ''f'', ''p'')], pi_rest = False\<rparr>], ps_rest = 3\<rparr>"

theorem sweep_signing_is_selective_witness:
  "\<exists>pset'. (sign_sweep toy_tool [toy_new ''d''] [((''t1'', 0), toy_tx [0] 90, 260 :: nat, 0)] toy_pset :: (tool_exit, _) res) = Inr pset'
     \<and> ps_inputs pset' ! 0 = ps_inputs toy_pset ! 0 \<and> pi_rest (ps_inputs pset' ! 1)"
proof -
  have law: "signs_by_origin (mt_sign toy_tool wal)" for wal by (simp add: signs_by_origin_def toy_sign_def)
  have prev: "mt_prev_outs toy_tool toy_pset = [(''t0'', 0), (''t1'', 0)]"
    by (simp add: toy_pset_def upt_rec)
  have "\<exists>pset'. (sign_sweep toy_tool [toy_new ''d''] [((''t1'', 0), toy_tx [0] 90, 260 :: nat, 0)] toy_pset :: (tool_exit, _) res)
      = Inr pset' \<and> pi_rest (ps_inputs pset' ! 1)"
    by (simp add: sign_sweep_def input_wallets_def prev signing_wallets_def map_filter_def indices_of_def upt_rec bind_st_def
        index_of_def map_err_st_def sign_migration_inputs_def toy_sign_def saved_derivations_def hide_others_def toy_pset_def)
  then obtain pset' where run: "(sign_sweep toy_tool [toy_new ''d''] [((''t1'', 0), toy_tx [0] 90, 260 :: nat, 0)] toy_pset
      :: (tool_exit, _) res) = Inr pset'" and signed: "pi_rest (ps_inputs pset' ! 1)" by blast
  from sweep_signing_is_selective [OF law run] prev have "ps_inputs pset' ! 0 = ps_inputs toy_pset ! 0"
    by (simp add: toy_pset_def)
  with run signed show ?thesis by blast
qed

definition toy_app_config :: "string app_config" where
  "toy_app_config = sample_app_config\<lparr>fed_threshold := 2\<rparr>"

definition toy_migration :: migration_config where
  "toy_migration = sample_migration\<lparr>mc_federation := (mc_federation sample_migration)\<lparr>nf_threshold := 1\<rparr>\<rparr>"

lemma toy_sync_kept:
  assumes "h_db h = sample_db_healed"
  shows "\<exists>summary uw1 h1. sync_wallet sample_btc (toy_user_wallet, h) = (Inr summary, (uw1, h1))
     \<and> uw_user_id uw1 = 1 \<and> uw_wallet_id uw1 = 10 \<and> uw_account_idx uw1 = 0 \<and> uw_federation uw1 = (2, [''bbbbbbbb'', ''aaaaaaaa''])
     \<and> list_unspent sample_btc uw1 = [] \<and> wallet_total sample_btc uw1 = (Inr
         \<lparr>b_confirmed = 5, b_trusted_pending = 1, b_untrusted_pending = 0, b_immature = 0\<rparr> :: (tool_exit, _) res)
     \<and> has_in_progress_migration 10 (h_db h1) = (Inr False, h_db h1)
     \<and> federation_versions (h_db h1) = federation_versions sample_db_healed"
  using assms
  by (simp add: sync_wallet_def the_wallet_def toy_user_wallet_def sync_electrum_def bind_st_def
      reveal_version_wallets_to_inner_def change_wallet_def sync_wallets_def on_version_def on_inner_def
      toy_sync_def finish_sync_def persist_sync_def summary_of_def store_delta_def via_host_def
      db_query_def update_wallet_changeset_def reconcile_reverted_migrations_def map_err_st_def
      list_federation_versions_for_wallet_def sample_host_def sample_db_healed_def sample_db_fed_def
      update_wallet_descriptor_and_changeset_def sample_fed_version_def sample_version_def version_of_spec_def
      sweep_candidate_def map_filter_def Let_def split_beta has_in_progress_migration_def
      list_unspent_def wallet_total_def toy_new_def checked_add_def count_where_def)

lemma toy_load_account:
  "\<exists>s1 uw1. load_account (sample_pkcs11 []) sample_btc sample_manager (Some 0) sample_row (sample_app sample_db_fed)
     = (Inr (1, \<lparr>am_account_idx = 0, am_balance = 6, am_utxo_count = 0, am_is_fee_account = True,
         am_destination_address = None, am_is_small = False\<rparr>) :: (tool_exit, _) res, s1) \<and> ap_wallets s1 1 = Some uw1
    \<and> uw_user_id uw1 = 1 \<and> uw_account_idx uw1 = 0 \<and> uw_federation uw1 = (2, [''bbbbbbbb'', ''aaaaaaaa''])
    \<and> list_unspent sample_btc uw1 = [] \<and> ap_signers s1 1 = Some [(''a'', [48, 1, 0, 2]), (''b'', [48, 1, 0, 2])]"
proof -
  have row: "w_user_id sample_row = 1" "w_account_idx sample_row = 0" by (simp_all add: sample_row_def sample_db_def)
  have empty: "ap_wallets (sample_app d) = (\<lambda>_. None)" "ap_wallets toy_state = (\<lambda>_. None)" for d
    by (simp_all add: sample_app_def toy_state_def)
  define s0 where "s0 = toy_state\<lparr>ap_wallets := (\<lambda>_. None)(1 \<mapsto> toy_user_wallet)\<rparr>"
  have load: "map_err_st exit_1 (load_wallet_from_row (sample_pkcs11 []) sample_btc sample_manager sample_row) (sample_app sample_db_fed)
      = (Inr toy_user_wallet, s0)"
    by (simp add: load_wallet_from_row_def row empty bind_st_Inr toy_build map_err_st_def wallet_or_insert_def s0_def)
  have user: "uw_user_id toy_user_wallet = 1" "uw_wallet_id toy_user_wallet = 10" by (simp_all add: toy_user_wallet_def)
  have db: "h_db (ap_host s0) = sample_db_healed" by (simp add: s0_def toy_state_def sample_host_def)
  from toy_sync_kept [OF db] obtain summary uw1 h1 where
    sync: "sync_wallet sample_btc (toy_user_wallet, ap_host s0) = (Inr summary, (uw1, h1))"
    and uw1: "uw_user_id uw1 = 1" "uw_wallet_id uw1 = 10" "uw_account_idx uw1 = 0"
      "uw_federation uw1 = (2, [''bbbbbbbb'', ''aaaaaaaa''])" "list_unspent sample_btc uw1 = []"
      "wallet_total sample_btc uw1 = (Inr
         \<lparr>b_confirmed = 5, b_trusted_pending = 1, b_untrusted_pending = 0, b_immature = 0\<rparr> :: (tool_exit, _) res)"
    and idle: "has_in_progress_migration 10 (h_db h1) = (Inr False, h_db h1)" by auto
  define s1 where "s1 = s0\<lparr>ap_host := h1, ap_wallets := (\<lambda>_. None)(1 \<mapsto> uw1)\<rparr>"
  have sel: "ap_wallets s0 = (\<lambda>_. None)(1 \<mapsto> toy_user_wallet)" by (simp add: s0_def)
  have synced: "(ignore_err (on_wallet 1 (sync_wallet sample_btc)) :: (_, tool_exit, _) st) s0 = (Inr (Some summary), s1)"
    by (simp add: ignore_err_def on_wallet_def sel sync s1_def)
  have busy: "on_host (db_query exit_1 (has_in_progress_migration 10)) s1 = (Inr False, s1)"
    by (simp add: on_host_def db_query_def idle s1_def)
  have wallet: "(on_wallet 1 (the_wallet (\<lambda>uw. uw)) :: (_, tool_exit, _) st) s1 = (Inr uw1, s1)"
    by (simp add: on_wallet_def the_wallet_def s1_def)
  have total: "balance_total \<lparr>b_confirmed = 5, b_trusted_pending = 1, b_untrusted_pending = 0, b_immature = 0\<rparr>
      = (Inr 6 :: (tool_exit, u64) res)"
    by (simp add: balance_total_def checked_add_def)
  have signers: "ap_signers s1 1 = Some [(''a'', [48, 1, 0, 2]), (''b'', [48, 1, 0, 2])]" by (simp add: s1_def s0_def toy_state_def)
  have "load_account (sample_pkcs11 []) sample_btc sample_manager (Some 0) sample_row (sample_app sample_db_fed)
     = (Inr (1, \<lparr>am_account_idx = 0, am_balance = 6, am_utxo_count = 0, am_is_fee_account = True,
         am_destination_address = None, am_is_small = False\<rparr>) :: (tool_exit, _) res, s1)"
    unfolding load_account_def bind_st_def load
    by (simp add: load user uw1 synced row busy wallet total lift_st_def)
  moreover have "ap_wallets s1 1 = Some uw1" by (simp add: s1_def)
  ultimately show ?thesis using uw1 signers by (intro exI [of _ s1] exI [of _ uw1]) simp
qed

theorem failed_btc_run_completes_nothing_witness:
  "\<exists>s'. run_btc_migration toy_tool (sample_pkcs11 []) sample_btc toy_migration toy_app_config sample_fleet False False
       (sample_app sample_db_fed) = (Inl (Err (Exit 1)), s')
     \<and> set (completed (h_db (ap_host s'))) \<subseteq> set (completed sample_db_fed)"
proof -
  obtain s1 uw1 where acct: "load_account (sample_pkcs11 []) sample_btc sample_manager (Some 0) sample_row (sample_app sample_db_fed)
     = (Inr (1, \<lparr>am_account_idx = 0, am_balance = 6, am_utxo_count = 0, am_is_fee_account = True,
         am_destination_address = None, am_is_small = False\<rparr>) :: (tool_exit, _) res, s1)" and w: "ap_wallets s1 1 = Some uw1"
    and uw1: "uw_user_id uw1 = 1" "uw_account_idx uw1 = 0" "uw_federation uw1 = (2, [''bbbbbbbb'', ''aaaaaaaa''])"
      "list_unspent sample_btc uw1 = []"
    and signers: "ap_signers s1 1 = Some [(''a'', [48, 1, 0, 2]), (''b'', [48, 1, 0, 2])]"
    using toy_load_account by blast
  let ?cfg = toy_migration
  have disc: "discover_accounts (sample_pkcs11 []) sample_btc toy_app_config sample_fleet (Some 0) (sample_app sample_db_fed)
      = (Inr (sample_manager, [(1, \<lparr>am_account_idx = 0, am_balance = 6, am_utxo_count = 0, am_is_fee_account = True,
         am_destination_address = None, am_is_small = False\<rparr>)]), s1)"
  proof -
    have rows: "on_host (db_query exit_1 list_all_wallets) (sample_app sample_db_fed) = (Inr [sample_row], sample_app sample_db_fed)"
      by (simp add: on_host_def db_query_def list_all_wallets_def sample_app_def sample_host_def sample_db_fed_def sample_db_def
          sample_row_def)
    have mgr: "on_host (outside exit_1 (wallet_manager_new sample_btc toy_app_config sample_fleet)) (sample_app sample_db_fed)
        = (Inr sample_manager, sample_app sample_db_fed)"
      by (simp add: wallet_manager_new_def bind_st_def toy_app_config_def sample_app_config_def sample_manager_def sample_fleet_def
          on_host_def outside_def map_err_st_def sample_app_def)
    show ?thesis by (simp add: discover_accounts_def bind_st_def rows mgr acct)
  qed
  have wallet: "(wallet_of 1 :: (_, tool_exit, _) st) s1 = (Inr uw1, s1)"
    using w by (simp add: wallet_of_def on_wallet_def the_wallet_def fun_upd_idem)
  have pool: "on_hsm exit_1 (signers_for (sample_pkcs11 []) sample_fleet 1 [48, 1, 0, 2]) s1 = 
      (Inr [(''a'', [48, 1, 0, 2]), (''b'', [48, 1, 0, 2])], s1)"
    by (simp add: on_hsm_def signers_for_def bind_st_def read_st_def signers)
  have fleet: "wm_fleet sample_manager = sample_fleet" by (simp add: sample_manager_def)
  have labels: "fp_to_label sample_btc toy_app_config [(''a'', p), (''b'', p)] = [''bbbbbbbb'' \<mapsto> ''b'', ''aaaaaaaa'' \<mapsto> ''a'']" for p
    by (auto simp: fp_to_label_def map_filter_def toy_fp_def replicate_8 toy_app_config_def sample_app_config_def sample_tokens_def)
  have cur: "current_signers toy_tool (sample_pkcs11 []) sample_btc toy_app_config sample_manager uw1 s1
      = (Inr [(''bbbbbbbb'', ''b''), (''aaaaaaaa'', ''a'')], s1)"
    by (simp add: current_signers_def bind_st_def lift_st_def uw1 to_u32_or_def pool toy_path fleet labels signer_label_of_def)
  have idxs: "new_signer_indices toy_migration toy_app_config = (Inr [1, 0] :: (tool_exit, _) res)"
    by (simp add: new_signer_indices_def toy_app_config_def toy_migration_def sample_migration_def sample_app_config_def
        sample_tokens_def or_panic_def)
  have patch: "patch_signers toy_app_config [a, b] [1, 0] = (Inr [(b, Regtest), (a, Regtest)] :: (tool_exit, _) res)"
    for a b :: "string \<times> u32 list"
    by (simp add: patch_signers_def index_of_def toy_app_config_def sample_app_config_def)
  have script: "resolve_migration_script_type toy_migration toy_app_config = Inr Tr"
  proof -
    have "to_ascii_lowercase (trim ''Taproot'') = ''taproot''" by code_simp
    then show ?thesis by (simp add: resolve_migration_script_type_def toy_migration_def sample_migration_def)
  qed
  have fps: "toy_fp (''b'', p) = ''bbbbbbbb''" "toy_fp (''a'', p) = ''aaaaaaaa''" for p by (simp_all add: toy_fp_def replicate_8)
  have first: "\<exists>a. first_address_of sample_btc net desc = (Inr a :: (tool_exit, _) res) \<and> ad_string a = ''addr''" for net desc
    by (simp add: first_address_of_def temp_wallet_def)
  obtain a where first: "first_address_of sample_btc (network toy_app_config) toy_descriptor = (Inr a :: (tool_exit, _) res)"
    and a: "ad_string a = ''addr''"
    using first [of "network toy_app_config" toy_descriptor] by (elim exE conjE)
  have threshold: "nf_threshold (mc_federation toy_migration) = 1" by (simp add: toy_migration_def)
  have desc: "fed_descriptor sample_btc (1, [''bbbbbbbb'', ''aaaaaaaa'']) = Some toy_descriptor"
    by (simp add: toy_descriptor_def sample_fed_version_def sample_btc_def)
  let ?set = "\<lparr>bu_account_idx = 0, bu_utxos = [], bu_destination = a\<rparr>"
  have sets: "utxo_set (sample_pkcs11 []) sample_btc ?cfg toy_app_config sample_manager 1 s1 = (Inr ?set, s1)"
    by (simp add: utxo_set_def bind_st_def wallet new_federation_def lift_st_def uw1 fleet pool toy_path idxs patch [unfolded One_nat_def] script fps threshold desc first)
  have table: "\<exists>t. account_table (enriched ?cfg [?set] [sm]) = (Inr t :: (tool_exit, _) res)"
    if "am_account_idx sm = 0" for sm
    using that by (simp add: account_table_def enriched_def a map_filter_def truncate_address_def)
  let ?sm = "\<lparr>am_account_idx = 0, am_balance = 6, am_utxo_count = 0, am_is_fee_account = True,
      am_destination_address = None, am_is_small = False\<rparr>"
  obtain t where table: "account_table (enriched ?cfg [?set] [?sm]) = (Inr t :: (tool_exit, _) res)"
    using table [of ?sm] by auto
  have cfg: "ms_fee_account_idx (mc_migration ?cfg) = Some 0" "ms_strategy (mc_migration ?cfg) = ''account-for-account-batched''"
    by (simp_all add: toy_migration_def sample_migration_def strategy_config_of_def)
  have plan: "plan_btc_sweep toy_tool ?cfg net rate sets = Inl (Err (Exit 1))" for net rate sets
    by (simp add: plan_btc_sweep_def cfg exit_1_def)
  have ids: "short_ids [''bbbbbbbb'', ''aaaaaaaa''] = (Inr [''bbbbbbbb'', ''aaaaaaaa''] :: (tool_exit, _) res)"
    by (simp add: short_ids_def)
  have same: "\<not> new_is_same [''b'', ''a''] 2 ?cfg"
    by (simp add: new_is_same_def toy_migration_def sample_migration_def)
  have "run_btc_migration toy_tool (sample_pkcs11 []) sample_btc toy_migration toy_app_config sample_fleet False False
      (sample_app sample_db_fed) = (Inl (Err (Exit 1)), s1)"
    by (simp add: run_btc_migration_def btc_survey_def bind_st_def cfg disc lift_st_def wallet cur ids same uw1 checked_add_def
        prepare_sweep_def sets table plan index_of_def Let_def)
  moreover have "h_db (ap_host (sample_app sample_db_fed)) = sample_db_fed" by (simp add: sample_app_def sample_host_def)
  ultimately show ?thesis using failed_btc_run_completes_nothing [of toy_tool "sample_pkcs11 []" sample_btc toy_migration
      toy_app_config sample_fleet False False "sample_app sample_db_fed" s1] by auto
qed

definition toy_sweep :: btc_sweep where
  "toy_sweep = \<lparr>bw_users = [1], bw_by_account = [0 \<mapsto> 0], bw_owner = (\<lambda>_. None), bw_fee_wallet = 0,
     bw_fee_descriptor = ''d'', bw_fee_old = \<lparr>ad_string = ''old'', ad_spk = [7]\<rparr>, bw_fee_new = \<lparr>ad_string = ''new'', ad_spk = [8]\<rparr>\<rparr>"

definition toy_plan :: "btc_sweep_transaction list" where
  "toy_plan = [\<lparr>bs_source_utxos = [], bs_outputs = [BtcCustomer 5 \<lparr>ad_string = ''addr'', ad_spk = [9]\<rparr> 90], bs_is_fee_final = True\<rparr>]"

definition sample_db_pending :: database where
  "sample_db_pending = snd (set_pending_migration_for_older_versions 10 1 sample_db_v1)"

text \<open>A run is evaluated one step at a time.\<close>

lemma bind_run: "m s = (Inr a, s') \<Longrightarrow> \<exists>b t. f a s' = (Inr b, t) \<Longrightarrow> \<exists>b t. bind_st m f s = (Inr b, t)"
  by (simp add: bind_st_def)

lemma toy_sweeps:
  "\<exists>txids s'. run_sweeps toy_tool sample_btc toy_migration Regtest toy_sweep toy_plan None Map.empty
     (toy_state\<lparr>ap_wallets := (\<lambda>_. None)(1 \<mapsto> toy_user_wallet)\<rparr>) = (Inr txids :: (tool_exit, _) res, s')"
proof -
  have inputs: "sweep_inputs toy_tool sample_btc toy_sweep [] None s = (Inr ([], None), s)" for s :: "(toy_signer, _, unit, _) app"
    by (simp add: sweep_inputs_def chained_input_def bind_st_def lift_st_def map_filter_def)
  show ?thesis
    unfolding toy_plan_def run_sweeps.simps sweep_once_def bind_st_assoc
    apply (rule bind_run, simp add: inputs)
    apply (simp only: prod.case bind_st_assoc)
    apply (rule bind_run, simp add: lift_st_def index_of_def toy_sweep_def)
    apply (rule bind_run, simp add: on_wallet_def build_on_inner_def map_err_st_def)
    apply (rule bind_run, simp add: toy_sweep_def bind_st_def wallet_of_def on_wallet_def the_wallet_def read_st_def)
    apply (rule bind_run, simp add: sign_sweep_def lift_st_def input_wallets_def signing_wallets_def toy_user_wallet_def)
    apply (rule bind_run, simp add: lift_st_def)+
    apply (rule bind_run)
    apply (simp add: on_wallet_def broadcast_raw_def via_host_def outside_def map_err_st_def bind_st_def
        the_wallet_def read_st_def lift_st_def toy_user_wallet_def toy_send_def)
    apply (rule bind_run, simp add: read_st_def)
    apply (rule bind_run, simp add: lift_st_def)
    apply (rule bind_run)
    apply (simp add: record_output_def toy_sweep_def bind_st_def)
    apply simp
    done
qed

theorem unpaid_accounts_escape_reconciliation_witness:
  "\<exists>txids s'. run_sweeps toy_tool sample_btc toy_migration Regtest toy_sweep toy_plan None Map.empty
       (toy_state\<lparr>ap_wallets := (\<lambda>_. None)(1 \<mapsto> toy_user_wallet)\<rparr>) = (Inr txids :: (tool_exit, _) res, s')
     \<and> dom txids = {5}
     \<and> (\<exists>v' \<in> set (federation_versions (h_db (snd (mark_btc_accounts [toy_user_wallet] txids (migration_host sample_db_pending)
              :: (unit, unit) res \<times> _)))).
          fv_id v' = 40 \<and> fv_migration_status v' = ''complete'' \<and> sweep_candidate sample_btc v' = None)"
proof -
  obtain txids s' where run: "run_sweeps toy_tool sample_btc toy_migration Regtest toy_sweep toy_plan None Map.empty
     (toy_state\<lparr>ap_wallets := (\<lambda>_. None)(1 \<mapsto> toy_user_wallet)\<rparr>) = (Inr txids :: (tool_exit, _) res, s')"
    using toy_sweeps by (elim exE)
  have paid: "customers toy_plan = {5}" by (auto simp: customers_def toy_plan_def)
  have uw: "to_u32_or 0 (uw_account_idx toy_user_wallet) = 0" "uw_wallet_id toy_user_wallet = 10"
    by (simp_all add: toy_user_wallet_def to_u32_or_def)
  have pend: "set_pending_migration_for_older_versions 10 1 sample_db_v1 = (Inr (), sample_db_pending)"
    by (simp add: sample_db_pending_def set_pending_migration_for_older_versions_def write_st_def)
  have hist: "version_history (h_db (migration_host sample_db_pending))"
    using version_history.step [OF sample_history_v1 version_step.pend [OF pend]]
    by (simp add: migration_host_def sample_db_v1_def version_of_spec_def sample_version_def)
  let ?v = "(version_of_spec 40 7 sample_version)\<lparr>fv_migration_status := ''pending''\<rparr>"
  let ?u = "version_of_spec 41 9 (sample_version\<lparr>nv_version_index := 1\<rparr>)"
  have vs: "federation_versions (h_db (migration_host sample_db_pending)) = [?v, ?u]"
    by (simp add: migration_host_def sample_db_pending_def set_pending_migration_for_older_versions_def write_st_def
        sample_db_v1_def version_of_spec_def sample_version_def)
  have "fv_wallet_id ?v = Some 10" "fv_wallet_id ?u = Some 10" "fv_version_index ?v < fv_version_index ?u" "fv_id ?v = 40"
    by (simp_all add: version_of_spec_def sample_version_def)
  then show ?thesis
    using unpaid_accounts_escape_reconciliation [OF run hist, of "[toy_user_wallet]" toy_user_wallet ?v ?u, where 'e = unit] run
    by (auto simp: vs uw paid)
qed

end
