(* ===== verification/Float64.thy ===== *)
theory Float64
  imports RustText "HOL-Library.Log_Nat"
begin

text \<open>
  The \<open>f64\<close> arithmetic the amounts of the Elements wallet go through: conversion from and to
  integers, products and quotients rounded to nearest with ties to even, the conversion to \<open>f32\<close>,
  parsing, and display with eight decimals. A finite value is \<open>m * 2 ^ e\<close>; the two zeros are one.
\<close>

section \<open>Values and rounding\<close>

datatype f64 = Finite int int | Infinite bool | Nan

definition nearest :: "int \<Rightarrow> int \<Rightarrow> int" where
  "nearest a b = (let q = a div b; r = a mod b in
     if 2 * r < b then q else if b < 2 * r then q + 1 else if even q then q else q + 1)"

text \<open>The power of two by which \<open>a / b\<close> is scaled to get \<open>p\<close> significant bits.\<close>

definition precision_exp :: "nat \<Rightarrow> int \<Rightarrow> int \<Rightarrow> int" where
  "precision_exp p a b = (let k = int p - 1 - (bitlen a - bitlen b) in
     if a * 2 ^ nat k < 2 ^ (p - 1) * (b * 2 ^ nat (- k)) then k + 1 else k)"

definition round_pos :: "nat \<Rightarrow> int \<Rightarrow> nat \<Rightarrow> int \<Rightarrow> int \<Rightarrow> f64" where
  "round_pos p kmax emax a b = (let k = min kmax (precision_exp p a b);
       m = nearest (a * 2 ^ nat k) (b * 2 ^ nat (- k)) in
     if m * 2 ^ nat (- k) \<ge> 2 ^ emax * 2 ^ nat k then Infinite False else Finite m (- k))"

fun f64_neg :: "f64 \<Rightarrow> f64" where
  "f64_neg (Finite m e) = Finite (- m) e"
| "f64_neg (Infinite s) = Infinite (\<not> s)"
| "f64_neg Nan = Nan"

definition round_ratio :: "nat \<Rightarrow> int \<Rightarrow> nat \<Rightarrow> int \<Rightarrow> int \<Rightarrow> f64" where
  "round_ratio p kmax emax a b = (if a = 0 then Finite 0 0
     else if 0 < a then round_pos p kmax emax a b else f64_neg (round_pos p kmax emax (- a) b))"

text \<open>The double nearest to \<open>a / b\<close>.\<close>

definition f64_ratio :: "int \<Rightarrow> int \<Rightarrow> f64" where
  "f64_ratio = round_ratio 53 1074 1024"

section \<open>Operations\<close>

definition f64_of_int :: "int \<Rightarrow> f64" where
  "f64_of_int n = f64_ratio n 1"

fun f64_mul :: "f64 \<Rightarrow> f64 \<Rightarrow> f64" where
  "f64_mul (Finite m e) (Finite n f) = f64_ratio (m * n * 2 ^ nat (e + f)) (2 ^ nat (- (e + f)))"
| "f64_mul (Infinite s) (Finite n f) = (if n = 0 then Nan else Infinite (s \<noteq> (n < 0)))"
| "f64_mul (Finite m e) (Infinite s) = (if m = 0 then Nan else Infinite (s \<noteq> (m < 0)))"
| "f64_mul (Infinite s) (Infinite t) = Infinite (s \<noteq> t)"
| "f64_mul Nan y = Nan"
| "f64_mul x Nan = Nan"

fun f64_add :: "f64 \<Rightarrow> f64 \<Rightarrow> f64" where
  "f64_add (Finite m e) (Finite n f) = (let g = min e f; s = m * 2 ^ nat (e - g) + n * 2 ^ nat (f - g) in
     f64_ratio (s * 2 ^ nat g) (2 ^ nat (- g)))"
| "f64_add (Infinite s) (Infinite t) = (if s = t then Infinite s else Nan)"
| "f64_add Nan y = Nan"
| "f64_add x Nan = Nan"
| "f64_add (Infinite s) (Finite n f) = Infinite s"
| "f64_add (Finite m e) (Infinite s) = Infinite s"

text \<open>Division by a positive integer constant, the only one that occurs.\<close>

fun f64_div_const :: "f64 \<Rightarrow> int \<Rightarrow> f64" where
  "f64_div_const (Finite m e) c = f64_ratio (m * 2 ^ nat e) (c * 2 ^ nat (- e))"
| "f64_div_const (Infinite s) c = Infinite s"
| "f64_div_const Nan c = Nan"

text \<open>\<open>round\<close> goes to the nearest integer, halves away from zero; a cast saturates.\<close>

definition round_away :: "int \<Rightarrow> int \<Rightarrow> int" where
  "round_away a b = (if 0 \<le> a then (2 * a + b) div (2 * b) else - ((2 * (- a) + b) div (2 * b)))"

fun f64_round :: "f64 \<Rightarrow> f64" where
  "f64_round (Finite m e) = Finite (round_away (m * 2 ^ nat e) (2 ^ nat (- e))) 0"
| "f64_round x = x"

definition truncate_ratio :: "int \<Rightarrow> int \<Rightarrow> int" where
  "truncate_ratio a b = (if 0 \<le> a then a div b else - ((- a) div b))"

fun f64_as_int :: "int \<Rightarrow> int \<Rightarrow> f64 \<Rightarrow> int" where
  "f64_as_int lo hi (Finite m e) = max lo (min hi (truncate_ratio (m * 2 ^ nat e) (2 ^ nat (- e))))"
| "f64_as_int lo hi (Infinite s) = (if s then lo else hi)"
| "f64_as_int lo hi Nan = 0"

definition f64_as_u64 :: "f64 \<Rightarrow> u64" where
  "f64_as_u64 x = word_of_int (f64_as_int 0 (2 ^ 64 - 1) x)"

definition f64_as_i64 :: "f64 \<Rightarrow> int" where
  "f64_as_i64 = f64_as_int (- (2 ^ 63)) (2 ^ 63 - 1)"

fun f64_as_f32 :: "f64 \<Rightarrow> f64" where
  "f64_as_f32 (Finite m e) = round_ratio 24 149 128 (m * 2 ^ nat e) (2 ^ nat (- e))"
| "f64_as_f32 x = x"

text \<open>\<open>x <= 0.0\<close>, which no NaN satisfies.\<close>

fun f64_le_zero :: "f64 \<Rightarrow> bool" where
  "f64_le_zero (Finite m e) \<longleftrightarrow> m \<le> 0"
| "f64_le_zero (Infinite s) \<longleftrightarrow> s"
| "f64_le_zero Nan \<longleftrightarrow> False"

fun f64_gt_zero :: "f64 \<Rightarrow> bool" where
  "f64_gt_zero (Finite m e) \<longleftrightarrow> 0 < m"
| "f64_gt_zero (Infinite s) \<longleftrightarrow> \<not> s"
| "f64_gt_zero Nan \<longleftrightarrow> False"

section \<open>Text\<close>

text \<open>\<open>{:.8}\<close>.\<close>

definition pad_zeros :: "nat \<Rightarrow> string \<Rightarrow> string" where
  "pad_zeros n s = replicate (n - length s) CHR ''0'' @ s"

definition decimals_8 :: "int \<Rightarrow> string" where
  "decimals_8 v = show_nat (nat (v div 10 ^ 8)) @ ''.'' @ pad_zeros 8 (show_nat (nat (v mod 10 ^ 8)))"

fun f64_show_8 :: "f64 \<Rightarrow> string" where
  "f64_show_8 (Finite m e) = (let v = nearest (\<bar>m\<bar> * 10 ^ 8 * 2 ^ nat e) (2 ^ nat (- e)) in
     (if m < 0 then ''-'' else []) @ decimals_8 v)"
| "f64_show_8 (Infinite s) = (if s then ''-inf'' else ''inf'')"
| "f64_show_8 Nan = ''NaN''"

text \<open>
  \<open>str::parse\<close>: a sign, then \<open>inf\<close>, \<open>infinity\<close> or \<open>nan\<close> in any case, or digits with an optional
  point and an optional exponent.
\<close>

definition is_digit :: "char \<Rightarrow> bool" where
  "is_digit c \<longleftrightarrow> digit_val 10 c \<noteq> None"

definition split_exponent :: "string \<Rightarrow> string \<times> string option" where
  "split_exponent s = (let mant = takeWhile (\<lambda>c. c \<noteq> CHR ''e'' \<and> c \<noteq> CHR ''E'') s in
     (mant, if length mant = length s then None else Some (drop (length mant + 1) s)))"

definition parse_exponent :: "string \<Rightarrow> int option" where
  "parse_exponent s = (case s of [] \<Rightarrow> None
     | c # cs \<Rightarrow> if c = CHR ''-'' then (if cs = [] then None else map_option (\<lambda>n. - int n) (digits_val 10 0 cs))
       else if c = CHR ''+'' then (if cs = [] then None else map_option int (digits_val 10 0 cs))
       else map_option int (digits_val 10 0 s))"

definition parse_mantissa :: "string \<Rightarrow> (nat \<times> nat) option" where
  "parse_mantissa s = (let whole = takeWhile is_digit s; rest = drop (length whole) s in
     case rest of
       [] \<Rightarrow> if whole = [] then None else map_option (\<lambda>n. (n, 0)) (digits_val 10 0 whole)
     | c # dec \<Rightarrow> if c \<noteq> CHR ''.'' \<or> (whole = [] \<and> dec = []) then None
         else map_option (\<lambda>n. (n, length dec)) (digits_val 10 0 (whole @ dec)))"

definition parse_unsigned_f64 :: "string \<Rightarrow> f64 option" where
  "parse_unsigned_f64 s = (case split_exponent s of (mant, ex) \<Rightarrow>
     (case (parse_mantissa mant, case ex of None \<Rightarrow> Some 0 | Some t \<Rightarrow> parse_exponent t) of
        (Some (n, d), Some x) \<Rightarrow>
           (let k = x - int d in Some (f64_ratio (int n * 10 ^ nat k) (10 ^ nat (- k))))
      | _ \<Rightarrow> None))"

definition parse_f64_abs :: "string \<Rightarrow> f64 option" where
  "parse_f64_abs s = (let l = to_ascii_lowercase s in
     if l = ''inf'' \<or> l = ''infinity'' then Some (Infinite False)
     else if l = ''nan'' then Some Nan
     else parse_unsigned_f64 s)"

definition parse_f64 :: "string \<Rightarrow> f64 option" where
  "parse_f64 s = (case s of [] \<Rightarrow> None
     | c # cs \<Rightarrow> if c = CHR ''-'' then map_option f64_neg (parse_f64_abs cs)
       else if c = CHR ''+'' then parse_f64_abs cs else parse_f64_abs s)"

section \<open>Amounts\<close>

text \<open>\<open>sats as f64 / 100_000_000.0\<close>, and back.\<close>

definition btc_of_sats :: "u64 \<Rightarrow> f64" where
  "btc_of_sats v = f64_div_const (f64_of_int (uint v)) 100000000"

definition scaled_amount :: "f64 \<Rightarrow> f64" where
  "scaled_amount x = f64_round (f64_mul x (Finite 100000000 0))"

definition fee_rate_kvb :: "u64 \<Rightarrow> f64" where
  "fee_rate_kvb r = f64_as_f32 (f64_mul (f64_of_int (uint r)) (Finite 1000 0))"

section \<open>Rounding errors\<close>

definition fval :: "int \<Rightarrow> int \<Rightarrow> real" where
  "fval m e = of_int m * 2 ^ nat e / 2 ^ nat (- e)"

lemma nearest_mult: "0 < b \<Longrightarrow> 0 < c \<Longrightarrow> nearest (a * c) (b * c) = nearest a b"
  by (simp add: nearest_def Let_def flip: mult.assoc)

lemma nearest_1 [simp]: "nearest a 1 = a"
  by (simp add: nearest_def)

lemma nearest_error:
  assumes "0 < b"
  shows "\<bar>2 * (b * nearest a b - a)\<bar> \<le> b"
proof -
  define q r where "q = a div b" and "r = a mod b"
  have "a = b * q + r" "0 \<le> r" "r < b" using assms by (simp_all add: q_def r_def)
  then show ?thesis
    unfolding nearest_def Let_def q_def [symmetric] r_def [symmetric] by (auto simp: distrib_left)
qed

lemma nearest_mono_int: "0 < b \<Longrightarrow> b * n \<le> a \<Longrightarrow> n \<le> nearest a b"
proof -
  assume b: "0 < b" and "b * n \<le> a"
  then have "n \<le> a div b" by (simp add: zdiv_mono1 [of "b * n" a b, simplified] order_trans)
  then show ?thesis by (auto simp: nearest_def Let_def)
qed

lemma nearest_error_real:
  assumes b: "0 < b"
  shows "\<bar>of_int (nearest a b) - of_int a / of_int b\<bar> \<le> (1 / 2 :: real)"
proof -
  define x :: real where "x = of_int b * of_int (nearest a b) - of_int a"
  have "of_int \<bar>2 * (b * nearest a b - a)\<bar> \<le> (of_int b :: real)"
    by (subst of_int_le_iff) (rule nearest_error [OF b])
  then have "\<bar>2 * x\<bar> \<le> of_int b" by (simp add: x_def)
  then have "\<bar>x\<bar> / of_int b \<le> 1 / 2" using b by (simp add: abs_mult field_simps)
  moreover have "of_int (nearest a b) - of_int a / of_int b = x / of_int b"
    using b by (simp add: x_def field_simps)
  ultimately show ?thesis using b by simp
qed

text \<open>The scaled quotient has \<open>p\<close> significant bits.\<close>

lemma precision_exp_lower:
  assumes "0 < a" and "0 < b" and "0 < p"
  shows "2 ^ (p - 1) * (b * 2 ^ nat (- precision_exp p a b)) \<le> a * 2 ^ nat (precision_exp p a b)"
proof -
  define k where "k = int p - 1 - (bitlen a - bitlen b)"
  have la: "2 ^ nat (bitlen a - 1) \<le> a" and lb: "b < 2 ^ nat (bitlen b)"
    using bitlen_bounds assms by auto
  have pos: "0 < bitlen a" "0 < bitlen b" using assms bitlen_nonneg bitlen_eq_zero_iff
    by (metis linorder_not_less order_le_less)+
  show ?thesis
  proof (cases "a * 2 ^ nat k < 2 ^ (p - 1) * (b * 2 ^ nat (- k))")
    case False
    then show ?thesis by (simp add: precision_exp_def k_def Let_def)
  next
    case True
    then have e: "precision_exp p a b = k + 1" by (simp add: precision_exp_def k_def Let_def)
    have "2 ^ (p - 1) * (b * 2 ^ nat (- (k + 1))) \<le> 2 ^ (p - 1) * (2 ^ nat (bitlen b) * 2 ^ nat (- (k + 1)))"
      using lb by simp
    also have "\<dots> = 2 ^ nat (bitlen a - 1) * 2 ^ nat (k + 1)"
      using pos assms(3) by (auto simp: k_def nat_diff_distrib simp flip: power_add intro!: arg_cong [of _ _ nat])
    also have "\<dots> \<le> a * 2 ^ nat (k + 1)" using la by simp
    finally show ?thesis by (simp add: e)
  qed
qed

lemma precision_exp_upper: "0 < a \<Longrightarrow> precision_exp p a b \<le> int p - 1 + bitlen b"
  using bitlen_eq_zero_iff [of a] bitlen_nonneg [of a] by (auto simp: precision_exp_def Let_def)

lemma precision_exp_pow2:
  "0 < a \<Longrightarrow> 0 < b \<Longrightarrow> precision_exp p (a * 2 ^ c) (b * 2 ^ c) = precision_exp p a b"
  by (simp add: precision_exp_def Let_def mult.assoc mult.left_commute [of _ "2 ^ c"] mult.commute [of "2 ^ c"]
      flip: mult.assoc)

lemma round_pos_error:
  assumes a: "0 < a" and b: "0 < b" and p: "0 < p" and k: "precision_exp p a b \<le> kmax"
    and lt: "a \<le> b * 2 ^ n" and n: "n + 1 < emax"
  shows "\<exists>m. round_pos p kmax emax a b = Finite m (- precision_exp p a b)
    \<and> \<bar>fval m (- precision_exp p a b) - of_int a / of_int b\<bar> \<le> of_int a / of_int b / 2 ^ p"
proof -
  define k where "k = precision_exp p a b"
  define A B where "A = a * 2 ^ nat k" and "B = b * 2 ^ nat (- k)"
  define m where "m = nearest A B"
  define x c :: real where "x = of_int A / of_int B" and "c = 2 ^ nat (- k) / 2 ^ nat k"
  have B: "0 < B" using b by (simp add: B_def)
  have "2 ^ (p - 1) * B \<le> A"
    using precision_exp_lower [OF a b p] by (simp add: A_def B_def k_def)
  then have "of_int (2 ^ (p - 1) * B) \<le> (of_int A :: real)" by (subst of_int_le_iff)
  then have x: "2 ^ (p - 1) \<le> x" using B by (simp add: x_def field_simps)
  have two: "(2 :: real) ^ p = 2 * 2 ^ (p - 1)" using p by (cases p) simp_all
  have err: "\<bar>of_int m - x\<bar> \<le> 1 / 2"
    using nearest_error_real [OF B] by (simp add: m_def x_def)
  have half: "1 / 2 \<le> x / 2 ^ p" using x by (simp add: two field_simps)
  have c: "0 < c" by (simp add: c_def)
  have ab: "of_int a / of_int b = x * c"
    using b by (simp add: x_def c_def A_def B_def field_simps)
  have fv: "fval m (- k) = of_int m * c" by (simp add: fval_def c_def)
  have "\<bar>fval m (- k) - of_int a / of_int b\<bar> = \<bar>of_int m - x\<bar> * c"
    using c by (simp add: ab fv abs_mult flip: left_diff_distrib)
  also have "\<dots> \<le> x / 2 ^ p * c" using c order_trans [OF err half] by (intro mult_right_mono) simp_all
  also have "\<dots> = of_int a / of_int b / 2 ^ p" by (simp add: ab)
  finally have e: "\<bar>fval m (- k) - of_int a / of_int b\<bar> \<le> of_int a / of_int b / 2 ^ p" .
  have "1 \<le> x" using x one_le_power [of "2 :: real" "p - 1"] by linarith
  then have "of_int m \<le> 2 * x" using err by linarith
  then have "of_int m * c \<le> 2 * x * c" using c by (intro mult_right_mono) simp_all
  also have "\<dots> = 2 * (of_int a / of_int b)" by (simp add: ab)
  also have "\<dots> \<le> 2 * 2 ^ n"
  proof -
    have "of_int a \<le> (of_int (b * 2 ^ n) :: real)" using lt by (subst of_int_le_iff)
    then show ?thesis using b by (simp add: field_simps)
  qed
  also have "\<dots> < 2 ^ emax" using n by (simp flip: power_Suc)
  finally have "of_int (m * 2 ^ nat (- k)) < (of_int (2 ^ emax * 2 ^ nat k) :: real)"
    by (simp add: c_def field_simps)
  then have "m * 2 ^ nat (- k) < 2 ^ emax * 2 ^ nat k" by (subst (asm) of_int_less_iff)
  then have "round_pos p kmax emax a b = Finite m (- k)"
    using k by (simp add: round_pos_def Let_def min_absorb2 m_def A_def B_def flip: k_def)
  with e show ?thesis by (auto simp: k_def)
qed

lemma f64_ratio_spec:
  assumes a: "0 < a" and b: "0 < b" and "b \<le> 2 ^ 1000" and "a \<le> b * 2 ^ 1000"
  obtains m k where "f64_ratio a b = Finite m (- k)" and "k \<le> 52 + bitlen b"
    and "\<bar>fval m (- k) - of_int a / of_int b\<bar> \<le> of_int a / of_int b / 2 ^ 53"
proof -
  have k: "precision_exp 53 a b \<le> 52 + bitlen b" using precision_exp_upper [OF a, of 53 b] by simp
  have "b < 2 ^ nat 1001" using assms(3) by (rule order.strict_trans1) simp
  then have "bitlen b \<le> 1001" by (simp add: bitlen_le_iff_power)
  with k have "precision_exp 53 a b \<le> 1074" by simp
  from round_pos_error [OF a b _ this assms(4), of 1024] show ?thesis
    using that [OF _ k] a by (auto simp: f64_ratio_def round_ratio_def)
qed

section \<open>Amounts survive the conversions\<close>

lemma f64_ratio_pow2:
  assumes "0 < a" and "0 < b"
  shows "f64_ratio (a * 2 ^ c) (b * 2 ^ c) = f64_ratio a b"
proof -
  have swap: "x * 2 ^ c * y = x * y * 2 ^ c" for x y :: int by simp
  have "nearest (a * 2 ^ c * 2 ^ nat k) (b * 2 ^ c * 2 ^ nat (- k)) = nearest (a * 2 ^ nat k) (b * 2 ^ nat (- k))" for k
    using assms by (simp only: swap) (rule nearest_mult; simp)
  with assms show ?thesis
    by (simp add: f64_ratio_def round_ratio_def round_pos_def Let_def precision_exp_pow2)
qed

lemma f64_of_int_exact:
  assumes "0 < n" and "n < 2 ^ 53"
  shows "\<exists>c. f64_of_int n = Finite (n * 2 ^ c) (- int c)"
proof -
  define k where "k = 53 - bitlen n"
  have k: "0 \<le> k" using assms(2) by (simp add: k_def bitlen_le_iff_power)
  have "1 \<le> bitlen n" using assms(1) bitlen_eq_zero_iff [of n] bitlen_nonneg [of n] by linarith
  then have "(2 :: int) ^ 52 = 2 ^ nat (bitlen n - 1) * 2 ^ nat k"
    using k by (simp add: k_def flip: power_add nat_add_distrib)
  also have "\<dots> \<le> n * 2 ^ nat k" using bitlen_bounds [OF assms(1)] by simp
  finally have low: "2 ^ 52 \<le> n * 2 ^ nat k" .
  have "n * 2 ^ nat k < 2 ^ nat (bitlen n) * 2 ^ nat k" using bitlen_bounds [OF assms(1)] by simp
  also have "\<dots> = (2 :: int) ^ 53" using k by (simp add: k_def bitlen_nonneg flip: power_add nat_add_distrib)
  also have "\<dots> \<le> 2 ^ 1024 * 2 ^ nat k"
    using mult_mono [of "2 ^ 53" "2 ^ 1024" 1 "2 ^ nat k :: int"] by (simp add: one_le_power)
  finally have up: "n * 2 ^ nat k < 2 ^ 1024 * 2 ^ nat k" .
  have one: "bitlen 1 = 1" by (simp add: bitlen_def floorlog_def)
  have "precision_exp 53 n 1 = k" using low k by (simp add: precision_exp_def Let_def one k_def)
  moreover have "k \<le> 1074" using bitlen_nonneg [of n] by (simp add: k_def)
  ultimately have "f64_of_int n = Finite (n * 2 ^ nat k) (- k)"
    using assms(1) k up by (simp add: f64_of_int_def f64_ratio_def round_ratio_def round_pos_def Let_def min_absorb2)
  with k show ?thesis by (intro exI [of _ "nat k"]) simp
qed

lemma btc_of_sats_eq:
  assumes "uint s < 2 ^ 53"
  shows "btc_of_sats s = f64_ratio (uint s) 100000000"
proof (cases "uint s = 0")
  case True
  then show ?thesis by (simp add: btc_of_sats_def f64_of_int_def f64_ratio_def round_ratio_def)
next
  case False
  then have "0 < uint s" by (simp add: order_less_le)
  from f64_of_int_exact [OF this assms] obtain c where "f64_of_int (uint s) = Finite (uint s * 2 ^ c) (- int c)" ..
  then show ?thesis
    using f64_ratio_pow2 [OF \<open>0 < uint s\<close>, of 100000000 c] by (simp add: btc_of_sats_def)
qed

lemma round_away_near:
  assumes "0 \<le> a" and "0 < b" and "\<bar>of_int a / of_int b - of_int s\<bar> < (1 / 2 :: real)"
  shows "round_away a b = s"
proof -
  define x :: real where "x = of_int a / of_int b"
  have a: "of_int a = x * of_int b" using assms(2) by (simp add: x_def)
  have "2 * of_int s - 1 < 2 * x" "2 * x < 2 * of_int s + 1" using assms(3) unfolding x_def [symmetric] by linarith+
  then have "(2 * of_int s - 1) * of_int b < 2 * x * of_int b" "2 * x * of_int b < (2 * of_int s + 1) * of_int b"
    using assms(2) by simp_all
  then have "of_int ((2 * s - 1) * b) < (of_int (2 * a) :: real)" "of_int (2 * a) < (of_int ((2 * s + 1) * b) :: real)"
    by (simp_all add: a)
  then have "(2 * s - 1) * b < 2 * a" "2 * a < (2 * s + 1) * b" by (simp_all only: of_int_less_iff)
  then have "2 * a + b = s * (2 * b) + (2 * a + b - s * (2 * b))" "0 \<le> 2 * a + b - s * (2 * b)"
      "2 * a + b - s * (2 * b) < 2 * b"
    by (simp_all add: algebra_simps)
  then have "(2 * a + b) div (2 * b) = s" by (intro int_div_pos_eq [of _ _ _ "2 * a + b - s * (2 * b)"]) (simp_all add: algebra_simps)
  with assms(1) show ?thesis by (simp add: round_away_def)
qed

text \<open>Every amount up to the 21 million coins: display as \<open>f64\<close> and conversion back agree.\<close>

lemma fval_ratio: "fval m (- k) = of_int (m * 2 ^ nat (- k)) / of_int (2 ^ nat k)"
  by (simp add: fval_def)

lemma btc_value:
  assumes s: "0 < s" "s \<le> 2100000000000000"
  obtains m k where "f64_ratio s 100000000 = Finite m (- k)" and "k \<le> 79" and "0 < m"
    and "\<bar>of_int (m * 100000000 * 2 ^ nat (- k)) / of_int (2 ^ nat k) - of_int s\<bar> \<le> (of_int s / 2 ^ 53 :: real)"
proof -
  have len: "bitlen (100000000 :: int) \<le> 27" by (simp add: bitlen_le_iff_power)
  have "0 < s" "(0 :: int) < 100000000" "(100000000 :: int) \<le> 2 ^ 1000" "s \<le> 100000000 * 2 ^ 1000"
    using s by simp_all
  from f64_ratio_spec [OF this] obtain m k where v1: "f64_ratio s 100000000 = Finite m (- k)"
    and "k \<le> 52 + bitlen 100000000"
    and e1: "\<bar>fval m (- k) - of_int s / of_int 100000000\<bar> \<le> of_int s / of_int 100000000 / 2 ^ 53" .
  with len have k: "k \<le> 79" by linarith
  let ?y = "of_int (m * 100000000 * 2 ^ nat (- k)) / of_int (2 ^ nat k) :: real"
  have y: "?y = fval m (- k) * 100000000" by (simp add: fval_ratio)
  have e: "\<bar>?y - of_int s\<bar> \<le> of_int s / 2 ^ 53" using e1 unfolding y by (simp add: abs_le_iff field_simps)
  have "0 < ?y" using abs_le_D2 [OF e] s by simp
  then have "0 < m" by (simp add: zero_less_divide_iff zero_less_mult_iff)
  with v1 k e show thesis by (intro that)
qed

lemma scaled_ratio:
  assumes s: "0 < s" "s \<le> 2100000000000000"
  shows "scaled_amount (f64_ratio s 100000000) = Finite s 0"
proof -
  obtain m k where v1: "f64_ratio s 100000000 = Finite m (- k)" and k: "k \<le> 79" and m: "0 < m"
    and e: "\<bar>of_int (m * 100000000 * 2 ^ nat (- k)) / of_int (2 ^ nat k) - of_int s\<bar> \<le> (of_int s / 2 ^ 53 :: real)"
    using btc_value [OF s] by metis
  let ?a = "m * 100000000 * 2 ^ nat (- k)" and ?b = "2 ^ nat k :: int"
  define y :: real where "y = of_int ?a / of_int ?b"
  have ys: "\<bar>y - of_int s\<bar> \<le> of_int s / 2 ^ 53" using e by (simp add: y_def)
  have s': "0 < (of_int s :: real)" "(of_int s :: real) \<le> 2100000000000000" using s by simp_all
  have ypos: "0 < y" and yless: "y < 2100000000000001"
    using abs_le_D1 [OF ys] abs_le_D2 [OF ys] s' by simp_all
  have apos: "0 < ?a" using m by simp
  have "of_int ?a < (2100000000000001 * of_int ?b :: real)" using yless by (simp add: y_def divide_simps)
  then have "of_int ?a < (of_int (2100000000000001 * ?b) :: real)" by simp
  then have "?a < 2100000000000001 * ?b" by (simp only: of_int_less_iff)
  also have "\<dots> \<le> ?b * 2 ^ 1000" by simp
  finally have alt: "?a \<le> ?b * 2 ^ 1000" by simp
  have "nat k \<le> 1000" using k by simp
  then have blt: "?b \<le> 2 ^ 1000" by (rule power_increasing) simp
  obtain m' k' where v2: "f64_ratio ?a ?b = Finite m' (- k')"
    and e2: "\<bar>fval m' (- k') - y\<bar> \<le> y / 2 ^ 53"
    by (rule f64_ratio_spec [OF apos _ blt alt, folded y_def]) (rule zero_less_power, simp)
  have up: "fval m' (- k') - of_int s < 1 / 2" and lo: "- (fval m' (- k') - of_int s) < 1 / 2"
    and pos: "0 < fval m' (- k')"
    using abs_le_D1 [OF e2] abs_le_D2 [OF e2] abs_le_D1 [OF ys] abs_le_D2 [OF ys] s' ypos by simp_all
  have near: "\<bar>fval m' (- k') - of_int s\<bar> < 1 / 2" using up lo by (rule abs_less_iff [THEN iffD2, OF conjI])
  have "round_away (m' * 2 ^ nat (- k')) (2 ^ nat k') = s"
    by (rule round_away_near) (use near pos in \<open>simp_all add: fval_ratio zero_less_divide_iff zero_less_mult_iff\<close>)
  then show ?thesis by (simp add: scaled_amount_def v1 v2)
qed

lemma nearest_near:
  assumes "0 < b" and "\<bar>of_int a / of_int b - of_int s\<bar> < (1 / 2 :: real)"
  shows "nearest a b = s"
  using nearest_error_real [OF assms(1), of a] assms(2) by linarith

lemma show_ratio:
  assumes s: "0 < s" "s \<le> 2100000000000000"
  shows "f64_show_8 (f64_ratio s 100000000) = decimals_8 s"
proof -
  obtain m k where v1: "f64_ratio s 100000000 = Finite m (- k)" and m: "0 < m"
    and e: "\<bar>of_int (m * 100000000 * 2 ^ nat (- k)) / of_int (2 ^ nat k) - of_int s\<bar> \<le> (of_int s / 2 ^ 53 :: real)"
    using btc_value [OF s] by metis
  have "of_int s / 2 ^ 53 < (1 / 2 :: real)" using s by simp
  from nearest_near [OF _ order.strict_trans1 [OF e this]] m show ?thesis by (simp add: v1)
qed

lemma sats_roundtrip:
  assumes "uint s \<le> 2100000000000000"
  shows "scaled_amount (btc_of_sats s) = Finite (uint s) 0"
proof (cases "uint s = 0")
  case True
  then show ?thesis
    by (simp add: btc_of_sats_eq scaled_amount_def f64_ratio_def round_ratio_def round_away_def)
next
  case False
  then have "0 < uint s" by (simp add: order_less_le)
  with scaled_ratio [OF this assms] show ?thesis using assms by (simp add: btc_of_sats_eq)
qed

lemma as_int_whole:
  assumes "uint s < 2 ^ 63"
  shows "f64_as_u64 (Finite (uint s) 0) = (s :: u64)" and "f64_as_i64 (Finite (uint s) 0) = uint s"
  using assms order_trans [of "- 9223372036854775808 :: int" 0 "uint s"]
  by (simp_all add: f64_as_u64_def f64_as_i64_def truncate_ratio_def max_def)

section \<open>Decimal text\<close>

lemma digits_val_append:
  "digits_val r acc (s @ t) = (case digits_val r acc s of None \<Rightarrow> None | Some a \<Rightarrow> digits_val r a t)"
  by (induction s arbitrary: acc) (auto split: option.splits)

lemma digit_val_digit: "n < 10 \<Longrightarrow> digit_val 10 (char_of (48 + n)) = Some n"
  by (simp add: digit_val_def byte_of_def)

lemma digits_val_show_nat: "digits_val 10 acc (show_nat n) = Some (acc * 10 ^ length (show_nat n) + n)"
proof (induction n arbitrary: acc rule: show_nat.induct)
  case (1 n)
  show ?case
  proof (cases "n < 10")
    case True
    then show ?thesis by (subst (1 2) show_nat.simps) (simp add: digit_val_digit)
  next
    case False
    with 1 show ?thesis
      by (subst (1 2) show_nat.simps) (simp add: digits_val_append digit_val_digit algebra_simps)
  qed
qed

lemma digits_val_zeros: "digits_val 10 acc (replicate k CHR ''0'' @ t) = digits_val 10 (acc * 10 ^ k) t"
  by (induction k arbitrary: acc) (simp_all add: digit_val_def byte_of_def mult.assoc)

lemma digits_val_pad:
  assumes "length (show_nat r) \<le> n"
  shows "digits_val 10 acc (pad_zeros n (show_nat r)) = Some (acc * 10 ^ n + r)"
proof -
  have "(10 :: nat) ^ n = 10 ^ (n - length (show_nat r)) * 10 ^ length (show_nat r)"
    using assms by (simp flip: power_add)
  then show ?thesis
    by (simp only: pad_zeros_def digits_val_zeros digits_val_show_nat mult.assoc)
qed

lemma show_nat_digits: "c \<in> set (show_nat n) \<Longrightarrow> is_digit c"
proof (induction n rule: show_nat.induct)
  case (1 n)
  then show ?case
    by (subst (asm) show_nat.simps [of n]) (auto simp: is_digit_def digit_val_digit split: if_splits)
qed

lemma show_nat_Nil [simp]: "show_nat n \<noteq> []"
  by (subst show_nat.simps) simp

lemma length_show_nat: "n < 10 ^ d \<Longrightarrow> 0 < d \<Longrightarrow> length (show_nat n) \<le> d"
proof (induction n arbitrary: d rule: show_nat.induct)
  case (1 n)
  show ?case
  proof (cases "n < 10")
    case True
    with 1 show ?thesis by (subst show_nat.simps) simp
  next
    case False
    with 1(2) have "d \<noteq> 1" by auto
    with 1(3) obtain d' where "d = Suc d'" "0 < d'" by (cases d) auto
    with 1(1) [OF False, of d'] 1(2) False show ?thesis by (subst show_nat.simps) (simp add: less_mult_imp_div_less mult.commute)
  qed
qed

lemma pad_zeros_digits: "c \<in> set (pad_zeros n (show_nat m)) \<Longrightarrow> is_digit c"
  by (auto simp: pad_zeros_def is_digit_def digit_val_def byte_of_def dest: show_nat_digits split: if_splits)

lemma not_digits: "\<not> is_digit CHR ''-''" "\<not> is_digit CHR ''+''" "\<not> is_digit CHR ''.''"
  "\<not> is_digit CHR ''e''" "\<not> is_digit CHR ''E''" "\<not> is_digit CHR ''i''" "\<not> is_digit CHR ''n''"
  by (simp_all add: is_digit_def digit_val_def byte_of_def)

lemma lowercase_digit: "is_digit c \<Longrightarrow> to_ascii_lowercase (c # s) = c # to_ascii_lowercase s"
  by (auto simp: to_ascii_lowercase_def is_digit_def digit_val_def byte_of_def Let_def split: if_splits)

lemma parse_decimals:
  assumes "0 \<le> v"
  shows "parse_f64 (decimals_8 v) = Some (f64_ratio v 100000000)"
proof -
  define q r where "q = nat (v div 10 ^ 8)" and "r = nat (v mod 10 ^ 8)"
  define d where "d = pad_zeros 8 (show_nat r)"
  have s: "decimals_8 v = show_nat q @ CHR ''.'' # d" by (simp add: decimals_8_def q_def r_def d_def)
  have "r < 10 ^ 8" by (simp add: r_def nat_less_iff)
  then have len: "length (show_nat r) \<le> 8" by (simp add: length_show_nat)
  then have ld: "length d = 8" by (simp add: d_def pad_zeros_def)
  have "int q * 10 ^ 8 + int r = v" using assms by (simp add: q_def r_def pos_imp_zdiv_nonneg_iff)
  then have "nat (int (q * 10 ^ 8 + r)) = nat v" by simp
  then have qr: "q * 10 ^ 8 + r = nat v" by (simp only: nat_int)
  have val: "digits_val 10 0 (show_nat q @ d) = Some (nat v)"
    unfolding qr [symmetric] using digits_val_pad [OF len, of q]
    by (simp add: digits_val_append digits_val_show_nat flip: d_def)
  have dig: "\<forall>c \<in> set (show_nat q). is_digit c" "\<forall>c \<in> set d. is_digit c"
    by (auto simp: d_def dest: show_nat_digits pad_zeros_digits)
  have all: "takeWhile (\<lambda>c. c \<noteq> CHR ''e'' \<and> c \<noteq> CHR ''E'') (decimals_8 v) = decimals_8 v"
    using dig not_digits by (auto simp: s takeWhile_eq_all_conv)
  have ex: "split_exponent (decimals_8 v) = (decimals_8 v, None)" by (simp only: split_exponent_def Let_def all) simp
  have tw: "takeWhile is_digit (show_nat q @ CHR ''.'' # d) = show_nat q"
    using dig(1) by (simp add: takeWhile_append2 not_digits)
  have "parse_mantissa (decimals_8 v) = Some (nat v, 8)"
    by (simp add: parse_mantissa_def Let_def s tw val ld)
  then have u: "parse_unsigned_f64 (decimals_8 v) = Some (f64_ratio v 100000000)"
    using assms by (simp add: parse_unsigned_f64_def ex)
  obtain c cs where c: "show_nat q = c # cs" by (cases "show_nat q") simp_all
  with dig have "is_digit c" by simp
  then show ?thesis
    using u lowercase_digit [OF \<open>is_digit c\<close>] not_digits
    by (auto simp: parse_f64_def parse_f64_abs_def s c Let_def)
qed

text \<open>C28. An amount shown on a page and typed back is exact: for every number of satoshis up to the
  21 million coins, parsing the text with eight decimals and scaling it, as a send does, gives
  that number back.\<close>

theorem shown_amounts_are_exact:
  assumes "uint s \<le> 2100000000000000"
  shows "\<exists>x. parse_f64 (f64_show_8 (btc_of_sats s)) = Some x
    \<and> f64_as_u64 (scaled_amount x) = s \<and> f64_as_i64 (scaled_amount x) = uint s"
proof -
  have "f64_show_8 (btc_of_sats s) = decimals_8 (uint s)"
  proof (cases "uint s = 0")
    case True
    then show ?thesis by (simp add: btc_of_sats_eq f64_ratio_def round_ratio_def nearest_def)
  next
    case False
    then have "0 < uint s" by (simp add: order_less_le)
    with show_ratio [OF this assms] assms show ?thesis by (simp add: btc_of_sats_eq)
  qed
  then have "parse_f64 (f64_show_8 (btc_of_sats s)) = Some (btc_of_sats s)"
    using assms by (simp add: parse_decimals btc_of_sats_eq)
  moreover have "uint s < 2 ^ 63" using assms by simp
  ultimately show ?thesis using sats_roundtrip [OF assms] as_int_whole by auto
qed

theorem shown_amounts_are_exact_witness:
  "\<exists>x. parse_f64 (f64_show_8 (btc_of_sats 2099999999999999)) = Some x
    \<and> f64_as_u64 (scaled_amount x) = 2099999999999999 \<and> f64_as_i64 (scaled_amount x) = 2099999999999999"
  using shown_amounts_are_exact [of 2099999999999999] by simp

end
