(* ===== verification/ElementsWallet.thy ===== *)
theory ElementsWallet
  imports Host ElementsStore Float64
begin

text \<open>
  The manager of the Elements wallets, \<open>src/elements_wallet.rs\<close>: the backend dispatch for broadcasts
  and for the tip, creating and loading wallets, and the adoption of the current federation. The
  Elements libraries (LWK, the descriptor builder, the nodeless clients) are an argument,
  \<open>lwk_api\<close>; a loaded wallet never changes, so its operations act on the host alone.
\<close>

section \<open>Errors\<close>

datatype elements_wallet_error =
    NotFound uuid
  | BadAddress string string
  | BadFeeRate u64
  | BadAmount string string
  | BuildPset string
  | SignPset string
  | FinalizePset string
  | BroadcastRejected string
  | ElementsRpcFailure string
  | Descriptor string
  | Pipeline string
  | ElementsHsm hsm_error
  | ElementsSqlx db_error
  | ElementsConfig config_error

section \<open>The libraries\<close>

text \<open>What is fed to the standard library's hasher, whose algorithm is unspecified.\<close>

datatype hash_item = HUuid uuid | HI32 int | HU64 u64 | HStr string

text \<open>
  \<open>'ct\<close> is a descriptor under construction, \<open>'ctd\<close> a built one, \<open>'lwk\<close> an LWK network, \<open>'wollet\<close> a
  watch-only wallet, \<open>'client\<close> a nodeless client. A signer changes the PSET it is given, also when
  it fails.
\<close>

record ('child, 'sig, 'ct, 'ctd, 'lwk, 'asset, 'hash, 'wollet, 'addr, 'pset, 'tx, 'txid, 'out, 'sec, 'client, 'w) lwk_api =
  el_from_hardened_idx :: "u32 \<Rightarrow> string + 'child"
  default_hash :: "hash_item list \<Rightarrow> u64"
  ct_new :: "u32 \<Rightarrow> u8 list \<Rightarrow> string + 'ct"
  ct_add_signer :: "'sig \<times> network \<Rightarrow> 'ct \<Rightarrow> string + 'ct"
  ct_build :: "'ct \<Rightarrow> string + 'ctd"
  to_multipath_string :: "'ctd \<Rightarrow> string"
  hex_encode :: "u8 list \<Rightarrow> string"
  json_descriptor :: "string \<Rightarrow> json"
  to_lwk :: "elements_network \<Rightarrow> 'lwk"
  custom_regtest :: "'asset \<Rightarrow> 'hash \<Rightarrow> 'lwk"
  lwk_policy_asset :: "'lwk \<Rightarrow> 'asset"
  asset_from_str :: "string \<Rightarrow> string + 'asset"
  asset_str :: "'asset \<Rightarrow> string"
  rpc_client_new :: "string \<Rightarrow> string \<Rightarrow> string \<Rightarrow> 'w \<Rightarrow> string + rpc_client"
  rpc_sent :: "string \<Rightarrow> 'tx \<Rightarrow> 'w \<Rightarrow> 'w"
  new_electrum :: "string \<Rightarrow> ('w, string, 'client) st"
  new_esplora :: "string \<Rightarrow> 'lwk \<Rightarrow> ('w, string, 'client) st"
  new_esplora_authenticated :: "string \<Rightarrow> 'lwk \<Rightarrow> token_provider \<Rightarrow> ('w, string, 'client) st"
  new_waterfalls :: "string \<Rightarrow> 'lwk \<Rightarrow> ('w, string, 'client) st"
  new_waterfalls_authenticated :: "string \<Rightarrow> 'lwk \<Rightarrow> token_provider \<Rightarrow> ('w, string, 'client) st"
  nodeless_broadcast :: "'client \<Rightarrow> 'tx \<Rightarrow> ('w, string, 'txid) st"
  nodeless_tip :: "'client \<Rightarrow> ('w, string, u32) st"
  show_sync_error :: "sync_error \<Rightarrow> string"
  wollet_from_descriptor :: "string \<Rightarrow> u8 list \<Rightarrow> elements_network \<Rightarrow> 'lwk \<Rightarrow> string + 'wollet"
  wollet_address :: "'wollet \<Rightarrow> keychain_kind \<Rightarrow> u32 \<Rightarrow> string + 'addr"
  addr_from_str :: "string \<Rightarrow> string + 'addr"
  addr_str :: "'addr \<Rightarrow> string"
  addr_script :: "'addr \<Rightarrow> u8 list"
  out_script :: "'out \<Rightarrow> u8 list"
  sec_asset :: "'sec \<Rightarrow> 'asset"
  sec_value :: "'sec \<Rightarrow> u64"
  build_spend_pset :: "'wollet \<Rightarrow> ('txid, 'out, 'sec) captured_utxo list \<Rightarrow> 'addr \<Rightarrow> u64 \<Rightarrow> f64 \<Rightarrow> ('w, string, 'pset) st"
  build_asset_spend_pset :: "'wollet \<Rightarrow> ('txid, 'out, 'sec) captured_utxo list \<Rightarrow> 'addr \<Rightarrow> 'asset \<Rightarrow> u64 \<Rightarrow> f64 \<Rightarrow> ('w, string, 'pset) st"
  build_sweep_pset :: "'wollet \<Rightarrow> ('txid, 'out, 'sec) captured_utxo list \<Rightarrow> 'addr \<Rightarrow> f64 \<Rightarrow> ('w, string, 'pset) st"
  sign_pset :: "'sig \<Rightarrow> ('pset \<times> 'w, string, nat) st"
  finalize_p2wsh_pset :: "'pset \<Rightarrow> string + 'pset"
  extract_tx :: "'pset \<Rightarrow> string + 'tx"
  tx_outputs :: "'tx \<Rightarrow> (u8 list \<times> u64 option) list"
  pset_out_amounts :: "'pset \<Rightarrow> (u8 list \<times> u64 option) list"
  serialize_hex :: "'tx \<Rightarrow> string"

section \<open>Backends\<close>

definition brx :: "string \<Rightarrow> elements_wallet_error" where
  "brx = BroadcastRejected"

definition pipeline_err where
  "pipeline_err lapi e = Pipeline (show_sync_error lapi e)"

definition esplora_client where
  "esplora_client lapi url lwk auth = (case auth of
       Some token \<Rightarrow> new_esplora_authenticated lapi url lwk token
     | None \<Rightarrow> new_esplora lapi url lwk)"

definition waterfalls_client where
  "waterfalls_client lapi url lwk auth = (case auth of
       Some token \<Rightarrow> new_waterfalls_authenticated lapi url lwk token
     | None \<Rightarrow> new_waterfalls lapi url lwk)"

text \<open>A node client with what it answers in the present world; \<open>rpc_sent\<close> is what a submitted
  transaction does to that world.\<close>

definition with_rpc where
  "with_rpc lapi rpc f = (case rpc of (url, user, pass) \<Rightarrow>
     bind_st (\<lambda>w. (of_sum (\<lambda>e. pipeline_err lapi (ChainSource e)) (rpc_client_new lapi url user pass w), w)) f)"

definition broadcast_via_backend where
  "broadcast_via_backend lapi c backend electrum esplora auth lwk rpc tx = (case backend of
       ElementsElectrum \<Rightarrow>
         bind_st (lift_st (of_option (brx ''ELEMENTS_ELECTRUM_URL not set'') electrum)) (\<lambda>url.
         bind_st (map_err_st brx (new_electrum lapi url)) (\<lambda>client.
         map_err_st brx (nodeless_broadcast lapi client tx)))
     | ElementsEsplora \<Rightarrow>
         bind_st (lift_st (of_option (brx ''ELEMENTS_ESPLORA_URL not set'') esplora)) (\<lambda>url.
         bind_st (map_err_st brx (esplora_client lapi url lwk auth)) (\<lambda>client.
         map_err_st brx (nodeless_broadcast lapi client tx)))
     | ElementsWaterfalls \<Rightarrow>
         bind_st (lift_st (of_option (brx ''ELEMENTS_ESPLORA_URL not set'') esplora)) (\<lambda>url.
         bind_st (map_err_st brx (waterfalls_client lapi url lwk auth)) (\<lambda>client.
         map_err_st brx (nodeless_broadcast lapi client tx)))
     | ElementsRpc \<Rightarrow>
         with_rpc lapi rpc (\<lambda>chain.
         bind_st (write_st (rpc_sent lapi (fst rpc) tx)) (\<lambda>_.
         lift_st (map_err (\<lambda>e. brx (show_sync_error lapi e)) (rpc_broadcast c (serialize_hex lapi) chain tx)))))"

definition tip_height_via_backend where
  "tip_height_via_backend lapi backend electrum esplora auth lwk rpc = (case backend of
       ElementsElectrum \<Rightarrow>
         bind_st (lift_st (of_option (Pipeline ''ELEMENTS_ELECTRUM_URL not set'') electrum)) (\<lambda>url.
         bind_st (map_err_st Pipeline (new_electrum lapi url)) (\<lambda>client.
         map_err_st Pipeline (nodeless_tip lapi client)))
     | ElementsEsplora \<Rightarrow>
         bind_st (lift_st (of_option (Pipeline ''ELEMENTS_ESPLORA_URL not set'') esplora)) (\<lambda>url.
         bind_st (map_err_st Pipeline (esplora_client lapi url lwk auth)) (\<lambda>client.
         map_err_st Pipeline (nodeless_tip lapi client)))
     | ElementsWaterfalls \<Rightarrow>
         bind_st (lift_st (of_option (Pipeline ''ELEMENTS_ESPLORA_URL not set'') esplora)) (\<lambda>url.
         bind_st (map_err_st Pipeline (waterfalls_client lapi url lwk auth)) (\<lambda>client.
         map_err_st Pipeline (nodeless_tip lapi client)))
     | ElementsRpc \<Rightarrow>
         with_rpc lapi rpc (\<lambda>chain. lift_st (map_err (pipeline_err lapi) (rpc_tip_height chain))))"

section \<open>The manager\<close>

record elements_manager =
  em_has_rpc :: bool
  em_rpc_url :: string
  em_rpc_user :: string
  em_rpc_pass :: string
  em_network :: elements_network
  em_backend :: elements_chain_backend
  em_electrum_url :: "string option"
  em_esplora_url :: "string option"
  em_esplora_auth :: "token_provider option"
  em_coin_index :: u32
  em_threshold :: u32
  em_signer_indices :: "nat list"
  em_fleet :: hsm_fleet

definition elements_manager_new :: "'ip app_config \<Rightarrow> hsm_fleet \<Rightarrow> elements_manager" where
  "elements_manager_new cfg fleet =
     \<lparr>em_has_rpc = (elements_chain_backend cfg = ElementsRpc), em_rpc_url = elements_rpc_url cfg,
      em_rpc_user = elements_rpc_user cfg, em_rpc_pass = elements_rpc_password cfg,
      em_network = elements_network cfg, em_backend = elements_chain_backend cfg,
      em_electrum_url = elements_electrum_url cfg, em_esplora_url = elements_esplora_url cfg,
      em_esplora_auth = elements_esplora_auth cfg, em_coin_index = bip48_coin_index cfg,
      em_threshold = fed_threshold cfg, em_signer_indices = fed_signer_indices cfg, em_fleet = fleet\<rparr>"

text \<open>The application and the manager's cached network.\<close>

record ('sig, 'uw, 'euw, 'lwk, 'w) elements_state =
  es_app :: "('sig, 'uw, 'euw, 'w) app"
  es_lwk :: "'lwk option"

definition on_app :: "(('sig, 'uw, 'euw, 'w) app, 'e, 'a) st \<Rightarrow> (('sig, 'uw, 'euw, 'lwk, 'w) elements_state, 'e, 'a) st" where
  "on_app m = (\<lambda>s. case m (es_app s) of (r, a) \<Rightarrow> (r, s\<lparr>es_app := a\<rparr>))"

definition asset_parse_opt where
  "asset_parse_opt lapi s = (case asset_from_str lapi s of Inr a \<Rightarrow> Some a | Inl _ \<Rightarrow> None)"

definition lwk_network where
  "lwk_network lapi c m =
     bind_st (read_st es_lwk) (\<lambda>hit. case hit of
       Some n \<Rightarrow> ret_st n
     | None \<Rightarrow>
         bind_st (if em_network m = ElementsRegtest
           then on_app (on_host (outside id (with_rpc lapi (em_rpc_url m, em_rpc_user m, em_rpc_pass m) (\<lambda>chain.
             lift_st (map_err (pipeline_err lapi) (node_lwk_network c (asset_parse_opt lapi) (custom_regtest lapi)
               (to_lwk lapi) chain ElementsRegtest))))))
           else ret_st (to_lwk lapi (em_network m))) (\<lambda>n.
         bind_st (write_st (\<lambda>s. s\<lparr>es_lwk := Some n\<rparr>)) (\<lambda>_. ret_st n)))"

definition derivation_path_for where
  "derivation_path_for lapi m account_idx =
     bind_res (of_sum (\<lambda>e. SignPset (''48': '' @ e)) (el_from_hardened_idx lapi 48)) (\<lambda>a.
     bind_res (of_sum (\<lambda>e. SignPset (''coin: '' @ e)) (el_from_hardened_idx lapi (em_coin_index m))) (\<lambda>b.
     bind_res (of_sum (\<lambda>e. SignPset (''account: '' @ e)) (el_from_hardened_idx lapi account_idx)) (\<lambda>c.
     bind_res (of_sum (\<lambda>e. SignPset (''script-type: '' @ e)) (el_from_hardened_idx lapi 2)) (\<lambda>d.
     Inr [a, b, c, d]))))"

section \<open>Blinding keys\<close>

definition le_bytes :: "u64 \<Rightarrow> u8 list" where
  "le_bytes v = map (\<lambda>i. ucast (drop_bit (8 * i) v)) [0..<8]"

definition be_bytes :: "u64 \<Rightarrow> u8 list" where
  "be_bytes v = rev (le_bytes v)"

definition derive_master_blinding_key where
  "derive_master_blinding_key lapi user_id account_idx =
     (let h1 = default_hash lapi [HUuid user_id, HI32 account_idx];
          h2 = default_hash lapi [HU64 h1, HStr ''emvault-elements-mbk-v1''] in
      le_bytes h1 @ le_bytes h2 @ be_bytes h1 @ be_bytes h2)"

section \<open>Creating a wallet\<close>

definition patched_signers where
  "patched_signers m signers = map_res (\<lambda>idx. bind_res (index_of signers idx) (\<lambda>s.
     Inr (s, hf_network (em_fleet m)))) (em_signer_indices m)"

fun add_signers where
  "add_signers lapi [] builder = Inr builder"
| "add_signers lapi (s # ss) builder =
     bind_res (of_sum Descriptor (ct_add_signer lapi s builder)) (add_signers lapi ss)"

definition ct_descriptor where
  "ct_descriptor lapi threshold mbk patched =
     bind_res (of_sum Descriptor (ct_new lapi threshold mbk)) (\<lambda>builder.
     bind_res (add_signers lapi patched builder) (\<lambda>full.
     bind_res (of_sum Descriptor (ct_build lapi full)) (\<lambda>ct_desc.
     Inr (to_multipath_string lapi ct_desc))))"

definition create_wallet_for_user_at where
  "create_wallet_for_user_at papi lapi m user_id account_idx =
     bind_st (lift_st (derivation_path_for lapi m (to_u32_or 0 account_idx))) (\<lambda>path.
     bind_st (on_hsm ElementsHsm (signers_for papi (em_fleet m) user_id path)) (\<lambda>all_signers.
     bind_st (lift_st (patched_signers m all_signers)) (\<lambda>patched.
     let mbk = derive_master_blinding_key lapi user_id account_idx;
         mbk_hex = hex_encode lapi mbk in
     bind_st (lift_st (ct_descriptor lapi (em_threshold m) mbk patched)) (\<lambda>multipath.
     on_host (db_insert ElementsSqlx (\<lambda>new_id now. insert_elements_wallet new_id now
       \<lparr>ne_user_id = user_id, ne_account_idx = account_idx, ne_descriptor = multipath,
        ne_master_blinding_key = mbk_hex,
        ne_daemon_wallet_name = ''elements-user-'' @ show_int account_idx\<rparr>))))))"

definition create_wallet_for_user where
  "create_wallet_for_user papi lapi m user_id =
     bind_st (on_host (db_query ElementsSqlx next_elements_account_idx)) (\<lambda>account_idx.
     create_wallet_for_user_at papi lapi m user_id account_idx)"

definition ensure_wallet_for_user where
  "ensure_wallet_for_user papi lapi m user_id =
     bind_st (on_host (db_query ElementsSqlx (find_elements_wallet_for_user user_id))) (\<lambda>row. case row of
       Some r \<Rightarrow> ret_st r
     | None \<Rightarrow> create_wallet_for_user papi lapi m user_id)"

definition ensure_wallet_for_user_at where
  "ensure_wallet_for_user_at papi lapi m user_id account_idx =
     bind_st (on_host (db_query ElementsSqlx (find_elements_wallet_for_user user_id))) (\<lambda>row. case row of
       Some r \<Rightarrow> ret_st r
     | None \<Rightarrow> create_wallet_for_user_at papi lapi m user_id account_idx)"

section \<open>Loading a wallet\<close>

record ('sig, 'lwk) user_elements_wallet =
  ue_user_id :: uuid
  ue_wallet_id :: uuid
  ue_account_idx :: int
  ue_network :: elements_network
  ue_lwk :: 'lwk
  ue_descriptor :: string
  ue_mbk :: "u8 list"
  ue_daemon_wallet_name :: string
  ue_signers :: "'sig list"
  ue_version_count :: nat
  ue_rpc :: "string \<times> string \<times> string"
  ue_backend :: elements_chain_backend
  ue_electrum_url :: "string option"
  ue_esplora_url :: "string option"
  ue_esplora_auth :: "token_provider option"

definition initial_elements_version where
  "initial_elements_version lapi m row =
     \<lparr>nv_wallet_id = None, nv_elements_wallet_id = Some (ew_id row), nv_version_index = 0,
      nv_descriptor = ew_descriptor row, nv_threshold = to_i32_or 0 (uint (em_threshold m)),
      nv_signer_count = to_i32_or 0 (int (length (em_signer_indices m))),
      nv_federation_snapshot = json_descriptor lapi (ew_descriptor row),
      nv_wallet_handle = ew_daemon_wallet_name row, nv_blinding_key = Some (ew_master_blinding_key row)\<rparr>"

text \<open>The descriptor and blinding key a load settles on, and whether the row had drifted from them.\<close>

definition elements_binding where
  "elements_binding lapi user_id row versions =
     (let base_mbk = derive_master_blinding_key lapi user_id (ew_account_idx row) in
      case rev versions of
        latest # _ \<Rightarrow>
          if fv_descriptor latest \<noteq> ew_descriptor row
          then (fv_descriptor latest, (case Option.bind (fv_blinding_key latest) parse_mbk_hex of
                  Some k \<Rightarrow> k | None \<Rightarrow> base_mbk), True)
          else (ew_descriptor row, base_mbk, False)
      | [] \<Rightarrow> (ew_descriptor row, base_mbk, False))"

definition healed_blinding_hex where
  "healed_blinding_hex row versions = (case rev versions of
       latest # _ \<Rightarrow> (case fv_blinding_key latest of Some k \<Rightarrow> k | None \<Rightarrow> ew_master_blinding_key row)
     | [] \<Rightarrow> ew_master_blinding_key row)"

definition build_user_wallet where
  "build_user_wallet papi lapi c m user_id row =
     bind_st (lift_st (derivation_path_for lapi m (to_u32_or 0 (ew_account_idx row)))) (\<lambda>path.
     bind_st (on_app (on_hsm ElementsHsm (signers_for papi (em_fleet m) user_id path))) (\<lambda>signers.
     bind_st (lwk_network lapi c m) (\<lambda>lwk_net.
     bind_st (on_app (on_host (db_query ElementsSqlx
       (list_federation_versions_for_elements_wallet (ew_id row))))) (\<lambda>versions.
     bind_st (if versions = [] then on_app (on_host (bind_st (ignore_err (db_insert ElementsSqlx (\<lambda>new_id now.
         insert_federation_version new_id now (initial_elements_version lapi m row)))) (\<lambda>_. ret_st ())))
       else ret_st ()) (\<lambda>_.
     case elements_binding lapi user_id row versions of (descriptor, mbk, drifted) \<Rightarrow>
     bind_st (if drifted then on_app (on_host (bind_st (ignore_err (db_query ElementsSqlx
         (update_elements_wallet_descriptor (ew_id row) descriptor (healed_blinding_hex row versions)))) (\<lambda>_. ret_st ())))
       else ret_st ()) (\<lambda>_.
     ret_st \<lparr>ue_user_id = user_id, ue_wallet_id = ew_id row, ue_account_idx = ew_account_idx row,
       ue_network = em_network m, ue_lwk = lwk_net, ue_descriptor = descriptor, ue_mbk = mbk,
       ue_daemon_wallet_name = ew_daemon_wallet_name row, ue_signers = signers,
       ue_version_count = max (length versions) 1,
       ue_rpc = (em_rpc_url m, em_rpc_user m, em_rpc_pass m), ue_backend = em_backend m,
       ue_electrum_url = em_electrum_url m, ue_esplora_url = em_esplora_url m,
       ue_esplora_auth = em_esplora_auth m\<rparr>))))))"

definition wallet_or_insert where
  "wallet_or_insert user_id uw = (\<lambda>s. case ap_elements s user_id of
       Some old \<Rightarrow> (Inr old, s)
     | None \<Rightarrow> (Inr uw, s\<lparr>ap_elements := (ap_elements s)(user_id \<mapsto> uw)\<rparr>))"

definition load_or_init where
  "load_or_init papi lapi c m user_id =
     bind_st (read_st (\<lambda>s. ap_elements (es_app s) user_id)) (\<lambda>hit. case hit of
       Some uw \<Rightarrow> ret_st uw
     | None \<Rightarrow>
         bind_st (on_app (on_host (db_query ElementsSqlx (find_elements_wallet_for_user user_id)))) (\<lambda>found.
         bind_st (case found of Some r \<Rightarrow> ret_st r
           | None \<Rightarrow> on_app (create_wallet_for_user papi lapi m user_id)) (\<lambda>row.
         bind_st (build_user_wallet papi lapi c m user_id row) (\<lambda>uw.
         on_app (wallet_or_insert user_id uw)))))"

definition load_wallet_from_row where
  "load_wallet_from_row papi lapi c m row = build_user_wallet papi lapi c m (ew_user_id row) row"

end
