(* ===== verification/ElementsSpend.thy ===== *)
theory ElementsSpend
  imports ElementsWallet Selective "HOL-Library.List_Lexorder" "HOL-Library.Char_ord"
begin

text \<open>
  What a loaded Elements wallet does, \<open>src/elements_wallet.rs\<close>: balances per asset, addresses of
  every federation version, histories, sends, sweeps, and the signing of a migration's inputs.
  A \<open>BTreeMap\<close> keyed by asset is an association list in key order; a sum that overflows panics.
\<close>

section \<open>Captured outputs\<close>

definition utxo_value where
  "utxo_value lapi u = sec_value lapi (cu_secrets u)"

definition utxo_asset where
  "utxo_asset lapi u = sec_asset lapi (cu_secrets u)"

definition utxo_script where
  "utxo_script lapi u = out_script lapi (cu_txout u)"

definition store_query where
  "store_query lapi q = (\<lambda>h. case q (h_db h) of (r, d) \<Rightarrow> (map_err (pipeline_err lapi) r, h\<lparr>h_db := d\<rparr>))"

definition uw_key where
  "uw_key uw = WalletId (ue_wallet_id uw)"

definition captured_utxos where
  "captured_utxos lapi c uw = store_query lapi (list_unspent c (uw_key uw))"

definition tip_height where
  "tip_height lapi uw =
     bind_st (outside id (tip_height_via_backend lapi (ue_backend uw) (ue_electrum_url uw) (ue_esplora_url uw)
       (ue_esplora_auth uw) (ue_lwk uw) (ue_rpc uw))) (\<lambda>h. ret_st (ucast h :: u64))"

definition sum_sats :: "u64 list \<Rightarrow> ('e, u64) res" where
  "sum_sats vs = or_panic (checked_sum vs)"

section \<open>Balances\<close>

record elements_balances =
  bal_trusted :: f64
  bal_untrusted_pending :: f64
  bal_immature :: f64

definition policy_sats where
  "policy_sats lapi uw utxos = sum_sats (map (utxo_value lapi)
     (filter (\<lambda>u. utxo_asset lapi u = lwk_policy_asset lapi (ue_lwk uw)) utxos))"

definition elements_balance where
  "elements_balance lapi c uw =
     bind_st (captured_utxos lapi c uw) (\<lambda>utxos.
     bind_st (lift_st (policy_sats lapi uw utxos)) (\<lambda>sats.
     ret_st \<lparr>bal_trusted = btc_of_sats sats, bal_untrusted_pending = Finite 0 0, bal_immature = Finite 0 0\<rparr>))"

text \<open>\<open>entry(k).or_default()\<close> changed by a function that may panic.\<close>

fun btree_update :: "string \<Rightarrow> 'v \<Rightarrow> ('v \<Rightarrow> ('e, 'v) res) \<Rightarrow> (string \<times> 'v) list \<Rightarrow> ('e, (string \<times> 'v) list) res" where
  "btree_update k d f [] = bind_res (f d) (\<lambda>v. Inr [(k, v)])"
| "btree_update k d f ((j, w) # m) =
     (if k < j then bind_res (f d) (\<lambda>v. Inr ((k, v) # (j, w) # m))
      else if k = j then bind_res (f w) (\<lambda>v. Inr ((j, v) # m))
      else bind_res (btree_update k d f m) (\<lambda>m'. Inr ((j, w) # m')))"

definition add_sats :: "u64 \<Rightarrow> u64 \<Rightarrow> ('e, u64) res" where
  "add_sats v t = or_panic (checked_add t v)"

fun sats_by_asset where
  "sats_by_asset lapi [] m = Inr m"
| "sats_by_asset lapi (u # us) m =
     bind_res (btree_update (asset_str lapi (utxo_asset lapi u)) 0 (add_sats (utxo_value lapi u)) m)
       (sats_by_asset lapi us)"

record asset_balance =
  ab_asset_id :: string
  ab_sat :: u64
  ab_amount :: f64

definition asset_balances where
  "asset_balances lapi c uw =
     bind_st (captured_utxos lapi c uw) (\<lambda>utxos.
     bind_st (lift_st (sats_by_asset lapi utxos [])) (\<lambda>rows.
     ret_st (sort_key (\<lambda>b. - uint (ab_sat b)) (map (\<lambda>(asset_id, sat).
       \<lparr>ab_asset_id = asset_id, ab_sat = sat, ab_amount = btc_of_sats sat\<rparr>) rows))))"

section \<open>Addresses\<close>

record elements_revealed_address =
  er_index :: u32
  er_address :: string
  er_received :: f64
  er_unspent :: f64

type_synonym spk_balances = "(u8 list \<Rightarrow> u64 option) \<times> (u8 list \<Rightarrow> u64 option)"

definition spk_sats :: "(u8 list \<Rightarrow> u64 option) \<Rightarrow> u8 list \<Rightarrow> u64" where
  "spk_sats m spk = (case m spk of None \<Rightarrow> 0 | Some v \<Rightarrow> v)"

definition bump_spk :: "u8 list \<Rightarrow> u64 \<Rightarrow> (u8 list \<Rightarrow> u64 option) \<Rightarrow> ('e, u8 list \<Rightarrow> u64 option) res" where
  "bump_spk spk v m = bind_res (add_sats v (spk_sats m spk)) (\<lambda>t. Inr (m(spk \<mapsto> t)))"

definition bump_utxo where
  "bump_utxo lapi u = (\<lambda>(received, unspent).
     bind_res (bump_spk (utxo_script lapi u) (utxo_value lapi u) received) (\<lambda>received'.
     bind_res (if \<not> cu_is_spent u then bump_spk (utxo_script lapi u) (utxo_value lapi u) unspent else Inr unspent)
       (\<lambda>unspent'. Inr (received', unspent'))))"

fun balances_by_spk where
  "balances_by_spk lapi [] acc = Inr acc"
| "balances_by_spk lapi (u # us) acc = bind_res (bump_utxo lapi u acc) (balances_by_spk lapi us)"

definition no_balances :: spk_balances where
  "no_balances = (\<lambda>_. None, \<lambda>_. None)"

fun balances_by_spk_per_asset where
  "balances_by_spk_per_asset lapi [] m = Inr m"
| "balances_by_spk_per_asset lapi (u # us) m =
     bind_res (btree_update (asset_str lapi (utxo_asset lapi u)) no_balances (bump_utxo lapi u) m)
       (balances_by_spk_per_asset lapi us)"

definition ordered_assets :: "(string \<times> 'v) list \<Rightarrow> string \<Rightarrow> string list" where
  "ordered_assets per_asset policy = policy # filter (\<lambda>k. k \<noteq> policy) (map fst per_asset)"

definition revealed_at where
  "revealed_at lapi wollet chain_kind bals i =
     bind_res (of_sum Descriptor (wollet_address lapi wollet chain_kind i)) (\<lambda>addr.
     let spk = addr_script lapi addr in
     Inr \<lparr>er_index = i, er_address = addr_str lapi addr,
          er_received = btc_of_sats (spk_sats (fst bals) spk), er_unspent = btc_of_sats (spk_sats (snd bals) spk)\<rparr>)"

definition derive_with_balances where
  "derive_with_balances lapi descriptor mbk net lwk count chain_kind bals =
     bind_res (of_sum Descriptor (wollet_from_descriptor lapi descriptor mbk net lwk)) (\<lambda>wollet.
     map_res (revealed_at lapi wollet chain_kind bals) (indices_below count))"

definition derive_addresses_for_descriptor where
  "derive_addresses_for_descriptor lapi c uw count chain_kind descriptor mbk =
     (if count = 0 then ret_st []
      else bind_st (store_query lapi (list_for_wallet c (uw_key uw))) (\<lambda>utxos.
        lift_st (bind_res (balances_by_spk lapi utxos no_balances) (\<lambda>bals.
          derive_with_balances lapi descriptor mbk (ue_network uw) (ue_lwk uw) count chain_kind bals))))"

definition derive_addresses where
  "derive_addresses lapi c uw count chain_kind =
     derive_addresses_for_descriptor lapi c uw count chain_kind (ue_descriptor uw) (ue_mbk uw)"

definition reveal_addresses where
  "reveal_addresses lapi c uw count = derive_addresses lapi c uw count External"

definition change_addresses where
  "change_addresses lapi c uw count = derive_addresses lapi c uw count Internal"

definition change_addresses_for_version where
  "change_addresses_for_version lapi c uw count descriptor =
     derive_addresses_for_descriptor lapi c uw count Internal descriptor (replicate 32 0)"

definition version_spec where
  "version_spec uw v = (nat (fv_version_index v), fv_wallet_handle v, fv_descriptor v,
     case Option.bind (fv_blinding_key v) parse_mbk_hex of Some k \<Rightarrow> k | None \<Rightarrow> ue_mbk uw)"

definition reveal_addresses_all_versions where
  "reveal_addresses_all_versions lapi c uw count =
     bind_st (db_query ElementsSqlx (list_federation_versions_for_elements_wallet (ue_wallet_id uw))) (\<lambda>versions.
     if versions = [] then
       bind_st (reveal_addresses lapi c uw count) (\<lambda>addrs. ret_st [(0, ue_daemon_wallet_name uw, addrs)])
     else
       bind_st (store_query lapi (list_for_wallet c (uw_key uw))) (\<lambda>utxos.
       lift_st (bind_res (balances_by_spk lapi utxos no_balances) (\<lambda>bals.
         map_res (\<lambda>(vidx, handle, desc, mbk).
           bind_res (derive_with_balances lapi desc mbk (ue_network uw) (ue_lwk uw) count External bals)
             (\<lambda>addrs. Inr (vidx, handle, addrs))) (map (version_spec uw) versions)))))"

subsection \<open>Per asset\<close>

record asset_address_group =
  ag_asset_id :: string
  ag_is_policy :: bool
  ag_addresses :: "elements_revealed_address list"
  ag_change_addresses :: "elements_revealed_address list"

record version_asset_group =
  vg_version_index :: nat
  vg_wallet_handle :: string
  vg_assets :: "asset_address_group list"

definition balances_of_asset :: "(string \<times> spk_balances) list \<Rightarrow> string \<Rightarrow> spk_balances" where
  "balances_of_asset per_asset asset = (case map_of per_asset asset of None \<Rightarrow> no_balances | Some b \<Rightarrow> b)"

definition asset_groups where
  "asset_groups lapi uw count chain_kind per_asset desc mbk =
     (let policy = asset_str lapi (lwk_policy_asset lapi (ue_lwk uw)) in
      map_res (\<lambda>asset.
        bind_res (derive_with_balances lapi desc mbk (ue_network uw) (ue_lwk uw) count chain_kind
          (balances_of_asset per_asset asset)) (\<lambda>addrs.
        Inr \<lparr>ag_asset_id = asset, ag_is_policy = (asset = policy), ag_addresses = addrs, ag_change_addresses = []\<rparr>))
        (ordered_assets per_asset policy))"

definition reveal_addresses_all_versions_by_asset where
  "reveal_addresses_all_versions_by_asset lapi c uw count =
     bind_st (db_query ElementsSqlx (list_federation_versions_for_elements_wallet (ue_wallet_id uw))) (\<lambda>versions.
     let specs = (if versions = [] then [(0, ue_daemon_wallet_name uw, ue_descriptor uw, ue_mbk uw)]
                  else map (version_spec uw) versions) in
     bind_st (store_query lapi (list_for_wallet c (uw_key uw))) (\<lambda>utxos.
     lift_st (bind_res (balances_by_spk_per_asset lapi utxos []) (\<lambda>per_asset.
       map_res (\<lambda>(vidx, handle, desc, mbk).
         bind_res (asset_groups lapi uw count External per_asset desc mbk) (\<lambda>assets.
         Inr \<lparr>vg_version_index = vidx, vg_wallet_handle = handle, vg_assets = assets\<rparr>)) specs))))"

definition change_addresses_by_asset where
  "change_addresses_by_asset lapi c uw count descriptor =
     bind_st (store_query lapi (list_for_wallet c (uw_key uw))) (\<lambda>utxos.
     lift_st (bind_res (balances_by_spk_per_asset lapi utxos []) (\<lambda>per_asset.
       asset_groups lapi uw count Internal per_asset descriptor (replicate 32 0))))"

section \<open>Histories\<close>

record 'txid elements_receipt =
  re_txid :: 'txid
  re_vout :: u32
  re_amount :: f64
  re_confirmations :: u32
  re_is_spent :: bool

record 'txid elements_activity =
  ea_tip_height :: u64
  ea_total_received :: f64
  ea_unspent :: f64
  ea_receipts :: "'txid elements_receipt list"

record 'txid asset_activity =
  xa_asset_id :: string
  xa_is_policy :: bool
  xa_received :: f64
  xa_unspent :: f64
  xa_receipts :: "'txid elements_receipt list"

definition parse_recipient where
  "parse_recipient lapi address =
     of_sum (BadAddress address) (addr_from_str lapi address)"

definition elements_receipt_of where
  "elements_receipt_of lapi tip u =
     \<lparr>re_txid = cu_txid u, re_vout = cu_vout u, re_amount = btc_of_sats (utxo_value lapi u),
      re_confirmations = saturating_add (saturating_sub tip (cu_height u)) 1, re_is_spent = cu_is_spent u\<rparr>"

definition record_utxo where
  "record_utxo lapi tip u = (\<lambda>(received, unspent, receipts).
     bind_res (add_sats (utxo_value lapi u) received) (\<lambda>received'.
     bind_res (if \<not> cu_is_spent u then add_sats (utxo_value lapi u) unspent else Inr unspent) (\<lambda>unspent'.
     Inr (received', unspent', receipts @ [elements_receipt_of lapi tip u]))))"

fun record_utxos where
  "record_utxos lapi tip [] acc = Inr acc"
| "record_utxos lapi tip (u # us) acc = bind_res (record_utxo lapi tip u acc) (record_utxos lapi tip us)"

fun record_by_asset where
  "record_by_asset lapi tip [] m = Inr m"
| "record_by_asset lapi tip (u # us) m =
     bind_res (btree_update (asset_str lapi (utxo_asset lapi u)) (0, 0, []) (record_utxo lapi tip u) m)
       (record_by_asset lapi tip us)"

definition clamped_tip :: "u64 \<Rightarrow> u32" where
  "clamped_tip h = (if uint h < 2 ^ 32 then ucast h else - 1)"

definition utxos_at where
  "utxos_at lapi spk utxos = filter (\<lambda>u. utxo_script lapi u = spk) utxos"

definition address_history where
  "address_history lapi c uw address =
     bind_st (lift_st (parse_recipient lapi address)) (\<lambda>addr.
     bind_st (tip_height lapi uw) (\<lambda>h.
     bind_st (store_query lapi (list_for_wallet c (uw_key uw))) (\<lambda>utxos.
     lift_st (bind_res (record_utxos lapi (clamped_tip h) (utxos_at lapi (addr_script lapi addr) utxos) (0, 0, []))
       (\<lambda>(received, unspent, receipts).
        Inr \<lparr>ea_tip_height = ucast (clamped_tip h), ea_total_received = btc_of_sats received,
             ea_unspent = btc_of_sats unspent, ea_receipts = receipts\<rparr>)))))"

definition activity_of where
  "activity_of policy asset = (\<lambda>(received, unspent, receipts).
     \<lparr>xa_asset_id = asset, xa_is_policy = (asset = policy), xa_received = btc_of_sats received,
      xa_unspent = btc_of_sats unspent, xa_receipts = receipts\<rparr>)"

definition address_history_by_asset where
  "address_history_by_asset lapi c uw address =
     bind_st (lift_st (parse_recipient lapi address)) (\<lambda>addr.
     bind_st (tip_height lapi uw) (\<lambda>h.
     bind_st (store_query lapi (list_for_wallet c (uw_key uw))) (\<lambda>utxos.
     let policy = asset_str lapi (lwk_policy_asset lapi (ue_lwk uw)) in
     lift_st (bind_res (record_by_asset lapi (clamped_tip h) (utxos_at lapi (addr_script lapi addr) utxos) []) (\<lambda>by_asset.
        let order = (if policy \<in> fst ` set by_asset then [policy] else []) @ filter (\<lambda>k. k \<noteq> policy) (map fst by_asset) in
        Inr (map (\<lambda>asset. activity_of policy asset (the (map_of by_asset asset))) order))))))"

section \<open>Sends and sweeps\<close>

record elements_broadcast =
  eb_txid :: string
  eb_recipient :: string
  eb_amount_sat :: int
  eb_fee_sat :: int

text \<open>What every pipeline starts with: the wallet's view of its descriptor and what it can spend.\<close>

definition spendable where
  "spendable lapi c uw empty_message =
     bind_st (lift_st (of_sum Descriptor (wollet_from_descriptor lapi (ue_descriptor uw) (ue_mbk uw) (ue_network uw) (ue_lwk uw))))
       (\<lambda>wollet.
     bind_st (captured_utxos lapi c uw) (\<lambda>utxos.
     if utxos = [] then lift_st (throw_res (BuildPset empty_message)) else ret_st (wollet, utxos)))"

definition sign_with :: "('pset \<times> 'w, string, nat) st \<Rightarrow> 'pset \<Rightarrow> ('w host, elements_wallet_error, 'pset) st" where
  "sign_with signer pset = (\<lambda>h. case signer (pset, h_world h) of (r, p, w) \<Rightarrow>
     (bind_res (map_err SignPset r) (\<lambda>_. Inr p), h\<lparr>h_world := w\<rparr>))"

fun sign_with_all where
  "sign_with_all lapi [] pset = ret_st pset"
| "sign_with_all lapi (s # ss) pset = bind_st (sign_with (sign_pset lapi s) pset) (sign_with_all lapi ss)"

definition explicit_fee :: "(u8 list \<times> u64 option) list \<Rightarrow> u64 option" where
  "explicit_fee outs = Option.bind (find (\<lambda>out. fst out = []) outs) snd"

definition fee_as_i64 :: "u64 option \<Rightarrow> int" where
  "fee_as_i64 v = (case v of None \<Rightarrow> 0 | Some v \<Rightarrow> if uint v \<le> i64_max then uint v else 0)"

definition elements_backend_broadcast where
  "elements_backend_broadcast lapi c uw tx = outside id (broadcast_via_backend lapi c (ue_backend uw)
     (ue_electrum_url uw) (ue_esplora_url uw) (ue_esplora_auth uw) (ue_lwk uw) (ue_rpc uw) tx)"

text \<open>From the PSET to the broadcast transaction: its id, its fee and its hex.\<close>

definition finish_pset where
  "finish_pset lapi c uw pset =
     bind_st (sign_with_all lapi (ue_signers uw) pset) (\<lambda>signed.
     bind_st (lift_st (of_sum FinalizePset (finalize_p2wsh_pset lapi signed))) (\<lambda>final.
     bind_st (lift_st (of_sum FinalizePset (extract_tx lapi final))) (\<lambda>tx.
     bind_st (elements_backend_broadcast lapi c uw tx) (\<lambda>txid.
     ret_st (txid_str c txid, fee_as_i64 (explicit_fee (tx_outputs lapi tx)), serialize_hex lapi tx)))))"

definition record_elements_send where
  "record_elements_send uw recipient amount_sat label = (\<lambda>(txid, fee_sat, raw_hex).
     bind_st (db_insert ElementsSqlx (\<lambda>new_id now. insert_elements_transaction new_id now
       \<lparr>net_wallet_id = ue_wallet_id uw, net_txid = txid, net_recipient = recipient, net_amount_sat = amount_sat,
        net_fee_sat = fee_sat, net_raw_tx_hex = raw_hex, net_label = label\<rparr>)) (\<lambda>_.
     ret_st \<lparr>eb_txid = txid, eb_recipient = recipient, eb_amount_sat = amount_sat, eb_fee_sat = fee_sat\<rparr>))"

definition build_sign_and_broadcast where
  "build_sign_and_broadcast lapi c uw recipient amount_btc fee_rate label =
     bind_st (spendable lapi c uw ''no spendable UTXOs'') (\<lambda>(wollet, utxos).
     bind_st (lift_st (parse_recipient lapi recipient)) (\<lambda>addr.
     bind_st (outside BuildPset (build_spend_pset lapi wollet utxos addr
       (f64_as_u64 (scaled_amount amount_btc)) (fee_rate_kvb fee_rate))) (\<lambda>pset.
     bind_st (finish_pset lapi c uw pset) (\<lambda>sent.
     record_elements_send uw recipient (f64_as_i64 (scaled_amount amount_btc)) label sent))))"

definition parse_asset where
  "parse_asset lapi asset_id = of_sum (\<lambda>e. BuildPset (''bad asset id: '' @ e)) (asset_from_str lapi asset_id)"

definition build_sign_and_broadcast_asset where
  "build_sign_and_broadcast_asset lapi c uw recipient asset_id amount fee_rate label =
     bind_st (spendable lapi c uw ''no spendable UTXOs'') (\<lambda>(wollet, utxos).
     bind_st (lift_st (parse_recipient lapi recipient)) (\<lambda>addr.
     bind_st (lift_st (parse_asset lapi asset_id)) (\<lambda>asset.
     bind_st (outside BuildPset (build_asset_spend_pset lapi wollet utxos addr asset
       (f64_as_u64 (scaled_amount amount)) (fee_rate_kvb fee_rate))) (\<lambda>pset.
     bind_st (finish_pset lapi c uw pset) (\<lambda>sent.
     record_elements_send uw recipient (f64_as_i64 (scaled_amount amount)) label sent)))))"

definition asset_total where
  "asset_total lapi asset utxos = sum_sats (map (utxo_value lapi) (filter (\<lambda>u. utxo_asset lapi u = asset) utxos))"

definition asset_total_sat where
  "asset_total_sat lapi c uw asset_id =
     bind_st (lift_st (parse_asset lapi asset_id)) (\<lambda>asset.
     bind_st (captured_utxos lapi c uw) (\<lambda>utxos. lift_st (asset_total lapi asset utxos)))"

definition u64_to_i64_or :: "int \<Rightarrow> u64 \<Rightarrow> int" where
  "u64_to_i64_or dflt v = (if uint v \<le> i64_max then uint v else dflt)"

definition build_sign_and_broadcast_asset_max where
  "build_sign_and_broadcast_asset_max lapi c uw recipient asset_id fee_rate label =
     bind_st (spendable lapi c uw ''no spendable UTXOs'') (\<lambda>(wollet, utxos).
     bind_st (lift_st (parse_recipient lapi recipient)) (\<lambda>addr.
     bind_st (lift_st (parse_asset lapi asset_id)) (\<lambda>asset.
     bind_st (lift_st (asset_total lapi asset utxos)) (\<lambda>total.
     if total = 0 then lift_st (throw_res (BuildPset ''wallet holds none of that asset''))
     else
     bind_st (outside BuildPset (build_asset_spend_pset lapi wollet utxos addr asset total (fee_rate_kvb fee_rate))) (\<lambda>pset.
     bind_st (finish_pset lapi c uw pset) (\<lambda>sent.
     record_elements_send uw recipient (u64_to_i64_or i64_max total) label sent))))))"

text \<open>The sweep's total is taken over the captured outputs of every asset.\<close>

definition sweep_total where
  "sweep_total lapi utxos = sum_sats (map (utxo_value lapi) utxos)"

definition compute_drain_amount where
  "compute_drain_amount lapi c uw recipient fee_rate =
     bind_st (spendable lapi c uw ''no balance to sweep'') (\<lambda>(wollet, utxos).
     bind_st (lift_st (sweep_total lapi utxos)) (\<lambda>total.
     bind_st (lift_st (parse_recipient lapi recipient)) (\<lambda>addr.
     bind_st (outside BuildPset (build_sweep_pset lapi wollet utxos addr (fee_rate_kvb fee_rate))) (\<lambda>pset.
     ret_st (saturating_sub total (case explicit_fee (pset_out_amounts lapi pset) of None \<Rightarrow> 0 | Some f \<Rightarrow> f))))))"

definition sweep_to where
  "sweep_to lapi c uw recipient fee_rate label =
     bind_st (spendable lapi c uw ''no balance to sweep'') (\<lambda>(wollet, utxos).
     bind_st (lift_st (sweep_total lapi utxos)) (\<lambda>total.
     bind_st (lift_st (parse_recipient lapi recipient)) (\<lambda>addr.
     bind_st (outside BuildPset (build_sweep_pset lapi wollet utxos addr (fee_rate_kvb fee_rate))) (\<lambda>pset.
     bind_st (finish_pset lapi c uw pset) (\<lambda>sent.
     record_elements_send uw recipient (u64_to_i64_or 0 total - fst (snd sent)) label sent)))))"

section \<open>Signing for a migration\<close>

text \<open>A signer that fails is skipped, and the PSET keeps what it did to it.\<close>

fun try_signers :: "('pset \<times> 'w, string, nat) st list \<Rightarrow> 'pset \<times> 'w \<Rightarrow> 'pset \<times> 'w" where
  "try_signers [] s = s"
| "try_signers (signer # ss) s = try_signers ss (snd (signer s))"

definition sign_pset_with_signers where
  "sign_pset_with_signers lapi uw s = try_signers (map (sign_pset lapi) (ue_signers uw)) s"


definition sign_migration_pset_inputs ::
    "('rest psbt_input list \<times> 'w, string, nat) st list \<Rightarrow> nat list \<Rightarrow> ('rest psbt_input list \<times> 'w, 'e, unit) st" where
  "sign_migration_pset_inputs signers input_indices = (\<lambda>(inputs, w).
     let saved = saved_derivations input_indices inputs in
     case try_signers signers (hide_others input_indices inputs, w) of (mid, w') \<Rightarrow>
     (case restore_derivations saved mid of (r, out) \<Rightarrow> (r, (out, w'))))"

section \<open>Facts about the balances\<close>

lemma btree_update_map_of:
  assumes "sorted (map fst m)" and "distinct (map fst m)" and "(btree_update k d f m :: ('e, _) res) = Inr m'"
  shows "sorted (map fst m') \<and> distinct (map fst m') \<and> fst ` set m' = insert k (fst ` set m)
    \<and> (\<exists>v. f (case map_of m k of None \<Rightarrow> d | Some w \<Rightarrow> w) = Inr v \<and> (\<forall>b. map_of m' b = (if b = k then Some v else map_of m b)))"
  using assms
proof (induction m arbitrary: m')
  case Nil
  then show ?case by (auto simp: bind_res_Inr_iff)
next
  case (Cons p m)
  obtain j w where p: "p = (j, w)" by (cases p)
  consider "k < j" | "k = j" | "j < k" by (rule linorder_less_linear [of k j, THEN disjE]) auto
  then show ?case
  proof cases
    case 1
    with Cons.prems p have "\<forall>x \<in> fst ` set (p # m). k < x" by auto
    then have none: "map_of (p # m) k = None" by (auto simp: map_of_eq_None_iff simp del: map_of.simps)
    obtain v where v: "f d = Inr v" "m' = (k, v) # p # m"
      using Cons.prems(3) 1 p by (auto simp: bind_res_Inr_iff)
    with none Cons.prems(1,2) \<open>\<forall>x \<in> fst ` set (p # m). k < x\<close> show ?thesis by (auto simp del: map_of.simps simp: map_of.simps(2) [of "(k, v)"])
  next
    case 2
    with Cons.prems p show ?thesis by (auto simp: bind_res_Inr_iff)
  next
    case 3
    then have nk: "\<not> k < j" "k \<noteq> j" by auto
    obtain m'' where m'': "(btree_update k d f m :: ('e, _) res) = Inr m''" "m' = (j, w) # m''"
      using Cons.prems(3) nk p by (auto simp: bind_res_Inr_iff)
    have "sorted (map fst m)" "distinct (map fst m)" using Cons.prems(1,2) p by auto
    from Cons.IH [OF this m''(1)] obtain v where ih: "sorted (map fst m'')" "distinct (map fst m'')"
      "fst ` set m'' = insert k (fst ` set m)" "f (case map_of m k of None \<Rightarrow> d | Some w \<Rightarrow> w) = Inr v"
      "\<And>b. map_of m'' b = (if b = k then Some v else map_of m b)" by blast
    have "\<forall>x \<in> fst ` set m. j \<le> x \<and> j \<noteq> x" using Cons.prems(1,2) p by auto
    then have "\<forall>x \<in> fst ` set m''. j \<le> x \<and> j \<noteq> x" using ih(3) 3 by auto
    then have "sorted (map fst m')" "distinct (map fst m')" using ih(1,2) m''(2) by auto
    moreover have "fst ` set m' = insert k (fst ` set (p # m))" using ih(3) m''(2) p by auto
    moreover have "f (case map_of (p # m) k of None \<Rightarrow> d | Some w \<Rightarrow> w) = Inr v" using ih(4) nk(2) p by simp
    moreover have "map_of m' b = (if b = k then Some v else map_of (p # m) b)" for b
      using ih(5) nk(2) m''(2) p by simp
    ultimately show ?thesis by blast
  qed
qed

text \<open>What an association list holds for a key, and what the outputs of an asset add up to.\<close>

definition held :: "(string \<times> u64) list \<Rightarrow> string \<Rightarrow> nat" where
  "held m k = (case map_of m k of None \<Rightarrow> 0 | Some v \<Rightarrow> unat v)"

definition asset_id_of where
  "asset_id_of lapi u = asset_str lapi (utxo_asset lapi u)"

definition sats_of where
  "sats_of lapi k us = (\<Sum>u\<leftarrow>filter (\<lambda>u. asset_id_of lapi u = k) us. unat (utxo_value lapi u))"

lemma add_sats_Inr: "add_sats v t = Inr r \<longleftrightarrow> unat r = unat t + unat v"
  by (auto simp: add_sats_def checked_add_Some_iff or_panic_Inr_iff)

lemma sum_sats_Inr: "sum_sats vs = Inr s \<longleftrightarrow> unat s = sum_list (map unat vs)"
  by (simp add: sum_sats_def or_panic_Inr_iff checked_sum_Some_iff)

lemma sats_by_asset_facts:
  assumes "sorted (map fst m)" and "distinct (map fst m)" and "(sats_by_asset lapi us m :: ('e, _) res) = Inr m'"
  shows "sorted (map fst m') \<and> distinct (map fst m') \<and> fst ` set m' = fst ` set m \<union> asset_id_of lapi ` set us
    \<and> (\<forall>k. held m' k = held m k + sats_of lapi k us)"
  using assms
proof (induction us arbitrary: m)
  case Nil
  then show ?case by (simp add: sats_of_def)
next
  case (Cons u us)
  let ?k = "asset_id_of lapi u"
  obtain m1 where m1: "(btree_update ?k 0 (add_sats (utxo_value lapi u)) m :: ('e, _) res) = Inr m1"
    and rest: "(sats_by_asset lapi us m1 :: ('e, _) res) = Inr m'"
    using Cons.prems(3) by (auto simp: bind_res_Inr_iff asset_id_of_def)
  from btree_update_map_of [OF Cons.prems(1,2) m1] obtain v where
    keys: "sorted (map fst m1)" "distinct (map fst m1)" "fst ` set m1 = insert ?k (fst ` set m)"
    and v: "(add_sats (utxo_value lapi u) (case map_of m ?k of None \<Rightarrow> 0 | Some w \<Rightarrow> w) :: ('e, _) res) = Inr v"
    and vals: "\<And>b. map_of m1 b = (if b = ?k then Some v else map_of m b)" by blast
  have "held m1 b = held m b + (if b = ?k then unat (utxo_value lapi u) else 0)" for b
    using v vals [of b] by (auto simp: held_def add_sats_Inr split: option.splits)
  with Cons.IH [OF keys(1,2) rest] keys(3) show ?case by (auto simp: sats_of_def)
qed

lemma captured_utxos_host: "captured_utxos lapi c uw h = (r, h') \<Longrightarrow> h' = h"
  by (auto simp: captured_utxos_def store_query_def list_unspent_def bind_st_def read_st_def split: prod.splits)

lemma sats_of_policy:
  assumes "inj (asset_str lapi)"
  shows "sats_of lapi (asset_str lapi a) us
    = (\<Sum>u\<leftarrow>filter (\<lambda>u. utxo_asset lapi u = a) us. unat (utxo_value lapi u))"
  using assms by (simp add: sats_of_def asset_id_of_def inj_eq)

end
