(* ===== verification/ElementsLoad.thy ===== *)
theory ElementsLoad
  imports ElementsSpend
begin

text \<open>
  Facts about the Elements manager and the wallets it loads: what a load settles on, the cache, what
  sends leave in the database, and small instances of the libraries to evaluate the properties on.
\<close>

section \<open>Loading\<close>

lemma on_app_Inr_iff: "on_app m s = (Inr a, t) \<longleftrightarrow> (\<exists>b. m (es_app s) = (Inr a, b) \<and> t = s\<lparr>es_app := b\<rparr>)"
  by (auto simp: on_app_def split: prod.splits)

definition es_db :: "('sig, 'uw, 'euw, 'lwk, 'w) elements_state \<Rightarrow> database" where
  "es_db s = h_db (ap_host (es_app s))"

text \<open>What resolving the network leaves as it was.\<close>

definition besides_world where
  "besides_world s t \<longleftrightarrow> es_db t = es_db s \<and> ap_signers (es_app t) = ap_signers (es_app s)
     \<and> ap_elements (es_app t) = ap_elements (es_app s)"

lemma lwk_network_run:
  assumes "lwk_network lapi c m s = (Inr n, s')"
  shows "es_lwk s' = Some n \<and> besides_world s s'"
  using assms
  by (auto simp: lwk_network_def besides_world_def es_db_def on_app_Inr_iff on_host_Inr_iff outside_def
      elim!: bind_st_InrE split: option.splits if_splits prod.splits)

lemma lwk_network_hit: "es_lwk s = Some n \<Longrightarrow> lwk_network lapi c m s = (Inr n, s)"
  by (simp add: lwk_network_def)

text \<open>A load when versions are recorded, stage by stage.\<close>

lemma elements_build_stages:
  assumes "build_user_wallet papi lapi c m u row s = (Inr uw, s')"
    and "list_federation_versions_for_elements_wallet (ew_id row) (es_db s) = (Inr (vs @ [latest]), es_db s)"
  obtains path signers a1 n s2 descriptor mbk drifted where
    "derivation_path_for lapi m (to_u32_or 0 (ew_account_idx row)) = Inr path"
    "on_hsm ElementsHsm (signers_for papi (em_fleet m) u path) (es_app s) = (Inr signers, a1)"
    "lwk_network lapi c m (s\<lparr>es_app := a1\<rparr>) = (Inr n, s2)"
    "elements_binding lapi u row (vs @ [latest]) = (descriptor, mbk, drifted)"
    "ue_descriptor uw = descriptor" "ue_mbk uw = mbk"
    "s' = (if drifted then s2\<lparr>es_app := (es_app s2)\<lparr>ap_host := (ap_host (es_app s2))\<lparr>h_db :=
        snd (update_elements_wallet_descriptor (ew_id row) descriptor (healed_blinding_hex row (vs @ [latest])) (es_db s))\<rparr>\<rparr>\<rparr>
      else s2)"
proof -
  from assms(1) obtain path signers a1 n s2 t versions where
    path: "derivation_path_for lapi m (to_u32_or 0 (ew_account_idx row)) = Inr path" and
    hsm: "on_hsm ElementsHsm (signers_for papi (em_fleet m) u path) (es_app s) = (Inr signers, a1)" and
    lwk: "lwk_network lapi c m (s\<lparr>es_app := a1\<rparr>) = (Inr n, s2)" and
    vers: "on_app (on_host (db_query ElementsSqlx (list_federation_versions_for_elements_wallet (ew_id row)))) s2 = (Inr versions, t)"
    unfolding build_user_wallet_def by (auto simp: on_app_Inr_iff elim!: bind_st_InrE)
  have db: "es_db s2 = es_db s"
    using lwk_network_run [OF lwk] on_hsm_caches [OF hsm] by (simp add: besides_world_def es_db_def)
  have versions: "versions = vs @ [latest]" "t = s2"
    using vers assms(2) db
    by (auto simp: on_app_Inr_iff on_host_Inr_iff db_query_Inr_iff es_db_def list_federation_versions_for_elements_wallet_def)
  obtain descriptor mbk drifted where b: "elements_binding lapi u row (vs @ [latest]) = (descriptor, mbk, drifted)"
    by (metis prod_cases3)
  let ?upd = "snd (update_elements_wallet_descriptor (ew_id row) descriptor (healed_blinding_hex row (vs @ [latest])) (es_db s))"
  have "ue_descriptor uw = descriptor \<and> ue_mbk uw = mbk \<and> s' = (if drifted then s2\<lparr>es_app := (es_app s2)\<lparr>ap_host :=
      (ap_host (es_app s2))\<lparr>h_db := ?upd\<rparr>\<rparr>\<rparr> else s2)"
    using assms(1) path hsm lwk vers versions b db
    by (auto simp: build_user_wallet_def bind_st_def on_app_def on_host_def db_query_def ignore_err_def es_db_def
        update_elements_wallet_descriptor_def split: if_splits)
  with path hsm lwk b show thesis by (intro that) auto
qed

text \<open>The row a load leaves, and the load that follows.\<close>

lemma update_row_map:
  assumes "db_inv d" and "row \<in> set (elements_wallets d)"
  shows "update_where (\<lambda>w. ew_id w = ew_id row) f (elements_wallets d) = map (\<lambda>r. if r = row then f row else r) (elements_wallets d)"
proof -
  have "ew_id r = ew_id row \<longleftrightarrow> r = row" if "r \<in> set (elements_wallets d)" for r
    using assms that by (auto simp: db_inv_def elements_wallets_ok_def distinct_map dest: inj_onD)
  then show ?thesis by (auto simp: update_where_def)
qed

lemma elements_binding_last:
  "elements_binding lapi u row (vs @ [latest]) =
     (if fv_descriptor latest \<noteq> ew_descriptor row
      then (fv_descriptor latest, (case Option.bind (fv_blinding_key latest) parse_mbk_hex of
              Some k \<Rightarrow> k | None \<Rightarrow> derive_master_blinding_key lapi u (ew_account_idx row)), True)
      else (fv_descriptor latest, derive_master_blinding_key lapi u (ew_account_idx row), False))"
  by (simp add: elements_binding_def Let_def)

lemma elements_reload:
  assumes "derivation_path_for lapi m (to_u32_or 0 (ew_account_idx row')) = Inr path"
    and "ap_signers (es_app s) u = Some signers" and "es_lwk s = Some n"
    and "list_federation_versions_for_elements_wallet (ew_id row') (es_db s) = (Inr (vs @ [latest]), es_db s)"
    and "ew_descriptor row' = fv_descriptor latest"
  shows "\<exists>uw. build_user_wallet papi lapi c m u row' s = (Inr uw, s) \<and> ue_descriptor uw = fv_descriptor latest
    \<and> ue_mbk uw = derive_master_blinding_key lapi u (ew_account_idx row')"
  using assms
  by (simp add: build_user_wallet_def bind_st_def on_app_def on_hsm_def signers_for_hit lwk_network_hit on_host_def
      db_query_def es_db_def elements_binding_last)

text \<open>C24. A load adopts the descriptor of the latest federation version and leaves it in the wallet's
  row, the other rows alone; loading again gives that descriptor and changes nothing. The blinding
  key does not survive: a first load that finds the row outdated uses the version's key, every
  later one derives the original key again.\<close>

theorem elements_load_adopts_latest:
  assumes load: "build_user_wallet papi lapi c m u row s = (Inr uw, s')"
    and versions: "list_federation_versions_for_elements_wallet (ew_id row) (es_db s) = (Inr (vs @ [latest]), es_db s)"
    and inv: "db_inv (es_db s)" and row: "row \<in> set (elements_wallets (es_db s))"
  shows "ue_descriptor uw = fv_descriptor latest
    \<and> (ew_descriptor row \<noteq> fv_descriptor latest \<and> Option.bind (fv_blinding_key latest) parse_mbk_hex = Some k
         \<longrightarrow> ue_mbk uw = k)
    \<and> (\<exists>row' uw'. elements_wallets (es_db s') = map (\<lambda>r. if r = row then row' else r) (elements_wallets (es_db s))
         \<and> ew_descriptor row' = fv_descriptor latest
         \<and> build_user_wallet papi lapi c m u row' s' = (Inr uw', s')
         \<and> ue_descriptor uw' = fv_descriptor latest
         \<and> ue_mbk uw' = derive_master_blinding_key lapi u (ew_account_idx row))"
  using load versions
proof (rule elements_build_stages)
  fix path signers a1 n s2 descriptor mbk drifted
  assume path: "derivation_path_for lapi m (to_u32_or 0 (ew_account_idx row)) = Inr path"
    and hsm: "on_hsm ElementsHsm (signers_for papi (em_fleet m) u path) (es_app s) = (Inr signers, a1)"
    and lwk: "lwk_network lapi c m (s\<lparr>es_app := a1\<rparr>) = (Inr n, s2)"
    and bind: "elements_binding lapi u row (vs @ [latest]) = (descriptor, mbk, drifted)"
    and uw: "ue_descriptor uw = descriptor" "ue_mbk uw = mbk"
    and s': "s' = (if drifted then s2\<lparr>es_app := (es_app s2)\<lparr>ap_host := (ap_host (es_app s2))\<lparr>h_db :=
        snd (update_elements_wallet_descriptor (ew_id row) descriptor (healed_blinding_hex row (vs @ [latest])) (es_db s))\<rparr>\<rparr>\<rparr>
      else s2)"
  let ?row = "if drifted then row\<lparr>ew_descriptor := descriptor,
      ew_master_blinding_key := healed_blinding_hex row (vs @ [latest])\<rparr> else row"
  have cached: "ap_signers a1 u = Some signers"
    using hsm hsm_cache.stored by (fastforce simp: on_hsm_def split: prod.splits)
  have s2: "es_lwk s2 = Some n" "es_db s2 = es_db s" "ap_signers (es_app s2) u = Some signers"
    using lwk_network_run [OF lwk] on_hsm_caches [OF hsm] cached by (auto simp: besides_world_def es_db_def)
  have d: "descriptor = fv_descriptor latest" "drifted \<longleftrightarrow> fv_descriptor latest \<noteq> ew_descriptor row"
    "drifted \<Longrightarrow> mbk = (case Option.bind (fv_blinding_key latest) parse_mbk_hex of
        Some k \<Rightarrow> k | None \<Rightarrow> derive_master_blinding_key lapi u (ew_account_idx row))"
    using bind by (auto simp: elements_binding_last split: if_splits)
  have db': "elements_wallets (es_db s') = map (\<lambda>r. if r = row then ?row else r) (elements_wallets (es_db s))"
    using update_row_map [OF inv row] by (simp add: s' s2(2) es_db_def [of "s2\<lparr>es_app := _\<rparr>"]
        update_elements_wallet_descriptor_def map_idI)
  have again: "list_federation_versions_for_elements_wallet (ew_id ?row) (es_db s') = (Inr (vs @ [latest]), es_db s')"
    using versions s2(2) by (simp add: s' es_db_def list_federation_versions_for_elements_wallet_def
        update_elements_wallet_descriptor_def)
  have "es_lwk s' = Some n" and "ap_signers (es_app s') u = Some signers" using s2 by (simp_all add: s')
  have idx: "ew_account_idx ?row = ew_account_idx row" and desc: "ew_descriptor ?row = fv_descriptor latest"
    using d by simp_all
  have "derivation_path_for lapi m (to_u32_or 0 (ew_account_idx ?row)) = Inr path" using path unfolding idx .
  from elements_reload [OF this \<open>ap_signers (es_app s') u = Some signers\<close> \<open>es_lwk s' = Some n\<close> again desc]
  obtain uw' where "build_user_wallet papi lapi c m u ?row s' = (Inr uw', s')" "ue_descriptor uw' = fv_descriptor latest"
    "ue_mbk uw' = derive_master_blinding_key lapi u (ew_account_idx row)" unfolding idx by blast
  with desc db' have "\<exists>row' uw'. elements_wallets (es_db s') = map (\<lambda>r. if r = row then row' else r) (elements_wallets (es_db s))
         \<and> ew_descriptor row' = fv_descriptor latest
         \<and> build_user_wallet papi lapi c m u row' s' = (Inr uw', s')
         \<and> ue_descriptor uw' = fv_descriptor latest
         \<and> ue_mbk uw' = derive_master_blinding_key lapi u (ew_account_idx row)" by blast
  then show ?thesis using uw d by auto
qed

section \<open>One Elements wallet per user\<close>

definition es_kept where
  "es_kept s = (\<lambda>t. caches_kept (es_app s) (es_app t))"

lemma es_kept_refl [simp]: "es_kept s s"
  by (simp add: es_kept_def)

lemma on_app_es_kept [pres_intros]: "preserves (caches_kept (es_app s)) m \<Longrightarrow> preserves (es_kept s) (on_app m)"
  by (auto simp: preserves_def es_kept_def on_app_def split: prod.splits)

lemma write_lwk_kept [pres_intros]: "preserves (es_kept s) (write_st (\<lambda>s. s\<lparr>es_lwk := Some n\<rparr>))"
  by (simp add: preserves_def es_kept_def write_st_def)

lemma elements_create_kept [pres_intros]:
  "preserves (caches_kept a) (create_wallet_for_user papi lapi m u)"
  unfolding create_wallet_for_user_def create_wallet_for_user_at_def Let_def by (intro pres_intros)

lemma lwk_network_kept [pres_intros]: "preserves (es_kept s) (lwk_network lapi c m)"
  unfolding lwk_network_def by (intro pres_intros)

lemma elements_build_kept [pres_intros]: "preserves (es_kept s) (build_user_wallet papi lapi c m u row)"
  unfolding build_user_wallet_def case_prod_unfold by (intro pres_intros)

definition elements_load_missing where
  "elements_load_missing papi lapi c m user_id =
     bind_st (on_app (on_host (db_query ElementsSqlx (find_elements_wallet_for_user user_id)))) (\<lambda>found.
     bind_st (case found of Some r \<Rightarrow> ret_st r | None \<Rightarrow> on_app (create_wallet_for_user papi lapi m user_id)) (\<lambda>row.
     build_user_wallet papi lapi c m user_id row))"

lemma elements_load_missing_kept: "preserves (es_kept s) (elements_load_missing papi lapi c m u)"
  unfolding elements_load_missing_def by (intro pres_intros)

lemma elements_load_hit:
  "ap_elements (es_app s) u = Some uw \<Longrightarrow> load_or_init papi lapi c m u s = (Inr uw, s)"
  by (simp add: load_or_init_def)

lemma elements_load_caches:
  assumes "load_or_init papi lapi c m u s = (r, t)"
  shows "case r of Inl _ \<Rightarrow> ap_elements (es_app t) = ap_elements (es_app s)
    | Inr uw \<Rightarrow> ap_elements (es_app t) = (ap_elements (es_app s))(u \<mapsto> uw)"
proof (cases "ap_elements (es_app s) u")
  case None
  have "load_or_init papi lapi c m u s
      = bind_st (elements_load_missing papi lapi c m u) (\<lambda>uw. on_app (wallet_or_insert u uw)) s"
    using None by (simp add: load_or_init_def elements_load_missing_def bind_st_assoc)
  moreover obtain q t' where run: "elements_load_missing papi lapi c m u s = (q, t')" by force
  moreover have "ap_elements (es_app t') = ap_elements (es_app s)"
    using preserves_run [OF run es_kept_refl elements_load_missing_kept] by (simp add: es_kept_def caches_kept_def)
  ultimately show ?thesis
    using assms None by (cases q) (auto simp: bind_st_def on_app_def wallet_or_insert_def)
next
  case (Some uw)
  with assms show ?thesis by (auto simp: elements_load_hit fun_upd_idem)
qed

interpretation elements_cache: build_cache "\<lambda>s. ap_elements (es_app s)" "\<lambda>u (_ :: unit). load_or_init papi lapi c m u"
  for papi lapi c m
  by unfold_locales (auto simp: elements_load_hit dest!: elements_load_caches split: sum.splits)

text \<open>After a first load every later one returns that wallet, whatever else was loaded.\<close>

lemma one_elements_wallet_per_user:
  "load_or_init papi lapi c m u s = (Inr uw, t) \<Longrightarrow>
   load_or_init papi lapi c m u (fold (\<lambda>(j, _ :: unit) a. snd (load_or_init papi lapi c m j a)) others t)
     = (Inr uw, fold (\<lambda>(j, _) a. snd (load_or_init papi lapi c m j a)) others t)"
  by (rule elements_cache.same_value_forever)

section \<open>What sends record\<close>

definition tx_rows :: "'w host \<Rightarrow> elements_transaction_row list" where
  "tx_rows h = elements_transactions (h_db h)"

definition sent_in where
  "sent_in uw b h \<longleftrightarrow> list_ex (\<lambda>t. et_wallet_id t = ue_wallet_id uw \<and> et_txid t = eb_txid b) (tx_rows h)
     \<and> 0 < eb_amount_sat b \<and> 0 \<le> eb_fee_sat b"

text \<open>A computation that records a send when it succeeds and leaves the rows alone when it fails.\<close>

definition sends_recorded where
  "sends_recorded uw m \<longleftrightarrow> (\<forall>h r h'. m h = (r, h') \<longrightarrow>
     (case r of Inl _ \<Rightarrow> tx_rows h' = tx_rows h | Inr b \<Rightarrow> sent_in uw b h'))"

definition keeps_rows where
  "keeps_rows m \<longleftrightarrow> (\<forall>ts. preserves (\<lambda>h. tx_rows h = ts) m)"

lemma keeps_rows_run: "keeps_rows m \<Longrightarrow> m h = (r, h') \<Longrightarrow> tx_rows h' = tx_rows h"
  by (auto simp: keeps_rows_def preserves_def) (metis snd_conv)

lemma keeps_rowsI: "(\<And>h. tx_rows (snd (m h)) = tx_rows h) \<Longrightarrow> keeps_rows m"
  by (simp add: keeps_rows_def preserves_def)

lemma keeps_rows_bind: "keeps_rows m \<Longrightarrow> (\<And>a. keeps_rows (f a)) \<Longrightarrow> keeps_rows (bind_st m f)"
  unfolding keeps_rows_def by (intro allI pres_intros) auto

lemma keeps_rows_basic: "keeps_rows (ret_st a)" "keeps_rows (lift_st r)" "keeps_rows (outside g (k :: ('w, 'd, 'a) st))"
  "keeps_rows (captured_utxos lapi c uw)" "keeps_rows (sign_with signer pset)"
  by (auto intro!: keeps_rowsI simp: ret_st_def lift_st_def outside_def tx_rows_def captured_utxos_def store_query_def
      list_unspent_def bind_st_def read_st_def sign_with_def split: prod.splits)

lemma keeps_rows_if: "keeps_rows m \<Longrightarrow> keeps_rows k \<Longrightarrow> keeps_rows (if b then m else k)"
  by simp

lemmas keeps_rows_intros = keeps_rows_bind keeps_rows_basic keeps_rows_if

lemma keeps_rows_spendable: "keeps_rows (spendable lapi c uw msg)"
  unfolding spendable_def by (intro keeps_rows_intros)

lemma keeps_rows_sign_all: "keeps_rows (sign_with_all lapi ss pset)"
  by (induction ss arbitrary: pset) (auto intro: keeps_rows_intros)

lemma keeps_rows_finish: "keeps_rows (finish_pset lapi c uw pset)"
  unfolding finish_pset_def elements_backend_broadcast_def by (intro keeps_rows_intros keeps_rows_sign_all)

lemma record_elements_send_recorded: "sends_recorded uw (record_elements_send uw recipient amount label sent)"
proof -
  obtain txid fee raw where "sent = (txid, fee, raw)" by (metis prod_cases3)
  then show ?thesis
    by (auto simp: sends_recorded_def sent_in_def tx_rows_def record_elements_send_def bind_st_def ret_st_def
        db_insert_def insert_elements_transaction_def statement_def elements_transaction_of_spec_def Let_def
        list_ex_iff split: prod.splits option.splits sum.splits if_splits)
qed

lemma sends_recordedD:
  "sends_recorded uw m \<Longrightarrow> m h = (r, h') \<Longrightarrow>
     (case r of Inl _ \<Rightarrow> elements_transactions (h_db h') = elements_transactions (h_db h)
      | Inr b \<Rightarrow> list_ex (\<lambda>t. et_wallet_id t = ue_wallet_id uw \<and> et_txid t = eb_txid b) (elements_transactions (h_db h'))
          \<and> 0 < eb_amount_sat b \<and> 0 \<le> eb_fee_sat b)"
  unfolding sends_recorded_def sent_in_def tx_rows_def by blast

lemma sends_recorded_bind:
  assumes "keeps_rows m" and "\<And>a. sends_recorded uw (f a)"
  shows "sends_recorded uw (bind_st m f)"
  unfolding sends_recorded_def
proof (intro allI impI)
  fix h r h'
  assume run: "bind_st m f h = (r, h')"
  obtain q t where q: "m h = (q, t)" by force
  have t: "tx_rows t = tx_rows h" using keeps_rows_run [OF assms(1) q] .
  show "case r of Inl _ \<Rightarrow> tx_rows h' = tx_rows h | Inr b \<Rightarrow> sent_in uw b h'"
  proof (cases q)
    case (Inl x)
    with run q t show ?thesis by (auto simp: bind_st_def)
  next
    case (Inr a)
    then have "f a t = (r, h')" using run q by (simp add: bind_st_def)
    with assms(2) t show ?thesis by (fastforce simp: sends_recorded_def split: sum.splits)
  qed
qed

lemma sends_recorded_throw: "sends_recorded uw (lift_st (throw_res e))"
  by (simp add: sends_recorded_def lift_st_def throw_res_def)

lemma sends_recorded_if: "sends_recorded uw m \<Longrightarrow> sends_recorded uw k \<Longrightarrow> sends_recorded uw (if b then m else k)"
  by simp

lemma elements_pipelines_recorded:
  "sends_recorded uw (build_sign_and_broadcast lapi c uw recipient amount fee_rate label)"
  "sends_recorded uw (build_sign_and_broadcast_asset lapi c uw recipient asset amount fee_rate label)"
  "sends_recorded uw (build_sign_and_broadcast_asset_max lapi c uw recipient asset fee_rate label)"
  "sends_recorded uw (sweep_to lapi c uw recipient fee_rate label)"
  unfolding build_sign_and_broadcast_def build_sign_and_broadcast_asset_def build_sign_and_broadcast_asset_max_def
    sweep_to_def case_prod_unfold
  by (intro sends_recorded_bind sends_recorded_if record_elements_send_recorded sends_recorded_throw
      keeps_rows_intros keeps_rows_spendable keeps_rows_finish)+

section \<open>A small instance of the libraries\<close>

text \<open>
  An asset is the first letter of an output's secrets and its value their length; a PSET is the
  recipient and the amount it pays, and every transaction pays a fee of one.
\<close>

definition paying :: "'a \<Rightarrow> u64 \<Rightarrow> (string, 'a \<times> u64) pset_data" where
  "paying a v = \<lparr>ps_inputs = [], ps_rest = (a, v)\<rparr>"

lemma paying_rest [simp]: "ps_rest (paying a v) = (a, v)"
  by (simp add: paying_def)

definition sample_lwk :: "(u32, string \<times> u32 list, string, string, string, string, string, string, string,
    (string, string \<times> u64) pset_data, string \<times> u64, string, u8 list, string, unit, (string \<times> string) list) lwk_api" where
  "sample_lwk = \<lparr>el_from_hardened_idx = Inr, default_hash = (\<lambda>_. 5), ct_new = (\<lambda>_ _. Inr []),
     ct_add_signer = (\<lambda>s b. Inr (b @ fst (fst s))), ct_build = Inr, to_multipath_string = (\<lambda>d. d),
     hex_encode = hex_encode_bytes, json_descriptor = (\<lambda>d. d), to_lwk = (\<lambda>_. ''a''), custom_regtest = (\<lambda>a _. a),
     lwk_policy_asset = (\<lambda>n. n), asset_from_str = Inr, asset_str = (\<lambda>a. a), rpc_client_new = (\<lambda>_ _ _ _. Inl ''off''),
     rpc_sent = (\<lambda>_ _ w. w), new_electrum = (\<lambda>_. ret_st ()), new_esplora = (\<lambda>_ _. ret_st ()),
     new_esplora_authenticated = (\<lambda>_ _ _. ret_st ()), new_waterfalls = (\<lambda>_ _. ret_st ()),
     new_waterfalls_authenticated = (\<lambda>_ _ _. ret_st ()), nodeless_broadcast = (\<lambda>_ _. ret_st ''tx1''),
     nodeless_tip = (\<lambda>_. ret_st 12), show_sync_error = (\<lambda>_. ''sync''), wollet_from_descriptor = (\<lambda>d _ _ _. Inr d),
     wollet_address = (\<lambda>w _ i. Inr w), addr_from_str = Inr, addr_str = (\<lambda>a. a), addr_script = (\<lambda>_. [1]),
     out_script = (\<lambda>out. out), sec_asset = take 1, sec_value = (\<lambda>s. word_of_nat (length s)),
     build_spend_pset = (\<lambda>_ _ a v _. ret_st (paying a v)), build_asset_spend_pset = (\<lambda>_ _ a _ v _. ret_st (paying a v)),
     build_sweep_pset = (\<lambda>_ _ a _. ret_st (paying a 5)), sign_pset = (\<lambda>_. ret_st 1), finalize_p2wsh_pset = Inr, extract_tx = (\<lambda>p. Inr (ps_rest p)),
     tx_outputs = (\<lambda>(_, v). [([1], Some v), ([], Some 1)]),
     pset_out_amounts = (\<lambda>p. [([1], Some (snd (ps_rest p))), ([], Some 1)]), serialize_hex = (\<lambda>_. ''00'')\<rparr>"

definition sample_elements_manager :: elements_manager where
  "sample_elements_manager = \<lparr>em_has_rpc = False, em_rpc_url = [], em_rpc_user = [], em_rpc_pass = [],
     em_network = LiquidTestnet, em_backend = ElementsElectrum, em_electrum_url = Some ''ssl'', em_esplora_url = None,
     em_esplora_auth = None, em_coin_index = 1, em_threshold = 2, em_signer_indices = [1, 0],
     em_fleet = sample_fleet\<rparr>"

definition sample_elements_version :: "string \<Rightarrow> federation_version_row" where
  "sample_elements_version hex = version_of_spec 41 7 (sample_version\<lparr>nv_wallet_id := None,
     nv_elements_wallet_id := Some 20, nv_descriptor := ''e1'', nv_blinding_key := Some hex\<rparr>)"

definition sample_db_liquid :: "string \<Rightarrow> database" where
  "sample_db_liquid hex = sample_db\<lparr>federation_versions := [sample_elements_version hex],
     elements_utxos := [sample_utxo_row\<lparr>eu_secrets_json := ''aaaa''\<rparr>,
                        sample_utxo_row\<lparr>eu_vout := 2, eu_secrets_json := ''bb''\<rparr>]\<rparr>"

definition sample_elements_row :: elements_wallet_row where
  "sample_elements_row = hd (elements_wallets sample_db)"

definition liquid_host :: "string \<Rightarrow> (string \<times> string) list host" where
  "liquid_host hex = \<lparr>h_db = sample_db_liquid hex, h_world = [], h_tick = 0, h_uuid = (\<lambda>n. 100 + word_of_nat n), h_now = int\<rparr>"

definition liquid_state :: "string \<Rightarrow> (string \<times> u32 list, unit, (string \<times> u32 list, string) user_elements_wallet, string,
    (string \<times> string) list) elements_state" where
  "liquid_state hex = \<lparr>es_app = \<lparr>ap_host = liquid_host hex, ap_signers = (\<lambda>_. None), ap_wallets = (\<lambda>_. None),
     ap_elements = (\<lambda>_. None)\<rparr>, es_lwk = Some ''a''\<rparr>"

definition liquid_wallet :: "(string \<times> u32 list, string) user_elements_wallet" where
  "liquid_wallet = \<lparr>ue_user_id = 1, ue_wallet_id = 20, ue_account_idx = 0, ue_network = LiquidTestnet, ue_lwk = ''a'',
     ue_descriptor = ''e1'', ue_mbk = replicate 32 7, ue_daemon_wallet_name = ''n0'',
     ue_signers = [(''a'', []), (''b'', [])], ue_version_count = 1, ue_rpc = ([], [], []), ue_backend = ElementsElectrum,
     ue_electrum_url = Some ''ssl'', ue_esplora_url = None, ue_esplora_auth = None\<rparr>"

lemma liquid_versions:
  "list_federation_versions_for_elements_wallet 20 (sample_db_liquid hex) = (Inr [sample_elements_version hex], sample_db_liquid hex)"
  by (simp add: list_federation_versions_for_elements_wallet_def sample_db_liquid_def sample_elements_version_def
      version_of_spec_def sample_version_def)

lemma db_inv_liquid: "db_inv (sample_db_liquid hex)"
  using db_inv_sample
  by (simp add: sample_db_liquid_def sample_db_def sample_elements_version_def version_of_spec_def sample_version_def
      sample_utxo_row_def db_inv_def db_ok_defs empty_database_def in_i32_def i32_max_def fv_row_ok_def migration_statuses_def)

lemma liquid_signers:
  "on_hsm ElementsHsm (signers_for (sample_pkcs11 []) sample_fleet 1 p) (es_app (liquid_state hex)) =
     (Inr [(''a'', p), (''b'', p)], (es_app (liquid_state hex))\<lparr>
        ap_host := (liquid_host hex)\<lparr>h_world := [(''b'', ''signer-1''), (''a'', ''signer-1'')]\<rparr>,
        ap_signers := (\<lambda>_. None)(1 \<mapsto> [(''a'', p), (''b'', p)])\<rparr>)"
  by (simp add: liquid_state_def liquid_host_def on_hsm_def signers_for_miss on_tokens_def derive_signers_def token_signer_def
      sample_pkcs11_def sample_fleet_def sample_tokens_def signer_label_def Let_def map_err_st_def bind_st_def ret_st_def)

lemma liquid_load:
  "\<exists>uw s'. build_user_wallet (sample_pkcs11 []) sample_lwk sample_codec sample_elements_manager 1 sample_elements_row
     (liquid_state hex) = (Inr uw, s')"
proof -
  have row: "ew_account_idx sample_elements_row = 0" "ew_id sample_elements_row = 20" "ew_descriptor sample_elements_row = ''e0''"
    by (simp_all add: sample_elements_row_def sample_db_def)
  have fv: "fv_descriptor (sample_elements_version hex) = ''e1''"
    by (simp add: sample_elements_version_def version_of_spec_def)
  have path: "derivation_path_for sample_lwk sample_elements_manager 0 = Inr [48, 1, 0, 2]"
    by (simp add: derivation_path_for_def sample_lwk_def sample_elements_manager_def)
  have m: "em_fleet sample_elements_manager = sample_fleet" by (simp add: sample_elements_manager_def)
  have l: "es_lwk (liquid_state hex) = Some ''a''" "h_db (liquid_host hex) = sample_db_liquid hex"
    by (simp_all add: liquid_state_def liquid_host_def)
  show ?thesis
    by (simp add: build_user_wallet_def row path m to_u32_or_def bind_st_def on_app_def liquid_signers
        lwk_network_hit l on_host_def db_query_def liquid_versions elements_binding_def fv ignore_err_def
        update_elements_wallet_descriptor_def write_st_def Let_def)
qed

text \<open>A rotated key: the version's key is not the derived one, so the reload has lost it.\<close>

theorem elements_load_adopts_latest_witness:
  "\<exists>uw uw' s' (row' :: elements_wallet_row). build_user_wallet (sample_pkcs11 []) sample_lwk sample_codec sample_elements_manager 1 sample_elements_row
       (liquid_state (hex_encode_bytes (replicate 32 7))) = (Inr uw, s') \<and> ue_mbk uw = replicate 32 7
     \<and> build_user_wallet (sample_pkcs11 []) sample_lwk sample_codec sample_elements_manager 1 row' s' = (Inr uw', s')
     \<and> ue_mbk uw' \<noteq> replicate 32 7"
proof -
  let ?hex = "hex_encode_bytes (replicate 32 7)"
  have row: "ew_id sample_elements_row = 20" "ew_descriptor sample_elements_row = ''e0''" "ew_account_idx sample_elements_row = 0"
    by (simp_all add: sample_elements_row_def sample_db_def)
  have db: "es_db (liquid_state ?hex) = sample_db_liquid ?hex" by (simp add: es_db_def liquid_state_def liquid_host_def)
  obtain uw s' where load: "build_user_wallet (sample_pkcs11 []) sample_lwk sample_codec sample_elements_manager 1 sample_elements_row
      (liquid_state ?hex) = (Inr uw, s')" using liquid_load by blast
  have key: "Option.bind (fv_blinding_key (sample_elements_version ?hex)) parse_mbk_hex = Some (replicate 32 7)"
    using parse_mbk_hex_encode [of "replicate 32 7"] parse_mbk_eq
    by (simp add: sample_elements_version_def version_of_spec_def)
  have in_db: "sample_elements_row \<in> set (elements_wallets (sample_db_liquid ?hex))"
    by (simp add: sample_elements_row_def sample_db_liquid_def sample_db_def)
  have desc: "fv_descriptor (sample_elements_version ?hex) = ''e1''"
    by (simp add: sample_elements_version_def version_of_spec_def)
  have base: "derive_master_blinding_key sample_lwk 1 0 \<noteq> replicate 32 7"
proof
    assume eq: "derive_master_blinding_key sample_lwk 1 0 = replicate 32 7"
    have "hd (derive_master_blinding_key sample_lwk 1 0) = 5"
      by (simp add: derive_master_blinding_key_def sample_lwk_def le_bytes_def upt_rec Let_def)
    then show False unfolding eq by simp
  qed
  have "ue_mbk uw = replicate 32 7 \<and> (\<exists>(row' :: elements_wallet_row) uw'. build_user_wallet (sample_pkcs11 []) sample_lwk sample_codec
      sample_elements_manager 1 row' s' = (Inr uw', s') \<and> ue_mbk uw' = derive_master_blinding_key sample_lwk 1 0)"
    using elements_load_adopts_latest [OF load, of "[]" "sample_elements_version ?hex" "replicate 32 7"]
      key db_inv_liquid in_db by (auto simp: row db desc liquid_versions)
  with load base show ?thesis by metis
qed

section \<open>Properties of a loaded wallet\<close>

lemma liquid_utxos:
  "captured_utxos sample_lwk sample_codec liquid_wallet (liquid_host hex) =
     (Inr [sample_utxo\<lparr>cu_secrets := ''aaaa''\<rparr>, sample_utxo\<lparr>cu_vout := 2, cu_secrets := ''bb''\<rparr>], liquid_host hex)"
  by (simp add: captured_utxos_def store_query_def uw_key_def liquid_wallet_def liquid_host_def sample_db_liquid_def
      list_unspent_def sample_utxo_row_def utxo_of_row_def sample_codec_def sample_utxo_def i16_to_chain_def i64_as_u32_def)

lemma liquid_values:
  "utxo_value sample_lwk (sample_utxo\<lparr>cu_secrets := s\<rparr>) = word_of_nat (length s)"
  "utxo_value sample_lwk (sample_utxo\<lparr>cu_vout := v, cu_secrets := s\<rparr>) = word_of_nat (length s)"
  "utxo_asset sample_lwk (sample_utxo\<lparr>cu_secrets := s\<rparr>) = take 1 s"
  "utxo_asset sample_lwk (sample_utxo\<lparr>cu_vout := v, cu_secrets := s\<rparr>) = take 1 s"
  by (simp_all add: utxo_value_def utxo_asset_def sample_lwk_def)


lemma liquid_sweep:
  "\<exists>h'. sweep_to sample_lwk sample_codec liquid_wallet ''r'' 1 None (liquid_host hex) =
     (Inr \<lparr>eb_txid = ''tx1'', eb_recipient = ''r'', eb_amount_sat = 5, eb_fee_sat = 1\<rparr>, h')"
proof -
  have sel: "wollet_from_descriptor sample_lwk = (\<lambda>d _ _ _. Inr d)" "addr_from_str sample_lwk = Inr"
    "build_sweep_pset sample_lwk = (\<lambda>_ _ a _. ret_st (paying a 5))" "sign_pset sample_lwk = (\<lambda>_. ret_st 1)"
    "finalize_p2wsh_pset sample_lwk = Inr" "extract_tx sample_lwk = (\<lambda>p. Inr (ps_rest p))" "serialize_hex sample_lwk = (\<lambda>_. ''00'')"
    "tx_outputs sample_lwk = (\<lambda>(_, v). [([1], Some v), ([], Some 1)])" "new_electrum sample_lwk = (\<lambda>_. ret_st ())"
    "nodeless_broadcast sample_lwk = (\<lambda>_ _. ret_st ''tx1'')" "txid_str sample_codec = (\<lambda>t. t)"
    by (simp_all add: sample_lwk_def sample_codec_def)
  have w: "ue_signers liquid_wallet = [(''a'', []), (''b'', [])]" "ue_backend liquid_wallet = ElementsElectrum"
    "ue_electrum_url liquid_wallet = Some ''ssl''" "ue_wallet_id liquid_wallet = 20"
    by (simp_all add: liquid_wallet_def)
  show ?thesis
    by (simp add: sweep_to_def spendable_def sel bind_st_def liquid_utxos sweep_total_def sum_sats_def liquid_values
        checked_add_def parse_recipient_def outside_def ret_st_def finish_pset_def w sign_with_def
        elements_backend_broadcast_def broadcast_via_backend_def map_err_st_def explicit_fee_def fee_as_i64_def i64_max_def
        record_elements_send_def db_insert_def insert_elements_transaction_def statement_def u64_to_i64_or_def)
      (simp add: liquid_host_def sample_db_liquid_def sample_db_def empty_database_def Let_def)
qed


text \<open>C26. The asset list shows every asset of the unspent outputs exactly once, by descending amount, with the
  sum of that asset's outputs, and the L-BTC card is its entry for the policy asset, or nothing
  when there is none: no amount is added across assets.\<close>

theorem asset_balances_partition:
  assumes run: "asset_balances lapi c uw h = (Inr bs, h')" and inj: "inj (asset_str lapi)"
  shows "\<exists>utxos. captured_utxos lapi c uw h = (Inr utxos, h) \<and> h' = h
    \<and> distinct (map ab_asset_id bs) \<and> sorted (map (\<lambda>b. - uint (ab_sat b)) bs)
    \<and> ab_asset_id ` set bs = asset_id_of lapi ` set utxos
    \<and> (\<forall>b \<in> set bs. unat (ab_sat b) = sats_of lapi (ab_asset_id b) utxos)
    \<and> elements_balance lapi c uw h = (Inr \<lparr>bal_trusted = btc_of_sats
         (case find (\<lambda>b. ab_asset_id b = asset_str lapi (lwk_policy_asset lapi (ue_lwk uw))) bs of None \<Rightarrow> 0 | Some b \<Rightarrow> ab_sat b),
         bal_untrusted_pending = Finite 0 0, bal_immature = Finite 0 0\<rparr>, h)"
proof -
  let ?entry = "\<lambda>(asset_id, sat). \<lparr>ab_asset_id = asset_id, ab_sat = sat, ab_amount = btc_of_sats sat\<rparr>"
  obtain utxos m t where utxos: "captured_utxos lapi c uw h = (Inr utxos, t)"
    and m: "(sats_by_asset lapi utxos [] :: (elements_wallet_error, _) res) = Inr m" and h': "h' = t"
    and bs: "bs = sort_key (\<lambda>b. - uint (ab_sat b)) (map ?entry m)"
    using run by (auto simp: asset_balances_def elim!: bind_st_InrE)
  have t: "t = h" using captured_utxos_host [OF utxos] .
  from sats_by_asset_facts [OF _ _ m] have m_keys: "distinct (map fst m)" "fst ` set m = asset_id_of lapi ` set utxos"
    and m_held: "\<And>k. held m k = sats_of lapi k utxos" by (auto simp: held_def)
  have ids: "map ab_asset_id (map ?entry m) = map fst m" by (simp add: case_prod_unfold)
  have dist: "distinct (map ab_asset_id bs)"
    unfolding bs distinct_map distinct_sort set_sort using m_keys(1) unfolding ids [symmetric] distinct_map .
  have set_ids: "ab_asset_id ` set bs = asset_id_of lapi ` set utxos"
    using m_keys(2) arg_cong [OF ids, of set] by (simp add: bs image_image case_prod_unfold)
  have entry: "unat (ab_sat b) = sats_of lapi (ab_asset_id b) utxos" if "b \<in> set bs" for b
  proof -
    from that obtain k v where kv: "(k, v) \<in> set m" "b = ?entry (k, v)" by (auto simp: bs)
    then have "held m k = unat v" using m_keys(1) by (simp add: held_def map_of_is_SomeI)
    with kv m_held show ?thesis by simp
  qed
  let ?policy = "lwk_policy_asset lapi (ue_lwk uw)"
  define sat where "sat = (case find (\<lambda>b. ab_asset_id b = asset_str lapi ?policy) bs of None \<Rightarrow> 0 | Some b \<Rightarrow> ab_sat b)"
  have "unat sat = sats_of lapi (asset_str lapi ?policy) utxos"
  proof (cases "find (\<lambda>b. ab_asset_id b = asset_str lapi ?policy) bs")
    case None
    then have "asset_str lapi ?policy \<notin> asset_id_of lapi ` set utxos"
      unfolding set_ids [symmetric] by (auto simp: find_None_iff)
    then have "filter (\<lambda>u. asset_id_of lapi u = asset_str lapi ?policy) utxos = []"
      unfolding filter_empty_conv by (metis image_eqI)
    with None show ?thesis by (simp add: sat_def sats_of_def)
  next
    case (Some b)
    then have "b \<in> set bs" "ab_asset_id b = asset_str lapi ?policy" by (auto simp: find_Some_iff)
    with entry [of b] Some show ?thesis by (simp add: sat_def)
  qed
  then have "(policy_sats lapi uw utxos :: (elements_wallet_error, u64) res) = Inr sat"
    by (simp add: policy_sats_def sum_sats_Inr sats_of_policy [OF inj] o_def)
  then have "elements_balance lapi c uw h = (Inr \<lparr>bal_trusted = btc_of_sats sat,
      bal_untrusted_pending = Finite 0 0, bal_immature = Finite 0 0\<rparr>, h)"
    by (simp add: elements_balance_def bind_st_def utxos t)
  moreover have "sorted (map (\<lambda>b. - uint (ab_sat b)) bs)" by (simp add: bs)
  ultimately show ?thesis using utxos t h' dist set_ids entry by (auto simp: sat_def)
qed

theorem asset_balances_partition_witness:
  "\<exists>bs. asset_balances sample_lwk sample_codec liquid_wallet (liquid_host []) = (Inr bs, liquid_host [])
     \<and> distinct (map ab_asset_id bs) \<and> ab_asset_id ` set bs = {''a'', ''b''}"
proof -
  have run: "asset_balances sample_lwk sample_codec liquid_wallet (liquid_host []) = (Inr
      [\<lparr>ab_asset_id = ''a'', ab_sat = 4, ab_amount = btc_of_sats 4\<rparr>, \<lparr>ab_asset_id = ''b'', ab_sat = 2, ab_amount = btc_of_sats 2\<rparr>],
      liquid_host [])"
    by (simp add: asset_balances_def bind_st_def liquid_utxos liquid_values add_sats_def checked_add_def
        less_eq_char_def less_char_def) (simp add: sample_lwk_def less_list_code less_char_def)
  have "inj (asset_str sample_lwk)" by (simp add: sample_lwk_def)
  from asset_balances_partition [OF run this] run show ?thesis by auto
qed

text \<open>What a sweep takes for the wallet's balance, and what the Max button shows, is the L-BTC balance plus the
  base units of every other asset, less the fee: a wallet that holds an issued asset is shown more
  L-BTC than it has.\<close>

theorem sweep_counts_every_asset:
  assumes "compute_drain_amount lapi c uw recipient fee_rate h = (Inr n, h')"
  shows "\<exists>wollet utxos addr pset w policy.
      wollet_from_descriptor lapi (ue_descriptor uw) (ue_mbk uw) (ue_network uw) (ue_lwk uw) = Inr wollet
    \<and> captured_utxos lapi c uw h = (Inr utxos, h) \<and> addr_from_str lapi recipient = Inr addr
    \<and> build_sweep_pset lapi wollet utxos addr (fee_rate_kvb fee_rate) (h_world h) = (Inr pset, w)
    \<and> (policy_sats lapi uw utxos :: (elements_wallet_error, u64) res) = Inr policy
    \<and> unat n = unat policy
        + (\<Sum>u\<leftarrow>filter (\<lambda>u. utxo_asset lapi u \<noteq> lwk_policy_asset lapi (ue_lwk uw)) utxos. unat (utxo_value lapi u))
        - (case explicit_fee (pset_out_amounts lapi pset) of None \<Rightarrow> 0 | Some f \<Rightarrow> unat f)"
proof -
  obtain wollet utxos total addr pset w where
    wollet: "wollet_from_descriptor lapi (ue_descriptor uw) (ue_mbk uw) (ue_network uw) (ue_lwk uw) = Inr wollet"
    and utxos: "captured_utxos lapi c uw h = (Inr utxos, h)"
    and total: "unat total = (\<Sum>u\<leftarrow>utxos. unat (utxo_value lapi u))"
    and addr: "addr_from_str lapi recipient = Inr addr"
    and pset: "build_sweep_pset lapi wollet utxos addr (fee_rate_kvb fee_rate) (h_world h) = (Inr pset, w)"
    and n: "n = saturating_sub total (case explicit_fee (pset_out_amounts lapi pset) of None \<Rightarrow> 0 | Some f \<Rightarrow> f)"
    using assms
    by (fastforce simp: compute_drain_amount_def spendable_def sweep_total_def sum_sats_Inr parse_recipient_def of_sum_Inr_iff
        outside_def map_err_Inr_iff throw_res_def o_def dest: captured_utxos_host elim!: bind_st_InrE
        split: if_splits prod.splits)
  let ?P = "\<lambda>u. utxo_asset lapi u = lwk_policy_asset lapi (ue_lwk uw)"
  let ?sum = "\<lambda>us. \<Sum>u\<leftarrow>us. unat (utxo_value lapi u)"
  have split: "?sum utxos = ?sum (filter ?P utxos) + ?sum (filter (\<lambda>u. \<not> ?P u) utxos)"
    by (induction utxos) auto
  have "?sum (filter ?P utxos) < 2 ^ 64"
    using total split unsigned_less [of total, where 'a = nat] by simp
  then have fits: "unat (word_of_nat (?sum (filter ?P utxos)) :: u64) = ?sum (filter ?P utxos)"
    by (simp add: unat_of_nat)
  then have "(policy_sats lapi uw utxos :: (elements_wallet_error, u64) res) = Inr (word_of_nat (?sum (filter ?P utxos)))"
    by (simp add: policy_sats_def sum_sats_Inr o_def)
  moreover have "unat n = ?sum (filter ?P utxos) + ?sum (filter (\<lambda>u. \<not> ?P u) utxos)
      - (case explicit_fee (pset_out_amounts lapi pset) of None \<Rightarrow> 0 | Some f \<Rightarrow> unat f)"
    using total split by (simp add: n unat_saturating_sub split: option.splits)
  ultimately show ?thesis using wollet utxos addr pset fits by auto
qed

theorem sweep_counts_every_asset_witness:
  "compute_drain_amount sample_lwk sample_codec liquid_wallet ''r'' 1 (liquid_host []) = (Inr 5, liquid_host [])
   \<and> (\<exists>policy. (policy_sats sample_lwk liquid_wallet [sample_utxo\<lparr>cu_secrets := ''aaaa''\<rparr>,
        sample_utxo\<lparr>cu_vout := 2, cu_secrets := ''bb''\<rparr>] :: (elements_wallet_error, u64) res) = Inr policy \<and> unat policy = 4)"
proof -
  have sel: "wollet_from_descriptor sample_lwk = (\<lambda>d _ _ _. Inr d)" "addr_from_str sample_lwk = Inr"
    "build_sweep_pset sample_lwk = (\<lambda>_ _ a _. ret_st (paying a 5))" "lwk_policy_asset sample_lwk = (\<lambda>n. n)"
    "pset_out_amounts sample_lwk = (\<lambda>p. [([1], Some (snd (ps_rest p))), ([], Some 1)])"
    by (simp_all add: sample_lwk_def)
  have run: "compute_drain_amount sample_lwk sample_codec liquid_wallet ''r'' 1 (liquid_host []) = (Inr 5, liquid_host [])"
    by (simp add: compute_drain_amount_def spendable_def sel bind_st_def liquid_utxos sweep_total_def sum_sats_def liquid_values
        checked_add_def parse_recipient_def outside_def ret_st_def explicit_fee_def saturating_sub_def)
  have lwk: "ue_lwk liquid_wallet = ''a''" by (simp add: liquid_wallet_def)
  from sweep_counts_every_asset [OF run] run show ?thesis
    by (auto simp: sel liquid_utxos liquid_values explicit_fee_def ret_st_def lwk)
qed

text \<open>C27. The Elements migration signs selectively whatever its signers do, failing ones included: it never
  fails, every input keeps its key origins, and an input outside the selection comes out as it
  went in.\<close>

definition signer_by_origin :: "('rest psbt_input list \<times> 'w, string, nat) st \<Rightarrow> bool" where
  "signer_by_origin s \<longleftrightarrow> (\<forall>w. signs_by_origin (\<lambda>inputs. (fst (s (inputs, w)), fst (snd (s (inputs, w))))))"

lemma signs_by_originD:
  "signs_by_origin sign \<Longrightarrow> sign inputs = (r, inputs') \<Longrightarrow> length inputs' = length inputs
     \<and> (\<forall>i < length inputs. pi_derivation (inputs' ! i) = pi_derivation (inputs ! i)
          \<and> (pi_derivation (inputs ! i) = [] \<longrightarrow> inputs' ! i = inputs ! i))"
  unfolding signs_by_origin_def by blast

lemma try_signers_by_origin:
  assumes "list_all signer_by_origin signers"
  shows "signs_by_origin (\<lambda>inputs. ((), fst (try_signers signers (inputs, w))))"
  using assms
proof (induction signers arbitrary: w)
  case Nil
  then show ?case by (simp add: signs_by_origin_def)
next
  case (Cons s signers)
  show ?case
    unfolding signs_by_origin_def
  proof (intro allI impI)
    fix inputs r inputs'
    assume run: "((), fst (try_signers (s # signers) (inputs, w))) = (r, inputs')"
    obtain q mid w' where s: "s (inputs, w) = (q, mid, w')" by (metis prod_cases3)
    have origin: "signs_by_origin (\<lambda>inputs. (fst (s (inputs, w)), fst (snd (s (inputs, w)))))"
      using Cons.prems by (simp add: signer_by_origin_def)
    have a: "length mid = length inputs \<and> (\<forall>i < length inputs. pi_derivation (mid ! i) = pi_derivation (inputs ! i)
        \<and> (pi_derivation (inputs ! i) = [] \<longrightarrow> mid ! i = inputs ! i))"
      using signs_by_originD [OF origin, of inputs q mid] s by simp
    have b: "length inputs' = length mid \<and> (\<forall>i < length mid. pi_derivation (inputs' ! i) = pi_derivation (mid ! i)
        \<and> (pi_derivation (mid ! i) = [] \<longrightarrow> inputs' ! i = mid ! i))"
      using Cons.IH [of w'] Cons.prems run s by (auto simp: signs_by_origin_def)
    from a b show "length inputs' = length inputs \<and> (\<forall>i < length inputs. pi_derivation (inputs' ! i) = pi_derivation (inputs ! i)
        \<and> (pi_derivation (inputs ! i) = [] \<longrightarrow> inputs' ! i = inputs ! i))" by simp
  qed
qed

theorem elements_signing_is_selective:
  assumes "list_all signer_by_origin signers"
  shows "\<exists>inputs' w'. sign_migration_pset_inputs signers idxs (inputs, w) = (Inr () :: ('e, unit) res, (inputs', w'))
    \<and> length inputs' = length inputs \<and> map pi_derivation inputs' = map pi_derivation inputs
    \<and> (\<forall>i < length inputs. i \<notin> set idxs \<longrightarrow> inputs' ! i = inputs ! i)"
proof -
  obtain mid w' where run: "try_signers signers (hide_others idxs inputs, w) = (mid, w')" by force
  have "((), fst (try_signers signers (hide_others idxs inputs, w))) = ((), mid)" using run by simp
  from selective_signing [where 'e = 'e, OF try_signers_by_origin [OF assms] this] run show ?thesis
    by (auto simp: sign_migration_pset_inputs_def Let_def)
qed

definition grumpy_signer :: "(bool psbt_input list \<times> unit, string, nat) st" where
  "grumpy_signer = (\<lambda>(inputs, w). (Inl (Err ''no key''),
     map (\<lambda>inp. if pi_derivation inp = [] then inp else inp\<lparr>pi_rest := True\<rparr>) inputs, w))"

theorem elements_signing_is_selective_witness:
  "\<exists>inputs' w'. sign_migration_pset_inputs [grumpy_signer] [1] ([\<lparr>pi_derivation = [(''a'', ''f'', ''p'')], pi_rest = False\<rparr>,
       \<lparr>pi_derivation = [(''b'', ''f'', ''p'')], pi_rest = False\<rparr>], ()) = (Inr () :: (string, unit) res, (inputs', w'))
     \<and> inputs' ! 0 = \<lparr>pi_derivation = [(''a'', ''f'', ''p'')], pi_rest = False\<rparr>"
proof -
  have law: "list_all signer_by_origin [grumpy_signer]"
    by (simp add: signer_by_origin_def signs_by_origin_def grumpy_signer_def)
  let ?in = "[\<lparr>pi_derivation = [(''a'', ''f'', ''p'')], pi_rest = False\<rparr>, \<lparr>pi_derivation = [(''b'', ''f'', ''p'')], pi_rest = False\<rparr>]"
  obtain inputs' w' where run: "sign_migration_pset_inputs [grumpy_signer] [1] (?in, ()) = (Inr () :: (string, unit) res, (inputs', w'))"
    and kept: "\<forall>i < length ?in. i \<notin> set [1] \<longrightarrow> inputs' ! i = ?in ! i"
    using elements_signing_is_selective [OF law] by blast
  from kept have "inputs' ! 0 = ?in ! 0" by (elim allE [of _ 0]) simp
  with run show ?thesis by auto
qed

end
