(* ===== verification/MigrationElements.thy ===== *)
theory MigrationElements
  imports ElementsLoad MigrationVersions
begin

text \<open>
  The Elements side of the migration tool, \<open>run_elements_migration\<close> in
  \<open>examples/federation_migration.rs\<close>: discovering the accounts, resolving the federation each moves
  to, recording it, sweeping the funds in one transaction or in a chain of them, and stamping
  the versions. The planners and PSET builders of the Elements library are arguments.
\<close>

section \<open>The libraries\<close>

datatype ('addr, 'asset) sweep_output =
    Customer u32 'addr u64 'asset
  | FeeChange u64 'asset

record ('addr, 'asset) sweep_transaction =
  sx_outputs :: "('addr, 'asset) sweep_output list"
  sx_is_fee_final :: bool

record ('txid, 'out, 'sec, 'addr) account_utxo_set =
  as_account_idx :: u32
  as_utxos :: "('txid, 'out, 'sec) captured_utxo list"
  as_destination :: 'addr

text \<open>
  What the tool uses besides the wallets' libraries: standard input, the order in which a hash set
  is iterated, the two planners, and the builder of a migration's PSET.
\<close>

record ('rest, 'pset, 'wollet, 'txid, 'out, 'sec, 'addr, 'asset, 'tx, 'w) elements_tool =
  et_read_line :: "'w \<Rightarrow> string \<times> 'w"
  et_hash_order :: "int list \<Rightarrow> int list"
  et_prev_out :: "'rest psbt_input \<Rightarrow> 'txid \<times> u32"
  et_plan :: "u32 \<Rightarrow> 'asset \<Rightarrow> ('txid, 'out, 'sec, 'addr) account_utxo_set list \<Rightarrow> u64 \<Rightarrow>
     string + ('addr, 'asset) sweep_transaction list"
  et_plan_batched :: "u32 \<Rightarrow> u64 \<Rightarrow> 'asset \<Rightarrow> ('txid, 'out, 'sec, 'addr) account_utxo_set list \<Rightarrow> u64 \<Rightarrow>
     string + ('addr, 'asset) sweep_transaction list"
  et_build_migration_pset :: "'wollet \<Rightarrow> (('txid, 'out, 'sec) captured_utxo \<times> 'wollet) list \<Rightarrow>
     ('addr \<times> u64 \<times> 'asset) list \<Rightarrow> 'addr \<Rightarrow> f64 \<Rightarrow> ('w, string, 'pset) st"
  et_captured_from_output :: "'wollet \<Rightarrow> 'txid \<Rightarrow> u32 \<Rightarrow> 'out \<Rightarrow> wallet_key \<Rightarrow> u32 \<Rightarrow>
     string + ('txid, 'out, 'sec) captured_utxo"
  et_tx_outs :: "'tx \<Rightarrow> 'out list"
  et_txid :: "'tx \<Rightarrow> 'txid"
  et_show_error :: "elements_wallet_error \<Rightarrow> string"

section \<open>Discovering the accounts\<close>

record elements_account_summary =
  sm_account_idx :: int
  sm_balance_btc :: f64
  sm_utxo_count :: nat
  sm_destination_address :: "string option"
  sm_is_fee_account :: bool

definition load_elements_account where
  "load_elements_account papi lapi c m fee_account row =
     bind_st (on_app (on_host (db_query exit_1 (has_in_progress_elements_migration (ew_id row))))) (\<lambda>busy.
     if busy then lift_st (throw_res (Exit 1))
     else
     bind_st (map_err_st exit_1 (load_wallet_from_row papi lapi c m row)) (\<lambda>uw.
     bind_st (on_app (on_host (map_err_st exit_1 (captured_utxos lapi c uw)))) (\<lambda>utxos.
     bind_st (lift_st (sum_sats (map (utxo_value lapi) utxos))) (\<lambda>balance_sat.
     ret_st (uw, \<lparr>sm_account_idx = ew_account_idx row, sm_balance_btc = btc_of_sats balance_sat,
       sm_utxo_count = length utxos, sm_destination_address = None,
       sm_is_fee_account = (fee_account = Some (word_of_int (ew_account_idx row) :: u32))\<rparr>)))))"

definition discover_elements_accounts where
  "discover_elements_accounts papi lapi c m fee_account =
     bind_st (on_app (on_host (db_query exit_1 list_all_elements_wallets))) (\<lambda>rows.
     if rows = [] then lift_st (throw_res (Exit 1))
     else map_st (load_elements_account papi lapi c m fee_account) rows)"

text \<open>The labels of the configured federation.\<close>

definition configured_labels :: "'ip app_config \<Rightarrow> string list" where
  "configured_labels app = map hsm_label (List.map_filter
     (\<lambda>i. if i < length (hsm_tokens app) then Some (hsm_tokens app ! i) else None) (fed_signer_indices app))"

definition total_btc :: "elements_account_summary list \<Rightarrow> f64" where
  "total_btc summaries = fold (\<lambda>a t. f64_add t (sm_balance_btc a)) summaries (Finite 0 0)"

section \<open>The federation to move to\<close>

definition derive_elements_mbk where
  "derive_elements_mbk lapi user_id account_idx version =
     (let h1 = default_hash lapi ([HUuid user_id, HI32 account_idx]
            @ (if 0 < version then [HI32 version, HStr ''emvault-elements-mbk-rotated''] else []));
          h2 = default_hash lapi [HU64 h1, HStr ''emvault-elements-mbk-v1''] in
      le_bytes h1 @ le_bytes h2 @ be_bytes h1 @ be_bytes h2)"

definition new_blinding_key where
  "new_blinding_key lapi cfg uw versions =
     (if ec_rotate_blinding_key (mc_elements cfg)
      then Inr (derive_elements_mbk lapi (ue_user_id uw) (ue_account_idx uw) (next_version_index versions))
      else (case (case rev versions of [] \<Rightarrow> None | v # _ \<Rightarrow> fv_blinding_key v) of
          None \<Rightarrow> Inr (derive_elements_mbk lapi (ue_user_id uw) (ue_account_idx uw) 0)
        | Some h \<Rightarrow> hex_decode_bytes h))"

definition build_new_elements_federation where
  "build_new_elements_federation papi lapi cfg app m uw =
     bind_st (lift_st (map_err exit_1 (derivation_path_for lapi m (word_of_int (ue_account_idx uw))))) (\<lambda>path.
     bind_st (lift_st (new_signer_indices cfg app)) (\<lambda>idxs.
     bind_st (on_app (on_hsm exit_1 (signers_for papi (em_fleet m) (ue_user_id uw) path))) (\<lambda>all_signers.
     bind_st (lift_st (patch_signers app all_signers idxs)) (\<lambda>patched.
     bind_st (on_app (on_host (db_query exit_1 (list_federation_versions_for_elements_wallet (ue_wallet_id uw))))) (\<lambda>versions.
     bind_st (lift_st (new_blinding_key lapi cfg uw versions)) (\<lambda>mbk.
     bind_st (lift_st (map_err exit_1 (ct_descriptor lapi (nf_threshold (mc_federation cfg)) mbk patched))) (\<lambda>desc.
     ret_st (desc, mbk, next_version_index versions))))))))"

definition recorded_federation where
  "recorded_federation lapi uw =
     bind_st (on_app (on_host (db_query exit_1 (list_federation_versions_for_elements_wallet (ue_wallet_id uw))))) (\<lambda>versions.
     case rev versions of
       [] \<Rightarrow> lift_st (throw_res (Exit 1))
     | v # _ \<Rightarrow>
         bind_st (lift_st (case fv_blinding_key v of
             None \<Rightarrow> Inr (derive_elements_mbk lapi (ue_user_id uw) (ue_account_idx uw) (fv_version_index v))
           | Some h \<Rightarrow> hex_decode_bytes h)) (\<lambda>mbk.
         ret_st (fv_descriptor v, mbk, fv_version_index v)))"

definition first_address where
  "first_address lapi net lwk desc mbk =
     of_sum exit_1 (case wollet_from_descriptor lapi desc mbk net lwk of
         Inl e \<Rightarrow> Inl e | Inr wollet \<Rightarrow> wollet_address lapi wollet External 0)"

definition resolve_destination where
  "resolve_destination papi lapi cfg app m sweep_only lwk uw =
     bind_st (if sweep_only then recorded_federation lapi uw
              else build_new_elements_federation papi lapi cfg app m uw) (\<lambda>(desc, mbk, version).
     bind_st (lift_st (first_address lapi (em_network m) lwk desc mbk)) (\<lambda>dest.
     ret_st (ue_account_idx uw, (desc, mbk, version), addr_str lapi dest)))"

text \<open>The map from account to federation that the loop builds: a later entry replaces an earlier one.\<close>

definition federations_by_account where
  "federations_by_account resolved = fold (\<lambda>(acct, fed, dest) m. m(acct \<mapsto> fed)) resolved Map.empty"

fun set_destination :: "int \<Rightarrow> string \<Rightarrow> elements_account_summary list \<Rightarrow> elements_account_summary list" where
  "set_destination acct dest [] = []"
| "set_destination acct dest (s # ss) = (if sm_account_idx s = acct then s\<lparr>sm_destination_address := Some dest\<rparr> # ss
     else s # set_destination acct dest ss)"

definition with_destinations where
  "with_destinations resolved summaries =
     fold (\<lambda>(acct, fed, dest). set_destination acct dest) resolved summaries"
section \<open>Step 1: recording\<close>

definition new_version_spec where
  "new_version_spec lapi cfg uw fed = (case fed of (desc, mbk, version) \<Rightarrow>
     \<lparr>nv_wallet_id = None, nv_elements_wallet_id = Some (ue_wallet_id uw), nv_version_index = version,
      nv_descriptor = desc, nv_threshold = to_i32_or 0 (uint (nf_threshold (mc_federation cfg))),
      nv_signer_count = to_i32_or 0 (int (length (nf_signers (mc_federation cfg)))),
      nv_federation_snapshot = json_descriptor lapi desc,
      nv_wallet_handle = ''elements-'' @ show_int (ue_account_idx uw) @ ''-v'' @ show_int version,
      nv_blinding_key = Some (hex_encode_bytes mbk)\<rparr>)"

definition record_elements_federation where
  "record_elements_federation lapi cfg new_feds uw =
     bind_st (lift_st (or_panic (new_feds (ue_account_idx uw)))) (\<lambda>fed.
     record_version set_pending_migration_for_older_elements_versions (ue_wallet_id uw)
       (new_version_spec lapi cfg uw fed))"

section \<open>Step 2: the sweep\<close>

record ('txid, 'out, 'sec, 'sig, 'addr) elements_exec_account =
  xa_account_idx :: int
  xa_is_fee :: bool
  xa_old_descriptor :: string
  xa_old_mbk :: "u8 list"
  xa_utxos :: "('txid, 'out, 'sec) captured_utxo list"
  xa_signers :: "'sig list"
  xa_dest :: 'addr

text \<open>An account that holds something; one that holds nothing is left out.\<close>

definition exec_account where
  "exec_account lapi c m lwk new_feds fee_idx uw =
     bind_st (map_err_st exit_1 (captured_utxos lapi c uw)) (\<lambda>utxos.
     if utxos = [] then ret_st None
     else
     bind_st (lift_st (or_panic (new_feds (ue_account_idx uw)))) (\<lambda>(desc, mbk, version).
     bind_st (lift_st (first_address lapi (em_network m) lwk desc mbk)) (\<lambda>dest.
     ret_st (Some \<lparr>xa_account_idx = ue_account_idx uw, xa_is_fee = (ue_account_idx uw = fee_idx),
       xa_old_descriptor = ue_descriptor uw, xa_old_mbk = ue_mbk uw, xa_utxos = utxos,
       xa_signers = ue_signers uw, xa_dest = dest\<rparr>))))"

definition exec_accounts where
  "exec_accounts lapi c m lwk new_feds fee_idx uws =
     bind_st (map_st (exec_account lapi c m lwk new_feds fee_idx) uws) (\<lambda>found. ret_st (List.map_filter id found))"

definition plan_elements_sweep where
  "plan_elements_sweep tapi cfg fee_idx policy accounts =
     (let sets = map (\<lambda>a. \<lparr>as_account_idx = to_u32_or 0 (xa_account_idx a), as_utxos = xa_utxos a,
            as_destination = xa_dest a\<rparr>) accounts;
          rate = ms_fee_rate_sat_per_vb (mc_migration cfg) in
      if ms_strategy (mc_migration cfg) = ''account-for-account-batched''
      then et_plan_batched tapi (to_u32_or 0 fee_idx) (ms_small_account_threshold (mc_migration cfg)) policy sets rate
      else et_plan tapi (to_u32_or 0 fee_idx) policy sets rate)"

text \<open>Everything the blocking part needs: the accounts, their wallets, the fee account, the policy
  asset, the broadcast and the fee rate.\<close>

record ('txid, 'out, 'sec, 'sig, 'addr, 'wollet, 'asset, 'tx, 'w) elements_sweep =
  sw_accounts :: "('txid, 'out, 'sec, 'sig, 'addr) elements_exec_account list"
  sw_wollets :: "(int \<times> 'wollet) list"
  sw_fee_idx :: int
  sw_policy :: 'asset
  sw_broadcast :: "'tx \<Rightarrow> ('w, string, 'txid) st"
  sw_fee_rate :: f64

definition wollet_of :: "(int \<times> 'wollet) list \<Rightarrow> int \<Rightarrow> ('e, 'wollet) res" where
  "wollet_of wollets idx = or_panic (map_option snd (find (\<lambda>p. fst p = idx) wollets))"

definition old_wollets where
  "old_wollets lapi net lwk accounts = map_res (\<lambda>a.
     bind_res (of_sum id (wollet_from_descriptor lapi (xa_old_descriptor a) (xa_old_mbk a) net lwk)) (\<lambda>w.
     Inr (xa_account_idx a, w))) accounts"

definition find_account where
  "find_account accounts idx = find (\<lambda>a. xa_account_idx a = idx) accounts"

subsection \<open>Signing\<close>

text \<open>\<open>owner\<close> is the hash map from outpoint to account, later entries first.\<close>

definition outpoint_of where
  "outpoint_of u = (cu_txid u, cu_vout u)"

definition owned_inputs where
  "owned_inputs tapi owner acct inputs =
     filter (\<lambda>i. map_of owner (et_prev_out tapi (inputs ! i)) = Some acct) [0..<length inputs]"

definition sign_account where
  "sign_account tapi lapi accounts owner acct = (\<lambda>(pset :: ('rest, 'g) pset_data, w).
     case find_account accounts acct of
       None \<Rightarrow> (Inr (), (pset, w))
     | Some a \<Rightarrow>
         let indices = owned_inputs tapi owner acct (ps_inputs pset);
             saved = saved_derivations indices (ps_inputs pset) in
         (case try_signers (map (sign_pset lapi) (xa_signers a))
             (pset\<lparr>ps_inputs := hide_others indices (ps_inputs pset)\<rparr>, w) of (mid, w') \<Rightarrow>
          (case restore_derivations saved (ps_inputs mid) of (r, out) \<Rightarrow> (r, (mid\<lparr>ps_inputs := out\<rparr>, w')))))"

definition involved_accounts where
  "involved_accounts tapi owner =
     et_hash_order tapi (remdups (map (\<lambda>k. the (map_of owner k)) (map fst owner)))"

definition sign_scoped where
  "sign_scoped tapi lapi accounts owner =
     for_st (sign_account tapi lapi accounts owner) (involved_accounts tapi owner)"

subsection \<open>One transaction\<close>

definition finish_sweep where
  "finish_sweep tapi lapi sw fee_wollet inputs recipients fee_dest owner =
     bind_st (et_build_migration_pset tapi fee_wollet inputs recipients fee_dest (sw_fee_rate sw)) (\<lambda>pset.
     bind_st (\<lambda>w. case sign_scoped tapi lapi (sw_accounts sw) owner (pset, w) of
         (r, (pset', w')) \<Rightarrow> (bind_res r (\<lambda>_. Inr pset'), w')) (\<lambda>pset'.
     bind_st (lift_st (of_sum id (finalize_p2wsh_pset lapi pset'))) (\<lambda>final.
     bind_st (lift_st (of_sum id (extract_tx lapi final))) (\<lambda>tx.
     bind_st (sw_broadcast sw tx) (\<lambda>txid. ret_st (tx, txid))))))"

text \<open>What the outputs of a planned transaction ask for. An account's inputs are added once.\<close>

record ('txid, 'out, 'sec, 'wollet, 'addr, 'asset) sweep_parts =
  sp_inputs :: "(('txid, 'out, 'sec) captured_utxo \<times> 'wollet) list"
  sp_recipients :: "('addr \<times> u64 \<times> 'asset) list"
  sp_report :: "(int \<times> u64) list"
  sp_owner :: "(('txid \<times> u32) \<times> int) list"
  sp_added :: "int list"

definition add_inputs where
  "add_inputs wollet acct utxos parts = parts\<lparr>
     sp_inputs := sp_inputs parts @ map (\<lambda>u. (u, wollet)) utxos,
     sp_owner := rev (map (\<lambda>u. (outpoint_of u, acct)) utxos) @ sp_owner parts\<rparr>"

fun batched_output where
  "batched_output sw fee_dest (Customer account_idx address amount_sat asset) parts =
     (let cidx = to_i32_or 0 (uint account_idx) in
      bind_res (of_option ''planned customer account missing from exec set'' (find_account (sw_accounts sw) cidx)) (\<lambda>a.
      bind_res (if cidx \<in> set (sp_added parts) then Inr parts
          else bind_res (wollet_of (sw_wollets sw) cidx) (\<lambda>w.
            Inr (add_inputs w cidx (xa_utxos a) (parts\<lparr>sp_added := cidx # sp_added parts\<rparr>)))) (\<lambda>parts'.
      Inr (parts'\<lparr>sp_recipients := sp_recipients parts' @ [(xa_dest a, amount_sat, asset)],
                 sp_report := sp_report parts' @ [(cidx, amount_sat)]\<rparr>))))"
| "batched_output sw fee_dest (FeeChange amount_sat asset) parts = Inr
     (if asset \<noteq> sw_policy sw then parts\<lparr>sp_recipients := sp_recipients parts @ [(fee_dest, amount_sat, asset)]\<rparr>
      else parts)"

fun batched_outputs where
  "batched_outputs sw fee_dest [] parts = Inr parts"
| "batched_outputs sw fee_dest (out # outs) parts =
     bind_res (batched_output sw fee_dest out parts) (batched_outputs sw fee_dest outs)"

definition no_parts where
  "no_parts = \<lparr>sp_inputs = [], sp_recipients = [], sp_report = [], sp_owner = [], sp_added = []\<rparr>"
subsection \<open>The batched strategy\<close>

text \<open>The fee account's part of a transaction: its remaining outputs in the last one, before that the
  change of the previous transaction, or the first output to start the chain.\<close>

definition add_fee_inputs where
  "add_fee_inputs fee_wollet fee_idx fee_utxos is_fee_final chained seed_used parts =
     (if is_fee_final then
        Inr (add_inputs fee_wollet fee_idx (drop (if seed_used then 1 else 0) fee_utxos @
               (case chained of None \<Rightarrow> [] | Some ch \<Rightarrow> [ch])) parts, seed_used)
      else (case chained of
          Some ch \<Rightarrow> Inr (add_inputs fee_wollet fee_idx [ch] parts, seed_used)
        | None \<Rightarrow> (case fee_utxos of
            [] \<Rightarrow> throw_res ''fee account has no UTXOs''
          | seed # _ \<Rightarrow> Inr (add_inputs fee_wollet fee_idx [seed] parts, True))))"

definition captured_change where
  "captured_change tapi lapi fee_wollet fee_old_addr fee_wallet_id tx =
     bind_res (of_option ''fee-account change output not found in broadcast tx''
       (position (\<lambda>out. out_script lapi out = addr_script lapi fee_old_addr) (et_tx_outs tapi tx))) (\<lambda>i.
     of_sum id (et_captured_from_output tapi fee_wollet (et_txid tapi tx) (if i < 2 ^ 32 then word_of_nat i else 0)
       (et_tx_outs tapi tx ! i) fee_wallet_id 0))"

fun batched_transactions where
  "batched_transactions tapi lapi c sw fee_wollet fee_old_addr fee_exec fee_wallet_id [] chained seed_used = ret_st []"
| "batched_transactions tapi lapi c sw fee_wollet fee_old_addr fee_exec fee_wallet_id (txp # txps) chained seed_used =
     (let fee_dest = (if sx_is_fee_final txp then xa_dest fee_exec else fee_old_addr);
          continue = batched_transactions tapi lapi c sw fee_wollet fee_old_addr fee_exec fee_wallet_id txps in
      bind_st (lift_st (batched_outputs sw fee_dest (sx_outputs txp) no_parts)) (\<lambda>wanted.
      bind_st (lift_st (add_fee_inputs fee_wollet (sw_fee_idx sw) (xa_utxos fee_exec) (sx_is_fee_final txp)
        chained seed_used wanted)) (\<lambda>(parts, seed_used').
      if sp_inputs parts = [] then continue None seed_used'
      else
      bind_st (finish_sweep tapi lapi sw fee_wollet (sp_inputs parts) (sp_recipients parts) fee_dest (sp_owner parts))
        (\<lambda>(tx, txid).
      bind_st (if sx_is_fee_final txp then ret_st None
        else bind_st (lift_st (captured_change tapi lapi fee_wollet fee_old_addr fee_wallet_id tx)) (\<lambda>ch. ret_st (Some ch)))
        (\<lambda>chained'.
      bind_st (continue chained' seed_used') (\<lambda>results.
      ret_st ((txid_str c txid, sp_report parts, sx_is_fee_final txp) # results)))))))"

definition run_batched where
  "run_batched tapi lapi c sw plan =
     bind_st (lift_st (of_option ''fee account is not funded'' (find_account (sw_accounts sw) (sw_fee_idx sw)))) (\<lambda>fee_exec.
     bind_st (lift_st (wollet_of (sw_wollets sw) (sw_fee_idx sw))) (\<lambda>fee_wollet.
     bind_st (lift_st (of_sum id (wollet_address lapi fee_wollet External 0))) (\<lambda>fee_old_addr.
     case xa_utxos fee_exec of
       [] \<Rightarrow> lift_st (throw_res ''fee account has no UTXOs'')
     | first # _ \<Rightarrow> batched_transactions tapi lapi c sw fee_wollet fee_old_addr fee_exec (cu_wallet_id first) plan None False)))"

subsection \<open>The single transaction\<close>

fun single_recipients where
  "single_recipients sw fee_dest [] = []"
| "single_recipients sw fee_dest (Customer account_idx address amount_sat asset # outs) =
     (address, amount_sat, asset) # single_recipients sw fee_dest outs"
| "single_recipients sw fee_dest (FeeChange amount_sat asset # outs) =
     (if asset \<noteq> sw_policy sw then [(fee_dest, amount_sat, asset)] else []) @ single_recipients sw fee_dest outs"

fun single_report :: "('addr, 'asset) sweep_output list \<Rightarrow> (int \<times> u64) list" where
  "single_report [] = []"
| "single_report (Customer account_idx address amount_sat asset # outs) =
     (to_i32_or 0 (uint account_idx), amount_sat) # single_report outs"
| "single_report (FeeChange amount_sat asset # outs) = single_report outs"

fun all_inputs where
  "all_inputs sw [] parts = Inr parts"
| "all_inputs sw (a # as) parts = bind_res (wollet_of (sw_wollets sw) (xa_account_idx a)) (\<lambda>w.
     all_inputs sw as (add_inputs w (xa_account_idx a) (xa_utxos a) parts))"

definition run_single where
  "run_single tapi lapi c sw plan =
     bind_st (lift_st (case plan of [] \<Rightarrow> throw_res ''account-for-account plan produced no transaction''
       | sweep # _ \<Rightarrow> Inr sweep)) (\<lambda>sweep.
     bind_st (lift_st (of_option ''fee account has no UTXOs to pay the migration fee''
       (find xa_is_fee (sw_accounts sw)))) (\<lambda>fee_exec.
     bind_st (lift_st (all_inputs sw (sw_accounts sw) (no_parts\<lparr>
       sp_recipients := single_recipients sw (xa_dest fee_exec) (sx_outputs sweep),
       sp_report := single_report (sx_outputs sweep)\<rparr>))) (\<lambda>parts.
     bind_st (lift_st (wollet_of (sw_wollets sw) (sw_fee_idx sw))) (\<lambda>fee_wollet.
     bind_st (finish_sweep tapi lapi sw fee_wollet (sp_inputs parts) (sp_recipients parts) (xa_dest fee_exec)
       (sp_owner parts)) (\<lambda>(tx, txid).
     ret_st [(txid_str c txid, sp_report parts, False)])))))"

definition execute_elements_sweeps where
  "execute_elements_sweeps tapi lapi c cfg net lwk broadcast fee_idx accounts plan =
     bind_st (lift_st (old_wollets lapi net lwk accounts)) (\<lambda>wollets.
     let sw = \<lparr>sw_accounts = accounts, sw_wollets = wollets, sw_fee_idx = fee_idx,
        sw_policy = lwk_policy_asset lapi lwk, sw_broadcast = broadcast,
        sw_fee_rate = fee_rate_kvb (ms_fee_rate_sat_per_vb (mc_migration cfg))\<rparr> in
     if ms_strategy (mc_migration cfg) = ''account-for-account-batched'' then run_batched tapi lapi c sw plan
     else run_single tapi lapi c sw plan)"

section \<open>The tool\<close>

text \<open>The account table shows the destinations shortened.\<close>

definition account_table :: "elements_account_summary list \<Rightarrow> ('e, string list) res" where
  "account_table summaries = map_res truncate_address (List.map_filter sm_destination_address summaries)"

text \<open>The account's sweep: the last transaction that pays it as a customer.\<close>

definition account_sweep_txids :: "(string \<times> (int \<times> u64) list \<times> bool) list \<Rightarrow> int \<Rightarrow> string option" where
  "account_sweep_txids txs = fold (\<lambda>(txid, outputs, is_fee_final). fold (\<lambda>(acct, sat) m. m(acct \<mapsto> txid)) outputs) txs Map.empty"

text \<open>The fee estimate the single-transaction display computes.\<close>

definition funded :: "elements_account_summary \<Rightarrow> bool" where
  "funded a \<longleftrightarrow> f64_gt_zero (sm_balance_btc a)"

definition checked_mul :: "u64 \<Rightarrow> u64 \<Rightarrow> u64 option" where
  "checked_mul a b = (if uint a * uint b < 2 ^ 64 then Some (a * b) else None)"

definition displayed_fee :: "elements_account_summary list \<Rightarrow> u32 option \<Rightarrow> u64 \<Rightarrow> ('e, u64) res" where
  "displayed_fee accounts fee_account rate =
     (let customers = filter (\<lambda>a. \<not> sm_is_fee_account a \<and> funded a) accounts;
          input_count = word_of_nat (sum_list (map sm_utxo_count (filter funded accounts)));
          output_count = word_of_nat (length customers + (if fee_account = None then 0 else 1)) in
      bind_res (or_panic (checked_mul input_count 1100)) (\<lambda>a.
      bind_res (or_panic (checked_mul output_count 1500)) (\<lambda>b.
      bind_res (or_panic (checked_add a b)) (\<lambda>ab.
      bind_res (or_panic (checked_add ab 200)) (\<lambda>weight.
      bind_res (or_panic (checked_mul weight rate)) (\<lambda>fee. Inr (fee div 10)))))))"

definition elements_backend where
  "elements_backend tapi lapi c app lwk tx = map_err_st (et_show_error tapi) (broadcast_via_backend lapi c
     (elements_chain_backend app) (elements_electrum_url app) (elements_esplora_url app) (elements_esplora_auth app) lwk
     (elements_rpc_url app, elements_rpc_user app, elements_rpc_password app) tx)"

text \<open>Steps 1 and 2 are functions of their own; the tool is their sequence.\<close>

definition elements_step_1 where
  "elements_step_1 tapi lapi cfg sweep_only new_feds uws =
     (if sweep_only then ret_st ()
      else bind_st (confirm_or_exit (et_read_line tapi)) (\<lambda>_.
        for_st (record_elements_federation lapi cfg new_feds) uws))"

definition elements_step_2 where
  "elements_step_2 tapi lapi c cfg app m lwk new_feds balance_total uws =
     bind_st (if f64_le_zero balance_total then stop 0 else confirm_or_exit (et_read_line tapi)) (\<lambda>_.
     bind_st (lift_st (of_option (Exit 1) (ms_fee_account_idx (mc_migration cfg)))) (\<lambda>fee_account.
     let fee_idx = sint fee_account in
     bind_st (exec_accounts lapi c m lwk new_feds fee_idx uws) (\<lambda>accounts.
     bind_st (lift_st (of_sum exit_1 (plan_elements_sweep tapi cfg fee_idx (lwk_policy_asset lapi lwk) accounts))) (\<lambda>plan.
     outside exit_1 (execute_elements_sweeps tapi lapi c cfg (em_network m) lwk (elements_backend tapi lapi c app lwk)
       fee_idx accounts plan)))))"

definition mark_elements_accounts where
  "mark_elements_accounts uws txs = mark_migrated list_federation_versions_for_elements_wallet
     (map (\<lambda>uw. (ue_wallet_id uw, account_sweep_txids txs (ue_account_idx uw))) uws)"

definition run_elements_migration where
  "run_elements_migration tapi papi lapi c cfg app fleet dry_run sweep_only =
     (let m = elements_manager_new app fleet; fee_account = ms_fee_account_idx (mc_migration cfg) in
      bind_st (discover_elements_accounts papi lapi c m fee_account) (\<lambda>accounts.
      let uws = map fst accounts; balance_total = total_btc (map snd accounts) in
      bind_st (lift_st (short_ids (configured_labels app))) (\<lambda>_.
      if new_is_same (configured_labels app) (fed_threshold app) cfg then stop 0
      else
      bind_st (map_err_st exit_1 (lwk_network lapi c m)) (\<lambda>lwk.
      bind_st (map_st (resolve_destination papi lapi cfg app m sweep_only lwk) uws) (\<lambda>resolved.
      let summaries = with_destinations resolved (map snd accounts);
          new_feds = federations_by_account resolved in
      bind_st (lift_st (account_table summaries)) (\<lambda>_.
      bind_st (lift_st (if f64_gt_zero balance_total \<and> ms_strategy (mc_migration cfg) \<noteq> ''account-for-account-batched''
          then displayed_fee summaries fee_account (ms_fee_rate_sat_per_vb (mc_migration cfg)) else Inr 0)) (\<lambda>_.
      if dry_run then stop 0
      else
      bind_st (on_app (on_host (elements_step_1 tapi lapi cfg sweep_only new_feds uws))) (\<lambda>_.
      bind_st (on_app (on_host (elements_step_2 tapi lapi c cfg app m lwk new_feds balance_total uws))) (\<lambda>txs.
      on_app (on_host (mark_elements_accounts uws txs)))))))))))"

section \<open>Previews\<close>

text \<open>The values of the synthetic outputs the batched preview plans with.\<close>

fun spread :: "u64 \<Rightarrow> u64 \<Rightarrow> nat \<Rightarrow> u64 list" where
  "spread each rem 0 = []"
| "spread each rem (Suc n) = (if 0 < rem then (each + 1) # spread each (rem - 1) n else each # spread each rem n)"

definition synthetic_values :: "u64 \<Rightarrow> nat \<Rightarrow> u64 list" where
  "synthetic_values total_sat count =
     (let n = max count 1; each = total_sat div word_of_nat n in
      spread each (total_sat - each * word_of_nat n) n)"

definition synthetic_utxos where
  "synthetic_utxos null_txid null_out unblinded total_sat count =
     map (\<lambda>(i, v). \<lparr>cu_wallet_id = WalletId 0, cu_txid = null_txid, cu_vout = word_of_nat i, cu_txout = null_out,
        cu_secrets = unblinded v, cu_chain = External, cu_wildcard_index = word_of_nat i, cu_height = 1,
        cu_is_spent = False\<rparr>) (enumerate 0 (synthetic_values total_sat count))"

end
