(* ===== verification/ElementsFrame.thy ===== *)
theory ElementsFrame
  imports ElementsLoad
begin

text \<open>
  What the Elements wallet's operations keep of the database: loading a wallet runs few statements, and a
  property of the database that these keep is kept by all of it.
\<close>

section \<open>Operations on the state\<close>

definition es_inv where
  "es_inv P s \<longleftrightarrow> app_inv P (es_app s)"

lemma on_app_inv [pres_intros]: "preserves (app_inv P) m \<Longrightarrow> preserves (es_inv P) (on_app m)"
  by (auto simp: preserves_def es_inv_def on_app_def split: prod.splits)

lemma write_lwk_inv [pres_intros]: "preserves (es_inv P) (write_st (\<lambda>s. s\<lparr>es_lwk := Some n\<rparr>))"
  by (simp add: preserves_def es_inv_def write_st_def)

lemma captured_utxos_inv [pres_intros]: "preserves P (captured_utxos lapi c uw)"
  by (metis captured_utxos_host preservesI prod.exhaust_sel)

lemma elements_reads [pres_intros]: "preserves P (list_federation_versions_for_elements_wallet w)"
  by (simp add: list_federation_versions_for_elements_wallet_def)

lemma wallet_or_insert_es [pres_intros]: "preserves (app_inv P) (wallet_or_insert user uw)"
  by (auto simp: preserves_def app_inv_def wallet_or_insert_def split: option.splits)

section \<open>The statements of a load\<close>

locale elements_frame =
  fixes P :: "database \<Rightarrow> bool"
  assumes frame_version: "preserves P (insert_federation_version n t version)"
    and frame_descriptor: "preserves P (update_elements_wallet_descriptor w desc key)"
    and frame_wallet: "preserves P (insert_elements_wallet n t wallet)"
begin

lemmas frame = frame_version frame_descriptor frame_wallet

lemma lwk_frame: "preserves (es_inv P) (lwk_network lapi c m)"
  unfolding lwk_network_def by (intro pres_intros)

lemma build_frame: "preserves (es_inv P) (build_user_wallet papi lapi c m user row)"
  unfolding build_user_wallet_def case_prod_unfold by (intro pres_intros lwk_frame frame)

lemma create_frame: "preserves (app_inv P) (create_wallet_for_user papi lapi m user)"
  "preserves (app_inv P) (create_wallet_for_user_at papi lapi m user i)"
  unfolding create_wallet_for_user_def create_wallet_for_user_at_def Let_def by (intro pres_intros frame)+

lemma load_frame: "preserves (es_inv P) (load_or_init papi lapi c m user)"
  unfolding load_or_init_def by (intro pres_intros build_frame create_frame)

end

end
