(* ===== verification/ElementsMigrated.thy ===== *)
theory ElementsMigrated
  imports MigrationElements ElementsFrame
begin

text \<open>
  What a run of the Elements migration leaves in the version table, and what it moves: step 1,
  early exits, the descriptor a resumed sweep spends from, and the preview's outputs.
\<close>

section \<open>Step 1\<close>

lemma record_elements_federation_Inr:
  "record_elements_federation lapi cfg new_feds uw h = (Inr (), h') \<longleftrightarrow>
     (\<exists>fed. new_feds (ue_account_idx uw) = Some fed
       \<and> record_version set_pending_migration_for_older_elements_versions (ue_wallet_id uw)
           (new_version_spec lapi cfg uw fed) h = (Inr (), h'))"
  by (auto simp: record_elements_federation_def bind_st_lift or_panic_def split: option.splits)

lemma new_version_spec_simps [simp]:
  "nv_elements_wallet_id (new_version_spec lapi cfg uw fed) = Some (ue_wallet_id uw)"
  "nv_wallet_id (new_version_spec lapi cfg uw fed) = None"
  "nv_version_index (new_version_spec lapi cfg uw fed) = snd (snd fed)"
  "nv_descriptor (new_version_spec lapi cfg uw fed) = fst fed"
  by (simp_all add: new_version_spec_def split: prod.splits)

text \<open>The listing of a wallet is its rows in index order.\<close>

definition elements_listing :: "uuid \<Rightarrow> database \<Rightarrow> federation_version_row list" where
  "elements_listing w d = sort_key fv_version_index (owned fv_elements_wallet_id w (federation_versions d))"

lemma elements_listing_eq:
  "list_federation_versions_for_elements_wallet w d = (Inr (elements_listing w d), d)"
  by (simp add: elements_chain.list_eq elements_listing_def)

lemma recorded_all:
  assumes "\<And>u. chain_ok fv_elements_wallet_id u (federation_versions (h_db h))"
    and "distinct (map ue_wallet_id uws)"
    and "\<And>uw. uw \<in> set uws \<Longrightarrow> \<exists>fed. new_feds (ue_account_idx uw) = Some fed
           \<and> snd (snd fed) = int (length (elements_listing (ue_wallet_id uw) (h_db h)))"
    and "for_st (record_elements_federation lapi cfg new_feds) uws h = (Inr (), h')"
  shows "(\<forall>uw \<in> set uws. \<exists>fed n t. new_feds (ue_account_idx uw) = Some fed
      \<and> elements_listing (ue_wallet_id uw) (h_db h') = map flagged (elements_listing (ue_wallet_id uw) (h_db h))
          @ [version_of_spec n t (new_version_spec lapi cfg uw fed)])
    \<and> (\<forall>w. w \<notin> ue_wallet_id ` set uws \<longrightarrow> elements_listing w (h_db h') = elements_listing w (h_db h))"
  using assms
proof (induction uws arbitrary: h)
  case Nil
  then show ?case by simp
next
  case (Cons uw uws)
  let ?w = "ue_wallet_id uw"
  from Cons.prems(4) obtain h1 where first: "record_elements_federation lapi cfg new_feds uw h = (Inr (), h1)"
    and rest: "for_st (record_elements_federation lapi cfg new_feds) uws h1 = (Inr (), h')"
    by (auto elim!: bind_st_InrE)
  obtain fed where fed: "new_feds (ue_account_idx uw) = Some fed"
    "snd (snd fed) = int (length (elements_listing ?w (h_db h)))"
    using Cons.prems(3) [of uw] by auto
  have run: "record_version set_pending_migration_for_older_elements_versions ?w
      (new_version_spec lapi cfg uw fed) h = (Inr (), h1)"
    using first fed(1) by (auto simp: record_elements_federation_Inr)
  have idx: "nv_version_index (new_version_spec lapi cfg uw fed)
      = int (length (owned fv_elements_wallet_id ?w (federation_versions (h_db h))))"
    using fed(2) by (simp add: elements_listing_def)
  note spec = new_version_spec_simps(1) [of lapi cfg uw fed]
  obtain n t where mine: "elements_listing ?w (h_db h1) = map flagged (elements_listing ?w (h_db h))
      @ [version_of_spec n t (new_version_spec lapi cfg uw fed)]"
    using elements_chain.record_version_listing(1) [OF Cons.prems(1) spec idx run]
    by (auto simp: elements_listing_eq elements_listing_def)
  have others: "elements_listing w (h_db h1) = elements_listing w (h_db h)" if "w \<noteq> ?w" for w
    using elements_chain.record_version_listing(2) [OF Cons.prems(1) spec idx run that]
    by (simp add: elements_listing_def)
  have later: "(\<forall>uw' \<in> set uws. \<exists>fed n t. new_feds (ue_account_idx uw') = Some fed
      \<and> elements_listing (ue_wallet_id uw') (h_db h') = map flagged (elements_listing (ue_wallet_id uw') (h_db h1))
          @ [version_of_spec n t (new_version_spec lapi cfg uw' fed)])
    \<and> (\<forall>w. w \<notin> ue_wallet_id ` set uws \<longrightarrow> elements_listing w (h_db h') = elements_listing w (h_db h1))"
  proof (rule Cons.IH [OF _ _ _ rest])
    show "chain_ok fv_elements_wallet_id u (federation_versions (h_db h1))" for u
      by (rule elements_chain.record_version_chain [OF Cons.prems(1) spec idx run])
    show "distinct (map ue_wallet_id uws)" using Cons.prems(2) by simp
    show "\<exists>fed. new_feds (ue_account_idx uw') = Some fed
        \<and> snd (snd fed) = int (length (elements_listing (ue_wallet_id uw') (h_db h1)))" if "uw' \<in> set uws" for uw'
      using Cons.prems(2,3) that others [of "ue_wallet_id uw'"] by (auto simp: image_iff)
  qed
  have new: "ue_wallet_id uw' \<noteq> ?w" if "uw' \<in> set uws" for uw' using Cons.prems(2) that by (auto simp: image_iff)
  have "elements_listing ?w (h_db h') = elements_listing ?w (h_db h1)"
    using later Cons.prems(2) by simp
  with mine fed(1) have "\<exists>fed n t. new_feds (ue_account_idx uw) = Some fed
      \<and> elements_listing ?w (h_db h') = map flagged (elements_listing ?w (h_db h))
          @ [version_of_spec n t (new_version_spec lapi cfg uw fed)]" by metis
  moreover have "\<exists>fed n t. new_feds (ue_account_idx uw') = Some fed
      \<and> elements_listing (ue_wallet_id uw') (h_db h') = map flagged (elements_listing (ue_wallet_id uw') (h_db h))
          @ [version_of_spec n t (new_version_spec lapi cfg uw' fed)]" if "uw' \<in> set uws" for uw'
    using bspec [OF conjunct1 [OF later] that] unfolding others [OF new [OF that]] .
  moreover have "elements_listing w (h_db h') = elements_listing w (h_db h)" if "w \<notin> ue_wallet_id ` set (uw # uws)" for w
    using later that others [of w] by simp
  ultimately show ?case by simp
qed

text \<open>C17. Step 1 of the Elements migration, confirmed and carried through, on any history: the newest
  version of every account is the federation resolved for it, with the descriptor the funds will
  be sent to; it follows the versions that were there, of which none is \<open>not_applicable\<close> any more,
  and the versions of every other wallet are as they were.\<close>

theorem step_1_records_the_destination:
  assumes "version_history (h_db h)" and "distinct (map ue_wallet_id uws)"
    and "\<And>uw. uw \<in> set uws \<Longrightarrow> \<exists>fed. new_feds (ue_account_idx uw) = Some fed
           \<and> snd (snd fed) = int (length (elements_listing (ue_wallet_id uw) (h_db h)))"
    and "elements_step_1 tapi lapi cfg False new_feds uws h = (Inr (), h')"
  shows "(\<forall>uw \<in> set uws. \<exists>desc mbk version earlier newest.
        new_feds (ue_account_idx uw) = Some (desc, mbk, version)
        \<and> list_federation_versions_for_elements_wallet (ue_wallet_id uw) (h_db h') = (Inr (earlier @ [newest]), h_db h')
        \<and> fv_descriptor newest = desc \<and> fv_version_index newest = version \<and> fresh_version newest
        \<and> map fv_id earlier = map fv_id (elements_listing (ue_wallet_id uw) (h_db h))
        \<and> list_all (\<lambda>v. fv_migration_status v \<noteq> ''not_applicable'') earlier)
    \<and> (\<forall>w. w \<notin> ue_wallet_id ` set uws \<longrightarrow>
         list_federation_versions_for_elements_wallet w (h_db h') = (Inr (elements_listing w (h_db h)), h_db h'))"
proof -
  obtain h1 where confirmed: "confirm_or_exit (et_read_line tapi) h = (Inr (), h1)"
    and rest: "for_st (record_elements_federation lapi cfg new_feds) uws h1 = (Inr (), h')"
    using assms(4) by (auto simp: elements_step_1_def elim!: bind_st_InrE)
  have db: "h_db h1 = h_db h"
    using confirmed by (auto simp: confirm_or_exit_def outside_def throw_res_def elim!: bind_st_InrE
        split: prod.splits if_splits)
  have "versions_inv (h_db h1)" using assms(1) by (simp add: db version_history_inv)
  then have chain: "chain_ok fv_elements_wallet_id u (federation_versions (h_db h1))" for u
    by (simp add: versions_inv_def)
  have facts: "(\<forall>uw \<in> set uws. \<exists>fed n t. new_feds (ue_account_idx uw) = Some fed
      \<and> elements_listing (ue_wallet_id uw) (h_db h') = map flagged (elements_listing (ue_wallet_id uw) (h_db h1))
          @ [version_of_spec n t (new_version_spec lapi cfg uw fed)])
    \<and> (\<forall>w. w \<notin> ue_wallet_id ` set uws \<longrightarrow> elements_listing w (h_db h') = elements_listing w (h_db h1))"
    using recorded_all [OF chain assms(2) _ rest] assms(3) by (simp add: db)
  have row: "fv_descriptor (version_of_spec n t s) = nv_descriptor s" "fv_version_index (version_of_spec n t s) = nv_version_index s"
    "fresh_version (version_of_spec n t s)" for n t s
    by (simp_all add: version_of_spec_def fresh_version_def)
  have flags: "map fv_id (map flagged vs) = map fv_id vs" "list_all (\<lambda>v. fv_migration_status v \<noteq> ''not_applicable'') (map flagged vs)" for vs
    by (simp_all add: list_all_iff)
  show ?thesis
  proof (intro conjI ballI allI impI)
    fix uw assume "uw \<in> set uws"
    with facts obtain fed n t where f: "new_feds (ue_account_idx uw) = Some fed"
      "elements_listing (ue_wallet_id uw) (h_db h') = map flagged (elements_listing (ue_wallet_id uw) (h_db h))
          @ [version_of_spec n t (new_version_spec lapi cfg uw fed)]" unfolding db by blast
    obtain desc mbk version where "fed = (desc, mbk, version)" by (cases fed)
    with f row flags show "\<exists>desc mbk version earlier newest.
        new_feds (ue_account_idx uw) = Some (desc, mbk, version)
        \<and> list_federation_versions_for_elements_wallet (ue_wallet_id uw) (h_db h') = (Inr (earlier @ [newest]), h_db h')
        \<and> fv_descriptor newest = desc \<and> fv_version_index newest = version \<and> fresh_version newest
        \<and> map fv_id earlier = map fv_id (elements_listing (ue_wallet_id uw) (h_db h))
        \<and> list_all (\<lambda>v. fv_migration_status v \<noteq> ''not_applicable'') earlier"
      by (intro exI [of _ desc] exI [of _ mbk] exI [of _ version]) (auto simp: elements_listing_eq simp del: map_map)
  next
    fix w assume "w \<notin> ue_wallet_id ` set uws"
    with facts show "list_federation_versions_for_elements_wallet w (h_db h') = (Inr (elements_listing w (h_db h)), h_db h')"
      by (simp add: elements_listing_eq db)
  qed
qed
section \<open>A resumed sweep\<close>

lemma sort_key_Nil_iff: "sort_key f xs = [] \<longleftrightarrow> xs = []"
  by (metis length_0_conv length_sort)

lemma load_settles_on_newest:
  assumes load: "build_user_wallet papi lapi c m u row s = (Inr uw, s')"
    and some: "elements_listing (ew_id row) (es_db s') \<noteq> []"
  shows "ue_wallet_id uw = ew_id row
    \<and> fv_descriptor (last (elements_listing (ew_id row) (es_db s'))) = ue_descriptor uw"
proof (cases "elements_listing (ew_id row) (es_db s) = []")
  case False
  then obtain vs latest where vs: "elements_listing (ew_id row) (es_db s) = vs @ [latest]"
    by (metis rev_exhaust)
  have lst: "list_federation_versions_for_elements_wallet (ew_id row) (es_db s) = (Inr (vs @ [latest]), es_db s)"
    by (simp add: elements_listing_eq vs)
  have id: "ue_wallet_id uw = ew_id row"
    using load unfolding build_user_wallet_def by (auto elim!: bind_st_InrE split: prod.splits)
  from load lst show ?thesis
  proof (rule elements_build_stages)
    fix path signers a1 n s2 descriptor mbk drifted
    assume hsm: "on_hsm ElementsHsm (signers_for papi (em_fleet m) u path) (es_app s) = (Inr signers, a1)"
      and lwk: "lwk_network lapi c m (s\<lparr>es_app := a1\<rparr>) = (Inr n, s2)"
      and b: "elements_binding lapi u row (vs @ [latest]) = (descriptor, mbk, drifted)"
      and uw: "ue_descriptor uw = descriptor"
      and s': "s' = (if drifted then s2\<lparr>es_app := (es_app s2)\<lparr>ap_host := (ap_host (es_app s2))\<lparr>h_db :=
          snd (update_elements_wallet_descriptor (ew_id row) descriptor (healed_blinding_hex row (vs @ [latest])) (es_db s))\<rparr>\<rparr>\<rparr>
        else s2)"
    have "es_db s2 = es_db s"
      using lwk_network_run [OF lwk] on_hsm_caches [OF hsm] by (simp add: besides_world_def es_db_def)
    then have "federation_versions (es_db s') = federation_versions (es_db s)"
      by (simp add: s' es_db_def update_elements_wallet_descriptor_def)
    then have "elements_listing (ew_id row) (es_db s') = vs @ [latest]"
      using vs by (simp add: elements_listing_def)
    then show ?thesis using b uw id by (auto simp: elements_binding_last split: if_splits)
  qed
next
  case True
  obtain path signers a1 n s2 where
    hsm: "on_hsm ElementsHsm (signers_for papi (em_fleet m) u path) (es_app s) = (Inr signers, a1)" and
    lwk: "lwk_network lapi c m (s\<lparr>es_app := a1\<rparr>) = (Inr n, s2)" and
    path: "derivation_path_for lapi m (to_u32_or 0 (ew_account_idx row)) = Inr path"
    using load unfolding build_user_wallet_def by (auto simp: on_app_Inr_iff elim!: bind_st_InrE)
  have db: "es_db s2 = es_db s"
    using lwk_network_run [OF lwk] on_hsm_caches [OF hsm] by (simp add: besides_world_def es_db_def)
  let ?h = "ap_host (es_app s2)"
  have none: "list_federation_versions_for_elements_wallet (ew_id row) (h_db ?h) = (Inr [], h_db ?h)"
    using db True by (simp add: elements_listing_eq es_db_def)
  let ?spec = "initial_elements_version lapi m row"
  let ?ins = "insert_federation_version (h_uuid ?h (h_tick ?h)) (h_now ?h (h_tick ?h)) ?spec (es_db s)"
  have dbh: "h_db ?h = es_db s" using db by (simp add: es_db_def)
  have none': "list_federation_versions_for_elements_wallet (ew_id row) (es_db s) = (Inr [], es_db s)"
    using none dbh by simp
  obtain q d' where ins: "?ins = (q, d')" by force
  have "q \<noteq> Inl Panic" using ins by (auto simp: insert_federation_version_def statement_def split: option.splits)
  have sig: "on_app (on_hsm ElementsHsm (signers_for papi (em_fleet m) u path)) s = (Inr signers, s\<lparr>es_app := a1\<rparr>)"
    by (simp add: on_app_def hsm)
  have rd: "on_app (on_host (db_query ElementsSqlx (list_federation_versions_for_elements_wallet (ew_id row)))) s2
      = (Inr [] :: (elements_wallet_error, federation_version_row list) res, s2)"
    by (simp add: on_app_def on_host_def db_query_def dbh none')
  let ?t = "s2\<lparr>es_app := (es_app s2)\<lparr>ap_host := ?h\<lparr>h_db := d', h_tick := Suc (h_tick ?h)\<rparr>\<rparr>\<rparr>"
  have wr: "on_app (on_host (bind_st (ignore_err (db_insert ElementsSqlx (\<lambda>new_id now.
         insert_federation_version new_id now ?spec))) (\<lambda>_. ret_st ()))) s2
      = (Inr () :: (elements_wallet_error, unit) res, ?t)"
  proof (cases q)
    case (Inl a)
    with \<open>q \<noteq> Inl Panic\<close> obtain e where "a = Err e" by (cases a) auto
    with Inl ins show ?thesis by (simp add: on_app_def on_host_def bind_st_def ignore_err_def db_insert_def dbh)
  next
    case (Inr b)
    with ins show ?thesis by (simp add: on_app_def on_host_def bind_st_def ignore_err_def db_insert_def dbh)
  qed
  have "(Inr uw, s') = build_user_wallet papi lapi c m u row s" using load by simp
  also have "\<dots> = (case elements_binding lapi u row [] of (descriptor, mbk, drifted) \<Rightarrow>
      (Inr \<lparr>ue_user_id = u, ue_wallet_id = ew_id row, ue_account_idx = ew_account_idx row,
       ue_network = em_network m, ue_lwk = n, ue_descriptor = descriptor, ue_mbk = mbk,
       ue_daemon_wallet_name = ew_daemon_wallet_name row, ue_signers = signers,
       ue_version_count = 1, ue_rpc = (em_rpc_url m, em_rpc_user m, em_rpc_pass m), ue_backend = em_backend m,
       ue_electrum_url = em_electrum_url m, ue_esplora_url = em_esplora_url m,
       ue_esplora_auth = em_esplora_auth m\<rparr>, ?t))"
    by (simp add: build_user_wallet_def path bind_st_Inr sig lwk rd wr elements_binding_def)
  finally have run: "ue_wallet_id uw = ew_id row \<and> ue_descriptor uw = ew_descriptor row \<and> es_db s' = d'"
    by (simp add: elements_binding_def es_db_def)
  then have uw: "ue_wallet_id uw = ew_id row" "ue_descriptor uw = ew_descriptor row" and s': "es_db s' = snd ?ins"
    by (simp_all add: ins)
  show ?thesis
  proof (cases "version_refusal (h_uuid ?h (h_tick ?h)) ?spec (es_db s)")
    case (Some e)
    then have "es_db s' = es_db s" by (simp add: s' insert_federation_version_def st_simps)
    with some True show ?thesis by simp
  next
    case None
    then have "federation_versions (es_db s') = federation_versions (es_db s)
        @ [version_of_spec (h_uuid ?h (h_tick ?h)) (h_now ?h (h_tick ?h)) ?spec]"
      by (simp add: s' insert_federation_version_def st_simps)
    then have "elements_listing (ew_id row) (es_db s') = [version_of_spec (h_uuid ?h (h_tick ?h)) (h_now ?h (h_tick ?h)) ?spec]"
      using True by (simp add: elements_listing_def sort_key_Nil_iff version_of_spec_def initial_elements_version_def)
    then show ?thesis using uw by (simp add: version_of_spec_def initial_elements_version_def)
  qed
qed
lemma load_account_Inr:
  assumes "load_elements_account papi lapi c m fee row s = (Inr (uw, sm), s')"
  shows "\<exists>t. build_user_wallet papi lapi c m (ew_user_id row) row t = (Inr uw, s')"
proof -
  from assms obtain t u where load: "load_wallet_from_row papi lapi c m row t = (Inr uw, u)"
    and utxos: "\<exists>us. on_app (on_host (map_err_st exit_1 (captured_utxos lapi c uw))) u = (Inr us, s')"
    by (fastforce simp: load_elements_account_def throw_res_def elim!: bind_st_InrE split: if_splits)
  from utxos have "s' = u"
    by (auto simp: on_app_Inr_iff on_host_Inr_iff dest: captured_utxos_host)
  with load show ?thesis by (auto simp: load_wallet_from_row_def)
qed

text \<open>C5. A run with \<open>--sweep-only\<close>, which resumes a migration whose federation change is recorded,
  builds the wallet it spends from on the descriptor it sends to: the load has already adopted
  the newest version, so the \<open>old\<close> descriptor of every account is that of its destination.\<close>

theorem resumed_sweep_spends_from_destination:
  assumes "bind_st (load_elements_account papi lapi c m fee row) (\<lambda>(uw, sm).
      bind_st (resolve_destination papi lapi cfg app m True lwk uw) (\<lambda>(acct, (desc, mbk, version), dest).
      bind_st (on_app (on_host (exec_account lapi c m lwk [acct \<mapsto> (desc, mbk, version)] fee_idx uw))) (\<lambda>found.
      ret_st (desc, found)))) s = (Inr (desc, Some a), s')"
  shows "xa_old_descriptor a = desc"
proof -
  from assms obtain uw sm s1 acct mbk version dest s2 where
    load: "load_elements_account papi lapi c m fee row s = (Inr (uw, sm), s1)" and
    res: "resolve_destination papi lapi cfg app m True lwk uw s1 = (Inr (acct, (desc, mbk, version), dest), s2)" and
    ex: "on_app (on_host (exec_account lapi c m lwk [acct \<mapsto> (desc, mbk, version)] fee_idx uw)) s2 = (Inr (Some a), s')"
    by (auto elim!: bind_st_InrE split: prod.splits)
  have a: "xa_old_descriptor a = ue_descriptor uw"
    using ex by (auto simp: on_app_Inr_iff on_host_Inr_iff exec_account_def elim!: bind_st_InrE split: if_splits prod.splits)
  obtain t where build: "build_user_wallet papi lapi c m (ew_user_id row) row t = (Inr uw, s1)"
    using load_account_Inr [OF load] by blast
  have id: "ue_wallet_id uw = ew_id row"
    using build unfolding build_user_wallet_def by (auto elim!: bind_st_InrE split: prod.splits)
  have read: "on_app (on_host (db_query exit_1 (list_federation_versions_for_elements_wallet (ew_id row)))) s1
      = (Inr (elements_listing (ew_id row) (es_db s1)), s1)"
    by (simp add: on_app_def on_host_def db_query_def elements_listing_eq es_db_def)
  obtain s3 where "recorded_federation lapi uw s1 = (Inr (desc, mbk, version), s3)"
    using res by (auto simp: resolve_destination_def elim!: bind_st_InrE)
  then obtain v vs where v: "rev (elements_listing (ew_id row) (es_db s1)) = v # vs" "fv_descriptor v = desc"
    by (auto simp: recorded_federation_def id bind_st_Inr read throw_res_def elim!: bind_st_InrE split: list.splits)
  then have "elements_listing (ew_id row) (es_db s1) \<noteq> []" "last (elements_listing (ew_id row) (es_db s1)) = v"
    by (auto simp flip: hd_rev)
  with load_settles_on_newest [OF build] v(2) a show ?thesis by simp
qed

section \<open>Early exits\<close>

lemma completed_read [pres_intros]:
  "preserves (\<lambda>d. completed d = C) (has_in_progress_elements_migration w)"
  "preserves (\<lambda>d. completed d = C) (list_federation_versions_for_elements_wallet w)"
  "preserves (\<lambda>d. completed d = C) list_all_elements_wallets"
  by (simp_all add: has_in_progress_elements_migration_def list_federation_versions_for_elements_wallet_def
      list_all_elements_wallets_def)

lemma completed_update [pres_intros]:
  "preserves (\<lambda>d. completed d = C) (update_elements_wallet_descriptor w desc k)"
  by (simp add: preserves_def completed_def update_elements_wallet_descriptor_def write_st_def)

lemma completed_wallet: "preserves (\<lambda>d. completed d = C) (insert_elements_wallet n t wallet)"
  by (auto simp: preserves_def completed_def insert_elements_wallet_def statement_def split: option.splits)

lemma completed_pending [pres_intros]:
  "preserves (\<lambda>d. completed d = C) (set_pending_migration_for_older_elements_versions w k)"
  using completed_flag [of "\<lambda>v. fv_elements_wallet_id v = Some w \<and> fv_version_index v < k
      \<and> fv_migration_status v = ''not_applicable''"]
  by (simp add: preserves_def set_pending_migration_for_older_elements_versions_def write_st_def)

abbreviation nothing_completed where
  "nothing_completed C \<equiv> \<lambda>d. completed d = C"

interpretation elements_completes_nothing: elements_frame "nothing_completed C"
  by unfold_locales (rule completed_insert completed_update completed_wallet)+

lemmas elements_completes_nothing_frames [pres_intros] = elements_completes_nothing.build_frame elements_completes_nothing.lwk_frame

lemma discovery_completes_nothing [pres_intros]:
  "preserves (es_inv (nothing_completed C)) (discover_elements_accounts papi lapi c m fee)"
  unfolding discover_elements_accounts_def load_elements_account_def load_wallet_from_row_def by (intro pres_intros)

lemma resolve_completes_nothing [pres_intros]:
  "preserves (es_inv (nothing_completed C)) (resolve_destination papi lapi cfg app m sweep_only lwk uw)"
  unfolding resolve_destination_def recorded_federation_def build_new_elements_federation_def case_prod_unfold
  by (intro pres_intros)

lemma step_1_completes_nothing [pres_intros]:
  "preserves (host_inv (nothing_completed C)) (elements_step_1 tapi lapi cfg sweep_only new_feds uws)"
  unfolding elements_step_1_def record_elements_federation_def record_version_def by (intro pres_intros)

lemma step_2_completes_nothing [pres_intros]:
  "preserves (host_inv P) (elements_step_2 tapi lapi c cfg app m lwk new_feds t uws)"
  unfolding elements_step_2_def exec_accounts_def exec_account_def stop_def Let_def case_prod_unfold by (intro pres_intros)

lemma complete_account_total:
  "fst (complete_account list_federation_versions_for_elements_wallet w sweep h) = (Inr () :: ('e, unit) res)"
  by (simp add: complete_account_def bind_st_def ignore_err_def db_query_def elements_listing_eq stamp_versions_run)

lemma mark_migrated_total:
  "fst (mark_migrated list_federation_versions_for_elements_wallet accounts h) = (Inr () :: ('e, unit) res)"
proof (induction accounts arbitrary: h)
  case (Cons a accounts)
  obtain h1 where "(case a of (w, sweep) \<Rightarrow> complete_account list_federation_versions_for_elements_wallet w sweep) h
      = (Inr () :: ('e, unit) res, h1)"
    using complete_account_total [of "fst a" "snd a" h] by (cases a) (auto simp: prod_eq_iff)
  with Cons.IH [of h1] show ?case by (simp add: mark_migrated_def bind_st_Inr)
qed (simp add: mark_migrated_def)

lemma mark_elements_accounts_total: "fst (mark_elements_accounts uws txs h) = Inr ()"
  by (simp add: mark_elements_accounts_def mark_migrated_total)

lemma mark_never_fails: "mark_elements_accounts uws txs h \<noteq> (Inl x, h')"
  using mark_elements_accounts_total [of uws txs h] by (metis fst_conv sum.distinct(1))

lemma keeps_on_error_mark: "keeps_on_error P (on_app (on_host (mark_elements_accounts uws txs)))"
  by (auto simp: keeps_on_error_def on_app_def on_host_def mark_never_fails split: prod.splits)

lemma keeps_on_error_rules:
  "keeps_on_error P (stop code)"
  "keeps_on_error P m \<Longrightarrow> keeps_on_error P k \<Longrightarrow> keeps_on_error P (if b then m else k)"
  by (simp add: keeps_on_error_def stop_def) (cases b, simp_all)

text \<open>C6. A run of the Elements migration that ends early, at whatever prompt, check or failing
  broadcast, has completed nothing: the completed versions and the sweeps they record are those
  from before the run, also when transactions of it were already broadcast.\<close>

theorem early_exit_completes_nothing:
  assumes "run_elements_migration tapi papi lapi c cfg app fleet dry_run sweep_only s = (Inl x, s')"
  shows "completed (es_db s') = completed (es_db s)"
proof -
  let ?P = "es_inv (nothing_completed (completed (es_db s)))"
  have "keeps_on_error ?P (run_elements_migration tapi papi lapi c cfg app fleet dry_run sweep_only)"
    unfolding run_elements_migration_def Let_def
    by (intro keeps_on_error_bind keeps_on_error_rules keeps_on_error_mark pres_intros)
  moreover have "?P s" by (simp add: es_inv_def app_inv_def es_db_def)
  ultimately have "?P s'" using assms by (blast intro: keeps_on_error_run)
  then show ?thesis by (simp add: es_inv_def app_inv_def es_db_def)
qed

section \<open>Previews\<close>

lemma spread_sum:
  assumes "unat each + 1 < 2 ^ 64" and "unat rem \<le> n"
  shows "sum_list (map unat (spread each rem n)) = n * unat each + unat rem \<and> length (spread each rem n) = n
    \<and> set (spread each rem n) \<subseteq> {each, each + 1}"
  using assms
proof (induction each rem n rule: spread.induct)
  case (2 each rem n)
  have up: "unat (each + 1) = unat each + 1" using 2(3) by (simp add: unat_word_ariths)
  show ?case
  proof (cases "0 < rem")
    case True
    then have "unat (rem - 1) = unat rem - 1" and "0 < unat rem"
      by (simp_all add: unat_minus_one unat_gt_0)
    with 2(1) [OF True 2(3)] 2(4) True up show ?thesis by auto
  next
    case False
    then have "rem = 0" by (simp add: word_gt_0)
    with 2(2) [OF False 2(3)] show ?thesis by auto
  qed
qed simp
lemma synthetic_values_sum:
  assumes "count < 2 ^ 64"
  shows "sum_list (map unat (synthetic_values total_sat count)) = unat total_sat
    \<and> length (synthetic_values total_sat count) = max count 1
    \<and> (\<exists>each. set (synthetic_values total_sat count) \<subseteq> {each, each + 1})"
proof -
  define n where "n = max count 1"
  define each where "each = total_sat div word_of_nat n"
  define rem where "rem = total_sat - each * word_of_nat n"
  have n: "unat (word_of_nat n :: u64) = n" "0 < n"
    using assms by (simp_all add: n_def unsigned_of_nat take_bit_nat_eq_self)
  have vals: "synthetic_values total_sat count = spread each rem n"
    by (simp add: synthetic_values_def Let_def n_def each_def rem_def)
  have each: "unat each = unat total_sat div n" by (simp add: each_def unat_div n)
  then have le: "unat each * n \<le> unat total_sat" by (simp add: div_times_less_eq_dividend)
  then have "unat each * n < 2 ^ 64" using unsigned_less [of total_sat, where 'a = nat] by simp
  then have mul: "unat (each * word_of_nat n) = unat each * n" by (simp add: unat_mult_lem [THEN iffD1] n)
  then have rem: "unat rem = unat total_sat mod n"
    using le by (simp add: rem_def unat_sub word_le_nat_alt each minus_div_mult_eq_mod)
  show ?thesis
  proof (cases "n = 1")
    case True
    with each rem have "each = total_sat" "rem = 0" by (simp_all add: unat_eq_0 word_eq_iff_unsigned [symmetric] flip: word_unat_eq_iff)
    with True show ?thesis unfolding vals by (simp add: n_def) blast
  next
    case False
    with n have "unat total_sat div n \<le> unat total_sat div 2" by (intro div_le_mono2) auto
    then have "unat each + 1 < 2 ^ 64" using each unsigned_less [of total_sat, where 'a = nat] by simp
    moreover have "unat rem \<le> n" using rem n by (simp add: less_imp_le)
    ultimately show ?thesis using spread_sum [of each rem n] rem each
      unfolding vals by (auto simp: n_def)
  qed
qed

text \<open>C23. The outputs the batched preview plans with stand for the account: as many as it has, at
  least one, worth its balance together and differing by at most one satoshi, numbered from 0.\<close>

theorem preview_outputs_add_up:
  assumes "count < 2 ^ 32" and "\<And>v. secret_value (unblinded v) = v"
  shows "let us = synthetic_utxos null_txid null_out unblinded total_sat count in
      (\<Sum>u\<leftarrow>us. unat (secret_value (cu_secrets u))) = unat total_sat \<and> length us = max count 1
      \<and> (\<exists>each. \<forall>u \<in> set us. secret_value (cu_secrets u) = each \<or> secret_value (cu_secrets u) = each + 1)
      \<and> distinct (map (\<lambda>u. (cu_txid u, cu_vout u)) us)"
proof -
  let ?vs = "synthetic_values total_sat count"
  let ?us = "synthetic_utxos null_txid null_out unblinded total_sat count"
  have vals: "map (\<lambda>u. secret_value (cu_secrets u)) ?us = ?vs"
    by (simp add: synthetic_utxos_def assms(2) comp_def case_prod_unfold)
  have facts: "sum_list (map unat ?vs) = unat total_sat" "length ?vs = max count 1"
    "\<exists>each. set ?vs \<subseteq> {each, each + 1}"
    using synthetic_values_sum [of count total_sat] assms(1) by simp_all
  have "map (\<lambda>u. unat (secret_value (cu_secrets u))) ?us = map unat ?vs"
    by (simp add: vals [symmetric] comp_def)
  moreover have "length ?us = length ?vs" by (simp add: synthetic_utxos_def)
  moreover have "\<exists>each. \<forall>u \<in> set ?us. secret_value (cu_secrets u) = each \<or> secret_value (cu_secrets u) = each + 1"
  proof -
    obtain each where "set ?vs \<subseteq> {each, each + 1}" using facts(3) ..
    then have "\<forall>u \<in> set ?us. secret_value (cu_secrets u) = each \<or> secret_value (cu_secrets u) = each + 1"
      unfolding vals [symmetric] by auto
    then show ?thesis ..
  qed
  moreover have "distinct (map (\<lambda>u. (cu_txid u, cu_vout u)) ?us)"
  proof -
    have "map (\<lambda>u. (cu_txid u, cu_vout u)) ?us = map (\<lambda>i. (null_txid, word_of_nat i)) (map fst (enumerate 0 ?vs))"
      by (simp add: synthetic_utxos_def comp_def case_prod_unfold del: map_fst_enumerate)
    then have "map (\<lambda>u. (cu_txid u, cu_vout u)) ?us = map (\<lambda>i. (null_txid, word_of_nat i)) [0..<length ?vs]"
      by (simp only: map_fst_enumerate add_0)
    moreover have "inj_on (\<lambda>i. word_of_nat i :: u32) {0..<length ?vs}"
      using assms(1) facts(2) by (auto intro!: inj_onI simp: word_of_nat_eq_iff take_bit_nat_eq_self)
    ultimately show ?thesis by (simp add: distinct_map inj_on_def)
  qed
  ultimately show ?thesis using facts by (simp add: Let_def)
qed

theorem preview_outputs_add_up_witness:
  "(\<Sum>u\<leftarrow>synthetic_utxos ''0'' () id 7 3. unat (cu_secrets u)) = 7"
  using preview_outputs_add_up [of 3 id id "''0''" "()" 7] by (simp add: Let_def)
section \<open>Instances\<close>

definition liquid_loaded_wallet :: "(string \<times> u32 list, string) user_elements_wallet" where
  "liquid_loaded_wallet = liquid_wallet\<lparr>ue_mbk := derive_master_blinding_key sample_lwk 1 0,
     ue_signers := [(''a'', [48, 1, 0, 2]), (''b'', [48, 1, 0, 2])]\<rparr>"

definition liquid_loaded :: "(string \<times> u32 list, unit, (string \<times> u32 list, string) user_elements_wallet, string,
    (string \<times> string) list) elements_state" where
  "liquid_loaded = \<lparr>es_app = \<lparr>ap_host = (liquid_host [])\<lparr>h_db := (sample_db_liquid [])\<lparr>elements_wallets :=
        [(sample_elements_row)\<lparr>ew_descriptor := ''e1'', ew_master_blinding_key := []\<rparr>]\<rparr>,
        h_world := [(''b'', ''signer-1''), (''a'', ''signer-1'')]\<rparr>,
     ap_signers = (\<lambda>_. None)(1 \<mapsto> [(''a'', [48, 1, 0, 2]), (''b'', [48, 1, 0, 2])]), ap_wallets = (\<lambda>_. None),
     ap_elements = (\<lambda>_. None)\<rparr>, es_lwk = Some ''a''\<rparr>"

lemma liquid_load_value:
  "build_user_wallet (sample_pkcs11 []) sample_lwk sample_codec sample_elements_manager 1 sample_elements_row
     (liquid_state []) = (Inr liquid_loaded_wallet, liquid_loaded)"
proof -
  have row: "ew_account_idx sample_elements_row = 0" "ew_id sample_elements_row = 20" "ew_descriptor sample_elements_row = ''e0''"
    "elements_wallets sample_db = [sample_elements_row]" "ew_daemon_wallet_name sample_elements_row = ''n0''"
    by (simp_all add: sample_elements_row_def sample_db_def)
  have fv: "fv_descriptor (sample_elements_version hex) = ''e1''" "fv_blinding_key (sample_elements_version hex) = Some hex" for hex
    by (simp_all add: sample_elements_version_def version_of_spec_def)
  have path: "derivation_path_for sample_lwk sample_elements_manager 0 = Inr [48, 1, 0, 2]"
    by (simp add: derivation_path_for_def sample_lwk_def sample_elements_manager_def)
  have m: "em_fleet sample_elements_manager = sample_fleet" by (simp add: sample_elements_manager_def)
  have l: "es_lwk (liquid_state hex) = Some ''a''" "h_db (liquid_host hex) = sample_db_liquid hex" for hex
    by (simp_all add: liquid_state_def liquid_host_def)
  have k: "parse_mbk_hex [] = None" by (simp add: parse_mbk_hex_def)
  show ?thesis
    by (simp add: build_user_wallet_def row path m to_u32_or_def bind_st_def on_app_def liquid_signers
        lwk_network_hit l on_host_def db_query_def liquid_versions elements_binding_def fv ignore_err_def
        update_elements_wallet_descriptor_def write_st_def Let_def k healed_blinding_hex_def)
      (simp add: liquid_loaded_wallet_def liquid_wallet_def liquid_loaded_def liquid_state_def liquid_host_def
        sample_db_liquid_def sample_elements_manager_def row)
qed
lemma liquid_loaded_utxos:
  "captured_utxos sample_lwk sample_codec liquid_loaded_wallet (ap_host (es_app liquid_loaded)) =
     (Inr [sample_utxo\<lparr>cu_secrets := ''aaaa''\<rparr>, sample_utxo\<lparr>cu_vout := 2, cu_secrets := ''bb''\<rparr>], ap_host (es_app liquid_loaded))"
  by (simp add: captured_utxos_def store_query_def uw_key_def liquid_wallet_def liquid_loaded_wallet_def liquid_loaded_def
      liquid_host_def sample_db_liquid_def list_unspent_def sample_utxo_row_def utxo_of_row_def sample_codec_def
      sample_utxo_def i16_to_chain_def i64_as_u32_def)

lemma liquid_account:
  "\<exists>sm. load_elements_account (sample_pkcs11 []) sample_lwk sample_codec sample_elements_manager (Some 0) sample_elements_row
     (liquid_state []) = (Inr (liquid_loaded_wallet, sm), liquid_loaded) \<and> sm_balance_btc sm = btc_of_sats 6
    \<and> sm_destination_address sm = None"
proof -
  have row: "ew_id sample_elements_row = 20" "ew_user_id sample_elements_row = 1"
    by (simp_all add: sample_elements_row_def sample_db_def)
  have "on_app (on_host (db_query exit_1 (has_in_progress_elements_migration 20))) (liquid_state [])
      = (Inr False, liquid_state [])"
    by (simp add: on_app_def on_host_def db_query_def has_in_progress_elements_migration_def liquid_state_def liquid_host_def
        sample_db_liquid_def count_where_def sample_elements_version_def version_of_spec_def)
  then have idle: "bind_st (on_app (on_host (db_query exit_1 (has_in_progress_elements_migration 20)))) f (liquid_state [])
      = f False (liquid_state [])" for f :: "bool \<Rightarrow> (_, tool_exit, 'z) st"
    by (rule bind_st_Inr)
  have utxos: "on_app (on_host (map_err_st exit_1 (captured_utxos sample_lwk sample_codec liquid_loaded_wallet))) liquid_loaded
      = (Inr [sample_utxo\<lparr>cu_secrets := ''aaaa''\<rparr>, sample_utxo\<lparr>cu_vout := 2, cu_secrets := ''bb''\<rparr>], liquid_loaded)"
    by (simp add: on_app_def on_host_def map_err_st_def liquid_loaded_utxos)
  have wallet: "map_err_st exit_1 (load_wallet_from_row (sample_pkcs11 []) sample_lwk sample_codec sample_elements_manager
      sample_elements_row) (liquid_state []) = (Inr liquid_loaded_wallet, liquid_loaded)"
    by (simp add: load_wallet_from_row_def map_err_st_def liquid_load_value row)
  show ?thesis
    by (simp add: load_elements_account_def row bind_st_Inr idle wallet utxos sum_sats_def liquid_values checked_add_def)
qed

lemma liquid_resolved:
  "\<exists>version. resolve_destination (sample_pkcs11 []) sample_lwk cfg app sample_elements_manager True ''a'' liquid_loaded_wallet
     liquid_loaded = (Inr (0, (''e1'', replicate 32 0, version), ''e1''), liquid_loaded)"
proof -
  have sel: "wollet_from_descriptor sample_lwk = (\<lambda>d _ _ _. Inr d)" "wollet_address sample_lwk = (\<lambda>w _ i. Inr w)"
    "addr_str sample_lwk = (\<lambda>a. a)" by (simp_all add: sample_lwk_def)
  have w: "ue_wallet_id liquid_loaded_wallet = 20" "ue_account_idx liquid_loaded_wallet = 0"
    by (simp_all add: liquid_loaded_wallet_def liquid_wallet_def)
  have fv: "fv_descriptor (sample_elements_version []) = ''e1''" "fv_blinding_key (sample_elements_version []) = Some []"
    by (simp_all add: sample_elements_version_def version_of_spec_def)
  have key: "hex_decode_bytes [] = (Inr (replicate 32 0) :: (tool_exit, u8 list) res)"
    by (simp add: hex_decode_bytes_def numeral_eq_Suc)
  have read: "on_app (on_host (db_query exit_1 (list_federation_versions_for_elements_wallet 20))) liquid_loaded
      = (Inr [sample_elements_version []], liquid_loaded)"
    using liquid_versions [of "[]"]
    by (simp add: on_app_def on_host_def db_query_def liquid_loaded_def list_federation_versions_for_elements_wallet_def
        liquid_host_def)
  show ?thesis
    by (simp add: resolve_destination_def recorded_federation_def w bind_st_Inr read fv key first_address_def sel)
qed

definition liquid_exec :: "(string, u8 list, string, string \<times> u32 list, string) elements_exec_account" where
  "liquid_exec = \<lparr>xa_account_idx = 0, xa_is_fee = True, xa_old_descriptor = ''e1'', xa_old_mbk = ue_mbk liquid_loaded_wallet,
     xa_utxos = [sample_utxo\<lparr>cu_secrets := ''aaaa''\<rparr>, sample_utxo\<lparr>cu_vout := 2, cu_secrets := ''bb''\<rparr>],
     xa_signers = [(''a'', [48, 1, 0, 2]), (''b'', [48, 1, 0, 2])], xa_dest = ''e1''\<rparr>"

lemma liquid_exec:
  assumes "feds 0 = Some (''e1'', mbk, version)"
  shows "exec_account sample_lwk sample_codec sample_elements_manager ''a'' feds 0 liquid_loaded_wallet
     (ap_host (es_app liquid_loaded)) = (Inr (Some liquid_exec), ap_host (es_app liquid_loaded))"
proof -
  have sel: "wollet_from_descriptor sample_lwk = (\<lambda>d _ _ _. Inr d)" "wollet_address sample_lwk = (\<lambda>w _ i. Inr w)"
    by (simp_all add: sample_lwk_def)
  have w: "ue_account_idx liquid_loaded_wallet = 0" "ue_descriptor liquid_loaded_wallet = ''e1''"
    "ue_signers liquid_loaded_wallet = [(''a'', [48, 1, 0, 2]), (''b'', [48, 1, 0, 2])]"
    by (simp_all add: liquid_loaded_wallet_def liquid_wallet_def)
  show ?thesis
    by (simp add: exec_account_def bind_st_def map_err_st_def liquid_loaded_utxos w assms first_address_def sel ret_st_def
        liquid_exec_def)
qed

theorem resumed_sweep_spends_from_destination_witness:
  "\<exists>desc a s'. bind_st (load_elements_account (sample_pkcs11 []) sample_lwk sample_codec sample_elements_manager (Some 0)
        sample_elements_row) (\<lambda>(uw, sm).
      bind_st (resolve_destination (sample_pkcs11 []) sample_lwk sample_migration sample_app_config sample_elements_manager
        True ''a'' uw) (\<lambda>(acct, (desc, mbk, version), dest).
      bind_st (on_app (on_host (exec_account sample_lwk sample_codec sample_elements_manager ''a''
        [acct \<mapsto> (desc, mbk, version)] 0 uw))) (\<lambda>found. ret_st (desc, found)))) (liquid_state []) = (Inr (desc, Some a), s')
    \<and> xa_old_descriptor a = desc \<and> desc = ''e1''"
proof -
  obtain sm where load: "load_elements_account (sample_pkcs11 []) sample_lwk sample_codec sample_elements_manager (Some 0)
      sample_elements_row (liquid_state []) = (Inr (liquid_loaded_wallet, sm), liquid_loaded)" using liquid_account by blast
  have sel: "wollet_from_descriptor sample_lwk = (\<lambda>d _ _ _. Inr d)" "wollet_address sample_lwk = (\<lambda>w _ i. Inr w)"
    "addr_str sample_lwk = (\<lambda>a. a)" by (simp_all add: sample_lwk_def)
  have w: "ue_account_idx liquid_loaded_wallet = 0"
    by (simp add: liquid_loaded_wallet_def liquid_wallet_def)
  obtain version where res: "resolve_destination (sample_pkcs11 []) sample_lwk sample_migration sample_app_config
      sample_elements_manager True ''a'' liquid_loaded_wallet liquid_loaded
        = (Inr (0, (''e1'', replicate 32 0, version), ''e1''), liquid_loaded)" using liquid_resolved by blast
  have ex: "on_app (on_host (exec_account sample_lwk sample_codec sample_elements_manager ''a''
      [0 \<mapsto> (''e1'', replicate 32 0, version)] 0 liquid_loaded_wallet)) liquid_loaded = (Inr (Some liquid_exec), liquid_loaded)"
    by (simp add: on_app_def on_host_def liquid_exec)
  have run: "bind_st (load_elements_account (sample_pkcs11 []) sample_lwk sample_codec sample_elements_manager (Some 0)
        sample_elements_row) (\<lambda>(uw, sm).
      bind_st (resolve_destination (sample_pkcs11 []) sample_lwk sample_migration sample_app_config sample_elements_manager
        True ''a'' uw) (\<lambda>(acct, (desc, mbk, version), dest).
      bind_st (on_app (on_host (exec_account sample_lwk sample_codec sample_elements_manager ''a''
        [acct \<mapsto> (desc, mbk, version)] 0 uw))) (\<lambda>found. ret_st (desc, found)))) (liquid_state [])
      = (Inr (''e1'', Some liquid_exec), liquid_loaded)"
    by (simp add: load bind_st_Inr res ex)
  from resumed_sweep_spends_from_destination [OF run] run show ?thesis by blast
qed
text \<open>A run that resumes, is confirmed, and cannot build its transaction.\<close>

definition liquid_app :: "string app_config" where
  "liquid_app = sample_app_config\<lparr>fed_threshold := 2, elements_network := LiquidTestnet,
     elements_chain_backend := ElementsElectrum, elements_electrum_url := Some ''ssl'', elements_esplora_url := None\<rparr>"

definition sample_tool :: "(string, (string, string \<times> u64) pset_data, string, string, u8 list, string, string, string,
    string \<times> u64, (string \<times> string) list) elements_tool" where
  "sample_tool = \<lparr>et_read_line = (\<lambda>w. ('' Yes '', w)), et_hash_order = (\<lambda>accounts. accounts),
     et_prev_out = (\<lambda>i. (pi_rest i, 0)), et_plan = (\<lambda>_ _ _ _. Inr []),
     et_plan_batched = (\<lambda>_ _ _ _ _. Inr [\<lparr>sx_outputs = [], sx_is_fee_final = True\<rparr>]),
     et_build_migration_pset = (\<lambda>_ _ _ _ _. lift_st (throw_res ''no fee input'')),
     et_captured_from_output = (\<lambda>_ _ _ _ _ _. Inl ''not ours''), et_tx_outs = (\<lambda>_. []), et_txid = fst, et_show_error = (\<lambda>_. [])\<rparr>"

lemma liquid_manager: "elements_manager_new liquid_app sample_fleet = sample_elements_manager"
  by (simp add: elements_manager_new_def liquid_app_def sample_app_config_def sample_elements_manager_def)

lemma liquid_discovery:
  obtains sm where "discover_elements_accounts (sample_pkcs11 []) sample_lwk sample_codec sample_elements_manager (Some 0)
      (liquid_state []) = (Inr [(liquid_loaded_wallet, sm)], liquid_loaded)" and "sm_balance_btc sm = btc_of_sats 6"
    and "sm_destination_address sm = None"
proof -
  obtain sm where load: "load_elements_account (sample_pkcs11 []) sample_lwk sample_codec sample_elements_manager (Some 0)
      sample_elements_row (liquid_state []) = (Inr (liquid_loaded_wallet, sm), liquid_loaded)"
    and sm: "sm_balance_btc sm = btc_of_sats 6" "sm_destination_address sm = None" using liquid_account by blast
  have rows: "on_app (on_host (db_query exit_1 list_all_elements_wallets)) (liquid_state [])
      = (Inr [sample_elements_row], liquid_state [])"
    by (simp add: on_app_def on_host_def db_query_def list_all_elements_wallets_def liquid_state_def liquid_host_def
        sample_db_liquid_def sample_elements_row_def sample_db_def)
  show thesis
    by (rule that [OF _ sm]) (simp add: discover_elements_accounts_def bind_st_Inr rows load)
qed

definition resume_migration :: migration_config where
  "resume_migration = sample_migration\<lparr>mc_federation := (mc_federation sample_migration)\<lparr>nf_threshold := 1\<rparr>\<rparr>"

lemma resume_migration_simps:
  "ms_fee_account_idx (mc_migration resume_migration) = Some 0"
  "ms_strategy (mc_migration resume_migration) = ''account-for-account-batched''"
  "\<not> new_is_same (configured_labels liquid_app) (fed_threshold liquid_app) resume_migration"
  by (simp_all add: resume_migration_def sample_migration_def strategy_config_of_def new_is_same_def liquid_app_def)

lemma confirmed: "confirm_or_exit (et_read_line sample_tool) h = (Inr (), h)"
proof -
  have "trim '' Yes '' = ''Yes''" by code_simp
  then show ?thesis by (simp add: confirm_or_exit_def outside_def confirm_def sample_tool_def bind_st_def)
qed

theorem early_exit_completes_nothing_witness:
  "\<exists>s'. run_elements_migration sample_tool (sample_pkcs11 []) sample_lwk sample_codec resume_migration liquid_app sample_fleet
      False True (liquid_state []) = (Inl (Err (Exit 1)), s') \<and> es_db s' \<noteq> es_db (liquid_state [])
    \<and> completed (es_db s') = completed (es_db (liquid_state []))"
proof -
  obtain sm where disc: "discover_elements_accounts (sample_pkcs11 []) sample_lwk sample_codec sample_elements_manager (Some 0)
      (liquid_state []) = (Inr [(liquid_loaded_wallet, sm)], liquid_loaded)" and sm: "sm_balance_btc sm = btc_of_sats 6"
    and dest: "sm_destination_address sm = None" using liquid_discovery .
  have total: "total_btc [sm] = btc_of_sats 6"
    using sm by (simp add: total_btc_def) code_simp
  have pos: "\<not> f64_le_zero (btc_of_sats 6)" by code_simp
  have net: "map_err_st exit_1 (lwk_network sample_lwk sample_codec sample_elements_manager) liquid_loaded
      = (Inr ''a'', liquid_loaded)"
    by (simp add: map_err_st_def lwk_network_hit liquid_loaded_def)
  obtain version where res: "resolve_destination (sample_pkcs11 []) sample_lwk resume_migration liquid_app sample_elements_manager
      True ''a'' liquid_loaded_wallet liquid_loaded = (Inr (0, (''e1'', replicate 32 0, version), ''e1''), liquid_loaded)"
    using liquid_resolved by blast
  have ids: "short_ids (configured_labels liquid_app) = (Inr [''b'', ''a''] :: (tool_exit, string list) res)"
    by (simp add: configured_labels_def liquid_app_def sample_app_config_def sample_tokens_def short_ids_def map_filter_def)
  have table: "\<exists>t. account_table (with_destinations [(0, fed, ''e1'')] [sm]) = (Inr t :: (tool_exit, string list) res)" for fed
    by (simp add: account_table_def with_destinations_def dest map_filter_def truncate_address_def)
  obtain shown where shown: "account_table (with_destinations [(0, (''e1'', replicate 32 (0 :: u8), version), ''e1'')] [sm])
      = (Inr shown :: (tool_exit, string list) res)" using table [of "(''e1'', replicate 32 (0 :: u8), version)"] by (elim exE)
  let ?feds = "federations_by_account [(0 :: int, (''e1'', replicate 32 (0 :: u8), version), ''e1'')]"
  let ?step2 = "elements_step_2 sample_tool sample_lwk sample_codec resume_migration liquid_app sample_elements_manager ''a''
      ?feds (btc_of_sats 6) [liquid_loaded_wallet]"
  let ?h = "ap_host (es_app liquid_loaded)"
  have sel: "wollet_from_descriptor sample_lwk = (\<lambda>d _ _ _. Inr d)" "wollet_address sample_lwk = (\<lambda>w _ i. Inr w)"
    by (simp_all add: sample_lwk_def)
  have fed: "?feds 0 = Some (''e1'', replicate 32 0, version)" by (simp add: federations_by_account_def)
  have accounts: "exec_accounts sample_lwk sample_codec sample_elements_manager ''a'' ?feds 0 [liquid_loaded_wallet] ?h
      = (Inr [liquid_exec], ?h)"
    by (simp add: exec_accounts_def map_filter_def bind_st_Inr liquid_exec [where feds = ?feds, OF fed])
  have plan: "plan_elements_sweep sample_tool resume_migration 0 policy accounts
      = Inr [\<lparr>sx_outputs = [], sx_is_fee_final = True\<rparr>]" for policy accounts
    by (simp add: plan_elements_sweep_def resume_migration_simps sample_tool_def Let_def)
  have sweep: "execute_elements_sweeps sample_tool sample_lwk sample_codec resume_migration net ''a'' broadcast 0 [liquid_exec]
      [\<lparr>sx_outputs = [], sx_is_fee_final = True\<rparr>] w = (Inl (Err ''no fee input''), w)" for net broadcast w
    by (simp add: execute_elements_sweeps_def old_wollets_def wollet_of_def sel bind_st_Inr Let_def resume_migration_simps run_batched_def
        find_account_def liquid_exec_def or_panic_def no_parts_def add_fee_inputs_def add_inputs_def
        finish_sweep_def sample_tool_def bind_st_def lift_st_def throw_res_def)
  have "elements_step_2 sample_tool sample_lwk sample_codec resume_migration liquid_app sample_elements_manager ''a''
      ?feds (btc_of_sats 6) [liquid_loaded_wallet] ?h = (Inl (Err (Exit 1)), ?h)"
    by (simp add: elements_step_2_def pos confirmed bind_st_Inr resume_migration_simps Let_def accounts plan outside_def sweep exit_1_def)
  then have step2: "on_app (on_host ?step2) liquid_loaded = (Inl (Err (Exit 1)), liquid_loaded)"
    by (simp add: on_app_def on_host_def)
  have idle: "bind_st (on_app (on_host (ret_st ()))) f s = f () s" for f :: "unit \<Rightarrow> (_, tool_exit, unit) st" and s
    by (rule bind_st_Inr) (simp add: on_app_def on_host_def ret_st_def)
  have run: "run_elements_migration sample_tool (sample_pkcs11 []) sample_lwk sample_codec resume_migration liquid_app sample_fleet
      False True (liquid_state []) = (Inl (Err (Exit 1)), liquid_loaded)"
    by (simp add: run_elements_migration_def liquid_manager resume_migration_simps disc bind_st_Inr net res total ids shown
        elements_step_1_def idle step2 Let_def bind_st_Inl)
  have "elements_wallets (es_db liquid_loaded) \<noteq> elements_wallets (es_db (liquid_state []))"
    by (simp add: liquid_loaded_def liquid_state_def es_db_def liquid_host_def sample_db_liquid_def sample_db_def sample_elements_row_def)
  then have "es_db liquid_loaded \<noteq> es_db (liquid_state [])" by auto
  with run early_exit_completes_nothing [OF run] show ?thesis by blast
qed

definition liquid_feds :: "int \<Rightarrow> (string \<times> u8 list \<times> int) option" where
  "liquid_feds = Map.empty(0 \<mapsto> (''e2'', replicate 32 9, 1))"

lemma liquid_history: "version_history (sample_db_liquid [])"
proof -
  let ?d = "(sample_db_liquid [])\<lparr>federation_versions := []\<rparr>"
  let ?spec = "sample_version\<lparr>nv_wallet_id := None, nv_elements_wallet_id := Some 20, nv_descriptor := ''e1'',
      nv_blinding_key := Some []\<rparr>"
  have "db_inv ?d"
    using db_inv_sample by (simp add: sample_db_liquid_def sample_db_def sample_utxo_row_def db_inv_def db_ok_defs
        empty_database_def in_i32_def i32_max_def fv_row_ok_def migration_statuses_def)
  then have start: "version_history ?d" by (rule version_history.start) simp
  have "insert_federation_version 41 7 ?spec ?d = (Inr (version_of_spec 41 7 ?spec), sample_db_liquid [])"
    by (simp add: insert_federation_version_def version_refusal_None version_exists_def st_simps sample_version_def
        sample_db_liquid_def sample_elements_version_def sample_db_def empty_database_def version_of_spec_def)
  then show ?thesis
    by (rule version_history.step [OF start version_step.ins]) (simp_all add: sample_version_def)
qed

theorem step_1_records_the_destination_witness:
  "\<exists>h' earlier newest. elements_step_1 sample_tool sample_lwk resume_migration False liquid_feds [liquid_wallet] (liquid_host [])
      = (Inr (), h')
    \<and> list_federation_versions_for_elements_wallet 20 (h_db h') = (Inr (earlier @ [newest]), h_db h')
    \<and> fv_descriptor newest = ''e2'' \<and> map fv_id earlier = [41]
    \<and> list_all (\<lambda>v. fv_migration_status v \<noteq> ''not_applicable'') earlier"
proof -
  have w: "ue_wallet_id liquid_wallet = 20" "ue_account_idx liquid_wallet = 0" by (simp_all add: liquid_wallet_def)
  have hist: "version_history (h_db (liquid_host []))" using liquid_history by (simp add: liquid_host_def)
  have listing: "elements_listing 20 (h_db (liquid_host [])) = [sample_elements_version []]"
    using liquid_versions [of "[]"] by (simp add: elements_listing_eq liquid_host_def)
  let ?spec = "new_version_spec sample_lwk resume_migration liquid_wallet (''e2'', replicate 32 9, 1)"
  have spec: "version_refusal n ?spec (h_db (liquid_host [])) = None" if "n = 100" for n
    using that by (simp add: version_refusal_None version_exists_def new_version_spec_def w liquid_host_def sample_db_liquid_def
        sample_elements_version_def version_of_spec_def sample_db_def sample_version_def resume_migration_def sample_migration_def
        to_i32_or_def in_i32_def i32_max_def)
  have tick: "h_uuid (liquid_host []) (h_tick (liquid_host [])) = 100" by (simp add: liquid_host_def)
  have "\<exists>h'. record_elements_federation sample_lwk resume_migration liquid_feds liquid_wallet (liquid_host []) = (Inr (), h')"
    by (simp add: record_elements_federation_def w liquid_feds_def or_panic_def bind_st_def lift_st_def record_version_def
        db_insert_def insert_federation_version_def tick spec ignore_err_def db_query_def st_simps
        set_pending_migration_for_older_elements_versions_def write_st_def)
  then obtain h' where rec: "record_elements_federation sample_lwk resume_migration liquid_feds liquid_wallet (liquid_host [])
      = (Inr (), h')" by blast
  have run: "elements_step_1 sample_tool sample_lwk resume_migration False liquid_feds [liquid_wallet] (liquid_host []) = (Inr (), h')"
    by (simp add: elements_step_1_def bind_st_def confirmed rec)
  have "\<exists>fed. liquid_feds (ue_account_idx uw) = Some fed
      \<and> snd (snd fed) = int (length (elements_listing (ue_wallet_id uw) (h_db (liquid_host []))))"
    if "uw \<in> set [liquid_wallet]" for uw
    using that by (simp add: w liquid_feds_def listing)
  from step_1_records_the_destination [OF hist _ this run] run show ?thesis
    by (auto simp: w liquid_feds_def listing sample_elements_version_def version_of_spec_def)
qed

end
