(* ===== verification/Web.thy ===== *)
theory Web
  imports BtcWallet ElementsWallet
begin

text \<open>
  The web layer's common parts: the application error and the response it becomes (\<open>error.rs\<close>),
  passwords, sessions and the login extractor (\<open>auth.rs\<close>), the login pages (\<open>handlers/auth.rs\<close>,
  \<open>handlers/home.rs\<close>), and the seeding of the test users. The session store and Argon2 are
  arguments, what templates render is not modelled: a page is the record it is rendered from.
\<close>

section \<open>Errors and responses\<close>

datatype app_error =
    AppSqlx db_error
  | AppSession string
  | AppRender string
  | AppPasswordHash string
  | AppWallet wallet_error
  | AppHsm hsm_error
  | AppDescriptor string
  | AppElements elements_wallet_error
  | AppNotFound string
  | AppBadRequest string

datatype 'page response = Page 'page | RedirectTo string | Answer nat string

definition backtick :: "string \<Rightarrow> string" where
  "backtick s = [CHR 0x60] @ s @ [CHR 0x60]"

definition bad_address_text :: "(network \<Rightarrow> string) \<Rightarrow> string \<Rightarrow> network \<Rightarrow> string \<Rightarrow> string" where
  "bad_address_text show_net addr net reason = ''address '' @ backtick addr @ '' is not a valid '' @ backtick (show_net net)
     @ '' address: '' @ reason"

definition bad_fee_rate_text :: "u64 \<Rightarrow> string" where
  "bad_fee_rate_text rate = ''invalid fee rate '' @ backtick (show_nat (unat rate)) @ '' sat/vB''"

definition bad_amount_text :: "string \<Rightarrow> string \<Rightarrow> string" where
  "bad_amount_text amount reason = ''invalid amount '' @ backtick amount @ '': '' @ reason"

text \<open>Only the errors a user can do something about are shown.\<close>

fun into_response :: "(network \<Rightarrow> string) \<Rightarrow> app_error \<Rightarrow> 'page response" where
  "into_response show_net (AppNotFound what) = Answer 404 (''Not found: '' @ what)"
| "into_response show_net (AppBadRequest msg) = Answer 400 msg"
| "into_response show_net (AppWallet (wallet_error.NotFound user)) = Answer 404 ''Wallet not found''"
| "into_response show_net (AppWallet (wallet_error.BadAddress addr net reason)) =
     Answer 400 (''wallet error: '' @ bad_address_text show_net addr net reason)"
| "into_response show_net (AppWallet (wallet_error.BadFeeRate rate)) = Answer 400 (''wallet error: '' @ bad_fee_rate_text rate)"
| "into_response show_net (AppWallet (BuildTx reason)) = Answer 400 (''wallet error: transaction construction failed: '' @ reason)"
| "into_response show_net (AppWallet (wallet_error.BadAmount amount reason)) =
     Answer 400 (''wallet error: '' @ bad_amount_text amount reason)"
| "into_response show_net (AppWallet (Sign reason)) = Answer 400 (''wallet error: federation signing error: '' @ reason)"
| "into_response show_net (AppWallet (wallet_error.BroadcastRejected reason)) =
     Answer 502 (''bitcoind rejected broadcast: '' @ reason)"
| "into_response show_net e = Answer 500 ''Internal server error''"

section \<open>Passwords and sessions\<close>

datatype password_error = WrongPassword | OtherPassword string

text \<open>
  The session is the one of the request: its cookie names it, and the layer that reads the cookie
  is installed for every route. \<open>pw_hash\<close> draws its salt from the operating system.
\<close>

record ('w, 'phc) web_api =
  se_get :: "('w, string, uuid option) st"
  se_insert :: "uuid \<Rightarrow> ('w, string, unit) st"
  se_flush :: "('w, string, unit) st"
  pw_hash :: "string \<Rightarrow> ('w, password_error, string) st"
  pw_parse :: "string \<Rightarrow> password_error + 'phc"
  pw_verify :: "string \<Rightarrow> 'phc \<Rightarrow> password_error option"
  pw_show :: "password_error \<Rightarrow> string"
  sql_lower :: "string \<Rightarrow> string"
  net_show :: "network \<Rightarrow> string"

definition hash_password :: "('w, 'phc) web_api \<Rightarrow> string \<Rightarrow> ('w host, password_error, string) st" where
  "hash_password wapi plain = outside id (pw_hash wapi plain)"

definition verify_password :: "('w, 'phc) web_api \<Rightarrow> string \<Rightarrow> string \<Rightarrow> (password_error, bool) res" where
  "verify_password wapi plain hash_phc = bind_res (of_sum id (pw_parse wapi hash_phc)) (\<lambda>parsed.
     case pw_verify wapi plain parsed of
       None \<Rightarrow> Inr True
     | Some WrongPassword \<Rightarrow> Inr False
     | Some e \<Rightarrow> throw_res e)"

definition log_in :: "('w, 'phc) web_api \<Rightarrow> uuid \<Rightarrow> ('w host, string, unit) st" where
  "log_in wapi user_id = outside id (se_insert wapi user_id)"

definition log_out :: "('w, 'phc) web_api \<Rightarrow> ('w host, string, unit) st" where
  "log_out wapi = outside id (se_flush wapi)"

datatype auth_lookup_error = LookupSession string | LookupSqlx db_error

definition current_user :: "('w, 'phc) web_api \<Rightarrow> ('w host, auth_lookup_error, user_row option) st" where
  "current_user wapi = bind_st (outside LookupSession (se_get wapi)) (\<lambda>user_id. case user_id of
     None \<Rightarrow> ret_st None
   | Some i \<Rightarrow> db_query LookupSqlx (find_user_by_id i))"

text \<open>The extractor of a protected route, whose rejection is a response, and its optional variant.\<close>

definition auth_user :: "('w, 'phc) web_api \<Rightarrow> ('w host, 'page response, user_row) st" where
  "auth_user wapi = (\<lambda>h. case current_user wapi h of
     (Inr (Some user), t) \<Rightarrow> (Inr user, t)
   | (Inr None, t) \<Rightarrow> (Inl (Err (RedirectTo ''/login'')), t)
   | (Inl (Err e), t) \<Rightarrow> (Inl (Err (RedirectTo ''/login'')), t)
   | (Inl Panic, t) \<Rightarrow> (Inl Panic, t))"

definition optional_auth_user :: "('w, 'phc) web_api \<Rightarrow> ('w host, 'page response, user_row option) st" where
  "optional_auth_user wapi = bind_st (ignore_err (current_user wapi)) (\<lambda>found. ret_st (case found of
     None \<Rightarrow> None | Some user \<Rightarrow> user))"

section \<open>Login and logout\<close>

record login_page =
  lp_email :: string
  lp_error :: "string option"

fun map_lookup :: "auth_lookup_error \<Rightarrow> app_error" where
  "map_lookup (LookupSession e) = AppSession e"
| "map_lookup (LookupSqlx e) = AppSqlx e"

definition login_get :: "('w, 'phc) web_api \<Rightarrow> ('w host, app_error, login_page response) st" where
  "login_get wapi = bind_st (map_err_st map_lookup (current_user wapi)) (\<lambda>user. case user of
     Some u \<Rightarrow> ret_st (RedirectTo ''/'')
   | None \<Rightarrow> ret_st (Page \<lparr>lp_email = [], lp_error = None\<rparr>))"

definition rejected_login :: "string \<Rightarrow> login_page response" where
  "rejected_login email = Page \<lparr>lp_email = email, lp_error = Some ''Invalid email or password.''\<rparr>"

definition login_post :: "('w, 'phc) web_api \<Rightarrow> string \<Rightarrow> string \<Rightarrow> ('w host, app_error, login_page response) st" where
  "login_post wapi email password =
     bind_st (db_query AppSqlx (find_user_by_email (sql_lower wapi) email)) (\<lambda>found. case found of
       None \<Rightarrow> ret_st (rejected_login email)
     | Some user \<Rightarrow>
         bind_st (lift_st (map_err (AppPasswordHash \<circ> pw_show wapi) (verify_password wapi password (u_password_hash user)))) (\<lambda>ok.
         if \<not> ok then ret_st (rejected_login email)
         else bind_st (map_err_st AppSession (log_in wapi (u_id user))) (\<lambda>_. ret_st (RedirectTo ''/''))))"

definition logout_post :: "('w, 'phc) web_api \<Rightarrow> ('w host, app_error, 'page response) st" where
  "logout_post wapi = bind_st (map_err_st AppSession (log_out wapi)) (\<lambda>_. ret_st (RedirectTo ''/login''))"

definition root :: "('w, 'phc) web_api \<Rightarrow> ('w host, app_error, 'page response) st" where
  "root wapi = bind_st (map_err_st map_lookup (current_user wapi)) (\<lambda>user. case user of
     Some u \<Rightarrow> ret_st (RedirectTo ''/wallet/receive'')
   | None \<Rightarrow> ret_st (RedirectTo ''/login''))"

definition wallet_root :: "'page response" where
  "wallet_root = RedirectTo ''/wallet/receive''"

definition elements_wallet_root :: "'page response" where
  "elements_wallet_root = RedirectTo ''/elements/wallet/receive''"

section \<open>The test users\<close>

datatype seed_error = SeedSqlx db_error | SeedHash string

definition seed_emails :: "string list" where
  "seed_emails = [''test1@test.com'', ''test2@test.com'', ''test3@test.com'', ''admin@test.com'']"

definition seed_user :: "('w, 'phc) web_api \<Rightarrow> string \<Rightarrow> ('w host, seed_error, unit) st" where
  "seed_user wapi email =
     bind_st (db_query SeedSqlx (find_user_by_email (sql_lower wapi) email)) (\<lambda>found. case found of
       Some u \<Rightarrow> ret_st ()
     | None \<Rightarrow>
         bind_st (map_err_st (SeedHash \<circ> pw_show wapi) (hash_password wapi ''test1234'')) (\<lambda>hash.
         bind_st (db_insert SeedSqlx (\<lambda>new_id now. upsert_user_if_absent new_id now email hash)) (\<lambda>inserted.
         ret_st ())))"

definition seed_test_users :: "('w, 'phc) web_api \<Rightarrow> ('w host, seed_error, unit) st" where
  "seed_test_users wapi = for_st (seed_user wapi) seed_emails"

section \<open>Who is logged in\<close>

lemma find_by_key: "distinct (map f xs) \<Longrightarrow> x \<in> set xs \<Longrightarrow> find (\<lambda>y. f y = f x) xs = Some x"
  by (induction xs) (auto simp: image_iff)

lemma find_user_by_id_unique:
  assumes "db_inv d" and "user \<in> set (users d)"
  shows "find_user_by_id (u_id user) d = (Inr (Some user), d)"
proof -
  have "distinct (map u_id (users d))" using assms(1) by (simp add: db_inv_def users_ok_def)
  then have "find (\<lambda>u. u_id u = u_id user) (users d) = Some user" using assms(2) by (rule find_by_key)
  then show ?thesis by (simp add: find_user_by_id_def)
qed

text \<open>C15. A login that is let in names the user with that e-mail address whose stored hash verified the
  password, and the session's next request is theirs; any other answer is the same page whether the
  address is unknown or the password wrong, and changes nothing.\<close>

theorem login_admits_the_right_user:
  assumes law: "\<And>u w w'. se_insert wapi u w = (Inr (), w') \<Longrightarrow> fst (se_get wapi w') = Inr (Some u)"
    and inv: "db_inv (h_db h)" and run: "login_post wapi email password h = (Inr resp, h')"
  shows "(resp = RedirectTo ''/'' \<and> (\<exists>user \<in> set (users (h_db h)). sql_lower wapi (u_email user) = sql_lower wapi email
           \<and> verify_password wapi password (u_password_hash user) = Inr True
           \<and> fst (auth_user wapi h') = (Inr user :: ('page response, user_row) res)))
       \<or> (resp = rejected_login email \<and> h' = h)"
proof -
  let ?found = "find (\<lambda>u. sql_lower wapi (u_email u) = sql_lower wapi email) (users (h_db h))"
  show ?thesis
  proof (cases ?found)
    case None
    with run show ?thesis by (simp add: login_post_def bind_st_def db_query_def find_user_by_email_def)
  next
    case (Some user)
    then have user: "user \<in> set (users (h_db h))" "sql_lower wapi (u_email user) = sql_lower wapi email"
      by (auto simp: find_Some_iff)
    from run Some obtain ok where ok: "verify_password wapi password (u_password_hash user) = Inr ok"
      and rest: "(if \<not> ok then ret_st (rejected_login email)
         else bind_st (map_err_st AppSession (log_in wapi (u_id user))) (\<lambda>_. ret_st (RedirectTo ''/''))) h = (Inr resp, h')"
      by (auto simp: login_post_def db_query_def find_user_by_email_def bind_st_def split: sum.splits)
    show ?thesis
    proof (cases ok)
      case True
      with rest obtain w where ins: "se_insert wapi (u_id user) (h_world h) = (Inr (), w)"
        and h': "h' = h\<lparr>h_world := w\<rparr>" and resp: "resp = RedirectTo ''/''"
        by (auto elim!: bind_st_InrE simp: log_in_def outside_def split: prod.splits)
      obtain w' where "se_get wapi w = (Inr (Some (u_id user)), w')" using law [OF ins] by (metis prod.collapse)
      then have "fst (auth_user wapi h') = (Inr user :: ('page response, user_row) res)"
        by (simp add: auth_user_def current_user_def bind_st_def outside_def h' db_query_def
            find_user_by_id_unique [OF inv user(1)])
      with user ok True resp show ?thesis by (intro disjI1 conjI bexI [of _ user]) simp_all
    qed (use rest in simp)
  qed
qed

section \<open>Seeding twice\<close>

definition has_email :: "('w, 'phc) web_api \<Rightarrow> string \<Rightarrow> 'w host \<Rightarrow> bool" where
  "has_email wapi email h \<longleftrightarrow> (\<exists>u \<in> set (users (h_db h)). sql_lower wapi (u_email u) = sql_lower wapi email)"

lemma seed_user_present: "has_email wapi email h \<Longrightarrow> seed_user wapi email h = (Inr (), h)"
  by (cases "find (\<lambda>u. sql_lower wapi (u_email u) = sql_lower wapi email) (users (h_db h))")
    (auto simp: seed_user_def bind_st_def db_query_def find_user_by_email_def has_email_def find_None_iff)

lemma seed_user_Inr:
  assumes "seed_user wapi email h = (Inr (), h')"
  shows "has_email wapi email h' \<and> (\<exists>new. users (h_db h') = users (h_db h) @ new \<and> u_email ` set new \<subseteq> {email})"
proof (cases "has_email wapi email h")
  case True
  with assms show ?thesis by (auto simp: seed_user_present intro: exI [of _ "[]"])
next
  case False
  then have none: "find (\<lambda>u. sql_lower wapi (u_email u) = sql_lower wapi email) (users (h_db h)) = None"
    by (auto simp: has_email_def find_None_iff)
  from assms none obtain hash h1 b where hash: "map_err_st (SeedHash \<circ> pw_show wapi) (hash_password wapi ''test1234'') h = (Inr hash, h1)"
    and ins: "db_insert SeedSqlx (\<lambda>new_id now. upsert_user_if_absent new_id now email hash) h1 = (Inr b, h')"
    by (auto elim!: bind_st_InrE simp: seed_user_def db_query_def find_user_by_email_def)
  have h1: "h_db h1 = h_db h" using hash by (auto simp: hash_password_def dest: outside_db)
  have new: "email \<notin> u_email ` set (users (h_db h))" using False by (auto simp: has_email_def)
  from ins show ?thesis
    by (auto simp: db_insert_def upsert_user_if_absent_def statement_def h1 new Let_def has_email_def
        split: prod.splits option.splits)
qed

lemma has_email_mono: "users (h_db h') = users (h_db h) @ new \<Longrightarrow> has_email wapi email h \<Longrightarrow> has_email wapi email h'"
  by (auto simp: has_email_def)

lemma seed_users_Inr:
  "for_st (seed_user wapi) emails h = (Inr (), h') \<Longrightarrow> (\<forall>email \<in> set emails. has_email wapi email h')
     \<and> (\<exists>new. users (h_db h') = users (h_db h) @ new \<and> u_email ` set new \<subseteq> set emails)"
proof (induction emails arbitrary: h)
  case (Cons email emails)
  then obtain h1 where one: "seed_user wapi email h = (Inr (), h1)"
    and rest: "for_st (seed_user wapi) emails h1 = (Inr (), h')" by (auto elim: bind_st_InrE)
  from seed_user_Inr [OF one] obtain n1 where n1: "has_email wapi email h1" "users (h_db h1) = users (h_db h) @ n1"
    "u_email ` set n1 \<subseteq> {email}" by blast
  from Cons.IH [OF rest] obtain n2 where n2: "\<forall>email \<in> set emails. has_email wapi email h'"
    "users (h_db h') = users (h_db h1) @ n2" "u_email ` set n2 \<subseteq> set emails" by blast
  have "has_email wapi email h'" using has_email_mono [OF n2(2) n1(1)] .
  moreover have "users (h_db h') = users (h_db h) @ (n1 @ n2)" using n1(2) n2(2) by simp
  moreover have "u_email ` set (n1 @ n2) \<subseteq> set (email # emails)" using n1(3) n2(3) by auto
  ultimately show ?case using n2(1) by (metis set_ConsD)
qed simp

lemma seed_users_present:
  "\<forall>email \<in> set emails. has_email wapi email h \<Longrightarrow> for_st (seed_user wapi) emails h = (Inr (), h)"
  by (induction emails) (simp_all add: bind_st_def seed_user_present)

text \<open>Seeding is idempotent: after a run that succeeded every test address has its user, the users
  that were there are untouched, and a second run changes nothing.\<close>

theorem seeding_is_idempotent:
  assumes "seed_test_users wapi h = (Inr (), h')"
  shows "seed_test_users wapi h' = (Inr (), h')
    \<and> (\<forall>email \<in> set seed_emails. \<exists>u \<in> set (users (h_db h')). sql_lower wapi (u_email u) = sql_lower wapi email)
    \<and> (\<exists>new. users (h_db h') = users (h_db h) @ new \<and> u_email ` set new \<subseteq> set seed_emails)"
proof -
  have all: "\<forall>email \<in> set seed_emails. has_email wapi email h'"
    and new: "\<exists>new. users (h_db h') = users (h_db h) @ new \<and> u_email ` set new \<subseteq> set seed_emails"
    using seed_users_Inr [OF assms [unfolded seed_test_users_def]] by blast+
  show ?thesis using seed_users_present [OF all] all new by (simp add: seed_test_users_def has_email_def)
qed

section \<open>Instances\<close>

definition sample_web :: "(uuid option, string) web_api" where
  "sample_web = \<lparr>se_get = read_st id, se_insert = (\<lambda>u w. (Inr (), Some u)), se_flush = (\<lambda>w. (Inr (), None)),
     pw_hash = ret_st, pw_parse = Inr, pw_verify = (\<lambda>plain phc. if plain = phc then None else Some WrongPassword),
     pw_show = (\<lambda>_. ''e''), sql_lower = to_ascii_lowercase, net_show = (\<lambda>_. ''net'')\<rparr>"

definition web_host :: "uuid option \<Rightarrow> database \<Rightarrow> uuid option host" where
  "web_host w d = \<lparr>h_db = d, h_world = w, h_tick = 0, h_uuid = (\<lambda>n. 100 + word_of_nat n), h_now = int\<rparr>"

lemma test_emails_lower:
  "to_ascii_lowercase ''test1@test.com'' = ''test1@test.com''" "to_ascii_lowercase ''test2@test.com'' = ''test2@test.com''"
  "to_ascii_lowercase ''test3@test.com'' = ''test3@test.com''" "to_ascii_lowercase ''admin@test.com'' = ''admin@test.com''"
  by (simp_all add: to_ascii_lowercase_def byte_of_def)

theorem login_admits_the_right_user_witness:
  "login_post sample_web ''A@X'' ''h1'' (web_host None sample_db) = (Inr (RedirectTo ''/''), web_host (Some 1) sample_db)
   \<and> (\<exists>user \<in> set (users sample_db). u_id user = 1
      \<and> fst (auth_user sample_web (web_host (Some 1) sample_db)) = (Inr user :: (unit response, user_row) res))"
proof -
  have lower: "to_ascii_lowercase ''A@X'' = ''a@x''" "to_ascii_lowercase ''a@x'' = ''a@x''" by code_simp+
  have run: "login_post sample_web ''A@X'' ''h1'' (web_host None sample_db) = (Inr (RedirectTo ''/''), web_host (Some 1) sample_db)"
    by (simp add: login_post_def bind_st_def db_query_def find_user_by_email_def sample_web_def web_host_def
        sample_db_def lower verify_password_def log_in_def outside_def map_err_st_def)
  have "db_inv (h_db (web_host None sample_db))" by (simp add: web_host_def db_inv_sample)
  with login_admits_the_right_user [OF _ _ run, where 'page = unit]
  have "\<exists>user \<in> set (users (h_db (web_host None sample_db))). sql_lower sample_web (u_email user) = sql_lower sample_web ''A@X''
      \<and> verify_password sample_web ''h1'' (u_password_hash user) = Inr True
      \<and> fst (auth_user sample_web (web_host (Some 1) sample_db)) = (Inr user :: (unit response, user_row) res)"
    by (simp add: sample_web_def rejected_login_def)
  then show ?thesis using run by (auto simp: sample_db_def web_host_def verify_password_def sample_web_def split: if_splits)
qed

theorem seeding_is_idempotent_witness:
  "\<exists>h'. seed_test_users sample_web (web_host None empty_database) = (Inr (), h') \<and> seed_test_users sample_web h' = (Inr (), h')"
proof -
  have "\<exists>h'. seed_test_users sample_web (web_host None empty_database) = (Inr (), h')"
    by (simp add: seed_test_users_def seed_emails_def seed_user_def bind_st_def db_query_def find_user_by_email_def sample_web_def
        web_host_def empty_database_def test_emails_lower hash_password_def outside_def map_err_st_def db_insert_def upsert_user_if_absent_def st_simps)
  then show ?thesis using seeding_is_idempotent by blast
qed

end
