(* ===== verification/Handlers.thy ===== *)
theory Handlers
  imports BtcSpend Web
begin

text \<open>
  The pages of the Bitcoin wallet (\<open>handlers/wallet.rs\<close>, \<open>handlers/transactions.rs\<close>) as computations on
  the application's state, and the way a request reaches one: through the login extractor, with an
  error turned into a response. Address and amount parsing, QR codes and the format of a
  timestamp belong to libraries and are arguments.
\<close>

section \<open>Requests\<close>

record 'ip app_state =
  as_config :: "'ip app_config"
  as_hsm :: hsm_fleet
  as_wallet_manager :: wallet_manager
  as_elements_wallet_manager :: elements_manager

record ('fed, 'unchecked) view_api =
  vi_parse_address :: "string \<Rightarrow> string + 'unchecked"
  vi_require_network :: "'unchecked \<Rightarrow> network \<Rightarrow> string + address"
  vi_parse_amount :: "string \<Rightarrow> string + u64"
  vi_fed_signers :: "'fed \<Rightarrow> (string \<times> string) list"
  vi_qr :: "string \<Rightarrow> string + string"
  vi_time :: "timestamp \<Rightarrow> string"
  vi_show_uuid :: "uuid \<Rightarrow> string"
  vi_show_network :: "network \<Rightarrow> string"

text \<open>A protected route: the handler runs for the user the extractor finds, its error becomes a response.\<close>

definition respond where
  "respond show_net extractor handler = (\<lambda>s. case extractor s of
       (Inl (Err rejection), t) \<Rightarrow> (Inr rejection, t)
     | (Inl Panic, t) \<Rightarrow> (Inl Panic, t)
     | (Inr user, t) \<Rightarrow> (case handler user t of
         (Inl (Err e), u) \<Rightarrow> (Inr (into_response show_net e), u)
       | (Inl Panic, u) \<Rightarrow> (Inl Panic, u)
       | (Inr answer, u) \<Rightarrow> (Inr answer, u)))"

definition protected where
  "protected wapi handler = respond (net_show wapi) (on_host (auth_user wapi)) handler"

section \<open>What pages show\<close>

definition format_btc :: "u64 \<Rightarrow> string" where
  "format_btc amount = f64_show_8 (f64_ratio (uint amount) (10 ^ 8))"

definition format_btc_sats :: "int \<Rightarrow> string" where
  "format_btc_sats sat = format_btc (if 0 \<le> sat then word_of_int sat else 0)"

record wallet_header =
  wh_email :: string
  wh_account_idx :: int
  wh_network :: string
  wh_descriptor :: string
  wh_tip_height :: u32
  wh_active_tab :: string
  wh_policy :: string

record balance_view =
  bv_total_btc :: string
  bv_spendable_btc :: string
  bv_confirmed_btc :: string
  bv_trusted_pending_btc :: string
  bv_untrusted_pending_btc :: string
  bv_immature_btc :: string
  bv_has_pending :: bool

text \<open>Sums of amounts panic on overflow.\<close>

definition balance_view_of :: "balance \<Rightarrow> ('e, balance_view) res" where
  "balance_view_of b =
     bind_res (or_panic (checked_sum [b_confirmed b, b_trusted_pending b, b_untrusted_pending b, b_immature b])) (\<lambda>total.
     bind_res (or_panic (checked_sum [b_confirmed b, b_trusted_pending b])) (\<lambda>spendable.
     bind_res (or_panic (checked_sum [b_trusted_pending b, b_untrusted_pending b, b_immature b])) (\<lambda>pending.
     Inr \<lparr>bv_total_btc = format_btc total, bv_spendable_btc = format_btc spendable,
       bv_confirmed_btc = format_btc (b_confirmed b), bv_trusted_pending_btc = format_btc (b_trusted_pending b),
       bv_untrusted_pending_btc = format_btc (b_untrusted_pending b), bv_immature_btc = format_btc (b_immature b),
       bv_has_pending = (0 < pending)\<rparr>)))"

record address_view =
  av_index :: u32
  av_address :: string
  av_received_btc :: string
  av_unspent_btc :: string

definition address_view_of :: "revealed_address \<Rightarrow> address_view" where
  "address_view_of a = \<lparr>av_index = ra_index a, av_address = ra_address a,
     av_received_btc = format_btc (ra_received a), av_unspent_btc = format_btc (ra_unspent a)\<rparr>"

record federation_address_group =
  ag_version :: nat
  ag_label :: string
  ag_is_current :: bool
  ag_addresses :: "address_view list"
  ag_change_addresses :: "address_view list"

record transaction_list_view =
  tl_txid :: string
  tl_recipient :: string
  tl_amount_btc :: string
  tl_fee_btc :: string
  tl_label :: string
  tl_broadcast_at :: string

definition transaction_list_view_of where
  "transaction_list_view_of vapi row = \<lparr>tl_txid = t_txid row, tl_recipient = t_recipient row,
     tl_amount_btc = format_btc_sats (t_amount_sat row), tl_fee_btc = format_btc_sats (t_fee_sat row),
     tl_label = unwrap_or_default (t_label row), tl_broadcast_at = vi_time vapi (t_broadcast_at row)\<rparr>"

record transaction_detail_view = transaction_list_view +
  td_raw_tx_hex :: string

definition transaction_detail_view_of where
  "transaction_detail_view_of vapi row = \<lparr>tl_txid = t_txid row, tl_recipient = t_recipient row,
     tl_amount_btc = format_btc_sats (t_amount_sat row), tl_fee_btc = format_btc_sats (t_fee_sat row),
     tl_label = unwrap_or_default (t_label row), tl_broadcast_at = vi_time vapi (t_broadcast_at row),
     td_raw_tx_hex = t_raw_tx_hex row\<rparr>"

record receipt_view =
  rv_txid :: string
  rv_vout :: u32
  rv_amount_btc :: string
  rv_status :: string
  rv_height :: string
  rv_is_spent :: bool

text \<open>UTF-8 of the em dash.\<close>

definition dash :: string where
  "dash = map char_of [226, 128, 148 :: nat]"

definition receipt_view_of :: "address_receipt \<Rightarrow> receipt_view" where
  "receipt_view_of r =
     (let confs = rc_confirmations r in
      \<lparr>rv_txid = rc_txid r, rv_vout = rc_vout r, rv_amount_btc = format_btc (rc_amount r),
       rv_status = (case rc_height r of
           None \<Rightarrow> ''Mempool''
         | Some h \<Rightarrow> show_nat (unat confs) @ '' '' @ (if confs = 1 then ''conf'' else ''confs'')
             @ '' (h='' @ show_nat (unat h) @ '')''),
       rv_height = (case rc_height r of None \<Rightarrow> dash | Some h \<Rightarrow> show_nat (unat h)),
       rv_is_spent = rc_is_spent r\<rparr>)"

record address_detail_view =
  ad_address :: string
  ad_qr_uri :: string
  ad_qr_svg :: string
  ad_derivation_index :: "u32 option"
  ad_derivation_path :: string
  ad_keychain :: string
  ad_total_received_btc :: string
  ad_unspent_btc :: string
  ad_receipt_count :: nat

record signer_view =
  sv_id :: string
  sv_label :: string

record federation_version_view =
  vv_version_index :: int
  vv_threshold :: int
  vv_signer_count :: int
  vv_signers :: "signer_view list"

record federation_history_view =
  hv_version_index :: int
  hv_threshold :: int
  hv_signer_count :: int
  hv_descriptor_short :: string
  hv_created_at :: string
  hv_is_current :: bool
  hv_migration_status :: string

datatype btc_page =
    ReceivePage wallet_header balance_view "federation_address_group list"
  | SendPage wallet_header balance_view "transaction_list_view list"
  | AddressPage wallet_header string address_detail_view "receipt_view list"
  | FederationPage wallet_header balance_view federation_version_view "federation_history_view list" nat
  | TransactionPage wallet_header string transaction_detail_view
  | MaxSpendReply u64 string

section \<open>Helpers\<close>

text \<open>\<open>as i32\<close> wraps.\<close>

definition as_i32 :: "int \<Rightarrow> int" where
  "as_i32 n = sint (word_of_int n :: u32)"

definition policy_label :: "'ip app_state \<Rightarrow> string" where
  "policy_label st = show_nat (unat (fed_threshold (as_config st))) @ ''-of-''
     @ show_nat (length (fed_signer_indices (as_config st))) @ '' (HSMs)''"

definition lookup_descriptor where
  "lookup_descriptor vapi user_id =
     bind_st (on_host (db_query AppSqlx (find_wallet_for_user user_id))) (\<lambda>found. case found of
       None \<Rightarrow> lift_st (throw_res (AppNotFound (''wallet for user '' @ vi_show_uuid vapi user_id)))
     | Some row \<Rightarrow> ret_st (w_descriptor row))"

fun keychain_label :: "keychain \<Rightarrow> string" where
  "keychain_label keychain.External = ''external''"
| "keychain_label keychain.Internal = ''change''"

definition parse_btc_amount where
  "parse_btc_amount vapi input = of_sum (\<lambda>e. AppBadRequest (''invalid BTC amount '' @ backtick input @ '': '' @ e))
     (vi_parse_amount vapi input)"

text \<open>The token with a signer's fingerprint, by its position in the pool.\<close>

definition build_signer_views where
  "build_signer_views vapi bapi st fed all_signers = map (\<lambda>(id_str, fp).
     \<lparr>sv_id = id_str, sv_label = (case find (\<lambda>(idx, ps). fingerprint_str bapi ps = fp) (enumerate 0 all_signers) of
          None \<Rightarrow> []
        | Some (idx, ps) \<Rightarrow> if idx < length (hsm_tokens (as_config st)) then hsm_label (hsm_tokens (as_config st) ! idx) else [])\<rparr>)
     (vi_fed_signers vapi fed)"

definition header_of where
  "header_of vapi st user uw descriptor tip_height active_tab =
     \<lparr>wh_email = u_email user, wh_account_idx = uw_account_idx uw, wh_network = vi_show_network vapi (network (as_config st)),
      wh_descriptor = descriptor, wh_tip_height = tip_height, wh_active_tab = active_tab, wh_policy = policy_label st\<rparr>"

text \<open>The user's wallet, and an operation on it.\<close>

definition open_wallet where
  "open_wallet papi bapi st user = map_err_st AppWallet (BtcWallet.load_or_init papi bapi (as_wallet_manager st) (u_id user))"

definition in_wallet where
  "in_wallet user m = map_err_st AppWallet (on_wallet (u_id user) m)"

definition tip_of_wallet where
  "tip_of_wallet bapi uw = tip_of bapi (uw_inner uw)"

section \<open>Receiving\<close>

definition address_group where
  "address_group total_versions = (\<lambda>(version_idx, addrs).
     bind_res (or_panic (if total_versions = 0 then None else Some (total_versions - 1))) (\<lambda>newest.
     let is_current = version_idx = newest in
     Inr \<lparr>ag_version = version_idx,
       ag_label = ''v'' @ show_nat (version_idx + 1) @ (if is_current then '' (current)'' else []),
       ag_is_current = is_current, ag_addresses = map address_view_of addrs, ag_change_addresses = []\<rparr>))"

text \<open>The first current group gets the change addresses.\<close>

fun with_change :: "address_view list \<Rightarrow> federation_address_group list \<Rightarrow> federation_address_group list" where
  "with_change views [] = []"
| "with_change views (g # gs) = (if ag_is_current g then g\<lparr>ag_change_addresses := views\<rparr> # gs
     else g # with_change views gs)"

definition receive where
  "receive papi bapi vapi st user =
     bind_st (open_wallet papi bapi st user) (\<lambda>_.
     bind_st (in_wallet user (sync_wallet bapi)) (\<lambda>_.
     bind_st (in_wallet user (reveal_addresses bapi reveal_count)) (\<lambda>_.
     bind_st (wallet_of (u_id user)) (\<lambda>uw.
     bind_st (lift_st (wallet_total bapi uw)) (\<lambda>balance.
     bind_st (lookup_descriptor vapi (u_id user)) (\<lambda>descriptor.
     bind_st (lift_st (change_addresses bapi uw)) (\<lambda>change_addrs.
     bind_st (lift_st (revealed_addresses_all_versions bapi uw reveal_count)) (\<lambda>revealed.
     bind_st (lift_st (map_res (address_group (length (fw_wallets bapi (uw_federated uw)))) (rev revealed))) (\<lambda>groups.
     bind_st (lift_st (balance_view_of balance)) (\<lambda>view.
     ret_st (Page (ReceivePage (header_of vapi st user uw descriptor (tip_of_wallet bapi uw) ''receive'') view
       (with_change (map address_view_of change_addrs) groups)))))))))))))"

section \<open>Sending\<close>

definition send_get where
  "send_get papi bapi vapi st user =
     bind_st (open_wallet papi bapi st user) (\<lambda>_.
     bind_st (wallet_of (u_id user)) (\<lambda>uw.
     bind_st (lift_st (wallet_total bapi uw)) (\<lambda>balance.
     bind_st (lookup_descriptor vapi (u_id user)) (\<lambda>descriptor.
     bind_st (on_host (db_query AppSqlx (list_transactions_for_wallet (uw_wallet_id uw)))) (\<lambda>txs.
     bind_st (lift_st (balance_view_of balance)) (\<lambda>view.
     ret_st (Page (SendPage (header_of vapi st user uw descriptor (tip_of_wallet bapi uw) ''send'') view
       (map (transaction_list_view_of vapi) txs)))))))))"

record send_form =
  sf_recipient_address :: string
  sf_amount_btc :: string
  sf_fee_rate_sat_vb :: u64
  sf_label :: "string option"
  sf_send_max :: "string option"

text \<open>A label, or an asset id, counts when something is left of it after trimming.\<close>

definition trimmed :: "string option \<Rightarrow> string option" where
  "trimmed field = (case map_option trim field of None \<Rightarrow> None | Some s \<Rightarrow> if s = [] then None else Some s)"

definition no_fee_rate :: app_error where
  "no_fee_rate = AppBadRequest ''fee_rate_sat_vb must be at least 1''"

definition parse_recipient_address where
  "parse_recipient_address vapi raw uw = lift_st (map_err AppWallet
     (parse_address (vi_parse_address vapi) (vi_require_network vapi) uw raw))"

definition send_post where
  "send_post papi bapi vapi st form user =
     (if sf_fee_rate_sat_vb form = 0 then lift_st (throw_res no_fee_rate)
      else
     bind_st (open_wallet papi bapi st user) (\<lambda>_.
     bind_st (in_wallet user (sync_wallet bapi)) (\<lambda>_.
     bind_st (wallet_of (u_id user)) (\<lambda>uw.
     bind_st (parse_recipient_address vapi (trim (sf_recipient_address form)) uw) (\<lambda>address.
     let label = trimmed (sf_label form) in
     bind_st (if sf_send_max form = Some ''true''
        then in_wallet user (sweep_to bapi address (sf_fee_rate_sat_vb form) label)
        else bind_st (lift_st (parse_btc_amount vapi (trim (sf_amount_btc form)))) (\<lambda>amount.
          in_wallet user (build_sign_and_broadcast bapi address amount (sf_fee_rate_sat_vb form) label))) (\<lambda>result.
     ret_st (RedirectTo (''/wallet/transactions/'' @ bx_txid result))))))))"

definition max_spend where
  "max_spend papi bapi vapi st recipient_address fee_rate user =
     (if fee_rate = 0 then lift_st (throw_res no_fee_rate)
      else
     bind_st (open_wallet papi bapi st user) (\<lambda>_.
     bind_st (in_wallet user (sync_wallet bapi)) (\<lambda>_.
     bind_st (wallet_of (u_id user)) (\<lambda>uw.
     bind_st (parse_recipient_address vapi (trim recipient_address) uw) (\<lambda>address.
     bind_st (in_wallet user (compute_drain_amount bapi address fee_rate)) (\<lambda>amount.
     ret_st (Page (MaxSpendReply amount (format_btc amount)))))))))"

section \<open>Details\<close>

definition derivation_path_text where
  "derivation_path_text st uw k i = concat [''m/48'', [CHR 0x27], ''/'', show_nat (unat (bip48_coin_index (as_config st))),
     [CHR 0x27], ''/'', show_int (uw_account_idx uw), [CHR 0x27], ''/2'', [CHR 0x27], ''/'',
     (case k of keychain.External \<Rightarrow> ''0'' | keychain.Internal \<Rightarrow> ''1''), ''/'', show_nat (unat i)]"

definition address_show where
  "address_show papi bapi vapi st address_raw user =
     bind_st (open_wallet papi bapi st user) (\<lambda>_.
     bind_st (in_wallet user (sync_wallet bapi)) (\<lambda>_.
     bind_st (in_wallet user (reveal_addresses bapi reveal_count)) (\<lambda>_.
     bind_st (wallet_of (u_id user)) (\<lambda>uw.
     bind_st (parse_recipient_address vapi address_raw uw) (\<lambda>address.
     case locate_address bapi uw (ad_spk address) of
       None \<Rightarrow> lift_st (throw_res (AppNotFound (''address '' @ address_raw @ '' for wallet of '' @ u_email user)))
     | Some (k, i) \<Rightarrow>
         bind_st (lift_st (address_history bapi uw (ad_spk address))) (\<lambda>activity.
         bind_st (lookup_descriptor vapi (u_id user)) (\<lambda>descriptor.
         let qr_uri = ''bitcoin:'' @ ad_string address in
         bind_st (lift_st (of_sum (\<lambda>e. AppBadRequest (''Failed to encode QR: '' @ e)) (vi_qr vapi qr_uri))) (\<lambda>qr_svg.
         ret_st (Page (AddressPage (header_of vapi st user uw descriptor (aa_tip_height activity) ''receive'') (u_email user)
           \<lparr>ad_address = ad_string address, ad_qr_uri = qr_uri, ad_qr_svg = qr_svg, ad_derivation_index = Some i,
            ad_derivation_path = derivation_path_text st uw k i, ad_keychain = keychain_label k,
            ad_total_received_btc = format_btc (aa_total_received activity),
            ad_unspent_btc = format_btc (aa_unspent activity), ad_receipt_count = length (aa_receipts activity)\<rparr>
           (map receipt_view_of (aa_receipts activity))))))))))))"

definition history_view where
  "history_view vapi version_count v =
     bind_res (truncate_descriptor (fv_descriptor v) 40) (\<lambda>short.
     Inr \<lparr>hv_version_index = fv_version_index v, hv_threshold = fv_threshold v, hv_signer_count = fv_signer_count v,
       hv_descriptor_short = short, hv_created_at = vi_time vapi (fv_created_at v),
       hv_is_current = (fv_version_index v = as_i32 (int (version_count - 1))),
       hv_migration_status = fv_migration_status v\<rparr>)"

definition federation where
  "federation papi bapi vapi st user =
     bind_st (open_wallet papi bapi st user) (\<lambda>_.
     bind_st (wallet_of (u_id user)) (\<lambda>uw.
     bind_st (lift_st (wallet_total bapi uw)) (\<lambda>balance.
     bind_st (lookup_descriptor vapi (u_id user)) (\<lambda>descriptor.
     bind_st (on_host (db_query AppSqlx (list_federation_versions_for_wallet (uw_wallet_id uw)))) (\<lambda>versions.
     let version_count = length versions; current_fed = uw_federation uw in
     bind_st (lift_st (map_err AppWallet (BtcWallet.derivation_path_for bapi (as_wallet_manager st) (to_u32_or 0 (uw_account_idx uw))))) (\<lambda>path.
     bind_st (on_hsm AppHsm (signers_for papi (as_hsm st) (u_id user) path)) (\<lambda>all_signers.
     bind_st (lift_st (map_res (history_view vapi version_count) versions)) (\<lambda>history.
     bind_st (lift_st (balance_view_of balance)) (\<lambda>view.
     ret_st (Page (FederationPage (header_of vapi st user uw descriptor (tip_of_wallet bapi uw) ''federation'') view
       \<lparr>vv_version_index = as_i32 (int (version_count - 1)), vv_threshold = as_i32 (uint (fed_threshold_of bapi current_fed)),
        vv_signer_count = as_i32 (int (fed_total_signers bapi current_fed)),
        vv_signers = build_signer_views vapi bapi st current_fed all_signers\<rparr>
       history version_count)))))))))))"

definition transaction_show where
  "transaction_show papi bapi vapi st txid user =
     bind_st (open_wallet papi bapi st user) (\<lambda>_.
     bind_st (wallet_of (u_id user)) (\<lambda>uw.
     bind_st (on_host (db_query AppSqlx (find_transaction (uw_wallet_id uw) txid))) (\<lambda>found. case found of
       None \<Rightarrow> lift_st (throw_res (AppNotFound (''transaction '' @ txid)))
     | Some row \<Rightarrow>
         bind_st (on_host (db_query AppSqlx (find_wallet_for_user (u_id user)))) (\<lambda>w.
         ret_st (Page (TransactionPage
           (header_of vapi st user uw (case w of None \<Rightarrow> [] | Some w \<Rightarrow> w_descriptor w) (tip_of_wallet bapi uw) ''send'')
           (u_email user) (transaction_detail_view_of vapi row)))))))"

end
