(* ===== verification/Serving.thy ===== *)
theory Serving
  imports Handlers WalletFrame
begin

text \<open>
  What the wallet's pages guarantee: who sees which transaction, which requests record one, and that
  an answer to a send tells whether it was recorded.
\<close>

section \<open>Answers\<close>

lemma auth_user_db: "auth_user wapi h = (r, h') \<Longrightarrow> h_db h' = h_db h"
  by (auto simp: auth_user_def current_user_def bind_st_def outside_def db_query_def find_user_by_id_def
      split: prod.splits sum.splits option.splits fail.splits)

lemma auth_user_redirects: "auth_user wapi h = (Inl (Err resp), h') \<Longrightarrow> resp = RedirectTo ''/login''"
  by (auto simp: auth_user_def split: prod.splits sum.splits option.splits fail.splits)

text \<open>The ways a guarded route answers.\<close>

lemma respond_cases:
  assumes "respond show_net extractor handler s = (Inr resp, s')"
  obtains (rejected) "extractor s = (Inl (Err resp), s')"
  | (answered) user t where "extractor s = (Inr user, t)" and "handler user t = (Inr resp, s')"
  | (failed) user t e where "extractor s = (Inr user, t)" and "handler user t = (Inl (Err e), s')"
      and "resp = into_response show_net e"
  using assms by (auto simp: respond_def split: prod.splits sum.splits fail.splits)

lemma on_host_auth:
  "on_host (auth_user wapi) s = (r, t) \<Longrightarrow> h_db (ap_host t) = h_db (ap_host s) \<and> ap_wallets t = ap_wallets s"
  by (auto simp: on_host_def dest: auth_user_db split: prod.splits)

lemma protected_cases:
  fixes resp :: "'page response"
  assumes "protected wapi handler s = (Inr resp, s')"
  obtains (rejected) "resp = RedirectTo ''/login''" and "h_db (ap_host s') = h_db (ap_host s)"
      and "ap_wallets s' = ap_wallets s"
  | (answered) user t where "(on_host (auth_user wapi) s :: ('page response, user_row) res \<times> _) = (Inr user, t)" and "h_db (ap_host t) = h_db (ap_host s)"
      and "ap_wallets t = ap_wallets s" and "handler user t = (Inr resp, s')"
  | (failed) user t e where "(on_host (auth_user wapi) s :: ('page response, user_row) res \<times> _) = (Inr user, t)" and "h_db (ap_host t) = h_db (ap_host s)"
      and "ap_wallets t = ap_wallets s" and "handler user t = (Inl (Err e), s')" and "resp = into_response (net_show wapi) e"
  using assms unfolding protected_def
proof (cases rule: respond_cases)
  case rejected
  then have "resp = RedirectTo ''/login''" by (auto simp: on_host_def dest: auth_user_redirects split: prod.splits)
  with that(1) show ?thesis using on_host_auth [OF rejected] by blast
qed (use that(2,3) in \<open>blast dest: on_host_auth\<close>)+

text \<open>An error is answered with a text, never with a page or a redirect.\<close>

lemma into_response_answers: "\<exists>code text. into_response show_net e = Answer code text"
  by (cases "(show_net, e)" rule: into_response.cases) auto

section \<open>Transactions\<close>

lemma same_transactions_eq: "same_transactions ts = wallet_inv (\<lambda>d. transactions d = ts)"
  by (simp add: same_transactions_def wallet_inv_def)

lemma open_wallet_frame [pres_intros]: "preserves (app_inv (\<lambda>d. transactions d = ts)) (open_wallet papi bapi st user)"
  unfolding open_wallet_def by (intro pres_intros keeps_transactions.load_frame)

lemma in_wallet_inv [pres_intros]: "preserves (wallet_inv P) m \<Longrightarrow> preserves (app_inv P) (in_wallet user m)"
  unfolding in_wallet_def by (intro pres_intros)

lemma send_post_keeps: "keeps_on_error (app_inv (\<lambda>d. transactions d = ts)) (send_post papi bapi vapi st form user)"
proof -
  have sent: "keeps_on_error (app_inv (\<lambda>d. transactions d = ts)) (in_wallet user (sweep_to bapi a r l))"
    "keeps_on_error (app_inv (\<lambda>d. transactions d = ts)) (in_wallet user (build_sign_and_broadcast bapi a v r l))" for a v r l
    unfolding in_wallet_def
    by (intro keeps_on_error_map_err on_wallet_keeps sends_keep [unfolded same_transactions_eq])+
  show ?thesis
    unfolding send_post_def Let_def parse_recipient_address_def
    by (intro keeps_on_error_if keeps_on_error_bind keeps_on_error_result sent pres_intros keeps_transactions.sync_frame
        keeps_on_error_lift)
qed

lemma finish_spend_recorded:
  "finish_spend bapi recipient label psbt s = (Inr bx, s') \<Longrightarrow>
     list_ex (\<lambda>tr. t_txid tr = bx_txid bx) (transactions (h_db (snd s')))"
  by (erule finish_spend_stages) (auto simp: list_ex_iff)

lemma sends_recorded:
  "sweep_to bapi recipient fee_rate label s = (Inr bx, s') \<Longrightarrow> list_ex (\<lambda>tr. t_txid tr = bx_txid bx) (transactions (h_db (snd s')))"
  "build_sign_and_broadcast bapi recipient amount fee_rate label s = (Inr bx, s') \<Longrightarrow>
     list_ex (\<lambda>tr. t_txid tr = bx_txid bx) (transactions (h_db (snd s')))"
  by (auto simp: sweep_to_def build_sign_and_broadcast_def throw_res_def split: if_splits
      elim!: bind_st_InrE dest: finish_spend_recorded)

lemma in_wallet_Inr:
  "in_wallet user m s = (Inr a, s') \<Longrightarrow> \<exists>uw uw' h. ap_wallets s (u_id user) = Some uw \<and> m (uw, ap_host s) = (Inr a, (uw', h))
     \<and> s' = s\<lparr>ap_host := h, ap_wallets := (ap_wallets s)(u_id user \<mapsto> uw')\<rparr>"
  by (auto simp: in_wallet_def on_wallet_def split: option.splits prod.splits)

lemma send_post_recorded:
  assumes "send_post papi bapi vapi st form user s = (Inr resp, s')"
  shows "\<exists>txid. resp = RedirectTo (''/wallet/transactions/'' @ txid)
    \<and> list_ex (\<lambda>tr. t_txid tr = txid) (transactions (h_db (ap_host s')))"
proof -
  let ?send = "\<lambda>address :: address. if sf_send_max form = Some ''true''
    then in_wallet user (sweep_to bapi address (sf_fee_rate_sat_vb form) (trimmed (sf_label form)))
    else bind_st (lift_st (parse_btc_amount vapi (trim (sf_amount_btc form)))) (\<lambda>amount.
      in_wallet user (build_sign_and_broadcast bapi address amount (sf_fee_rate_sat_vb form) (trimmed (sf_label form))))"
  have "sf_fee_rate_sat_vb form \<noteq> 0" using assms by (auto simp: send_post_def throw_res_def)
  then have "\<exists>address s1 bx. ?send address s1 = (Inr bx, s') \<and> resp = RedirectTo (''/wallet/transactions/'' @ bx_txid bx)"
    using assms unfolding send_post_def Let_def
    by (simp only: if_False) (elim bind_st_InrE, clarsimp simp only: ret_st_apply prod.inject sum.inject, intro exI conjI, assumption, rule refl)
  then obtain address s1 bx where run: "?send address s1 = (Inr bx, s')"
    and resp: "resp = RedirectTo (''/wallet/transactions/'' @ bx_txid bx)" by (elim exE conjE)
  have "list_ex (\<lambda>tr. t_txid tr = bx_txid bx) (transactions (h_db (ap_host s')))"
    using run by (auto elim!: bind_st_InrE split: if_splits dest!: in_wallet_Inr dest: sends_recorded)
  with resp show ?thesis by blast
qed

text \<open>C14. The answer to a send tells whether a transaction was recorded: a redirect to its page comes with
  its row, every other answer, an error or the redirect of an anonymous request to the login,
  leaves the transactions as they were.\<close>

theorem send_answers_tell_the_record:
  assumes "protected wapi (send_post papi bapi vapi st form) s = (Inr resp, s')"
  shows "(\<exists>txid. resp = RedirectTo (''/wallet/transactions/'' @ txid)
        \<and> list_ex (\<lambda>tr. t_txid tr = txid) (transactions (h_db (ap_host s'))))
    \<or> ((resp = RedirectTo ''/login'' \<or> (\<exists>code text. resp = Answer code text))
        \<and> transactions (h_db (ap_host s')) = transactions (h_db (ap_host s)))"
  using assms
proof (cases rule: protected_cases)
  case (failed user t e)
  have "app_inv (\<lambda>d. transactions d = transactions (h_db (ap_host s))) t" using failed(2) by (simp add: app_inv_def)
  from keeps_on_error_run [OF failed(4) this send_post_keeps]
  have "transactions (h_db (ap_host s')) = transactions (h_db (ap_host s))" by (simp add: app_inv_def)
  moreover have "\<exists>code text. resp = Answer code text" unfolding failed(5) by (rule into_response_answers)
  ultimately show ?thesis by blast
qed (auto dest: send_post_recorded)

section \<open>Pages\<close>

lemma page_frames:
  "preserves (app_inv (\<lambda>d. transactions d = ts)) (receive papi bapi vapi st user)"
  "preserves (app_inv (\<lambda>d. transactions d = ts)) (send_get papi bapi vapi st user)"
  "preserves (app_inv (\<lambda>d. transactions d = ts)) (max_spend papi bapi vapi st addr rate user)"
  "preserves (app_inv (\<lambda>d. transactions d = ts)) (address_show papi bapi vapi st addr user)"
  "preserves (app_inv (\<lambda>d. transactions d = ts)) (federation papi bapi vapi st user)"
  "preserves (app_inv (\<lambda>d. transactions d = ts)) (transaction_show papi bapi vapi st txid user)"
  unfolding receive_def send_get_def max_spend_def address_show_def federation_def transaction_show_def
    parse_recipient_address_def lookup_descriptor_def compute_drain_amount_def Let_def case_prod_unfold
  by (intro pres_intros keeps_transactions.sync_frame keeps_transactions.reveal_frame)+

section \<open>Whose transactions\<close>

definition owners :: "database \<Rightarrow> (uuid \<times> uuid) set" where
  "owners d = (\<lambda>row. (w_user_id row, w_id row)) ` set (wallets d)"

lemma owners_update:
  assumes "\<And>row. w_user_id (f row) = w_user_id row" and "\<And>row. w_id (f row) = w_id row"
  shows "owners (d\<lparr>wallets := update_where p f (wallets d)\<rparr>) = owners d"
proof -
  have "(\<lambda>row. (w_user_id row, w_id row)) ` set (update_where p f ws) = (\<lambda>row. (w_user_id row, w_id row)) ` set ws" for ws
    by (induction ws) (simp_all add: update_where_def assms)
  then show ?thesis by (simp add: owners_def)
qed

interpretation keeps_owners: wallet_frame "\<lambda>d. S \<subseteq> owners d"
proof unfold_locales
  show "preserves (\<lambda>d. S \<subseteq> owners d) (insert_federation_version n t version)" for n t version
    by (auto simp: preserves_def insert_federation_version_def statement_def owners_def split: option.splits)
  show "preserves (\<lambda>d. S \<subseteq> owners d) (insert_wallet n t wallet)" for n t wallet
    by (auto simp: preserves_def insert_wallet_def statement_def owners_def split: option.splits)
  show "preserves (\<lambda>d. S \<subseteq> owners d) (reconcile_migration i txid)" for i txid
    by (auto simp: preserves_def reconcile_migration_def bind_st_def write_st_def owners_def split: if_splits)
qed (auto simp: preserves_def update_wallet_descriptor_and_changeset_def update_wallet_changeset_def
    update_wallet_tip_only_def write_st_def owners_update)

text \<open>Every cached wallet is its user's row.\<close>

definition wallets_owned where
  "wallets_owned s \<longleftrightarrow> (\<forall>u uw. ap_wallets s u = Some uw \<longrightarrow> (u, uw_wallet_id uw) \<in> owners (h_db (ap_host s)))"

lemma created_owned:
  "BtcWallet.create_wallet_for_user papi bapi m u s = (Inr row, t) \<Longrightarrow> (u, w_id row) \<in> owners (h_db (ap_host t))"
  unfolding BtcWallet.create_wallet_for_user_def BtcWallet.create_wallet_for_user_at_def Let_def
  by (elim bind_st_InrE)
    (auto simp: on_host_Inr_iff db_insert_def insert_wallet_def statement_def wallet_of_spec_def owners_def throw_res_def
      elim!: bind_st_InrE split: if_splits prod.splits option.splits)

lemma found_owned:
  assumes "on_host (db_query WalletSqlx (find_wallet_for_user u)) s = (Inr found, t)"
    and "(case found of Some r \<Rightarrow> ret_st r | None \<Rightarrow> BtcWallet.create_wallet_for_user papi bapi m u) t = (Inr row, t')"
  shows "(u, w_id row) \<in> owners (h_db (ap_host t'))"
proof (cases found)
  case None
  with assms(2) show ?thesis by (auto intro: created_owned)
next
  case (Some r)
  have "find (\<lambda>w. w_user_id w = u) (wallets (h_db (ap_host s))) = Some r" and "t = s"
    using assms(1) Some by (auto simp: on_host_def db_query_def find_wallet_for_user_def)
  with assms(2) Some show ?thesis by (auto simp: find_Some_iff owners_def)
qed

lemma load_or_init_owned:
  assumes "BtcWallet.load_or_init papi bapi m u s = (Inr uw, t)" and "wallets_owned s"
  shows "wallets_owned t \<and> ap_wallets t u = Some uw"
proof (cases "ap_wallets s u")
  case (Some old)
  with assms show ?thesis by (auto simp: load_or_init_hit)
next
  case None
  let ?S = "owners (h_db (ap_host s))"
  from assms(1) None obtain t' where load: "load_missing papi bapi m u s = (Inr uw, t')"
    and t: "t = t'\<lparr>ap_wallets := (ap_wallets t')(u \<mapsto> uw)\<rparr>"
    by (auto simp: load_or_init_miss split: prod.splits sum.splits)
  have "preserves (app_inv (\<lambda>d. ?S \<subseteq> owners d)) (load_missing papi bapi m u)"
    unfolding load_missing_def by (intro pres_intros keeps_owners.build_frame keeps_owners.create_frame)
  from preserves_run [OF load _ this] have grown: "?S \<subseteq> owners (h_db (ap_host t'))" by (simp add: app_inv_def)
  from load obtain row :: wallet_row and s2 where build: "BtcWallet.build_user_wallet papi bapi m u row s2 = (Inr uw, t')"
    and row: "(u, w_id row) \<in> owners (h_db (ap_host s2))"
    unfolding load_missing_def by (elim bind_st_InrE) (rule that, assumption, rule found_owned)
  have "preserves (app_inv (\<lambda>d. {(u, w_id row)} \<subseteq> owners d)) (BtcWallet.build_user_wallet papi bapi m u row)"
    by (rule keeps_owners.build_frame)
  from preserves_run [OF build _ this] row have "(u, w_id row) \<in> owners (h_db (ap_host t'))" by (simp add: app_inv_def)
  moreover have "uw_wallet_id uw = w_id row" using build by (rule build_user_wallet_stages)
  moreover have "ap_wallets t' = ap_wallets s"
    using preserves_run [OF load caches_kept_refl load_missing_kept] by (simp add: caches_kept_def)
  ultimately show ?thesis using assms(2) grown by (auto simp: wallets_owned_def t)
qed

lemma open_wallet_owned:
  assumes "open_wallet papi bapi st user s = (Inr uw, t)" and "wallets_owned s"
  shows "wallets_owned t \<and> ap_wallets t (u_id user) = Some uw"
  using assms by (auto simp: open_wallet_def map_err_st_def dest: load_or_init_owned split: prod.splits sum.splits)

lemma wallet_of_cached: "ap_wallets s u = Some uw \<Longrightarrow> wallet_of u s = (Inr uw, s)"
  by (simp add: wallet_of_def on_wallet_def the_wallet_def fun_upd_idem)

lemma transaction_show_found:
  assumes "transaction_show papi bapi vapi st txid user s = (Inr (Page (TransactionPage hdr email view)), s')"
    and "wallets_owned s"
  shows "wallets_owned s' \<and> email = u_email user \<and> (\<exists>row. row \<in> set (transactions (h_db (ap_host s'))) \<and> t_txid row = txid
    \<and> (u_id user, t_wallet_id row) \<in> owners (h_db (ap_host s')) \<and> view = transaction_detail_view_of vapi row)"
proof -
  obtain uw s1 where opened: "open_wallet papi bapi st user s = (Inr uw, s1)"
    using assms(1) unfolding transaction_show_def by (elim bind_st_InrE)
  note owned = open_wallet_owned [OF opened assms(2)]
  then have "ap_wallets s1 (u_id user) = Some uw" by simp
  with assms(1) opened obtain row where
    "find (\<lambda>r. t_wallet_id r = uw_wallet_id uw \<and> t_txid r = txid) (transactions (h_db (ap_host s1))) = Some row"
    and "s' = s1" "email = u_email user" "view = transaction_detail_view_of vapi row"
    by (auto simp: transaction_show_def bind_st_def wallet_of_cached db_query_def on_host_def find_transaction_def find_wallet_for_user_def throw_res_def
        split: option.splits)
  with owned show ?thesis by (intro conjI exI [of _ row]) (auto simp: wallets_owned_def find_Some_iff)
qed

text \<open>C13. A transaction page shows the record of the requested id in the wallet of the session's user,
  never one of another user's wallet, and nothing on the way breaks the ownership of the cached
  wallets.\<close>

theorem users_see_only_their_transactions:
  assumes "protected wapi (transaction_show papi bapi vapi st txid) s = (Inr (Page (TransactionPage hdr email view)), s')"
    and "wallets_owned s"
  shows "wallets_owned s' \<and> (\<exists>user row. fst (auth_user wapi (ap_host s)) = (Inr user :: (btc_page response, user_row) res)
    \<and> email = u_email user \<and> row \<in> set (transactions (h_db (ap_host s'))) \<and> t_txid row = txid
    \<and> (u_id user, t_wallet_id row) \<in> owners (h_db (ap_host s')) \<and> view = transaction_detail_view_of vapi row)"
  using assms(1)
proof (cases rule: protected_cases)
  case (failed user t e)
  obtain code msg where "into_response (net_show wapi) e = (Answer code msg :: btc_page response)" using into_response_answers by blast
  with failed(5) show ?thesis by simp
next
  case (answered user t)
  have auth: "fst (auth_user wapi (ap_host s)) = (Inr user :: (btc_page response, user_row) res)"
    using answered(1) by (auto simp: on_host_def split: prod.splits)
  have "wallets_owned t" using assms(2) answered(2,3) by (simp add: wallets_owned_def)
  from transaction_show_found [OF answered(4) this] auth show ?thesis by blast
qed simp

text \<open>Only a send records a transaction: no other page of the wallet changes the transactions, whether
  it answers with a page, an error or the redirect to the login, or panics.\<close>

theorem viewing_records_nothing:
  assumes "handler \<in> {receive papi bapi vapi st, send_get papi bapi vapi st, max_spend papi bapi vapi st addr rate,
      address_show papi bapi vapi st addr, federation papi bapi vapi st, transaction_show papi bapi vapi st txid}"
  shows "transactions (h_db (ap_host (snd (protected wapi handler s)))) = transactions (h_db (ap_host s))"
proof -
  obtain r h where auth: "(auth_user wapi (ap_host s) :: (btc_page response, user_row) res \<times> _) = (r, h)" by force
  let ?t = "s\<lparr>ap_host := h\<rparr>"
  have "app_inv (\<lambda>d. transactions d = transactions (h_db (ap_host s))) ?t"
    using auth_user_db [OF auth] by (simp add: app_inv_def)
  moreover have "preserves (app_inv (\<lambda>d. transactions d = ts)) (handler user)" for ts user
    using assms by (elim insertE emptyE) (simp_all add: page_frames)
  ultimately have "app_inv (\<lambda>d. transactions d = transactions (h_db (ap_host s))) (snd (handler user ?t))" for user
    by (metis preserves_def)
  with \<open>app_inv _ ?t\<close> show ?thesis
    by (auto simp: protected_def respond_def on_host_def auth app_inv_def split: sum.splits fail.splits prod.splits) (metis snd_conv)+
qed

section \<open>Sample\<close>

definition sample_config :: "string app_config" where
  "sample_config = \<lparr>bind_ip = ''::1'', bind_port = 8080, session_secret = [1], database_url = [], network = Regtest,
     bip48_coin_index = 1, bitcoin_rpc_url = [], bitcoin_rpc_user = [], bitcoin_rpc_password = [], bitcoin_wallet_name = [],
     chain_backend = Electrum, esplora_url = None, electrum_url = Some ''tcp'', pkcs11_library_path = ''lib'',
     hsm_tokens = sample_tokens, fed_threshold = 2, fed_signer_indices = [1, 0], fed_script_type = Wsh,
     elements_rpc_url = [], elements_rpc_user = [], elements_rpc_password = [],
     elements_network = ElementsRegtest, elements_chain_backend = ElementsRpc,
     elements_electrum_url = None, elements_esplora_url = None, elements_esplora_auth = None\<rparr>"

definition sample_state :: "string app_state" where
  "sample_state = \<lparr>as_config = sample_config, as_hsm = sample_fleet, as_wallet_manager = sample_manager,
     as_elements_wallet_manager = elements_manager_new sample_config sample_fleet\<rparr>"

definition sample_views :: "(toy_fed, string) view_api" where
  "sample_views = \<lparr>vi_parse_address = Inr, vi_require_network = (\<lambda>a _. Inr \<lparr>ad_string = a, ad_spk = [0]\<rparr>),
     vi_parse_amount = (\<lambda>_. Inr 90), vi_fed_signers = (\<lambda>_. []), vi_qr = (\<lambda>_. Inr ''svg''), vi_time = (\<lambda>_. ''now''),
     vi_show_uuid = (\<lambda>_. ''u''), vi_show_network = (\<lambda>_. ''net'')\<rparr>"

text \<open>A session of the user 1, and a cached wallet with one recorded transaction.\<close>

definition session_web :: "(toy_world, string) web_api" where
  "session_web = \<lparr>se_get = ret_st (Some 1), se_insert = (\<lambda>_. ret_st ()), se_flush = ret_st (), pw_hash = ret_st,
     pw_parse = Inr, pw_verify = (\<lambda>plain phc. if plain = phc then None else Some WrongPassword),
     pw_show = (\<lambda>_. ''e''), sql_lower = to_ascii_lowercase, net_show = (\<lambda>_. ''net'')\<rparr>"

definition sample_sent :: transaction_row where
  "sample_sent = \<lparr>t_id = 60, t_wallet_id = 10, t_txid = ''t1'', t_recipient = ''addr'', t_amount_sat = 90,
     t_fee_sat = 1, t_raw_tx_hex = ''01'', t_label = None, t_broadcast_at = 5\<rparr>"

definition served :: "(toy_signer, (toy_fed, (nat \<times> toy_fed \<times> toy_wallet) list, toy_wallet, string) user_wallet,
    unit, toy_world) app" where
  "served = (sample_app (sample_db\<lparr>transactions := [sample_sent]\<rparr>))\<lparr>ap_wallets := (\<lambda>_. None)(1 \<mapsto> toy_user_wallet)\<rparr>"

lemma served_user:
  "auth_user session_web (ap_host served) = (Inr (hd (users sample_db)), ap_host served)"
  by (simp add: auth_user_def current_user_def session_web_def served_def sample_app_def sample_host_def outside_def bind_st_def
      db_query_def find_user_by_id_def sample_db_def)

lemma served_owned: "wallets_owned served"
  by (simp add: wallets_owned_def served_def sample_app_def sample_host_def owners_def sample_db_def toy_user_wallet_def)

lemma served_sel:
  "ap_wallets served 1 = Some toy_user_wallet" "h_db (ap_host served) = sample_db\<lparr>transactions := [sample_sent]\<rparr>"
  "u_id (hd (users sample_db)) = 1" "u_email (hd (users sample_db)) = ''a@x''" "uw_wallet_id toy_user_wallet = 10"
  "t_wallet_id sample_sent = 10" "t_txid sample_sent = ''t1''" "served\<lparr>ap_host := ap_host served\<rparr> = served"
  "h\<lparr>h_db := h_db h\<rparr> = h"
  by (simp_all add: served_def sample_app_def sample_host_def sample_db_def toy_user_wallet_def sample_sent_def)

theorem send_answers_tell_the_record_witness:
  "transactions (h_db (ap_host (snd (protected session_web (send_post (sample_pkcs11 []) sample_btc sample_views sample_state
     \<lparr>sf_recipient_address = ''addr'', sf_amount_btc = ''1'', sf_fee_rate_sat_vb = 0, sf_label = None, sf_send_max = None\<rparr>) served
     :: (unit, btc_page response) res \<times> _)))) = [sample_sent]"
proof -
  let ?form = "\<lparr>sf_recipient_address = ''addr'', sf_amount_btc = ''1'', sf_fee_rate_sat_vb = 0, sf_label = None, sf_send_max = None\<rparr>"
  have "protected session_web (send_post (sample_pkcs11 []) sample_btc sample_views sample_state ?form) served
      = (Inr (into_response (net_show session_web) no_fee_rate) :: (unit, btc_page response) res, served)"
    by (simp add: protected_def respond_def on_host_def served_user send_post_def throw_res_def)
  from send_answers_tell_the_record [OF this] this show ?thesis by (simp add: no_fee_rate_def served_sel)
qed

lemma served_page:
  "\<exists>hdr. protected session_web (transaction_show (sample_pkcs11 []) sample_btc sample_views sample_state ''t1'') served
     = (Inr (Page (TransactionPage hdr ''a@x'' (transaction_detail_view_of sample_views sample_sent))), served)"
  by (simp add: protected_def respond_def on_host_def served_user served_sel transaction_show_def open_wallet_def load_or_init_hit wallet_of_cached
      map_err_st_def bind_st_def db_query_def find_transaction_def find_wallet_for_user_def)

theorem users_see_only_their_transactions_witness:
  "(1, t_wallet_id sample_sent) \<in> owners (h_db (ap_host served))"
proof -
  obtain hdr where run: "protected session_web (transaction_show (sample_pkcs11 []) sample_btc sample_views sample_state ''t1'') served
     = (Inr (Page (TransactionPage hdr ''a@x'' (transaction_detail_view_of sample_views sample_sent))), served)"
    using served_page by blast
  from users_see_only_their_transactions [OF run served_owned] show ?thesis
    by (auto simp: served_user served_sel)
qed

theorem viewing_records_nothing_witness:
  "transactions (h_db (ap_host (snd (protected session_web
     (receive (sample_pkcs11 []) sample_btc sample_views sample_state) served :: (unit, btc_page response) res \<times> _)))) = [sample_sent]"
  using viewing_records_nothing [OF insertI1, of session_web "sample_pkcs11 []" sample_btc sample_views sample_state served]
  by (simp add: served_sel)

end
