(* ===== verification/Ws.thy ===== *)
theory Ws
  imports Serving
begin

text \<open>
  The live balance socket (\<open>handlers/ws.rs\<close>). A loop waits for whatever comes first: something from
  the client, a change on a watched script, the timer, or, between these, another request changing
  the shared state; a run is the list of what came. The socket, the pool of watched scripts and the
  JSON printer are arguments, with the socket's deliveries kept beside \<open>last_sent\<close>.
\<close>

section \<open>What a session uses\<close>

datatype json_field = JText string | JBool bool

record 'w socket_api =
  ws_json :: "(string \<times> json_field) list \<Rightarrow> string"
  ws_send :: "string \<Rightarrow> ('w, unit, unit) st"
  pool_watch :: "script \<Rightarrow> ('w, string, unit) st"
  pool_unwatch :: "script \<Rightarrow> ('w, string, unit) st"

record push_state =
  ps_last :: "string option"
  ps_sent :: "string list"

definition new_session :: push_state where
  "new_session = \<lparr>ps_last = None, ps_sent = []\<rparr>"

datatype message = CloseFrame | OtherFrame
datatype incoming = Frame message | ReceiveError | StreamEnd
datatype watch_update = Changed script | Lagged | PoolClosed
datatype 's wake = Incoming incoming | Update watch_update | Tick | Elsewhere 's

text \<open>A computation on the application's state.\<close>

definition in_session where
  "in_session m = (\<lambda>(s, p). case m s of (r, t) \<Rightarrow> (r, (t, p)))"

section \<open>Pushing the balance\<close>

definition balance_payload :: "'w socket_api \<Rightarrow> balance_view \<Rightarrow> string" where
  "balance_payload sapi view = ws_json sapi
     [(''type'', JText ''balance''), (''total'', JText (bv_total_btc view)), (''spendable'', JText (bv_spendable_btc view)),
      (''confirmed'', JText (bv_confirmed_btc view)), (''trusted_pending'', JText (bv_trusted_pending_btc view)),
      (''untrusted_pending'', JText (bv_untrusted_pending_btc view)), (''immature'', JText (bv_immature_btc view)),
      (''has_pending'', JBool (bv_has_pending view))]"

definition current_payload where
  "current_payload sapi bapi user =
     bind_st (wallet_of user) (\<lambda>uw.
     bind_st (lift_st (wallet_total bapi uw)) (\<lambda>balance.
     bind_st (lift_st (balance_view_of balance)) (\<lambda>view.
     ret_st (balance_payload sapi view))))"

definition push_if_changed where
  "push_if_changed sapi payload =
     bind_st (read_st (\<lambda>(s, p :: push_state). ps_last p)) (\<lambda>last_sent.
     if last_sent = Some payload then ret_st ()
     else bind_st (in_session (on_host (outside id (ws_send sapi payload)))) (\<lambda>_.
       write_st (\<lambda>(s, p). (s, p\<lparr>ps_last := Some payload, ps_sent := payload # ps_sent p\<rparr>))))"

definition sync_and_push where
  "sync_and_push sapi bapi user =
     bind_st (ignore_err (in_session (on_wallet user (sync_wallet bapi)))) (\<lambda>synced. case synced of
       None \<Rightarrow> ret_st ()
     | Some _ \<Rightarrow> bind_st (in_session (current_payload sapi bapi user)) (push_if_changed sapi))"

text \<open>\<open>is_ok\<close>: whether the socket still takes messages.\<close>

definition is_ok :: "('s, 'e, 'a) st \<Rightarrow> ('s, unit, bool) st" where
  "is_ok m = bind_st (ignore_err m) (\<lambda>r. ret_st (r \<noteq> None))"

section \<open>The loops\<close>

text \<open>A wake-up tells whether to go on. The result is what came after the loop ended, or nothing while it
  waits.\<close>

fun event_loop :: "('x \<Rightarrow> ('s, 'e, bool) st) \<Rightarrow> 'x list \<Rightarrow> ('s, 'e, 'x list option) st" where
  "event_loop step [] = ret_st None"
| "event_loop step (x # xs) = bind_st (step x) (\<lambda>alive. if alive then event_loop step xs else ret_st (Some xs))"

fun on_incoming :: "incoming \<Rightarrow> bool" where
  "on_incoming (Frame CloseFrame) = False"
| "on_incoming ReceiveError = False"
| "on_incoming StreamEnd = False"
| "on_incoming (Frame OtherFrame) = True"

fun on_watched where
  "on_watched sapi bapi user watched (Incoming i) = ret_st (on_incoming i)"
| "on_watched sapi bapi user watched (Update (Changed spk)) =
     (if spk \<in> watched then is_ok (sync_and_push sapi bapi user) else ret_st True)"
| "on_watched sapi bapi user watched (Update Lagged) = is_ok (sync_and_push sapi bapi user)"
| "on_watched sapi bapi user watched (Update PoolClosed) = ret_st False"
| "on_watched sapi bapi user watched (Elsewhere s) = bind_st (write_st (\<lambda>(_, p). (s, p))) (\<lambda>_. ret_st True)"
| "on_watched sapi bapi user watched Tick = ret_st True"

fun on_polled where
  "on_polled sapi bapi user (Incoming i) = ret_st (on_incoming i)"
| "on_polled sapi bapi user Tick = is_ok (sync_and_push sapi bapi user)"
| "on_polled sapi bapi user (Elsewhere s) = bind_st (write_st (\<lambda>(_, p). (s, p))) (\<lambda>_. ret_st True)"
| "on_polled sapi bapi user (Update _) = ret_st True"

definition watch_script :: "'w socket_api \<Rightarrow> script \<Rightarrow> (('sig, 'uw, 'euw, 'w) app \<times> push_state, unit, unit) st" where
  "watch_script sapi spk = bind_st (ignore_err (in_session (on_host (outside id (pool_watch sapi spk))))) (\<lambda>_. ret_st ())"

definition unwatch_script :: "'w socket_api \<Rightarrow> script \<Rightarrow> (('sig, 'uw, 'euw, 'w) app \<times> push_state, unit, unit) st" where
  "unwatch_script sapi spk = bind_st (ignore_err (in_session (on_host (outside id (pool_unwatch sapi spk))))) (\<lambda>_. ret_st ())"

definition drive_watched where
  "drive_watched sapi bapi user events =
     bind_st (in_session (wallet_of user)) (\<lambda>uw.
     let scripts = watched_scripts bapi uw in
     bind_st (for_st (watch_script sapi) scripts) (\<lambda>_.
     bind_st (is_ok (sync_and_push sapi bapi user)) (\<lambda>alive.
     bind_st (if alive then event_loop (on_watched sapi bapi user (set scripts)) events else ret_st (Some events)) (\<lambda>rest.
     bind_st (if rest = None then ret_st () else for_st (unwatch_script sapi) scripts) (\<lambda>_.
     ret_st rest)))))"

definition drive_polled where
  "drive_polled sapi bapi user events = event_loop (on_polled sapi bapi user) events"

definition drive where
  "drive papi sapi bapi st user events =
     bind_st (ignore_err (in_session (BtcWallet.load_or_init papi bapi (as_wallet_manager st) user))) (\<lambda>wallet. case wallet of
       None \<Rightarrow> ret_st (Some events)
     | Some _ \<Rightarrow> if wm_has_watch_pool (as_wallet_manager st) then drive_watched sapi bapi user events
         else drive_polled sapi bapi user events)"

section \<open>Only changes are pushed\<close>

definition push_inv :: "'s \<times> push_state \<Rightarrow> bool" where
  "push_inv = (\<lambda>(s, p). distinct_adj (ps_sent p) \<and> ps_last p = (case ps_sent p of [] \<Rightarrow> None | text # _ \<Rightarrow> Some text))"

lemma in_session_pushes [pres_intros]: "preserves push_inv (in_session m)"
  by (auto simp: preserves_def push_inv_def in_session_def split: prod.splits)

lemma is_ok_pres [pres_intros]: "preserves P m \<Longrightarrow> preserves P (is_ok m)"
  unfolding is_ok_def by (intro pres_intros)

lemma event_loop_pres: "(\<And>x. x \<in> set xs \<Longrightarrow> preserves P (step x)) \<Longrightarrow> preserves P (event_loop step xs)"
  by (induction xs) (auto intro!: pres_intros)

lemma push_if_changed_pushes: "preserves push_inv (push_if_changed sapi payload)"
  by (auto simp: preserves_def push_if_changed_def bind_st_def push_inv_def in_session_def read_st_def write_st_def
      split: prod.splits sum.splits list.splits)

lemma sync_and_push_pushes [pres_intros]: "preserves push_inv (sync_and_push sapi bapi user)"
  unfolding sync_and_push_def by (intro pres_intros push_if_changed_pushes)

lemma steps_pres:
  assumes "preserves P (sync_and_push sapi bapi user)" and "\<And>s s' p. x = Elsewhere s' \<Longrightarrow> P (s, p) \<Longrightarrow> P (s', p)"
  shows "preserves P (on_watched sapi bapi user watched x)" and "preserves P (on_polled sapi bapi user x)"
proof -
  have left: "preserves P (write_st (\<lambda>(_, p). (s', p)))" if "x = Elsewhere s'" for s'
    using assms(2) [OF that] by (auto intro!: preserves_write)
  show "preserves P (on_watched sapi bapi user watched x)"
    using assms(1) left by (cases "(sapi, bapi, user, watched, x)" rule: on_watched.cases) (auto intro!: pres_intros left)
  show "preserves P (on_polled sapi bapi user x)"
    using assms(1) left by (cases "(sapi, bapi, user, x)" rule: on_polled.cases) (auto intro!: pres_intros left)
qed

lemma steps_push: "preserves push_inv (on_watched sapi bapi user watched x)" "preserves push_inv (on_polled sapi bapi user x)"
  by (rule steps_pres, rule sync_and_push_pushes, simp add: push_inv_def)+

lemma drive_pushes: "preserves push_inv (drive papi sapi bapi st user events)"
  unfolding drive_def drive_watched_def drive_polled_def watch_script_def unwatch_script_def Let_def
  by (intro pres_intros event_loop_pres steps_push)

text \<open>Two consecutive messages on a live balance socket differ, whatever wakes it and however the
  session ends: a wake-up without a change sends nothing.\<close>

theorem pushes_are_changes:
  "distinct_adj (ps_sent (snd (snd (drive papi sapi bapi st user events (s, new_session)))))"
proof -
  have "push_inv (s, new_session)" by (simp add: push_inv_def new_session_def)
  with drive_pushes have "push_inv (snd (drive papi sapi bapi st user events (s, new_session)))" unfolding preserves_def by blast
  then show ?thesis by (simp add: push_inv_def case_prod_unfold)
qed

section \<open>A closed socket ends its session\<close>

definition never_fails :: "('s, 'e, 'a) st \<Rightarrow> bool" where
  "never_fails m \<longleftrightarrow> (\<forall>s. (\<exists>a. fst (m s) = Inr a) \<or> fst (m s) = Inl Panic)"

lemma never_fails_basic:
  "never_fails (ret_st a)" "never_fails (write_st f)" "never_fails (ignore_err m)" "never_fails (wallet_of user)"
  by (auto simp: never_fails_def ret_st_def write_st_def ignore_err_def wallet_of_def on_wallet_def the_wallet_def read_st_def
      split: prod.splits sum.splits fail.splits option.splits)

lemma never_fails_in_session: "never_fails m \<Longrightarrow> never_fails (in_session m)"
  by (auto simp: never_fails_def in_session_def split: prod.splits) (metis fst_conv)

lemma never_fails_bind:
  assumes "never_fails m" and "\<And>a. never_fails (f a)"
  shows "never_fails (bind_st m f)"
  unfolding never_fails_def
proof
  fix s
  obtain r t where "m s = (r, t)" by force
  with assms show "(\<exists>a. fst (bind_st m f s) = Inr a) \<or> fst (bind_st m f s) = Inl Panic"
    by (cases r) (auto simp: never_fails_def bind_st_def dest: spec [of _ s] spec [of _ t])
qed

lemma never_fails_for: "(\<And>x. never_fails (f x)) \<Longrightarrow> never_fails (for_st f xs)"
  by (induction xs) (auto intro: never_fails_basic never_fails_bind)

lemma never_fails_if: "never_fails m \<Longrightarrow> never_fails m' \<Longrightarrow> never_fails (if b then m else m')"
  by simp

lemma never_fails_option: "never_fails m \<Longrightarrow> (\<And>a. never_fails (f a)) \<Longrightarrow> never_fails (case x of None \<Rightarrow> m | Some a \<Rightarrow> f a)"
  by (cases x) auto

lemmas never_fails_intros = never_fails_basic never_fails_in_session never_fails_bind never_fails_for never_fails_if never_fails_option

lemma never_fails_loop: "(\<And>x. never_fails (step x)) \<Longrightarrow> never_fails (event_loop step xs)"
  by (induction xs) (auto intro!: never_fails_intros)

lemma never_fails_steps: "never_fails (on_watched sapi bapi user watched x)" "never_fails (on_polled sapi bapi user x)"
  by (cases "(sapi, bapi, user, watched, x)" rule: on_watched.cases; simp add: is_ok_def never_fails_intros)
    (cases "(sapi, bapi, user, x)" rule: on_polled.cases; simp add: is_ok_def never_fails_intros)

lemma drive_never_fails: "never_fails (drive papi sapi bapi st user events)"
  unfolding drive_def drive_watched_def drive_polled_def watch_script_def unwatch_script_def is_ok_def Let_def
  by (intro never_fails_intros never_fails_loop never_fails_steps)

lemma event_loop_waiting:
  assumes "event_loop step xs s = (Inr None, t)" and "x \<in> set xs"
  shows "\<exists>u v. step x u = (Inr True, v)"
  using assms
proof (induction xs arbitrary: s)
  case (Cons y xs)
  from Cons.prems(1) obtain u where "step y s = (Inr True, u)" and "event_loop step xs u = (Inr None, t)"
    by (auto elim!: bind_st_InrE split: if_splits)
  with Cons show ?case by auto
qed simp

lemma loops_waiting:
  assumes "Incoming i \<in> set events"
  shows "event_loop (on_watched sapi bapi user watched) events s = (Inr None, t) \<Longrightarrow> on_incoming i"
    and "event_loop (on_polled sapi bapi user) events s = (Inr None, t) \<Longrightarrow> on_incoming i"
  using event_loop_waiting [OF _ assms] by fastforce+

lemma drive_waiting:
  assumes "drive papi sapi bapi st user events s = (Inr None, t)" and "Incoming i \<in> set events"
  shows "on_incoming i"
  using assms(1) unfolding drive_def drive_watched_def drive_polled_def Let_def
  by (auto elim!: bind_st_InrE split: option.splits if_splits) (blast intro: loops_waiting [OF assms(2)])+

text \<open>C36. Once the client closes the socket, or receiving fails, the session ends, whatever came before and
  whatever else is still to come: the loop is never left waiting. (A panic ends it too.)\<close>

theorem closing_ends_the_session:
  assumes "Incoming i \<in> set events" and "i = Frame CloseFrame \<or> i = ReceiveError \<or> i = StreamEnd"
  shows "case fst (drive papi sapi bapi st user events s) of Inr rest \<Rightarrow> rest \<noteq> None | Inl failure \<Rightarrow> failure = Panic"
proof -
  obtain r t where run: "drive papi sapi bapi st user events s = (r, t)" by (rule prod.exhaust)
  have "\<not> on_incoming i" using assms(2) by auto
  then have "r \<noteq> Inr None" using drive_waiting [OF _ assms(1)] run by blast
  moreover have "(\<exists>a. r = Inr a) \<or> r = Inl Panic" using drive_never_fails [unfolded never_fails_def] by (metis run fst_conv)
  ultimately show ?thesis using run by auto
qed

section \<open>Subscriptions\<close>

text \<open>The pool counts the watchers of a script; nothing else a session does changes the counts.\<close>

definition counts_watchers where
  "counts_watchers sapi bapi subs \<longleftrightarrow>
     (\<forall>spk w. subs (snd (pool_watch sapi spk w)) = (case fst (pool_watch sapi spk w) of
        Inr _ \<Rightarrow> (subs w)(spk := Suc (subs w spk)) | Inl _ \<Rightarrow> subs w))
   \<and> (\<forall>spk w. subs (snd (pool_unwatch sapi spk w)) = (subs w)(spk := subs w spk - 1))
   \<and> (\<forall>text w. subs (snd (ws_send sapi text w)) = subs w)
   \<and> (\<forall>x. subs (snd (snd (emitter_sync bapi x))) = subs (snd x))
   \<and> (\<forall>x. subs (snd (snd (esplora_sync bapi x))) = subs (snd x))
   \<and> (\<forall>x. subs (snd (snd (electrum_sync bapi x))) = subs (snd x))"

definition world_inv :: "('w \<Rightarrow> bool) \<Rightarrow> ('sig, 'uw, 'euw, 'w) app \<times> push_state \<Rightarrow> bool" where
  "world_inv Q = (\<lambda>(s, p). Q (h_world (ap_host s)))"

definition op_world :: "('w \<Rightarrow> bool) \<Rightarrow> ('fed, 'fw, 'wal, 'cs) user_wallet \<times> 'w host \<Rightarrow> bool" where
  "op_world Q = (\<lambda>(uw, h). Q (h_world h))"

definition host_world :: "('w \<Rightarrow> bool) \<Rightarrow> 'w host \<Rightarrow> bool" where
  "host_world Q h = Q (h_world h)"

lemma host_world_intros [pres_intros]:
  "preserves (host_world Q) (db_query g q)"
  "(\<And>w. Q w \<Longrightarrow> Q (snd (m w))) \<Longrightarrow> preserves (host_world Q) (outside e m)"
  by (auto simp: preserves_def host_world_def db_query_def outside_def split: prod.splits) (metis snd_conv)

lemma op_world_intros [pres_intros]:
  "preserves (host_world Q) k \<Longrightarrow> preserves (op_world Q) (via_host k)" "preserves (op_world Q) (change_wallet f)"
  by (auto simp: preserves_def op_world_def host_world_def via_host_def change_wallet_def write_st_def split: prod.splits)

lemma backend_world [pres_intros]:
  assumes "\<And>x. Q (snd x) \<Longrightarrow> Q (snd (snd (m x)))"
  shows "preserves (op_world Q) (on_inner m)" and "preserves (op_world Q) (on_version m i)"
proof -
  have "Q (h_world h) \<Longrightarrow> m (w, h_world h) = (r, (w', v)) \<Longrightarrow> Q v" for h w r w' v
    using assms [of "(w, h_world h)"] by simp
  then show "preserves (op_world Q) (on_inner m)" and "preserves (op_world Q) (on_version m i)"
    by (auto simp: preserves_def op_world_def on_inner_def on_version_def split: prod.splits)
qed

lemma revert_absent_world: "preserves (host_world Q) (revert_absent present cs n)"
proof (induction present cs n rule: revert_absent.induct)
  case (1 present n)
  show ?case unfolding revert_absent.simps by (rule preserves_ret)
next
  case (2 present i t s cs n)
  then show ?case by (cases "t \<in> present") (auto intro!: pres_intros)
qed

lemma sync_world:
  assumes law: "counts_watchers sapi bapi subs"
  shows "preserves (op_world (\<lambda>w. C (subs w))) (sync_wallet bapi)"
proof -
  have fin: "preserves (op_world (\<lambda>w. C (subs w))) (finish_sync bapi x)" for x
    unfolding finish_sync_def persist_sync_def store_delta_def reconcile_reverted_migrations_def Let_def case_prod_unfold
    by (intro pres_intros revert_absent_world)
  have backend: "C (subs (snd x)) \<Longrightarrow> C (subs (snd (snd (map_err_st g m x))))" if "\<And>x. subs (snd (snd (m x))) = subs (snd x)" for g m x
    using that [of x] by (cases "m x") (simp add: map_err_st_def)
  note laws = law [unfolded counts_watchers_def]
  have rpc: "C (subs (snd x)) \<Longrightarrow> C (subs (snd (snd (rpc_backend bapi b x))))" for b x
    using laws by (auto simp: rpc_backend_def throw_res_def intro: backend)
  show ?thesis
    unfolding sync_wallet_def sync_esplora_def sync_electrum_def sync_wallets_def reveal_version_wallets_to_inner_def
      case_prod_unfold by (intro pres_intros fin rpc) (use laws in \<open>auto intro: backend\<close>)
qed

lemma session_world_intros [pres_intros]:
  "preserves (host_world Q) k \<Longrightarrow> preserves (world_inv Q) (in_session (on_host k))"
  "preserves (op_world Q) m \<Longrightarrow> preserves (world_inv Q) (in_session (on_wallet user m))"
  by (auto simp: preserves_def world_inv_def host_world_def op_world_def in_session_def on_host_def on_wallet_def
      split: prod.splits option.splits) (metis snd_conv)+

lemma in_session_lift: "(\<And>p. preserves (\<lambda>s. P (s, p)) m) \<Longrightarrow> preserves P (in_session m)"
  by (auto simp: preserves_def in_session_def split: prod.splits) (metis snd_conv)

lemma wallet_of_state: "preserves P (wallet_of user)"
  by (auto simp: preserves_def wallet_of_def on_wallet_def the_wallet_def read_st_def fun_upd_idem split: option.splits)

lemma shown_world [pres_intros]:
  "preserves P (in_session (current_payload sapi bapi user))" "preserves P (in_session (wallet_of user))"
  unfolding current_payload_def by (intro in_session_lift pres_intros wallet_of_state)+

lemma sync_and_push_world:
  assumes law: "counts_watchers sapi bapi subs"
  shows "preserves (world_inv (\<lambda>w. C (subs w))) (sync_and_push sapi bapi user)"
proof -
  have "preserves (world_inv (\<lambda>w. C (subs w))) (push_if_changed sapi payload)" for payload
    unfolding push_if_changed_def
    by (intro pres_intros) (use law in \<open>auto simp: counts_watchers_def world_inv_def\<close>)
  then show ?thesis unfolding sync_and_push_def by (intro pres_intros sync_world [OF law])
qed

definition watchers :: "('w \<Rightarrow> script \<Rightarrow> nat) \<Rightarrow> script \<Rightarrow> ('sig, 'uw, 'euw, 'w) app \<Rightarrow> nat" where
  "watchers subs spk s = subs (h_world (ap_host s)) spk"

lemma pool_steps_world:
  "h_world (ap_host (fst (snd (watch_script sapi x s)))) = snd (pool_watch sapi x (h_world (ap_host (fst s))))"
  "h_world (ap_host (fst (snd (unwatch_script sapi x s)))) = snd (pool_unwatch sapi x (h_world (ap_host (fst s))))"
  by (auto simp: watch_script_def unwatch_script_def bind_st_def ignore_err_def in_session_def on_host_def outside_def map_err_def
      split: prod.splits sum.splits fail.splits)

lemma pool_steps_count:
  assumes "counts_watchers sapi bapi subs"
  shows "watchers subs spk (fst (snd (watch_script sapi x s))) \<le> watchers subs spk (fst s) + (if x = spk then 1 else 0)"
    and "watchers subs spk (fst (snd (unwatch_script sapi x s))) = watchers subs spk (fst s) - (if x = spk then 1 else 0)"
  using assms by (auto simp: watchers_def pool_steps_world counts_watchers_def split: sum.splits)

lemma pool_loops_count:
  assumes "counts_watchers sapi bapi subs"
  shows "for_st (watch_script sapi) xs s = (Inr (), t) \<Longrightarrow> watchers subs spk (fst t) \<le> watchers subs spk (fst s) + count_list xs spk"
    and "for_st (unwatch_script sapi) xs s = (Inr (), t) \<Longrightarrow> watchers subs spk (fst t) = watchers subs spk (fst s) - count_list xs spk"
proof (induction xs arbitrary: s)
  case (Cons x xs)
  {
    case 1
    then obtain u where "watch_script sapi x s = (Inr (), u)" and "for_st (watch_script sapi) xs u = (Inr (), t)"
      by (auto elim!: bind_st_InrE)
    with Cons.IH(1) [of u] pool_steps_count(1) [OF assms, of spk x s] show ?case by (simp split: if_splits)
  next
    case 2
    then obtain u where "unwatch_script sapi x s = (Inr (), u)" and "for_st (unwatch_script sapi) xs u = (Inr (), t)"
      by (auto elim!: bind_st_InrE)
    with Cons.IH(2) [of u] pool_steps_count(2) [OF assms, of spk x s] show ?case by (simp split: if_splits)
  }
qed simp_all

lemma sync_and_push_count:
  "counts_watchers sapi bapi subs \<Longrightarrow> preserves (\<lambda>(s, p). watchers subs spk s \<le> N) (sync_and_push sapi bapi user)"
  unfolding watchers_def by (rule sync_and_push_world [where C = "\<lambda>n. n spk \<le> N", unfolded world_inv_def])

lemma watched_loop_count:
  assumes "counts_watchers sapi bapi subs" and "\<And>s'. Elsewhere s' \<in> set events \<Longrightarrow> watchers subs spk s' \<le> N"
  shows "preserves (\<lambda>(s, p). watchers subs spk s \<le> N) (event_loop (on_watched sapi bapi user ws) events)"
  by (rule event_loop_pres, rule steps_pres, rule sync_and_push_count [OF assms(1)]) (use assms(2) in auto)


section \<open>Sample\<close>

definition script_text :: "script \<Rightarrow> string" where
  "script_text spk = map (\<lambda>b. char_of (unat b)) spk"

definition sample_sockets :: "toy_world socket_api" where
  "sample_sockets = \<lparr>ws_json = (\<lambda>_. ''json''), ws_send = (\<lambda>_. ret_st ()),
     pool_watch = (\<lambda>spk. write_st (\<lambda>w. (''watch'', script_text spk) # w)),
     pool_unwatch = (\<lambda>spk. write_st (remove1 (''watch'', script_text spk)))\<rparr>"

definition sample_subs :: "toy_world \<Rightarrow> script \<Rightarrow> nat" where
  "sample_subs w spk = count_list w (''watch'', script_text spk)"

lemma script_text_inj: "script_text a = script_text b \<longleftrightarrow> a = b"
proof -
  have "inj (\<lambda>b :: u8. char_of (unat b) :: char)"
  proof (rule injI)
    fix x y :: u8 assume "(char_of (unat x) :: char) = char_of (unat y)"
    then have "(of_char (char_of (unat x)) :: nat) = of_char (char_of (unat y))" by simp
    then show "x = y" using unsigned_less [of x, where 'a = nat] unsigned_less [of y, where 'a = nat] by (simp add: word_unat_eq_iff)
  qed
  then show ?thesis by (simp add: script_text_def inj_map_eq_map)
qed

lemma count_remove1: "count_list (remove1 a xs) b = count_list xs b - (if a = b then 1 else 0)"
  by (induction xs) auto

lemma sample_counts: "counts_watchers sample_sockets sample_btc sample_subs"
  by (auto simp: counts_watchers_def sample_sockets_def sample_subs_def fun_eq_iff script_text_inj count_remove1 toy_sync_def
      write_st_def ret_st_def)

lemma sample_sync:
  "\<exists>x t uw. on_wallet 1 (sync_wallet sample_btc) (served\<lparr>ap_host := (ap_host served)\<lparr>h_world := w\<rparr>\<rparr>) = (Inr x, t)
    \<and> ap_wallets t 1 = Some uw \<and> length (uw_versions uw) = 1"
  by (simp add: on_wallet_def served_def sample_app_def sample_host_def sync_wallet_def the_wallet_def toy_user_wallet_def
      sync_electrum_def reveal_version_wallets_to_inner_def change_wallet_def sync_wallets_def on_version_def on_inner_def
      toy_sync_def map_err_st_def finish_sync_def persist_sync_def store_delta_def via_host_def db_query_def
      update_wallet_changeset_def reconcile_reverted_migrations_def list_federation_versions_for_wallet_def
      sample_db_def empty_database_def summary_of_def bind_st_def toy_new_def st_simps)

definition sample_shown :: balance_view where
  "sample_shown = \<lparr>bv_total_btc = format_btc 6, bv_spendable_btc = format_btc 6, bv_confirmed_btc = format_btc 5,
     bv_trusted_pending_btc = format_btc 1, bv_untrusted_pending_btc = format_btc 0, bv_immature_btc = format_btc 0,
     bv_has_pending = True\<rparr>"

lemma sample_view:
  "length (uw_versions uw) = 1 \<Longrightarrow> wallet_total sample_btc uw
     = Inr \<lparr>b_confirmed = 5, b_trusted_pending = 1, b_untrusted_pending = 0, b_immature = 0\<rparr>"
  "balance_view_of \<lparr>b_confirmed = 5, b_trusted_pending = 1, b_untrusted_pending = 0, b_immature = 0\<rparr> = Inr sample_shown"
  by (cases "uw_versions uw") (simp_all add: wallet_total_def or_panic_def checked_add_def balance_view_of_def sample_shown_def)

lemma sample_push:
  "\<exists>t. sync_and_push sample_sockets sample_btc 1 (served\<lparr>ap_host := (ap_host served)\<lparr>h_world := w\<rparr>\<rparr>, new_session)
     = (Inr (), (t, \<lparr>ps_last = Some ''json'', ps_sent = [''json'']\<rparr>))"
proof -
  obtain x t uw where sync: "on_wallet 1 (sync_wallet sample_btc) (served\<lparr>ap_host := (ap_host served)\<lparr>h_world := w\<rparr>\<rparr>) = (Inr x, t)"
    and uw: "ap_wallets t 1 = Some uw" "length (uw_versions uw) = 1"
    using sample_sync by blast
  show ?thesis
    by (simp add: sync_and_push_def bind_st_def ignore_err_def in_session_def sync current_payload_def wallet_of_cached [OF uw(1)] sample_view(1) [OF uw(2)] sample_view(2)
       
        push_if_changed_def new_session_def on_host_def outside_def sample_sockets_def balance_payload_def)
qed

lemma sample_scripts: "watched_scripts sample_btc toy_user_wallet = [[0]]"
  by (simp add: watched_scripts_def toy_user_wallet_def)

lemma sample_session:
  "\<exists>t. drive_watched sample_sockets sample_btc 1 [Incoming (Frame CloseFrame), Tick] (served, new_session)
     = (Inr (Some [Tick]), (t, \<lparr>ps_last = Some ''json'', ps_sent = [''json'']\<rparr>))"
proof -
  obtain t where push: "sync_and_push sample_sockets sample_btc 1
      (served\<lparr>ap_host := (ap_host served)\<lparr>h_world := (''watch'', script_text [0]) # h_world (ap_host served)\<rparr>\<rparr>, new_session)
     = (Inr (), (t, \<lparr>ps_last = Some ''json'', ps_sent = [''json'']\<rparr>))" using sample_push by blast
  have watch: "watch_script sample_sockets [0] (served, new_session)
      = (Inr (), (served\<lparr>ap_host := (ap_host served)\<lparr>h_world := (''watch'', script_text [0]) # h_world (ap_host served)\<rparr>\<rparr>, new_session))"
    by (simp add: watch_script_def bind_st_def ignore_err_def in_session_def on_host_def outside_def sample_sockets_def)
  have unwatch: "\<exists>u. unwatch_script sample_sockets [0] (t, p) = (Inr (), (u, p))" for p
    by (simp add: unwatch_script_def bind_st_def ignore_err_def in_session_def on_host_def outside_def sample_sockets_def)
  obtain u where "unwatch_script sample_sockets [0] (t, \<lparr>ps_last = Some ''json'', ps_sent = [''json'']\<rparr>)
      = (Inr (), (u, \<lparr>ps_last = Some ''json'', ps_sent = [''json'']\<rparr>))" using unwatch by blast
  then show ?thesis
    by (simp add: drive_watched_def Let_def bind_st_def in_session_def wallet_of_cached served_sel sample_scripts watch is_ok_def
        ignore_err_def push)
qed

theorem closing_ends_the_session_witness:
  "fst (drive (sample_pkcs11 []) sample_sockets sample_btc sample_state 1 [Incoming StreamEnd] (served, new_session)) \<noteq> Inr None"
  using closing_ends_the_session [of StreamEnd "[Incoming StreamEnd]" "sample_pkcs11 []" sample_sockets sample_btc sample_state 1
    "(served, new_session)"] by auto


end
