(* ===== verification/Ingest.thy ===== *)
theory Ingest
  imports ElementsLoad "HOL-Library.AList" "HOL-Library.Multiset"
begin

text \<open>
  The background task that scans for the Elements wallets (\<open>elements_ingest.rs\<close>): which descriptors it
  watches for which wallet, the pass over a node's blocks and the pass through a nodeless client. The
  scan engine and the nodeless scan belong to a library that works on the stores of \<open>ElementsStore\<close>: they
  are arguments, as is the order in which a hash map gives its entries. Counts of scanned outputs are
  natural numbers.
\<close>

section \<open>What a pass uses\<close>

record scan_summary =
  sc_blocks_scanned :: u32
  sc_utxos_captured :: nat
  sc_utxos_spent :: nat
  sc_skipped_unblindable :: nat
  sc_reorg_to :: "u32 option"

record nodeless_outcome =
  no_upserted :: nat
  no_spent :: nat
  no_reorg_to :: "u32 option"

record ('wollet, 'engine, 'client, 'w) ingest_api =
  ig_show_db :: "db_error \<Rightarrow> string"
  ig_join_error :: string
  ig_engine_new :: 'engine
  ig_register_wallet :: "wallet_key \<Rightarrow> 'wollet \<Rightarrow> u32 \<Rightarrow> 'engine \<Rightarrow> string + 'engine"
  ig_engine_sync :: "'engine \<Rightarrow> rpc_client \<Rightarrow> ('w host, string, scan_summary) st"
  ig_nodeless_sync :: "wallet_key \<Rightarrow> 'wollet list \<Rightarrow> ('client \<times> 'w host, string, nodeless_outcome) st"
  ig_hash_order :: "(wallet_key \<times> 'wollet list) list \<Rightarrow> (wallet_key \<times> 'wollet list) list"

type_synonym watched_version = "wallet_key \<times> string \<times> u8 list"

definition SCAN_GAP :: u32 where "SCAN_GAP = 100"

text \<open>\<open>spawn_blocking\<close>: a panic of the blocking part is an error of the task.\<close>

definition blocking :: "string \<Rightarrow> ('s, string, 'a) st \<Rightarrow> ('s, string, 'a) st" where
  "blocking join m = (\<lambda>s. case m s of (Inl Panic, t) \<Rightarrow> (Inl (Err join), t) | other \<Rightarrow> other)"

section \<open>Watched versions\<close>

definition wallet_key_of :: "uuid \<Rightarrow> wallet_key" where
  "wallet_key_of i = WalletId i"

text \<open>A row without versions is watched by its own descriptor; a version uses its own blinding key if it
  has one that parses, else its wallet's.\<close>

definition version_key :: "elements_wallet_row \<Rightarrow> federation_version_row \<Rightarrow> u8 list option" where
  "version_key row v = (case Option.bind (fv_blinding_key v) parse_mbk of
     Some k \<Rightarrow> Some k | None \<Rightarrow> parse_mbk (ew_master_blinding_key row))"

definition versions_of_row :: "elements_wallet_row \<Rightarrow> federation_version_row list \<Rightarrow> watched_version list" where
  "versions_of_row row versions =
     (let wid = wallet_key_of (ew_id row) in
      if versions = [] then (case parse_mbk (ew_master_blinding_key row) of
           Some mbk \<Rightarrow> [(wid, ew_descriptor row, mbk)] | None \<Rightarrow> [])
      else List.map_filter (\<lambda>v. map_option (\<lambda>mbk. (wid, fv_descriptor v, mbk)) (version_key row v)) versions)"

definition load_wallet_versions :: "('wollet, 'engine, 'client, 'w) ingest_api \<Rightarrow> ('w host, string, watched_version list) st" where
  "load_wallet_versions gapi =
     bind_st (db_query (ig_show_db gapi) list_all_elements_wallets) (\<lambda>rows.
     bind_st (map_st (\<lambda>row.
       bind_st (db_query (ig_show_db gapi) (list_federation_versions_for_elements_wallet (ew_id row))) (\<lambda>versions.
       ret_st (versions_of_row row versions))) rows) (\<lambda>wallets.
     ret_st (concat wallets)))"

text \<open>A version whose descriptor does not build is skipped.\<close>

definition built_wollets where
  "built_wollets lapi net lwk entries = List.map_filter (\<lambda>(wid, desc, mbk).
     case wollet_from_descriptor lapi desc mbk net lwk of Inr w \<Rightarrow> Some (wid, w) | Inl _ \<Rightarrow> None) entries"

section \<open>The nodeless pass\<close>

definition group_by_wallet :: "(wallet_key \<times> 'wollet) list \<Rightarrow> (wallet_key \<times> 'wollet list) list" where
  "group_by_wallet built = fold (\<lambda>(wid, w). AList.map_default wid [w] (\<lambda>ws. ws @ [w])) built []"

fun sync_groups where
  "sync_groups gapi [] totals = (ret_st totals :: ('client \<times> 'w host, string, nat \<times> nat \<times> nat) st)"
| "sync_groups gapi ((wid, wollets) # groups) (upserted, spent, reorgs) =
     bind_st (ignore_err (ig_nodeless_sync gapi wid wollets)) (\<lambda>synced. case synced of
       Some r \<Rightarrow> sync_groups gapi groups (upserted + no_upserted r, spent + no_spent r,
           reorgs + (if no_reorg_to r = None then 0 else 1))
     | None \<Rightarrow> sync_groups gapi groups (upserted, spent, reorgs))"

definition with_client :: "'client \<Rightarrow> ('client \<times> 's, 'e, 'a) st \<Rightarrow> ('s, 'e, 'a) st" where
  "with_client client m = (\<lambda>s. case m (client, s) of (r, (_, t)) \<Rightarrow> (r, t))"

definition drive_nodeless where
  "drive_nodeless gapi client by_wallet = with_client client
     (bind_st (sync_groups gapi (ig_hash_order gapi by_wallet) (0, 0, 0)) (\<lambda>(upserted, spent, reorgs).
      ret_st (''unspent_upserted='' @ show_nat upserted @ '' newly_spent='' @ show_nat spent @ '' reorgs='' @ show_nat reorgs)))"

definition run_once_nodeless where
  "run_once_nodeless gapi lapi backend electrum esplora auth net =
     bind_st (load_wallet_versions gapi) (\<lambda>entries.
     if entries = [] then ret_st ()
     else
       let lwk = to_lwk lapi net;
           by_wallet = group_by_wallet (built_wollets lapi net lwk entries) in
       bind_st (blocking (ig_join_error gapi) (case backend of
           ElementsElectrum \<Rightarrow>
             bind_st (outside id (new_electrum lapi (unwrap_or_default electrum))) (\<lambda>client.
             drive_nodeless gapi client by_wallet)
         | ElementsEsplora \<Rightarrow>
             bind_st (outside id (esplora_client lapi (unwrap_or_default esplora) lwk auth)) (\<lambda>client.
             drive_nodeless gapi client by_wallet)
         | ElementsWaterfalls \<Rightarrow>
             bind_st (outside id (waterfalls_client lapi (unwrap_or_default esplora) lwk auth)) (\<lambda>client.
             drive_nodeless gapi client by_wallet)
         | ElementsRpc \<Rightarrow> ret_st ''rpc backend not handled here'')) (\<lambda>_.
       ret_st ()))"

section \<open>The pass over a node's blocks\<close>

fun register_wallets where
  "register_wallets gapi [] engine = Inr engine"
| "register_wallets gapi ((wid, w) # built) engine =
     bind_res (of_sum id (ig_register_wallet gapi wid w SCAN_GAP engine)) (register_wallets gapi built)"

definition show_reorg :: "u32 option \<Rightarrow> string" where
  "show_reorg r = (case r of None \<Rightarrow> ''None'' | Some h \<Rightarrow> ''Some('' @ show_nat (unat h) @ '')'')"

definition scan_text :: "scan_summary \<Rightarrow> string" where
  "scan_text s = ''scanned='' @ show_nat (unat (sc_blocks_scanned s)) @ '' captured='' @ show_nat (sc_utxos_captured s)
     @ '' spent='' @ show_nat (sc_utxos_spent s) @ '' skipped_unblindable='' @ show_nat (sc_skipped_unblindable s)
     @ '' reorg_to='' @ show_reorg (sc_reorg_to s)"

definition run_once where
  "run_once gapi lapi c url user pass net =
     bind_st (load_wallet_versions gapi) (\<lambda>wallets.
     if wallets = [] then ret_st ()
     else bind_st (blocking (ig_join_error gapi)
       (bind_st (\<lambda>h. (of_sum (\<lambda>e. show_sync_error lapi (ChainSource e)) (rpc_client_new lapi url user pass (h_world h)), h)) (\<lambda>chain.
        bind_st (lift_st (map_err (show_sync_error lapi)
          (node_lwk_network c (asset_parse_opt lapi) (custom_regtest lapi) (to_lwk lapi) chain net))) (\<lambda>lwk.
        bind_st (lift_st (register_wallets gapi (built_wollets lapi net lwk wallets) (ig_engine_new gapi))) (\<lambda>engine.
        bind_st (ig_engine_sync gapi engine chain) (\<lambda>s.
        ret_st (sc_blocks_scanned s, scan_text s))))))) (\<lambda>_.
     ret_st ()))"

section \<open>The task\<close>

definition ingest_pass where
  "ingest_pass gapi lapi c cfg = (case elements_chain_backend cfg of
       ElementsRpc \<Rightarrow> run_once gapi lapi c (elements_rpc_url cfg) (elements_rpc_user cfg) (elements_rpc_password cfg)
         (elements_network cfg)
     | backend \<Rightarrow> run_once_nodeless gapi lapi backend (elements_electrum_url cfg) (elements_esplora_url cfg)
         (elements_esplora_auth cfg) (elements_network cfg))"

text \<open>A run of the endless loop: for every pass, what the rest of the program did while the task slept after
  it. A pass that fails is logged.\<close>

fun spawn where
  "spawn gapi lapi c cfg [] = ret_st ()"
| "spawn gapi lapi c cfg (meanwhile # rest) =
     bind_st (ignore_err (ingest_pass gapi lapi c cfg)) (\<lambda>_.
     bind_st (write_st meanwhile) (\<lambda>_.
     spawn gapi lapi c cfg rest))"

section \<open>What is watched\<close>

lemma map_st_reads: "(\<And>x. f x s = (Inr (g x), s)) \<Longrightarrow> map_st f xs s = (Inr (map g xs), s)"
  by (induction xs) (simp_all add: bind_st_def)

definition versions_in :: "database \<Rightarrow> elements_wallet_row \<Rightarrow> federation_version_row list" where
  "versions_in d row = sort_key fv_version_index
     (filter (\<lambda>v. fv_elements_wallet_id v = Some (ew_id row)) (federation_versions d))"

lemma load_wallet_versions_run:
  "load_wallet_versions gapi h = (Inr (concat (map (\<lambda>row. versions_of_row row (versions_in (h_db h) row))
     (sort_key ew_account_idx (elements_wallets (h_db h))))), h)"
proof -
  have read: "db_query g (read_st f) h = (Inr (f (h_db h)), h)" for g f by (simp add: db_query_def)
  show ?thesis
    by (simp add: load_wallet_versions_def list_all_elements_wallets_def list_federation_versions_for_elements_wallet_def
        bind_st_def read map_st_reads [where g = "\<lambda>row. versions_of_row row (versions_in (h_db h) row)"] versions_in_def)
qed

lemma map_filter_mem: "y \<in> set (List.map_filter f xs) \<longleftrightarrow> (\<exists>x \<in> set xs. f x = Some y)"
  by (induction xs) (auto simp: map_filter_def)

lemma concat_map_mem: "x \<in> set (concat (map f xs)) \<longleftrightarrow> (\<exists>r \<in> set xs. x \<in> set (f r))"
  by auto

lemma versions_of_row_iff:
  "(wid, desc, mbk) \<in> set (versions_of_row row vs) \<longleftrightarrow> wid = WalletId (ew_id row) \<and>
     (if vs = [] then desc = ew_descriptor row \<and> parse_mbk (ew_master_blinding_key row) = Some mbk
      else \<exists>v \<in> set vs. desc = fv_descriptor v \<and> version_key row v = Some mbk)"
  by (auto simp: versions_of_row_def Let_def wallet_key_of_def map_filter_mem split: option.splits)

lemma watched_row_iff:
  "(wid, desc, mbk) \<in> set (versions_of_row row (versions_in d row)) \<longleftrightarrow> wid = WalletId (ew_id row) \<and>
     (if \<exists>v \<in> set (federation_versions d). fv_elements_wallet_id v = Some (ew_id row)
      then \<exists>v \<in> set (federation_versions d). fv_elements_wallet_id v = Some (ew_id row)
         \<and> desc = fv_descriptor v \<and> version_key row v = Some mbk
      else desc = ew_descriptor row \<and> parse_mbk (ew_master_blinding_key row) = Some mbk)"
proof -
  have "set (versions_in d row) = {v \<in> set (federation_versions d). fv_elements_wallet_id v = Some (ew_id row)}"
    by (simp add: versions_in_def)
  moreover from this have "versions_in d row = [] \<longleftrightarrow> \<not> (\<exists>v \<in> set (federation_versions d). fv_elements_wallet_id v = Some (ew_id row))"
    by (metis (mono_tags, lifting) empty_Collect_eq set_empty)
  ultimately show ?thesis unfolding versions_of_row_iff by auto
qed

text \<open>The scan watches exactly this: for every wallet the descriptors of all its federation versions, each
  with its own blinding key or, failing that, its wallet's; for a wallet without versions its own
  descriptor. All of it under the wallet's own id, and without changing anything.\<close>

theorem every_version_is_watched:
  "\<exists>entries. load_wallet_versions gapi h = (Inr entries, h) \<and>
     (\<forall>wid desc mbk. (wid, desc, mbk) \<in> set entries \<longleftrightarrow>
       (\<exists>row \<in> set (elements_wallets (h_db h)). wid = WalletId (ew_id row) \<and>
         (if \<exists>v \<in> set (federation_versions (h_db h)). fv_elements_wallet_id v = Some (ew_id row)
          then \<exists>v \<in> set (federation_versions (h_db h)). fv_elements_wallet_id v = Some (ew_id row)
             \<and> desc = fv_descriptor v \<and> version_key row v = Some mbk
          else desc = ew_descriptor row \<and> parse_mbk (ew_master_blinding_key row) = Some mbk)))"
  unfolding load_wallet_versions_run by (rule exI, rule conjI, rule refl, intro allI) (simp only: concat_map_mem set_sort watched_row_iff)


section \<open>Who is scanned\<close>

lemma group_by_wallet_snoc:
  "group_by_wallet (built @ [(wid, w)]) = AList.map_default wid [w] (\<lambda>ws. ws @ [w]) (group_by_wallet built)"
  by (simp add: group_by_wallet_def)

lemma groups_distinct: "distinct (map fst (group_by_wallet built))"
proof (induction built rule: rev_induct)
  case Nil
  show ?case by (simp add: group_by_wallet_def)
next
  case (snoc x built)
  then show ?case by (cases x) (simp add: group_by_wallet_snoc distinct_map_default)
qed

lemma groups_of:
  "map_of (group_by_wallet built) wid =
     (let ws = map snd (filter (\<lambda>b. fst b = wid) built) in if ws = [] then None else Some ws)"
proof (induction built rule: rev_induct)
  case Nil
  show ?case by (simp add: group_by_wallet_def)
next
  case (snoc x built)
  then show ?case by (cases x) (auto simp: group_by_wallet_snoc map_of_map_default Let_def filter_empty_conv)
qed

text \<open>A journal of the scans: every one is entered with its wallet and wollets, also one that fails.\<close>

definition journals where
  "journals gapi entries \<longleftrightarrow> (\<forall>wid ws s. entries (snd (ig_nodeless_sync gapi wid ws s)) = entries s @ [(wid, ws)]
     \<and> \<not> panics (fst (ig_nodeless_sync gapi wid ws s)))"

lemma sync_groups_journal:
  assumes "journals gapi entries"
  shows "\<exists>result t. sync_groups gapi groups totals s = (Inr result, t) \<and> entries t = entries s @ groups"
proof (induction groups arbitrary: totals s)
  case (Cons g groups)
  obtain wid ws where g: "g = (wid, ws)" by force
  obtain a b n where totals: "totals = (a, b, n)" by (rule prod_cases3)
  obtain r t where run: "ig_nodeless_sync gapi wid ws s = (r, t)" by (rule prod.exhaust)
  then have "entries t = entries s @ [(wid, ws)]" and "r \<noteq> Inl Panic"
    using assms unfolding journals_def panics_def by (metis fst_conv snd_conv)+
  moreover from \<open>r \<noteq> Inl Panic\<close> have "\<exists>totals'. sync_groups gapi (g # groups) totals s = sync_groups gapi groups totals' t"
    by (cases r) (auto simp: g totals bind_st_def ignore_err_def run split: fail.splits)
  ultimately show ?case using Cons.IH [of _ t] g by fastforce
next
  case Nil
  show ?case by (cases totals) simp
qed

text \<open>C35. A nodeless pass scans every wallet that has a version to watch exactly once, with all its versions
  together and in their order, whichever of the scans fail, and then comes to its end.\<close>

theorem nodeless_pass_scans_every_wallet_once:
  assumes law: "journals gapi entries" and order: "mset (ig_hash_order gapi groups) = mset groups"
    and "groups = group_by_wallet built" and "entries (client, s) = []"
  shows "\<exists>msg t c. drive_nodeless gapi client groups s = (Inr msg, t) \<and> distinct (map fst (entries (c, t)))
    \<and> (\<forall>wid ws. (wid, ws) \<in> set (entries (c, t)) \<longleftrightarrow> ws \<noteq> [] \<and> ws = map snd (filter (\<lambda>b. fst b = wid) built))"
proof -
  let ?groups = "ig_hash_order gapi groups"
  obtain a b n c t where run: "sync_groups gapi ?groups (0, 0, 0) (client, s) = (Inr (a, b, n), (c, t))" and journal: "entries (c, t) = ?groups"
    using sync_groups_journal [OF law, of ?groups "(0, 0, 0)" "(client, s)"] assms(4) by auto
  have "distinct (map fst ?groups)"
    using order groups_distinct [of built] assms(3) mset_eq_imp_distinct_iff [of "map fst ?groups" "map fst groups"] by simp
  moreover have "(wid, ws) \<in> set ?groups \<longleftrightarrow> ws \<noteq> [] \<and> ws = map snd (filter (\<lambda>b. fst b = wid) built)" for wid ws
  proof -
    have "(wid, ws) \<in> set ?groups \<longleftrightarrow> map_of groups wid = Some ws"
      using mset_eq_setD [OF order] groups_distinct [of built] assms(3) by simp
    then show ?thesis unfolding assms(3) groups_of by (auto simp: Let_def)
  qed
  moreover obtain msg where "drive_nodeless gapi client groups s = (Inr msg, t)"
    by (simp add: drive_nodeless_def with_client_def bind_st_def run)
  ultimately show ?thesis by (intro exI [of _ msg] exI [of _ t] exI [of _ c]) (simp add: journal)
qed

section \<open>Sample\<close>

text \<open>A scan that enters itself in a journal; the second wallet's scan fails.\<close>

definition sample_ingest :: "(string, unit, unit, (wallet_key \<times> string list) list) ingest_api" where
  "sample_ingest = \<lparr>ig_show_db = (\<lambda>_. ''db''), ig_join_error = ''join'', ig_engine_new = (),
     ig_register_wallet = (\<lambda>_ _ _ e. Inr e),
     ig_engine_sync = (\<lambda>_ _. ret_st \<lparr>sc_blocks_scanned = 0, sc_utxos_captured = 0, sc_utxos_spent = 0,
        sc_skipped_unblindable = 0, sc_reorg_to = None\<rparr>),
     ig_nodeless_sync = (\<lambda>wid ws (client, h).
       (if wid = WalletId 2 then Inl (Err ''down'') else Inr \<lparr>no_upserted = 1, no_spent = 0, no_reorg_to = None\<rparr>,
        (client, h\<lparr>h_world := h_world h @ [(wid, ws)]\<rparr>))),
     ig_hash_order = rev\<rparr>"

definition ingest_host :: "database \<Rightarrow> (wallet_key \<times> string list) list host" where
  "ingest_host d = \<lparr>h_db = d, h_world = [], h_tick = 0, h_uuid = (\<lambda>n. word_of_nat n), h_now = int\<rparr>"

theorem nodeless_pass_scans_every_wallet_once_witness:
  "\<exists>msg t. drive_nodeless sample_ingest () (group_by_wallet [(WalletId 1, ''a''), (WalletId 2, ''x''), (WalletId 1, ''b'')])
       (ingest_host empty_database) = (Inr msg, t)
     \<and> (WalletId 1, [''a'', ''b'']) \<in> set (h_world t)"
proof -
  let ?built = "[(WalletId 1, ''a''), (WalletId 2, ''x''), (WalletId 1, ''b'')]"
  let ?entries = "\<lambda>(c :: unit, h). h_world h"
  have "journals sample_ingest ?entries"
    by (auto simp: journals_def sample_ingest_def panics_def split: prod.splits)
  moreover have "mset (ig_hash_order sample_ingest (group_by_wallet ?built)) = mset (group_by_wallet ?built)"
    by (simp add: sample_ingest_def)
  moreover have "?entries ((), ingest_host empty_database) = []" by (simp add: ingest_host_def)
  ultimately have "\<exists>msg t c. drive_nodeless sample_ingest () (group_by_wallet ?built) (ingest_host empty_database) = (Inr msg, t)
    \<and> distinct (map fst (?entries (c, t)))
    \<and> (\<forall>wid ws. (wid, ws) \<in> set (?entries (c, t)) \<longleftrightarrow> ws \<noteq> [] \<and> ws = map snd (filter (\<lambda>b. fst b = wid) ?built))"
    by (intro nodeless_pass_scans_every_wallet_once) simp_all
  then show ?thesis by auto
qed


end
