(* ===== verification/ElementsHandlers.thy ===== *)
theory ElementsHandlers
  imports Handlers ElementsFrame
begin

text \<open>
  The pages of the Elements wallet (\<open>handlers/elements_wallet.rs\<close>, \<open>handlers/elements_transactions.rs\<close>) as
  computations on the application's state with the manager's network. An amount is an \<open>f64\<close> and is shown
  with eight decimals. QR codes, timestamps, key fingerprints and the names of networks belong to
  libraries and are arguments.
\<close>

section \<open>Requests\<close>

record ('sig, 'fp) elements_view_api =
  ev_qr :: "string \<Rightarrow> string + string"
  ev_time :: "timestamp \<Rightarrow> string"
  ev_show_network :: "elements_network \<Rightarrow> string"
  ev_fingerprint :: "'sig \<Rightarrow> 'fp"
  ev_fp_from_str :: "string \<Rightarrow> 'fp option"
  ev_fp_show :: "'fp \<Rightarrow> string"

definition elements_protected where
  "elements_protected wapi handler = respond (net_show wapi) (on_app (on_host (auth_user wapi))) handler"

text \<open>The user's wallet, and an operation of it.\<close>

definition open_elements where
  "open_elements papi lapi c st user =
     map_err_st AppElements (load_or_init papi lapi c (as_elements_wallet_manager st) (u_id user))"

definition in_elements where
  "in_elements m = on_app (on_host (map_err_st AppElements m))"

section \<open>What pages show\<close>

text \<open>\<open>x > 0.000_000_01\<close>: the double nearest to the literal, which no NaN exceeds.\<close>

fun f64_less :: "f64 \<Rightarrow> f64 \<Rightarrow> bool" where
  "f64_less (Finite m e) (Finite n f) \<longleftrightarrow> m * 2 ^ nat (e - min e f) < n * 2 ^ nat (f - min e f)"
| "f64_less (Finite m e) (Infinite s) \<longleftrightarrow> \<not> s"
| "f64_less (Infinite s) (Finite m e) \<longleftrightarrow> s"
| "f64_less (Infinite s) (Infinite t) \<longleftrightarrow> s \<and> \<not> t"
| "f64_less Nan y \<longleftrightarrow> False"
| "f64_less x Nan \<longleftrightarrow> False"

definition above_dust :: "f64 \<Rightarrow> bool" where
  "above_dust x = f64_less (f64_ratio 1 (10 ^ 8)) x"

definition not_negative :: "f64 \<Rightarrow> f64" where
  "not_negative x = (if f64_le_zero x then Finite 0 0 else x)"

record elements_wallet_header =
  eh_email :: string
  eh_account_idx :: int
  eh_network :: string
  eh_descriptor :: string
  eh_tip_height :: u64
  eh_active_tab :: string
  eh_policy :: string

definition elements_policy_label :: "'ip app_state \<Rightarrow> string" where
  "elements_policy_label st = show_nat (unat (fed_threshold (as_config st))) @ ''-of-''
     @ show_nat (length (fed_signer_indices (as_config st))) @ '' (HSMs)''"

definition elements_header_of where
  "elements_header_of evapi st user uw tip active_tab =
     \<lparr>eh_email = u_email user, eh_account_idx = ue_account_idx uw, eh_network = ev_show_network evapi (ue_network uw),
      eh_descriptor = ue_descriptor uw, eh_tip_height = tip, eh_active_tab = active_tab, eh_policy = elements_policy_label st\<rparr>"

record elements_balance_view =
  eb_total_btc :: string
  eb_spendable_btc :: string
  eb_confirmed_btc :: string
  eb_pending_btc :: string
  eb_immature_btc :: string
  eb_has_pending :: bool

definition elements_balance_view_of :: "elements_balances \<Rightarrow> elements_balance_view" where
  "elements_balance_view_of b =
     \<lparr>eb_total_btc = f64_show_8 (f64_add (f64_add (bal_trusted b) (bal_untrusted_pending b)) (bal_immature b)),
      eb_spendable_btc = f64_show_8 (bal_trusted b), eb_confirmed_btc = f64_show_8 (bal_trusted b),
      eb_pending_btc = f64_show_8 (bal_untrusted_pending b), eb_immature_btc = f64_show_8 (bal_immature b),
      eb_has_pending = above_dust (f64_add (bal_untrusted_pending b) (bal_immature b))\<rparr>"

record elements_address_view =
  el_index :: u32
  el_address :: string
  el_address_short :: string
  el_received_btc :: string
  el_unspent_btc :: string

definition elements_address_view_of :: "elements_revealed_address \<Rightarrow> ('e, elements_address_view) res" where
  "elements_address_view_of a = bind_res (abbreviate_address (er_address a) 12 8) (\<lambda>short.
     Inr \<lparr>el_index = er_index a, el_address = er_address a, el_address_short = short,
       el_received_btc = f64_show_8 (not_negative (er_received a)), el_unspent_btc = f64_show_8 (not_negative (er_unspent a))\<rparr>)"

record elements_asset_group_view =
  ga_asset_id :: string
  ga_asset_label :: string
  ga_is_policy :: bool
  ga_is_active :: bool
  ga_addresses :: "elements_address_view list"
  ga_change_addresses :: "elements_address_view list"

record elements_federation_address_group =
  fa_version :: nat
  fa_label :: string
  fa_is_current :: bool
  fa_assets :: "elements_asset_group_view list"

record asset_balance_view =
  bw_asset_id :: string
  bw_is_policy :: bool
  bw_amount :: string

record send_asset_option =
  so_value :: string
  so_label :: string

record elements_receipt_view =
  rw_txid :: string
  rw_vout :: u32
  rw_amount_btc :: string
  rw_status :: string
  rw_is_spent :: bool

definition elements_receipt_view_of where
  "elements_receipt_view_of c r =
     \<lparr>rw_txid = txid_str c (re_txid r), rw_vout = re_vout r, rw_amount_btc = f64_show_8 (re_amount r),
      rw_status = (if re_confirmations r = 0 then ''Mempool''
        else show_nat (unat (re_confirmations r)) @ '' '' @ (if re_confirmations r = 1 then ''conf'' else ''confs'')),
      rw_is_spent = re_is_spent r\<rparr>"

record address_asset_activity_view =
  aw_asset_id :: string
  aw_asset_label :: string
  aw_is_policy :: bool
  aw_is_active :: bool
  aw_total_received_btc :: string
  aw_unspent_btc :: string
  aw_receipt_count :: nat
  aw_receipts :: "elements_receipt_view list"

record elements_transaction_list_view =
  xl_txid :: string
  xl_recipient :: string
  xl_amount_btc :: string
  xl_fee_btc :: string
  xl_label :: string
  xl_broadcast_at :: string

definition elements_transaction_list_view_of where
  "elements_transaction_list_view_of evapi row = \<lparr>xl_txid = et_txid row, xl_recipient = et_recipient row,
     xl_amount_btc = format_btc_sats (et_amount_sat row), xl_fee_btc = format_btc_sats (et_fee_sat row),
     xl_label = unwrap_or_default (et_label row), xl_broadcast_at = ev_time evapi (et_broadcast_at row)\<rparr>"

record elements_transaction_detail_view = elements_transaction_list_view +
  xd_raw_tx_hex :: string

definition elements_transaction_detail_view_of where
  "elements_transaction_detail_view_of evapi row = \<lparr>xl_txid = et_txid row, xl_recipient = et_recipient row,
     xl_amount_btc = format_btc_sats (et_amount_sat row), xl_fee_btc = format_btc_sats (et_fee_sat row),
     xl_label = unwrap_or_default (et_label row), xl_broadcast_at = ev_time evapi (et_broadcast_at row),
     xd_raw_tx_hex = et_raw_tx_hex row\<rparr>"

record elements_address_detail_view =
  dv_address :: string
  dv_qr_uri :: string
  dv_qr_svg :: string
  dv_derivation_index :: "u32 option"

record elements_signer_view =
  sw_id :: string
  sw_label :: string

record elements_federation_version_view =
  fv_view_index :: int
  fv_view_threshold :: int
  fv_view_signer_count :: int
  fv_view_signers :: "elements_signer_view list"

record elements_federation_history_view =
  eh_version_index :: int
  eh_threshold :: int
  eh_signer_count :: int
  eh_wallet_handle :: string
  eh_blinding_key_rotated :: string
  eh_descriptor_short :: string
  eh_created_at :: string
  eh_is_current :: bool
  eh_migration_status :: string

datatype elements_page =
    ElementsReceivePage elements_wallet_header elements_balance_view "asset_balance_view list" "elements_federation_address_group list"
  | ElementsSendPage elements_wallet_header elements_balance_view "elements_transaction_list_view list" "send_asset_option list"
  | ElementsAddressPage elements_wallet_header string elements_address_detail_view "address_asset_activity_view list"
  | ElementsFederationPage elements_wallet_header elements_balance_view elements_federation_version_view
      "elements_federation_history_view list" nat
  | ElementsTransactionPage elements_wallet_header string elements_transaction_detail_view
  | ElementsMaxSpendReply u64 string

section \<open>Receiving\<close>

text \<open>The first characters of a text, each a byte with the continuation bytes after it.\<close>

definition is_continuation :: "char \<Rightarrow> bool" where
  "is_continuation b \<longleftrightarrow> 128 \<le> byte_of b \<and> byte_of b < 192"

fun take_chars :: "nat \<Rightarrow> string \<Rightarrow> string" where
  "take_chars 0 s = []"
| "take_chars (Suc n) [] = []"
| "take_chars (Suc n) (b # bs) = b # takeWhile is_continuation bs @ take_chars n (dropWhile is_continuation bs)"

definition asset_label :: "string \<Rightarrow> bool \<Rightarrow> string" where
  "asset_label asset_id is_policy = (if is_policy then ''L-BTC'' else take_chars 4 asset_id)"

text \<open>The change addresses by asset, of the current version only; a failure to derive them leaves them
  out. The hash map is a function, from which an asset's views are removed when its group takes them.\<close>

fun change_views where
  "change_views [] m = Inr m"
| "change_views (ag # ags) m =
     bind_res (map_res elements_address_view_of (filter (\<lambda>a. above_dust (er_unspent a)) (asset_address_group.ag_addresses ag)))
       (\<lambda>views. change_views ags (m(asset_address_group.ag_asset_id ag \<mapsto> views)))"

definition change_by_asset where
  "change_by_asset lapi c uw versions vg is_current =
     (if \<not> is_current then ret_st Map.empty
      else
        let desc = (case find (\<lambda>v. fv_wallet_handle v = vg_wallet_handle vg) versions of
             Some v \<Rightarrow> fv_descriptor v | None \<Rightarrow> ue_descriptor uw) in
        bind_st (ignore_err (in_elements (change_addresses_by_asset lapi c uw reveal_count desc))) (\<lambda>ags.
        lift_st (change_views (case ags of None \<Rightarrow> [] | Some ags \<Rightarrow> ags) Map.empty)))"

fun asset_group_views where
  "asset_group_views [] change = Inr []"
| "asset_group_views (ag # ags) change =
     (let asset = asset_address_group.ag_asset_id ag; policy = ag_is_policy ag in
      bind_res (map_res elements_address_view_of (asset_address_group.ag_addresses ag)) (\<lambda>addresses.
      bind_res (asset_group_views ags (change(asset := None))) (\<lambda>views.
      Inr (\<lparr>ga_asset_id = asset, ga_asset_label = asset_label asset policy, ga_is_policy = policy, ga_is_active = policy,
        ga_addresses = addresses, ga_change_addresses = (case change asset of None \<Rightarrow> [] | Some views \<Rightarrow> views)\<rparr> # views))))"

definition version_group_view where
  "version_group_view lapi c uw versions total_versions vg =
     bind_st (lift_st (or_panic (if total_versions = 0 then None else Some (total_versions - 1)))) (\<lambda>newest.
     let is_current = vg_version_index vg = newest in
     bind_st (change_by_asset lapi c uw versions vg is_current) (\<lambda>change.
     bind_st (lift_st (asset_group_views (vg_assets vg) change)) (\<lambda>assets.
     ret_st \<lparr>fa_version = vg_version_index vg,
       fa_label = ''v'' @ show_nat (vg_version_index vg + 1) @ (if is_current then '' (current)'' else []),
       fa_is_current = is_current, fa_assets = assets\<rparr>)))"

definition policy_asset_id where
  "policy_asset_id lapi uw = asset_str lapi (lwk_policy_asset lapi (ue_lwk uw))"

text \<open>The policy asset comes first, the others keep their order.\<close>

definition asset_balance_views where
  "asset_balance_views policy balances = sort_key (\<lambda>b. \<not> bw_is_policy b) (map (\<lambda>b.
     \<lparr>bw_asset_id = ab_asset_id b, bw_is_policy = (ab_asset_id b = policy), bw_amount = f64_show_8 (ab_amount b)\<rparr>) balances)"

definition receive where
  "receive papi lapi c evapi st user =
     bind_st (open_elements papi lapi c st user) (\<lambda>uw.
     bind_st (in_elements (tip_height lapi uw)) (\<lambda>tip.
     bind_st (in_elements (elements_balance lapi c uw)) (\<lambda>balances.
     bind_st (in_elements (reveal_addresses_all_versions_by_asset lapi c uw reveal_count)) (\<lambda>version_groups.
     bind_st (on_app (on_host (db_query AppSqlx (list_federation_versions_for_elements_wallet (ue_wallet_id uw))))) (\<lambda>versions.
     bind_st (map_st (version_group_view lapi c uw versions (length version_groups)) (rev version_groups)) (\<lambda>groups.
     bind_st (in_elements (asset_balances lapi c uw)) (\<lambda>by_asset.
     ret_st (Page (ElementsReceivePage (elements_header_of evapi st user uw tip ''receive'') (elements_balance_view_of balances)
       (asset_balance_views (policy_asset_id lapi uw) by_asset) groups)))))))))"

section \<open>Sending\<close>

definition asset_options where
  "asset_options policy balances = \<lparr>so_value = [], so_label = ''L-BTC''\<rparr>
     # map (\<lambda>b. \<lparr>so_value = ab_asset_id b, so_label = ab_asset_id b\<rparr>) (filter (\<lambda>b. ab_asset_id b \<noteq> policy) balances)"

definition send_get where
  "send_get papi lapi c evapi st user =
     bind_st (open_elements papi lapi c st user) (\<lambda>uw.
     bind_st (in_elements (tip_height lapi uw)) (\<lambda>tip.
     bind_st (in_elements (elements_balance lapi c uw)) (\<lambda>balances.
     bind_st (on_app (on_host (db_query AppSqlx (list_elements_transactions_for_wallet (ue_wallet_id uw))))) (\<lambda>txs.
     bind_st (in_elements (asset_balances lapi c uw)) (\<lambda>by_asset.
     ret_st (Page (ElementsSendPage (elements_header_of evapi st user uw tip ''send'') (elements_balance_view_of balances)
       (map (elements_transaction_list_view_of evapi) txs) (asset_options (policy_asset_id lapi uw) by_asset))))))))"

record elements_send_form =
  ef_recipient_address :: string
  ef_amount_btc :: string
  ef_fee_rate_sat_vb :: u64
  ef_label :: "string option"
  ef_send_max :: "string option"
  ef_asset_id :: "string option"

definition send_max where
  "send_max lapi c uw form =
     (case trimmed (ef_asset_id form) of
        Some asset \<Rightarrow> build_sign_and_broadcast_asset_max lapi c uw (trim (ef_recipient_address form)) asset
          (ef_fee_rate_sat_vb form) (trimmed (ef_label form))
      | None \<Rightarrow> sweep_to lapi c uw (trim (ef_recipient_address form)) (ef_fee_rate_sat_vb form) (trimmed (ef_label form)))"

definition send_amount where
  "send_amount lapi c uw form amount =
     (case trimmed (ef_asset_id form) of
        Some asset \<Rightarrow> build_sign_and_broadcast_asset lapi c uw (trim (ef_recipient_address form)) asset amount
          (ef_fee_rate_sat_vb form) (trimmed (ef_label form))
      | None \<Rightarrow> build_sign_and_broadcast lapi c uw (trim (ef_recipient_address form)) amount
          (ef_fee_rate_sat_vb form) (trimmed (ef_label form)))"

definition send_post where
  "send_post papi lapi c st form user =
     (if ef_fee_rate_sat_vb form = 0 then lift_st (throw_res no_fee_rate)
      else
     bind_st (open_elements papi lapi c st user) (\<lambda>uw.
     bind_st (if ef_send_max form = Some ''true'' then in_elements (send_max lapi c uw form)
       else bind_st (lift_st (of_option (AppBadRequest (''invalid amount '' @ backtick (ef_amount_btc form)))
            (parse_f64 (trim (ef_amount_btc form))))) (\<lambda>amount.
         if f64_le_zero amount then lift_st (throw_res (AppBadRequest ''amount must be positive''))
         else in_elements (send_amount lapi c uw form amount))) (\<lambda>result.
     ret_st (RedirectTo (''/elements/wallet/transactions/'' @ eb_txid result)))))"

definition max_spend where
  "max_spend papi lapi c st recipient_address fee_rate asset_id user =
     (if fee_rate = 0 then lift_st (throw_res no_fee_rate)
      else
     bind_st (open_elements papi lapi c st user) (\<lambda>uw.
     bind_st (in_elements (case trimmed asset_id of
         Some asset \<Rightarrow> asset_total_sat lapi c uw asset
       | None \<Rightarrow> compute_drain_amount lapi c uw (trim recipient_address) fee_rate)) (\<lambda>max_sat.
     ret_st (Page (ElementsMaxSpendReply max_sat (f64_show_8 (btc_of_sats max_sat)))))))"

section \<open>An address\<close>

definition activity_view where
  "activity_view c selected a =
     \<lparr>aw_asset_id = xa_asset_id a, aw_asset_label = asset_label (xa_asset_id a) (xa_is_policy a), aw_is_policy = xa_is_policy a,
      aw_is_active = (case selected of Some sel \<Rightarrow> sel = xa_asset_id a | None \<Rightarrow> xa_is_policy a),
      aw_total_received_btc = f64_show_8 (not_negative (xa_received a)), aw_unspent_btc = f64_show_8 (not_negative (xa_unspent a)),
      aw_receipt_count = length (xa_receipts a), aw_receipts = map (elements_receipt_view_of c) (xa_receipts a)\<rparr>"

text \<open>Where no tab is active the first one becomes so.\<close>

fun some_active :: "address_asset_activity_view list \<Rightarrow> address_asset_activity_view list" where
  "some_active [] = []"
| "some_active (v # vs) = (if list_ex aw_is_active (v # vs) then v # vs else v\<lparr>aw_is_active := True\<rparr> # vs)"

definition address_show where
  "address_show papi lapi c evapi st address_raw selected user =
     bind_st (open_elements papi lapi c st user) (\<lambda>uw.
     bind_st (in_elements (tip_height lapi uw)) (\<lambda>tip.
     bind_st (in_elements (reveal_addresses lapi c uw reveal_count)) (\<lambda>revealed.
     bind_st (in_elements (change_addresses lapi c uw reveal_count)) (\<lambda>change.
     let derivation_index = map_option er_index (find (\<lambda>a. er_address a = address_raw) (revealed @ change));
         qr_uri = ''liquidnetwork:'' @ address_raw in
     bind_st (lift_st (of_sum (\<lambda>e. AppBadRequest (''Failed to encode QR: '' @ e)) (ev_qr evapi qr_uri))) (\<lambda>qr_svg.
     bind_st (in_elements (address_history_by_asset lapi c uw address_raw)) (\<lambda>activities.
     ret_st (Page (ElementsAddressPage (elements_header_of evapi st user uw tip ''receive'') (u_email user)
       \<lparr>dv_address = address_raw, dv_qr_uri = qr_uri, dv_qr_svg = qr_svg, dv_derivation_index = derivation_index\<rparr>
       (some_active (map (activity_view c selected) activities))))))))))"

section \<open>The federation\<close>

text \<open>Later pairs of a collected map win. Every error on the way leaves the map empty.\<close>

definition current_federation_signers where
  "current_federation_signers papi lapi evapi st user_id account_idx descriptor =
     bind_st (case derivation_path_for lapi (as_elements_wallet_manager st) (to_u32_or 0 account_idx) of
         Inr path \<Rightarrow> bind_st (ignore_err (on_app (on_hsm AppHsm (signers_for papi (as_hsm st) user_id path)))) (\<lambda>found.
           ret_st (case found of None \<Rightarrow> Map.empty
             | Some signers \<Rightarrow> map_of (rev (map (\<lambda>(t, s). (ev_fingerprint evapi s, hsm_label t))
                 (zip (hsm_tokens (as_config st)) signers)))))
       | Inl (Err _) \<Rightarrow> ret_st Map.empty
       | Inl Panic \<Rightarrow> lift_st (Inl Panic)) (\<lambda>fp_to_label.
     ret_st (map (\<lambda>fp. let label = (case fp_to_label fp of Some l \<Rightarrow> l | None \<Rightarrow> ev_fp_show evapi fp) in
         \<lparr>sw_id = label, sw_label = label\<rparr>) (origin_fingerprints (ev_fp_from_str evapi) descriptor)))"

definition elements_history_view where
  "elements_history_view evapi versions i =
     (let v = versions ! i in
      bind_res (truncate_descriptor (fv_descriptor v) 40) (\<lambda>short.
      Inr \<lparr>eh_version_index = fv_version_index v, eh_threshold = fv_threshold v, eh_signer_count = fv_signer_count v,
        eh_wallet_handle = fv_wallet_handle v,
        eh_blinding_key_rotated = (if i = 0 then ''N/A (initial)''
          else if fv_blinding_key v = fv_blinding_key (versions ! (i - 1)) then ''No'' else ''Yes''),
        eh_descriptor_short = short, eh_created_at = ev_time evapi (fv_created_at v),
        eh_is_current = (fv_version_index v = as_i32 (int (length versions - 1))),
        eh_migration_status = fv_migration_status v\<rparr>))"

definition federation where
  "federation papi lapi c evapi st user =
     bind_st (open_elements papi lapi c st user) (\<lambda>uw.
     bind_st (in_elements (tip_height lapi uw)) (\<lambda>tip.
     bind_st (in_elements (elements_balance lapi c uw)) (\<lambda>balances.
     bind_st (on_app (on_host (db_query AppSqlx (list_federation_versions_for_elements_wallet (ue_wallet_id uw))))) (\<lambda>versions.
     bind_st (current_federation_signers papi lapi evapi st (u_id user) (ue_account_idx uw) (ue_descriptor uw)) (\<lambda>signers.
     bind_st (lift_st (map_res (elements_history_view evapi versions) [0..<length versions])) (\<lambda>history.
     ret_st (Page (ElementsFederationPage (elements_header_of evapi st user uw tip ''federation'') (elements_balance_view_of balances)
       \<lparr>fv_view_index = as_i32 (int (length versions - 1)),
        fv_view_threshold = (if versions = [] then as_i32 (uint (fed_threshold (as_config st))) else fv_threshold (last versions)),
        fv_view_signer_count = as_i32 (int (length signers)), fv_view_signers = signers\<rparr>
       history (length versions)))))))))"

section \<open>A transaction\<close>

definition elements_transaction_show where
  "elements_transaction_show papi lapi c evapi st txid user =
     bind_st (open_elements papi lapi c st user) (\<lambda>uw.
     bind_st (on_app (on_host (db_query AppSqlx (find_elements_transaction (ue_wallet_id uw) txid)))) (\<lambda>found. case found of
       None \<Rightarrow> lift_st (throw_res (AppNotFound (''elements transaction '' @ txid)))
     | Some row \<Rightarrow>
         bind_st (in_elements (tip_height lapi uw)) (\<lambda>tip.
         ret_st (Page (ElementsTransactionPage (elements_header_of evapi st user uw tip ''send'') (u_email user)
           (elements_transaction_detail_view_of evapi row))))))"

end
