(* ===== verification/ElementsServing.thy ===== *)
theory ElementsServing
  imports ElementsHandlers Serving
begin

text \<open>
  What the pages of the Elements wallet guarantee: an answer to a send tells whether a transaction was
  recorded, and an address page has one active tab.
\<close>

section \<open>Sends\<close>

interpretation keeps_elements_transactions: elements_frame "\<lambda>d. elements_transactions d = ts"
  by unfold_locales (auto simp: preserves_def update_elements_wallet_descriptor_def insert_federation_version_def
      insert_elements_wallet_def statement_def write_st_def split: option.splits)

lemma open_elements_frame [pres_intros]:
  "preserves (es_inv (\<lambda>d. elements_transactions d = ts)) (open_elements papi lapi c st user)"
  unfolding open_elements_def by (intro pres_intros keeps_elements_transactions.load_frame)

text \<open>A run of a send on the wallet's state, as its table of transactions tells it.\<close>

definition tells_the_record where
  "tells_the_record m \<longleftrightarrow> (\<forall>s r s'. m s = (r, s') \<longrightarrow> (case r of
     Inl _ \<Rightarrow> elements_transactions (es_db s') = elements_transactions (es_db s)
   | Inr b \<Rightarrow> list_ex (\<lambda>t. et_txid t = eb_txid b) (elements_transactions (es_db s'))))"

lemma in_elements_tells: "sends_recorded uw m \<Longrightarrow> tells_the_record (in_elements m)"
  unfolding tells_the_record_def in_elements_def on_app_def on_host_def map_err_st_def es_db_def
  by (auto split: prod.splits sum.splits simp: list_ex_iff dest!: sends_recordedD [rotated])

lemma send_tells:
  "tells_the_record (in_elements (send_max lapi c uw form))"
  "tells_the_record (in_elements (send_amount lapi c uw form amount))"
  unfolding send_max_def send_amount_def
  by (auto intro!: in_elements_tells elements_pipelines_recorded split: option.splits)

lemma tells_keeps: "tells_the_record m \<Longrightarrow> keeps_on_error (es_inv (\<lambda>d. elements_transactions d = ts)) m"
  by (force simp: tells_the_record_def keeps_on_error_def es_inv_def app_inv_def es_db_def split: sum.splits)

lemma tells_recorded:
  "tells_the_record m \<Longrightarrow> m s = (Inr b, s') \<Longrightarrow> list_ex (\<lambda>t. et_txid t = eb_txid b) (elements_transactions (es_db s'))"
  by (force simp: tells_the_record_def)

lemma elements_send_post_keeps:
  "keeps_on_error (es_inv (\<lambda>d. elements_transactions d = ts)) (send_post papi lapi c st form user)"
  unfolding send_post_def
  by (intro keeps_on_error_if keeps_on_error_bind keeps_on_error_result keeps_on_error_lift tells_keeps send_tells pres_intros)

lemma elements_send_post_recorded:
  assumes "send_post papi lapi c st form user s = (Inr resp, s')"
  shows "\<exists>txid. resp = RedirectTo (''/elements/wallet/transactions/'' @ txid)
    \<and> list_ex (\<lambda>t. et_txid t = txid) (elements_transactions (es_db s'))"
proof -
  have sent: "in_elements (send_max lapi c uw form) t = (Inr b, s') \<Longrightarrow> list_ex (\<lambda>t. et_txid t = eb_txid b) (elements_transactions (es_db s'))"
    "in_elements (send_amount lapi c uw form amount) t = (Inr b, s') \<Longrightarrow> list_ex (\<lambda>t. et_txid t = eb_txid b) (elements_transactions (es_db s'))"
    for uw :: "(_, _) user_elements_wallet" and amount t b
    by (erule tells_recorded [rotated], rule send_tells)+
  show ?thesis
    using assms by (auto simp: send_post_def throw_res_def split: if_splits elim!: bind_st_InrE) (erule sent)+
qed

lemma on_app_host_auth:
  "on_app (on_host (auth_user wapi)) s = (r, t) \<Longrightarrow> es_db t = es_db s"
  by (auto simp: on_app_def es_db_def dest: on_host_auth split: prod.splits)

lemma on_app_host_auth_redirects:
  "on_app (on_host (auth_user wapi)) s = (Inl (Err resp), t) \<Longrightarrow> resp = RedirectTo ''/login''"
  by (auto simp: on_app_def on_host_def dest: auth_user_redirects split: prod.splits)

text \<open>C30. The answer to a send from the Elements wallet tells whether a transaction was recorded: a redirect
  to its page comes with its row, every other answer, an error or the redirect of an anonymous
  request to the login, leaves the Elements transactions as they were.\<close>

theorem elements_send_answers_tell_the_record:
  assumes "elements_protected wapi (send_post papi lapi c st form) s = (Inr resp, s')"
  shows "(\<exists>txid. resp = RedirectTo (''/elements/wallet/transactions/'' @ txid)
        \<and> list_ex (\<lambda>t. et_txid t = txid) (elements_transactions (es_db s')))
    \<or> ((resp = RedirectTo ''/login'' \<or> (\<exists>code text. resp = Answer code text))
        \<and> elements_transactions (es_db s') = elements_transactions (es_db s))"
  using assms unfolding elements_protected_def
proof (cases rule: respond_cases)
  case rejected
  then show ?thesis by (auto dest: on_app_host_auth on_app_host_auth_redirects)
next
  case (answered user t)
  then show ?thesis by (auto dest: elements_send_post_recorded)
next
  case (failed user t e)
  have "es_inv (\<lambda>d. elements_transactions d = elements_transactions (es_db s)) t"
    using on_app_host_auth [OF failed(1)] by (simp add: es_inv_def app_inv_def es_db_def)
  from keeps_on_error_run [OF failed(2) this elements_send_post_keeps]
  have "elements_transactions (es_db s') = elements_transactions (es_db s)" by (simp add: es_inv_def app_inv_def es_db_def)
  moreover have "\<exists>code text. resp = Answer code text" unfolding failed(3) by (rule into_response_answers)
  ultimately show ?thesis by blast
qed

section \<open>Tabs\<close>

lemma record_by_asset_distinct:
  assumes "(record_by_asset lapi tip us m :: ('e, _) res) = Inr m'" and "sorted (map fst m)" and "distinct (map fst m)"
  shows "distinct (map fst m')"
  using assms
proof (induction us arbitrary: m)
  case (Cons u us)
  obtain n where step: "(btree_update (asset_str lapi (utxo_asset lapi u)) (0, 0, []) (record_utxo lapi tip u) m :: ('e, _) res) = Inr n"
    and rest: "(record_by_asset lapi tip us n :: ('e, _) res) = Inr m'" using Cons.prems(1) by (auto simp: bind_res_Inr_iff)
  from btree_update_map_of [OF Cons.prems(2,3) step] Cons.IH [OF rest] show ?case by blast
qed simp

lemma history_activities:
  assumes "address_history_by_asset lapi c uw addr h = (Inr activities, h')"
  obtains keys f where "activities = map (\<lambda>k. activity_of (policy_asset_id lapi uw) k (f k)) keys" and "distinct keys"
proof -
  from assms obtain m order where "distinct (map fst m)"
    and order: "order = (if policy_asset_id lapi uw \<in> fst ` set m then [policy_asset_id lapi uw] else [])
      @ filter (\<lambda>k. k \<noteq> policy_asset_id lapi uw) (map fst m)"
    and activities: "activities = map (\<lambda>k. activity_of (policy_asset_id lapi uw) k (the (map_of m k))) order"
    unfolding address_history_by_asset_def Let_def policy_asset_id_def [symmetric]
    by (elim bind_st_InrE) (simp only: lift_st_apply bind_res_Inr_iff prod.inject sum.inject, elim exE conjE,
        rule that, erule record_by_asset_distinct, simp, simp, rule refl, erule sym)
  from this(1) have "distinct order" by (simp add: order distinct_filter)
  with activities show ?thesis by (rule that)
qed

lemma picked_once: "distinct (map f xs) \<Longrightarrow> x \<in> f ` set xs \<Longrightarrow> map f (filter (\<lambda>v. f v = x) xs) = [x]"
  by (induction xs) (auto simp: filter_empty_conv, metis image_eqI)

lemma some_active_one:
  assumes "distinct (map aw_asset_id vs)" and "vs \<noteq> []" and active: "\<And>v. v \<in> set vs \<Longrightarrow> aw_is_active v = (aw_asset_id v = want)"
  shows "map aw_asset_id (filter aw_is_active (some_active vs))
    = [if want \<in> aw_asset_id ` set vs then want else aw_asset_id (hd vs)]"
proof -
  obtain v ws where vs: "vs = v # ws" using assms(2) by (cases vs) auto
  have same: "filter aw_is_active vs = filter (\<lambda>v. aw_asset_id v = want) vs" by (rule filter_cong [OF refl]) (rule active)
  show ?thesis
  proof (cases "want \<in> aw_asset_id ` set vs")
    case True
    then have "list_ex aw_is_active vs" using active by (auto simp: list_ex_iff)
    then have "some_active vs = vs" by (simp add: vs)
    with True same picked_once [OF assms(1) True] show ?thesis by simp
  next
    case False
    then have "\<not> list_ex aw_is_active vs" using active by (auto simp: list_ex_iff)
    then have "some_active vs = v\<lparr>aw_is_active := True\<rparr> # ws" and "filter aw_is_active ws = []"
      by (simp_all add: vs list_ex_iff filter_empty_conv)
    with False show ?thesis by (simp add: vs)
  qed
qed

lemma activity_ids: "xa_asset_id (activity_of policy asset x) = asset" "xa_is_policy (activity_of policy asset x) = (asset = policy)"
  by (simp_all add: activity_of_def case_prod_unfold)

definition wanted_asset where
  "wanted_asset lapi uw selected = (case selected of Some asset \<Rightarrow> asset | None \<Rightarrow> policy_asset_id lapi uw)"

text \<open>An address page opens on exactly one asset: the selected one, or the policy asset where none is
  selected, if the address has received it, and otherwise, an unknown asset in the query
  included, the first of the list.\<close>

theorem one_active_tab:
  assumes "address_history_by_asset lapi c uw addr h = (Inr activities, h')" and "activities \<noteq> []"
  shows "map aw_asset_id (filter aw_is_active (some_active (map (activity_view c selected) activities)))
    = [if wanted_asset lapi uw selected \<in> xa_asset_id ` set activities then wanted_asset lapi uw selected
       else xa_asset_id (hd activities)]"
proof -
  let ?want = "wanted_asset lapi uw selected"
  let ?views = "map (activity_view c selected) activities"
  obtain keys f where keys: "activities = map (\<lambda>k. activity_of (policy_asset_id lapi uw) k (f k)) keys" "distinct keys"
    using history_activities [OF assms(1)] .
  have "map aw_asset_id (filter aw_is_active (some_active ?views))
    = [if ?want \<in> aw_asset_id ` set ?views then ?want else aw_asset_id (hd ?views)]"
  proof (rule some_active_one)
    show "distinct (map aw_asset_id ?views)" using keys by (simp add: activity_view_def activity_ids comp_def)
    show "?views \<noteq> []" using assms(2) by simp
    show "aw_is_active v = (aw_asset_id v = ?want)" if "v \<in> set ?views" for v
      using that by (auto simp: keys activity_view_def activity_ids wanted_asset_def split: option.splits)
  qed
  then show ?thesis using assms(2) by (simp add: activity_view_def image_image hd_map)
qed

section \<open>Sample\<close>

theorem elements_send_answers_tell_the_record_witness:
  "elements_transactions (es_db (snd (elements_protected session_web (send_post (sample_pkcs11 []) sample_lwk sample_codec sample_state
     \<lparr>ef_recipient_address = ''r'', ef_amount_btc = ''1'', ef_fee_rate_sat_vb = 0, ef_label = None, ef_send_max = None,
      ef_asset_id = None\<rparr>) (liquid_state []) :: (unit, elements_page response) res \<times> _))) = []"
proof -
  let ?form = "\<lparr>ef_recipient_address = ''r'', ef_amount_btc = ''1'', ef_fee_rate_sat_vb = 0, ef_label = None, ef_send_max = None,
      ef_asset_id = None\<rparr>"
  have "(on_app (on_host (auth_user session_web)) (liquid_state []) :: (elements_page response, user_row) res \<times> _)
      = (Inr (hd (users sample_db)), liquid_state [])"
    by (simp add: on_app_def on_host_def liquid_state_def liquid_host_def auth_user_def current_user_def session_web_def
        outside_def bind_st_def db_query_def find_user_by_id_def sample_db_liquid_def sample_db_def)
  then have "elements_protected session_web (send_post (sample_pkcs11 []) sample_lwk sample_codec sample_state ?form) (liquid_state [])
      = (Inr (into_response (net_show session_web) no_fee_rate) :: (unit, elements_page response) res, liquid_state [])"
    by (simp add: elements_protected_def respond_def send_post_def throw_res_def)
  from elements_send_answers_tell_the_record [OF this] this show ?thesis
    by (simp add: no_fee_rate_def es_db_def liquid_state_def liquid_host_def sample_db_liquid_def sample_db_def empty_database_def)
qed

text \<open>Two outputs at one address, four units of the policy asset and two of another one.\<close>

lemma two_assets:
  obtains activities h' where "address_history_by_asset (sample_lwk\<lparr>addr_script := (\<lambda>_. [1, 2])\<rparr>) sample_codec liquid_wallet
      ''r'' (liquid_host []) = (Inr activities, h')" and "map xa_asset_id activities = [''a'', ''b'']"
proof -
  let ?lwk = "sample_lwk\<lparr>addr_script := (\<lambda>_. [1, 2])\<rparr>"
  have rows: "list_for_wallet sample_codec (uw_key liquid_wallet) (sample_db_liquid [])
    = (Inr [sample_utxo\<lparr>cu_secrets := ''aaaa''\<rparr>, sample_utxo\<lparr>cu_vout := 2, cu_secrets := ''bb''\<rparr>], sample_db_liquid [])"
    by (simp add: list_for_wallet_def bind_st_def uw_key_def liquid_wallet_def sample_db_liquid_def sample_utxo_row_def
        utxo_of_row_def sample_codec_def sample_utxo_def i16_to_chain_def i64_as_u32_def)
  have tip: "\<exists>n. tip_height ?lwk liquid_wallet (liquid_host []) = (Inr n, liquid_host [])"
    by (simp add: tip_height_def tip_height_via_backend_def liquid_wallet_def sample_lwk_def bind_st_def outside_def liquid_host_def
        map_err_st_def ret_st_def)
  have sel: "utxo_value ?lwk = utxo_value sample_lwk" "utxo_asset ?lwk = utxo_asset sample_lwk" "asset_str ?lwk = (\<lambda>a. a)"
    "utxo_script ?lwk = (\<lambda>u. cu_txout u)" "addr_from_str ?lwk = Inr" "addr_script ?lwk a = [1, 2]"
    "cu_txout (sample_utxo\<lparr>cu_secrets := s\<rparr>) = [1, 2]" "cu_txout (sample_utxo\<lparr>cu_vout := v, cu_secrets := s\<rparr>) = [1, 2]"
    "lwk_policy_asset sample_lwk (ue_lwk liquid_wallet) = ''a''" "cu_is_spent (sample_utxo\<lparr>cu_secrets := s\<rparr>) = False"
    "cu_is_spent (sample_utxo\<lparr>cu_vout := v, cu_secrets := s\<rparr>) = False" for a s v
    by (auto simp: utxo_value_def utxo_asset_def utxo_script_def sample_lwk_def sample_utxo_def liquid_wallet_def fun_eq_iff)
  have "\<exists>activities h'. address_history_by_asset ?lwk sample_codec liquid_wallet ''r'' (liquid_host []) = (Inr activities, h')
      \<and> map xa_asset_id activities = [''a'', ''b'']"
    using tip
    by (auto simp: address_history_by_asset_def parse_recipient_def bind_st_def store_query_def rows sel utxos_at_def liquid_values
        record_utxo_def add_sats_def checked_add_def activity_ids less_eq_char_def less_char_def liquid_host_def Let_def)
  with that show ?thesis by (elim exE conjE)
qed

theorem one_active_tab_witness:
  "\<exists>activities h'. address_history_by_asset (sample_lwk\<lparr>addr_script := (\<lambda>_. [1, 2])\<rparr>) sample_codec liquid_wallet
      ''r'' (liquid_host []) = (Inr activities, h')
    \<and> map aw_asset_id (filter aw_is_active (some_active (map (activity_view sample_codec (Some ''b'')) activities))) = [''b'']
    \<and> map aw_asset_id (filter aw_is_active (some_active (map (activity_view sample_codec (Some ''x'')) activities))) = [''a'']"
proof -
  obtain activities h' where run: "address_history_by_asset (sample_lwk\<lparr>addr_script := (\<lambda>_. [1, 2])\<rparr>) sample_codec liquid_wallet
      ''r'' (liquid_host []) = (Inr activities, h')" and ids: "map xa_asset_id activities = [''a'', ''b'']"
    using two_assets .
  then obtain a b where "activities = [a, b]" "xa_asset_id a = ''a''" "xa_asset_id b = ''b''" by auto
  with run one_active_tab [OF run, of "Some ''b''"] one_active_tab [OF run, of "Some ''x''"]
  show ?thesis by (simp add: wanted_asset_def)
qed

end
