(* ===== verification/Boot.thy ===== *)
theory Boot
  imports ElementsServing
begin

text \<open>
  The server's start (\<open>main\<close> in \<open>main.rs\<close>) up to the router: configuration, database, test users, session
  store, HSM fleet, managers and the eager seeding of the test users' wallets. Connecting, the two
  schema migrations and the cookie key belong to libraries and are arguments; a schema migration
  gives the tables the columns the rows of the model have.
\<close>

section \<open>Starting\<close>

record 'w boot_api =
  bo_connect :: "string \<Rightarrow> ('w, string, unit) st"
  bo_migrate :: "('w, string, unit) st"
  bo_session_migrate :: "('w, string, unit) st"
  bo_cookie_key :: "u8 list \<Rightarrow> string + unit"

datatype boot_error =
    BootConfig config_error
  | BootDatabase string
  | BootSeed seed_error
  | BootSession string
  | BootCookie string
  | BootHsm hsm_error
  | BootWallet wallet_error

text \<open>Eager seeding: a user that is missing or cannot be looked up is passed over, a wallet that cannot be
  created is left to the user's first request.\<close>

definition eager_emails :: "string list" where
  "eager_emails = [''test1@test.com'', ''test2@test.com'', ''test3@test.com'', ''admin@test.com'']"

definition eager_wallet where
  "eager_wallet lower ensure ensure_at email =
     bind_st (ignore_err (on_host (db_query id (find_user_by_email lower email)))) (\<lambda>found. case found of
       Some (Some user) \<Rightarrow>
         bind_st (ignore_err (if email = ''admin@test.com'' then ensure_at (u_id user) 99 else ensure (u_id user))) (\<lambda>_.
         ret_st ())
     | _ \<Rightarrow> ret_st ())"

definition seed_test_wallets where
  "seed_test_wallets lower papi bapi m = for_st (eager_wallet lower
     (BtcWallet.ensure_wallet_for_user papi bapi m) (BtcWallet.ensure_wallet_for_user_at papi bapi m)) eager_emails"

definition seed_test_elements_wallets where
  "seed_test_elements_wallets lower papi lapi m = for_st (eager_wallet lower
     (ElementsWallet.ensure_wallet_for_user papi lapi m) (ElementsWallet.ensure_wallet_for_user_at papi lapi m)) eager_emails"

text \<open>What follows once the test users are there.\<close>

definition start_services where
  "start_services boot wapi papi bapi lapi cfg skip_eager_seed =
     bind_st (on_host (outside BootSession (bo_session_migrate boot))) (\<lambda>_.
     bind_st (lift_st (of_sum BootCookie (bo_cookie_key boot (session_secret cfg)))) (\<lambda>_.
     bind_st (on_host (outside BootHsm (hsm_fleet_new papi cfg))) (\<lambda>fleet.
     bind_st (on_host (outside BootWallet (wallet_manager_new bapi cfg fleet))) (\<lambda>manager.
     let elements_manager = elements_manager_new cfg fleet in
     bind_st (if skip_eager_seed then ret_st ()
       else bind_st (seed_test_wallets (sql_lower wapi) papi bapi manager) (\<lambda>_.
         seed_test_elements_wallets (sql_lower wapi) papi lapi elements_manager)) (\<lambda>_.
     ret_st \<lparr>as_config = cfg, as_hsm = fleet, as_wallet_manager = manager,
       as_elements_wallet_manager = elements_manager\<rparr>)))))"

definition startup where
  "startup boot wapi papi bapi lapi env skip_eager_seed =
     bind_st (lift_st (map_err BootConfig (from_env env))) (\<lambda>cfg.
     bind_st (on_host (outside BootDatabase (bo_connect boot (database_url cfg)))) (\<lambda>_.
     bind_st (on_host (outside BootDatabase (bo_migrate boot))) (\<lambda>_.
     bind_st (on_host (map_err_st BootSeed (seed_test_users wapi))) (\<lambda>_.
     start_services boot wapi papi bapi lapi cfg skip_eager_seed))))"

section \<open>Who can log in afterwards\<close>

text \<open>Creating a wallet leaves the users alone.\<close>

interpretation btc_keeps_users: wallet_frame "\<lambda>d. users d = us"
  by unfold_locales (auto simp: preserves_def update_wallet_descriptor_and_changeset_def update_wallet_changeset_def
      update_wallet_tip_only_def insert_federation_version_def insert_wallet_def reconcile_migration_def bind_st_def
      statement_def write_st_def split: option.splits if_splits)

interpretation elements_keeps_users: elements_frame "\<lambda>d. users d = us"
  by unfold_locales (auto simp: preserves_def update_elements_wallet_descriptor_def insert_federation_version_def
      insert_elements_wallet_def statement_def write_st_def split: option.splits)

lemma ensure_frames [pres_intros]:
  "preserves (app_inv (\<lambda>d. users d = us)) (BtcWallet.ensure_wallet_for_user papi bapi m u)"
  "preserves (app_inv (\<lambda>d. users d = us)) (BtcWallet.ensure_wallet_for_user_at papi bapi m u i)"
  "preserves (app_inv (\<lambda>d. users d = us)) (ElementsWallet.ensure_wallet_for_user papi lapi n u)"
  "preserves (app_inv (\<lambda>d. users d = us)) (ElementsWallet.ensure_wallet_for_user_at papi lapi n u i)"
  unfolding BtcWallet.ensure_wallet_for_user_def BtcWallet.ensure_wallet_for_user_at_def
    ElementsWallet.ensure_wallet_for_user_def ElementsWallet.ensure_wallet_for_user_at_def
  by (intro pres_intros btc_keeps_users.create_frame elements_keeps_users.create_frame)+

lemma eager_frame [pres_intros]:
  assumes "\<And>u. preserves (app_inv P) (ensure u)" and "\<And>u i. preserves (app_inv P) (ensure_at u i)"
  shows "preserves (app_inv P) (eager_wallet lower ensure ensure_at email)"
  unfolding eager_wallet_def by (intro pres_intros assms)

lemma seeding_frames [pres_intros]:
  "preserves (app_inv (\<lambda>d. users d = us)) (seed_test_wallets lower papi bapi m)"
  "preserves (app_inv (\<lambda>d. users d = us)) (seed_test_elements_wallets lower papi lapi n)"
  unfolding seed_test_wallets_def seed_test_elements_wallets_def by (intro pres_intros)+

definition admits where
  "admits wapi d \<longleftrightarrow> (\<forall>u \<in> set (users d). verify_password wapi ''test1234'' (u_password_hash u) = Inr True)"

definition hashes_verify where
  "hashes_verify wapi \<longleftrightarrow> (\<forall>plain w hash w'. pw_hash wapi plain w = (Inr hash, w') \<longrightarrow> verify_password wapi plain hash = Inr True)"

lemma seed_user_admits:
  assumes "hashes_verify wapi" and "seed_user wapi email h = (Inr (), h')" and "admits wapi (h_db h)"
  shows "admits wapi (h_db h')"
proof (cases "has_email wapi email h")
  case True
  with assms show ?thesis by (simp add: seed_user_present)
next
  case False
  then have none: "find (\<lambda>u. sql_lower wapi (u_email u) = sql_lower wapi email) (users (h_db h)) = None"
    by (auto simp: has_email_def find_None_iff)
  from assms none obtain hash h1 b where hash: "map_err_st (SeedHash \<circ> pw_show wapi) (hash_password wapi ''test1234'') h = (Inr hash, h1)"
    and ins: "db_insert SeedSqlx (\<lambda>new_id now. upsert_user_if_absent new_id now email hash) h1 = (Inr b, h')"
    by (auto elim!: bind_st_InrE simp: seed_user_def db_query_def find_user_by_email_def)
  from hash obtain w where "pw_hash wapi ''test1234'' (h_world h) = (Inr hash, w)" and h1: "h_db h1 = h_db h"
    by (auto simp: hash_password_def outside_def map_err_st_def split: prod.splits)
  then have "verify_password wapi ''test1234'' hash = Inr True" using assms(1) by (auto simp: hashes_verify_def)
  with ins assms(3) show ?thesis
    by (auto simp: db_insert_def upsert_user_if_absent_def statement_def h1 Let_def admits_def split: prod.splits option.splits)
qed

lemma seed_users_admit:
  assumes "hashes_verify wapi"
  shows "for_st (seed_user wapi) emails h = (Inr (), h') \<Longrightarrow> admits wapi (h_db h) \<Longrightarrow> admits wapi (h_db h')"
proof (induction emails arbitrary: h)
  case (Cons email emails)
  then show ?case using seed_user_admits [OF assms] by (auto elim!: bind_st_InrE)
qed simp

lemma outside_users: "on_host (outside e m) t = (Inr a, t') \<Longrightarrow> h_db (ap_host t') = h_db (ap_host t)"
  by (auto simp: on_host_def dest: outside_db split: prod.splits)

lemma startup_seeds:
  assumes "startup boot wapi papi bapi lapi env skip s = (Inr state, s')"
  obtains h1 h2 where "h_db h1 = h_db (ap_host s)" and "seed_test_users wapi h1 = (Inr (), h2)"
    and "users (h_db (ap_host s')) = users (h_db h2)"
proof -
  from assms obtain cfg s1 s2 s3 where connect: "on_host (outside BootDatabase (bo_connect boot (database_url cfg))) s = (Inr (), s1)"
    and migrate: "on_host (outside BootDatabase (bo_migrate boot)) s1 = (Inr (), s2)"
    and users: "on_host (map_err_st BootSeed (seed_test_users wapi)) s2 = (Inr (), s3)"
    and rest: "start_services boot wapi papi bapi lapi cfg skip s3 = (Inr state, s')"
    unfolding startup_def by (auto elim!: bind_st_InrE)
  let ?us = "users (h_db (ap_host s3))"
  have "preserves (app_inv (\<lambda>d. users d = ?us)) (start_services boot wapi papi bapi lapi cfg skip)"
    unfolding start_services_def Let_def by (intro pres_intros)
  from preserves_run [OF _ _ this, OF rest] have "app_inv (\<lambda>d. users d = ?us) s'" by (simp add: app_inv_def)
  moreover have "h_db (ap_host s2) = h_db (ap_host s)" using outside_users [OF connect] outside_users [OF migrate] by simp
  moreover obtain h2 where "seed_test_users wapi (ap_host s2) = (Inr (), h2)" and "ap_host s3 = h2"
    using users by (auto simp: on_host_def map_err_st_def split: prod.splits)
  ultimately show ?thesis using that [of "ap_host s2" h2] by (simp add: app_inv_def)
qed

text \<open>C33. A first start lets the test users in: after a start on a database without users that succeeds, with
  or without the eager seeding of wallets, each test address logs in with the test password,
  whatever became of the wallets.\<close>

theorem fresh_start_admits_the_test_users:
  assumes hashes: "\<And>plain w hash w'. pw_hash wapi plain w = (Inr hash, w') \<Longrightarrow> verify_password wapi plain hash = Inr True"
    and session: "\<And>u w. fst (se_insert wapi u w) = Inr ()"
    and empty: "users (h_db (ap_host s)) = []"
    and run: "startup boot wapi papi bapi lapi env skip s = (Inr state, s')"
    and email: "email \<in> set seed_emails"
  shows "fst (login_post wapi email ''test1234'' (ap_host s')) = Inr (RedirectTo ''/'')"
proof -
  from run obtain h1 h2 where h1: "h_db h1 = h_db (ap_host s)" and seed: "seed_test_users wapi h1 = (Inr (), h2)"
    and users: "users (h_db (ap_host s')) = users (h_db h2)" using startup_seeds by blast
  have law: "hashes_verify wapi" using hashes by (auto simp: hashes_verify_def)
  have "admits wapi (h_db h1)" by (simp add: admits_def h1 empty)
  with seed have ok: "admits wapi (h_db h2)" unfolding seed_test_users_def by (rule seed_users_admit [OF law])
  have "has_email wapi email h2" using seed_users_Inr [OF seed [unfolded seed_test_users_def]] email by blast
  then obtain user where user: "find (\<lambda>u. sql_lower wapi (u_email u) = sql_lower wapi email) (users (h_db h2)) = Some user"
    by (cases "find (\<lambda>u. sql_lower wapi (u_email u) = sql_lower wapi email) (users (h_db h2))") (auto simp: has_email_def find_None_iff)
  then have "verify_password wapi ''test1234'' (u_password_hash user) = Inr True"
    using ok by (auto simp: admits_def find_Some_iff)
  moreover obtain w where "se_insert wapi (u_id user) (h_world (ap_host s')) = (Inr (), w)"
    using session by (metis prod.collapse)
  ultimately show ?thesis
    by (simp add: login_post_def bind_st_def db_query_def find_user_by_email_def users user log_in_def outside_def map_err_st_def)
qed

section \<open>Sample\<close>

definition sample_boot :: "toy_world boot_api" where
  "sample_boot = \<lparr>bo_connect = (\<lambda>_. ret_st ()), bo_migrate = ret_st (), bo_session_migrate = ret_st (),
     bo_cookie_key = (\<lambda>_. Inr ())\<rparr>"

lemma sample_tokens_start: "init_dev_token (sample_pkcs11 p) = (\<lambda>_ _ _ _. ret_st ())" "lib_exists (sample_pkcs11 p) lib"
  by (simp_all add: sample_pkcs11_def)

lemma sample_fleet_starts: "hsm_fleet_new (sample_pkcs11 p) cfg w = (Inr \<lparr>hf_library_path = pkcs11_library_path cfg,
    hf_network = network cfg, hf_tokens = hsm_tokens cfg\<rparr>, w)"
proof -
  have "for_st (\<lambda>token. case hsm_vendor token of
        Dev \<Rightarrow> map_err_st InitToken (init_dev_token (sample_pkcs11 p) lib (hsm_label token) (hsm_so_pin token) (hsm_pin token))
      | Securosys \<Rightarrow> ret_st ()) tokens w = (Inr (), w)" for tokens :: "hsm_token_config list" and lib
    by (induction tokens) (auto simp: bind_st_def map_err_st_def sample_tokens_start split: hsm_vendor.splits)
  then show ?thesis by (simp add: hsm_fleet_new_def bind_st_def sample_tokens_start(2))
qed

lemma sample_manager_starts: "\<exists>m. wallet_manager_new sample_btc cfg fleet w = (Inr m, w)"
  by (simp add: wallet_manager_new_def sample_btc_def bind_st_def map_err_st_def)

lemma sample_startup:
  "\<exists>state s'. startup sample_boot session_web (sample_pkcs11 []) sample_btc sample_lwk sample_env True (sample_app empty_database)
    = (Inr state, s')"
proof -
  obtain cfg where cfg: "from_env sample_env = Inr cfg" using sample_config_loads by blast
  have "\<exists>h. seed_test_users session_web (sample_host empty_database) = (Inr (), h)"
    by (simp add: seed_test_users_def seed_emails_def seed_user_def bind_st_def db_query_def find_user_by_email_def session_web_def
          sample_host_def empty_database_def test_emails_lower hash_password_def outside_def map_err_st_def db_insert_def
          upsert_user_if_absent_def st_simps)
  then obtain h where seeded: "seed_test_users session_web (sample_host empty_database) = (Inr (), h)" by blast
  obtain m where manager: "wallet_manager_new sample_btc cfg \<lparr>hf_library_path = pkcs11_library_path cfg,
      hf_network = network cfg, hf_tokens = hsm_tokens cfg\<rparr> (h_world h) = (Inr m, h_world h)"
    using sample_manager_starts by blast
  show ?thesis
    by (simp add: startup_def start_services_def cfg bind_st_def on_host_def outside_def sample_boot_def sample_app_def map_err_st_def
        seeded sample_fleet_starts manager Let_def)
qed

theorem fresh_start_admits_the_test_users_witness:
  "\<exists>state s'. startup sample_boot session_web (sample_pkcs11 []) sample_btc sample_lwk sample_env True (sample_app empty_database)
      = (Inr state, s')
    \<and> fst (login_post session_web ''admin@test.com'' ''test1234'' (ap_host s')) = Inr (RedirectTo ''/'')"
proof -
  obtain state s' where run: "startup sample_boot session_web (sample_pkcs11 []) sample_btc sample_lwk sample_env True
      (sample_app empty_database) = (Inr state, s')" using sample_startup by blast
  have "fst (login_post session_web ''admin@test.com'' ''test1234'' (ap_host s')) = Inr (RedirectTo ''/'')"
  proof (rule fresh_start_admits_the_test_users [OF _ _ _ run])
    show "verify_password session_web plain hash = Inr True" if "pw_hash session_web plain w = (Inr hash, w')" for plain w hash w'
      using that by (simp add: session_web_def verify_password_def)
    show "fst (se_insert session_web u w) = Inr ()" for u w by (simp add: session_web_def)
    show "users (h_db (ap_host (sample_app empty_database))) = []" by (simp add: sample_app_def sample_host_def empty_database_def)
    show "''admin@test.com'' \<in> set seed_emails" by (simp add: seed_emails_def)
  qed
  with run show ?thesis by blast
qed

end
