(* ===== verification/Checks.thy ===== *)
theory Checks
  imports BtcMigrated Boot "HOL-Library.Multiset"
begin

text \<open>
  The two small tools around a migration: \<open>examples/migration_bootstrap.rs\<close>, which creates the test
  accounts and checks their funding, and \<open>examples/migration_verify.rs\<close>, which passes or fails a
  migration by the status of its versions. What they print is the value of a run.
\<close>

section \<open>Setting up\<close>

text \<open>\<open>expect\<close>: an error is a panic.\<close>

definition must where
  "must m = (\<lambda>s. case m s of (Inr a, t) \<Rightarrow> (Inr a, t) | (Inl x, t) \<Rightarrow> (Inl Panic, t))"

definition tool_manager where
  "tool_manager boot papi bapi env =
     bind_st (must (lift_st (from_env env))) (\<lambda>cfg.
     bind_st (must (on_host (outside id (bo_connect boot (database_url cfg))))) (\<lambda>_.
     bind_st (must (on_host (outside id (bo_migrate boot)))) (\<lambda>_.
     bind_st (must (on_host (outside id (hsm_fleet_new papi cfg)))) (\<lambda>fleet.
     must (on_host (outside id (wallet_manager_new bapi cfg fleet)))))))"

section \<open>Test accounts\<close>

record test_account =
  ta_email :: string
  ta_fund_amounts :: "u64 list"
  ta_description :: string

definition ACCOUNTS :: "test_account list" where
  "ACCOUNTS =
    [\<lparr>ta_email = ''fee-account@test.local'', ta_fund_amounts = [50000000], ta_description = ''fee account (internal/house)''\<rparr>,
     \<lparr>ta_email = ''small-1@test.local'', ta_fund_amounts = [100000], ta_description = ''small account (below threshold)''\<rparr>,
     \<lparr>ta_email = ''small-2@test.local'', ta_fund_amounts = [200000], ta_description = ''small account (below threshold)''\<rparr>,
     \<lparr>ta_email = ''large-3@test.local'', ta_fund_amounts = [40000000, 30000000, 30000000],
       ta_description = ''large account (3 UTXOs)''\<rparr>,
     \<lparr>ta_email = ''dust-4@test.local'', ta_fund_amounts = [50000], ta_description = ''dust-adjacent (below threshold)''\<rparr>]"

definition create_account where
  "create_account lower papi bapi m acct =
     bind_st (must (on_host (db_insert id (\<lambda>new_id now. upsert_user_if_absent new_id now (ta_email acct) ''test-hash'')))) (\<lambda>_.
     bind_st (must (on_host (db_query id (find_user_by_email lower (ta_email acct))))) (\<lambda>found.
     bind_st (lift_st (or_panic found)) (\<lambda>user.
     bind_st (must (BtcWallet.ensure_wallet_for_user papi bapi m (u_id user))) (\<lambda>row.
     ret_st (ta_email acct, w_account_idx row, ta_description acct)))))"

text \<open>The commands that fund an account: one address for each amount.\<close>

record funding =
  fu_account :: nat
  fu_account_idx :: int
  fu_description :: string
  fu_payments :: "(string \<times> f64) list"

definition payments_to where
  "payments_to addrs amounts = map_res (\<lambda>j. bind_res (index_of addrs j) (\<lambda>a.
     Inr (ra_address a, btc_of_sats (amounts ! j)))) [0..<length amounts]"

definition funding_of where
  "funding_of bapi i uw =
     bind_st (lift_st (index_of ACCOUNTS i)) (\<lambda>acct.
     bind_st (must (on_wallet (uw_user_id uw) (BtcSpend.reveal_addresses bapi (word_of_nat (length (ta_fund_amounts acct)))))) (\<lambda>addrs.
     bind_st (lift_st (payments_to addrs (ta_fund_amounts acct))) (\<lambda>payments.
     ret_st \<lparr>fu_account = i, fu_account_idx = uw_account_idx uw, fu_description = ta_description acct, fu_payments = payments\<rparr>)))"

definition run_bootstrap where
  "run_bootstrap lower papi bapi m =
     bind_st (must (on_host (db_query id list_all_wallets))) (\<lambda>existing.
     if existing \<noteq> [] then stop 1
     else
     bind_st (map_st (create_account lower papi bapi m) ACCOUNTS) (\<lambda>created.
     bind_st (must (on_host (db_query id list_all_wallets))) (\<lambda>rows.
     bind_st (map_st (\<lambda>row. must (BtcWallet.load_wallet_from_row papi bapi m row)) rows) (\<lambda>uws.
     bind_st (map_st (\<lambda>(i, uw). funding_of bapi i uw) (enumerate 0 uws)) (\<lambda>commands.
     ret_st (created, commands))))))"

section \<open>Funding\<close>

datatype funding_status = Funded | NotFunded | Mismatch

record account_status =
  as_status :: funding_status
  as_account_idx :: int
  as_balance :: u64
  as_utxo_count :: nat

text \<open>A wallet's balance after a synchronisation whose failure is only a warning.\<close>

definition synced_balance where
  "synced_balance papi bapi m acc row =
     bind_st (must (BtcWallet.load_wallet_from_row papi bapi m row)) (\<lambda>uw.
     bind_st (ignore_err (on_wallet (uw_user_id uw) (sync_wallet bapi))) (\<lambda>_.
     bind_st (wallet_of (uw_user_id uw)) (\<lambda>uw.
     bind_st (lift_st (bind_res (wallet_total bapi uw) balance_total)) (\<lambda>balance.
     bind_st (lift_st (or_panic (checked_add acc balance))) (\<lambda>acc.
     ret_st (balance, length (BtcSpend.list_unspent bapi uw), acc))))))"

definition expected_funding :: "nat \<Rightarrow> u64 \<times> nat" where
  "expected_funding i = (if i < length ACCOUNTS
     then (sum_list (ta_fund_amounts (ACCOUNTS ! i)), length (ta_fund_amounts (ACCOUNTS ! i))) else (0, 0))"

definition funding_status_of :: "nat \<Rightarrow> u64 \<Rightarrow> nat \<Rightarrow> funding_status" where
  "funding_status_of i balance utxos = (if (balance, utxos) = expected_funding i then Funded
     else if balance = 0 then NotFunded else Mismatch)"

fun sync_accounts where
  "sync_accounts papi bapi m i acc [] = ret_st ([], acc)"
| "sync_accounts papi bapi m i acc (row # rows) =
     bind_st (synced_balance papi bapi m acc row) (\<lambda>(balance, utxos, acc).
     bind_st (sync_accounts papi bapi m (i + 1) acc rows) (\<lambda>(statuses, acc).
     ret_st (\<lparr>as_status = funding_status_of i balance utxos, as_account_idx = w_account_idx row, as_balance = balance,
       as_utxo_count = utxos\<rparr> # statuses, acc)))"

definition run_sync where
  "run_sync papi bapi m =
     bind_st (must (on_host (db_query id list_all_wallets))) (\<lambda>rows.
     if rows = [] then stop 1
     else
     bind_st (sync_accounts papi bapi m 0 0 rows) (\<lambda>(statuses, acc).
     ret_st (statuses, acc, list_all (\<lambda>a. as_status a = Funded) statuses)))"

section \<open>Verification\<close>

record version_status =
  vs_wallet :: uuid
  vs_version_index :: int
  vs_threshold :: int
  vs_signer_count :: int
  vs_label :: string
  vs_pass :: bool

definition versions_or_none where
  "versions_or_none w = bind_st (ignore_err (on_host (db_query id (list_federation_versions_for_wallet w)))) (\<lambda>found.
     ret_st (case found of None \<Rightarrow> [] | Some versions \<Rightarrow> versions))"

definition version_status_of where
  "version_status_of w newest v = (let is_current = fv_version_index v = newest in
     \<lparr>vs_wallet = w, vs_version_index = fv_version_index v, vs_threshold = fv_threshold v, vs_signer_count = fv_signer_count v,
      vs_label = (if is_current then ''current'' else fv_migration_status v),
      vs_pass = (is_current \<or> fv_migration_status v = ''complete'')\<rparr>)"

definition version_statuses where
  "version_statuses w = bind_st (versions_or_none w) (\<lambda>versions.
     ret_st (map (version_status_of w (max_version versions)) versions))"

record account_line =
  al_position :: nat
  al_account_idx :: int
  al_balance :: u64
  al_utxo_count :: nat
  al_version_count :: nat

fun account_lines where
  "account_lines papi bapi m ids acc [] = ret_st ([], acc)"
| "account_lines papi bapi m ids acc (row # rows) =
     bind_st (synced_balance papi bapi m acc row) (\<lambda>(balance, utxos, acc).
     bind_st (versions_or_none (w_id row)) (\<lambda>versions.
     bind_st (account_lines papi bapi m ids acc rows) (\<lambda>(lines, acc).
     ret_st (\<lparr>al_position = (case position (\<lambda>i. i = w_id row) ids of None \<Rightarrow> 0 | Some i \<Rightarrow> i),
       al_account_idx = w_account_idx row, al_balance = balance, al_utxo_count = utxos,
       al_version_count = length versions\<rparr> # lines, acc))))"

definition run_verify where
  "run_verify papi bapi m =
     bind_st (must (on_host (db_query id list_all_wallets))) (\<lambda>rows.
     if rows = [] then stop 1
     else
     bind_st (account_lines papi bapi m (map w_id rows) 0 rows) (\<lambda>(lines, acc).
     bind_st (map_st version_statuses (map w_id rows)) (\<lambda>statuses.
     if list_all vs_pass (concat statuses) then ret_st (lines, acc, concat statuses) else stop 1)))"

section \<open>What passes\<close>

lemma sort_key_Nil: "sort_key f xs = [] \<longleftrightarrow> xs = []"
  by (metis length_0_conv length_sort)

lemma version_statuses_run:
  "version_statuses w s = (let vs = sort_key fv_version_index (owned fv_wallet_id w (federation_versions (h_db (ap_host s)))) in
     (Inr (map (version_status_of w (max_version vs)) vs), s))"
  by (simp add: version_statuses_def versions_or_none_def bind_st_def ignore_err_def on_host_def db_query_def
      btc_chain.list_eq Let_def)

text \<open>A wallet is settled when each of its versions is complete or has the newest index.\<close>

definition settled where
  "settled d w \<longleftrightarrow> (let vs = sort_key fv_version_index (owned fv_wallet_id w (federation_versions d)) in
     list_all (\<lambda>v. fv_migration_status v = ''complete'' \<or> fv_version_index v = max_version vs) vs)"

lemma statuses_settled:
  "version_statuses w s = (Inr statuses, s') \<Longrightarrow> s' = s \<and> (list_all vs_pass statuses \<longleftrightarrow> settled (h_db (ap_host s)) w)"
  by (auto simp: version_statuses_run Let_def settled_def list.pred_map comp_def version_status_of_def disj_commute simp del: in_owned)

lemma version_statuses_total: "\<exists>statuses. version_statuses w s = (Inr statuses :: ('e, version_status list) res, s)"
  by (simp add: version_statuses_run Let_def)

lemma all_statuses_run:
  "\<exists>statuses. map_st version_statuses ws s = (Inr statuses :: ('e, version_status list list) res, s)
     \<and> (list_all vs_pass (concat statuses) \<longleftrightarrow> (\<forall>w \<in> set ws. settled (h_db (ap_host s)) w))"
proof (induction ws)
  case (Cons w ws)
  obtain vs where vs: "version_statuses w s = (Inr vs :: ('e, version_status list) res, s)" using version_statuses_total by blast
  from Cons.IH obtain vss where "map_st version_statuses ws s = (Inr vss :: ('e, version_status list list) res, s)"
    and "list_all vs_pass (concat vss) \<longleftrightarrow> (\<forall>w \<in> set ws. settled (h_db (ap_host s)) w)" by blast
  with statuses_settled [OF vs] show ?case by (simp add: bind_st_def vs)
qed simp

lemma no_exit_1_must: "no_exit_1 (must m)"
  by (auto simp: no_exit_1_def must_def split: prod.splits sum.splits)

lemma no_exit_1_panic: "no_exit_1 (lift_st (or_panic x))"
  by (cases x) (simp_all add: no_exit_1_def)

lemma account_lines_no_exit: "no_exit_1 (account_lines papi bapi m ids acc rows)"
proof (induction rows arbitrary: acc)
  case (Cons row rows)
  then show ?case
    unfolding account_lines.simps synced_balance_def versions_or_none_def case_prod_unfold
    by (intro no_exit_1_bind no_exit_1_must no_exit_1_ignore no_exit_1_ret no_exit_1_panic)
qed (simp add: no_exit_1_ret)


section \<open>After the stamping\<close>

lemma map_sort_key: "map f (sort_key f xs) = sort (map f xs)"
  by (rule properties_for_sort [symmetric]) (simp_all add: mset_map)

text \<open>C31. The migration tool's stamping passes its verification: in a database the tool's runs can produce,
  the status check passes every wallet that was stamped, whichever of the sweeps had a txid.\<close>

theorem stamped_migrations_verify:
  assumes hist: "version_history (h_db h)" and "distinct (map fst accounts)"
    and stamp: "mark_migrated list_federation_versions_for_wallet accounts h = (Inr () :: ('e, unit) res, h')"
    and "w \<in> fst ` set accounts"
  shows "settled (h_db h') w"
proof -
  let ?vs = "federation_versions (h_db h)"
  have inv: "versions_inv (h_db h)" using hist by (rule version_history_inv)
  then have chain: "chain_ok fv_wallet_id u ?vs" for u by (simp add: versions_inv_def)
  obtain sweep where acct: "map_of accounts w = Some sweep" using assms(2,4) by (metis map_of_eq_None_iff option.exhaust)
  have h': "h' = with_versions h (map (swept_row fv_wallet_id accounts ?vs) ?vs)"
    using stamp btc_chain.mark_migrated_run [OF chain versions_inv_ids [OF inv] assms(2), where 'e = 'e] by simp
  let ?f = "swept_row fv_wallet_id accounts ?vs"
  let ?owned = "owned fv_wallet_id w"
  have keep: "fv_wallet_id (?f v) = fv_wallet_id v" "fv_version_index (?f v) = fv_version_index v" for v
    by (auto simp: swept_row_def split: option.splits)
  then have mine: "?owned (map ?f ?vs) = map ?f (?owned ?vs)" by (simp add: owned_def filter_map comp_def)
  have "map fv_version_index (sort_key fv_version_index (?owned (map ?f ?vs))) = map int [0..<length (?owned ?vs)]"
    using sorted_indices [OF chain] by (simp add: map_sort_key mine comp_def keep)
  then have newest: "?owned ?vs \<noteq> [] \<Longrightarrow> max_version (sort_key fv_version_index (?owned (map ?f ?vs))) = int (length (?owned ?vs)) - 1"
    using max_version_of [of "sort_key fv_version_index (?owned (map ?f ?vs))"] by (simp add: mine sort_key_Nil)
  have "fv_migration_status (?f v) = ''complete'' \<or> fv_version_index v = int (length (?owned ?vs)) - 1" if "v \<in> set (?owned ?vs)" for v
    using that chain_index_bound [OF chain, of v] acct by (auto simp: swept_row_def stamped_def split: option.splits)
  then have "fv_migration_status (?f v) = ''complete''
      \<or> fv_version_index v = max_version (sort_key fv_version_index (?owned (map ?f ?vs)))" if "v \<in> set (?owned ?vs)" for v
    using that newest by (cases "?owned ?vs = []") auto
  then show ?thesis by (auto simp: settled_def Let_def list_all_iff h' mine keep simp del: in_owned)
qed

section \<open>Sample\<close>

theorem stamped_migrations_verify_witness:
  "settled (h_db (snd (mark_migrated list_federation_versions_for_wallet [(10, None)] (migration_host sample_db_v1)
     :: (unit, unit) res \<times> _))) 10"
proof -
  have hist: "version_history (h_db (migration_host sample_db_v1))"
    using sample_history_v1 by (simp add: migration_host_def)
  obtain h' where run: "mark_migrated list_federation_versions_for_wallet [(10, None)] (migration_host sample_db_v1)
      = (Inr () :: (unit, unit) res, h')"
    by (simp add: mark_migrated_def bind_st_def complete_account_def ignore_err_def db_query_def btc_chain.list_eq stamp_versions_run)
  from stamped_migrations_verify [OF hist _ run, of 10] run show ?thesis by simp
qed

lemma healed_wallets: "\<exists>row. wallets sample_db_healed = [row] \<and> w_user_id row = 1 \<and> w_id row = 10"
  by (simp add: sample_db_healed_def sample_db_fed_def sample_db_def update_wallet_descriptor_and_changeset_def write_st_def
      update_where_def)

lemma healed_settled: "federation_versions d = federation_versions sample_db_healed \<Longrightarrow> settled d 10"
  by (simp add: settled_def sample_db_healed_def sample_db_fed_def sample_db_def owned_def max_version_def list_all_iff
      update_wallet_descriptor_and_changeset_def write_st_def)

lemma toy_verify:
  "\<exists>out s'. run_verify (sample_pkcs11 []) sample_btc sample_manager (toy_state\<lparr>ap_wallets := (\<lambda>_. None)(1 \<mapsto> toy_user_wallet)\<rparr>)
     = (Inr out, s')"
proof -
  define s0 where "s0 = toy_state\<lparr>ap_wallets := (\<lambda>_. None)(1 \<mapsto> toy_user_wallet)\<rparr>"
  have db: "h_db (ap_host s0) = sample_db_healed" and cache: "ap_wallets s0 = (\<lambda>_. None)(1 \<mapsto> toy_user_wallet)"
    and same: "s0\<lparr>ap_host := ap_host s0\<rparr> = s0" "(ap_host s0)\<lparr>h_db := sample_db_healed\<rparr> = ap_host s0"
    by (simp_all add: s0_def toy_state_def sample_host_def)
  from toy_sync_kept [OF db] obtain summary uw1 h1 where
    sync: "sync_wallet sample_btc (toy_user_wallet, ap_host s0) = (Inr summary, (uw1, h1))"
    and uw1: "wallet_total sample_btc uw1 = (Inr
         \<lparr>b_confirmed = 5, b_trusted_pending = 1, b_untrusted_pending = 0, b_immature = 0\<rparr> :: (tool_exit, _) res)"
    and vs: "federation_versions (h_db h1) = federation_versions sample_db_healed" by auto
  define s1 where "s1 = s0\<lparr>ap_host := h1, ap_wallets := (\<lambda>_. None)(1 \<mapsto> uw1)\<rparr>"
  have user: "uw_user_id toy_user_wallet = 1" by (simp add: toy_user_wallet_def)
  have synced: "(ignore_err (on_wallet 1 (sync_wallet sample_btc)) :: (_, tool_exit, _) st) s0 = (Inr (Some summary), s1)"
    by (simp add: ignore_err_def on_wallet_def sync cache s1_def)
  obtain row where row: "wallets sample_db_healed = [row]" "w_user_id row = 1" "w_id row = 10" using healed_wallets by blast
  have wallet: "(wallet_of 1 :: (_, tool_exit, _) st) s1 = (Inr uw1, s1)" by (rule wallet_of_cached) (simp add: s1_def)
  have "settled (h_db (ap_host s1)) 10" by (rule healed_settled) (simp add: s1_def vs)
  obtain statuses where statuses: "version_statuses 10 s1 = (Inr statuses :: (tool_exit, _) res, s1)"
    using version_statuses_total by blast
  with statuses_settled [OF this] \<open>settled _ _\<close> have "list_all vs_pass statuses" by blast
  have load: "(must (BtcWallet.load_wallet_from_row (sample_pkcs11 []) sample_btc sample_manager row) :: (_, tool_exit, _) st) s0
      = (Inr toy_user_wallet, s0)"
    by (simp add: must_def BtcWallet.load_wallet_from_row_def bind_st_def row cache)
  have bal: "(synced_balance (sample_pkcs11 []) sample_btc sample_manager 0 row :: (_, tool_exit, _) st) s0
      = (Inr (6, length (BtcSpend.list_unspent sample_btc uw1), 6), s1)"
    by (simp add: synced_balance_def bind_st_Inr load user synced wallet uw1 balance_total_def checked_add_def)
  obtain vs where versions: "(versions_or_none 10 :: (_, tool_exit, _) st) s1 = (Inr vs, s1)"
    by (simp add: versions_or_none_def bind_st_def ignore_err_def on_host_def db_query_def btc_chain.list_eq)
  have rows: "(must (on_host (db_query id list_all_wallets)) :: (_, tool_exit, _) st) s0 = (Inr [row], s0)"
    by (simp add: must_def on_host_def db_query_def list_all_wallets_def db row same)
  show ?thesis
    unfolding s0_def [symmetric]
    by (simp add: run_verify_def bind_st_Inr rows bal row versions statuses \<open>list_all vs_pass statuses\<close>)
qed


end
