(* ===== verification/Router.thy ===== *)
theory Router
  imports ElementsServing Ws
begin

text \<open>
  The server's routes (\<open>main\<close> in \<open>main.rs\<close>): which handler answers a request, and what holds of every
  answer. The web framework decodes the parts of a request; a part it rejects is answered before the
  handler runs, but after the extractor of the logged-in user, which every handler names first.
\<close>

section \<open>Requests\<close>

datatype http_method = GET | HEAD | POST | OtherMethod

text \<open>The path is given as what its slashes separate, after the first: the root is one empty segment.\<close>

record request =
  rq_method :: http_method
  rq_path :: "string list"
  rq_query :: string
  rq_headers :: string
  rq_body :: string

type_synonym rejection = "nat \<times> string"

record router_api =
  rt_segment :: "string \<Rightarrow> rejection + string"
  rt_login_form :: "request \<Rightarrow> rejection + string \<times> string"
  rt_send_form :: "request \<Rightarrow> rejection + send_form"
  rt_max_spend_query :: "request \<Rightarrow> rejection + string \<times> u64"
  rt_elements_send_form :: "request \<Rightarrow> rejection + elements_send_form"
  rt_elements_max_spend_query :: "request \<Rightarrow> rejection + string \<times> u64 \<times> string option"
  rt_asset_query :: "request \<Rightarrow> rejection + string option"
  rt_upgrade :: "request \<Rightarrow> rejection + unit"
  rt_static :: "request \<Rightarrow> rejection + string"

datatype site_page =
    LoginPage login_page
  | BtcPage btc_page
  | ElementsPage elements_page
  | LiveBalance uuid
  | StaticFile string

text \<open>A part of the request, decoded for the handler of a user or of none.\<close>

definition extracted :: "rejection + 'a \<Rightarrow> ('a \<Rightarrow> ('s, 'e, 'page response) st) \<Rightarrow> ('s, 'e, 'page response) st" where
  "extracted part handler = (case part of Inl (code, reason) \<Rightarrow> ret_st (Answer code reason) | Inr a \<Rightarrow> handler a)"

definition answering where
  "answering show_net m = (\<lambda>s. case m s of
       (Inl (Err e), t) \<Rightarrow> (Inr (into_response show_net e), t)
     | (Inl Panic, t) \<Rightarrow> (Inl Panic, t)
     | (Inr answer, t) \<Rightarrow> (Inr answer, t))"

definition with_page where
  "with_page f m = bind_st m (\<lambda>answer. ret_st (map_response f answer))"

section \<open>Routes\<close>

datatype segment = Literal string | Capture

text \<open>A captured segment is not empty.\<close>

fun captures :: "segment list \<Rightarrow> string list \<Rightarrow> string list option" where
  "captures [] [] = Some []"
| "captures (Literal l # ps) (s # ss) = (if s = l then captures ps ss else None)"
| "captures (Capture # ps) (s # ss) = (if s = [] then None else map_option (Cons s) (captures ps ss))"
| "captures _ _ = None"

record 'h method_router =
  mr_get :: "'h option"
  mr_post :: "'h option"

definition get_only :: "'h \<Rightarrow> 'h method_router" where
  "get_only h = \<lparr>mr_get = Some h, mr_post = None\<rparr>"

definition post_only :: "'h \<Rightarrow> 'h method_router" where
  "post_only h = \<lparr>mr_get = None, mr_post = Some h\<rparr>"

definition get_and_post :: "'h \<Rightarrow> 'h \<Rightarrow> 'h method_router" where
  "get_and_post g p = \<lparr>mr_get = Some g, mr_post = Some p\<rparr>"

fun for_method :: "http_method \<Rightarrow> 'h method_router \<Rightarrow> 'h option" where
  "for_method GET r = mr_get r"
| "for_method HEAD r = mr_get r"
| "for_method POST r = mr_post r"
| "for_method OtherMethod r = None"

text \<open>The live balance's upgrade, whose socket \<open>drive\<close> serves.\<close>

definition ws where
  "ws rapi req user = extracted (rt_upgrade rapi req) (\<lambda>_. ret_st (Page (LiveBalance (u_id user))))"

definition bitcoin_route where
  "bitcoin_route wapi handler = on_app (protected wapi (\<lambda>user. with_page BtcPage (handler user)))"

definition elements_route where
  "elements_route wapi handler = elements_protected wapi (\<lambda>user. with_page ElementsPage (handler user))"

definition public_route where
  "public_route wapi f handler = on_app (on_host (answering (net_show wapi) (with_page f handler)))"

text \<open>The one captured segment of a path.\<close>

definition segment_of where
  "segment_of rapi found = rt_segment rapi (hd found)"

definition routes where
  "routes wapi rapi papi bapi lapi c vapi evapi st req =
    [([Literal ''''], get_only (\<lambda>_. public_route wapi id (root wapi))),
     ([Literal ''wallet''], get_only (\<lambda>_. ret_st wallet_root)),
     ([Literal ''login''], get_and_post
        (\<lambda>_. public_route wapi LoginPage (login_get wapi))
        (\<lambda>_. public_route wapi LoginPage (extracted (rt_login_form rapi req)
           (\<lambda>(email, password). login_post wapi email password)))),
     ([Literal ''logout''], post_only (\<lambda>_. public_route wapi id (logout_post wapi))),
     ([Literal ''ws''], get_only (\<lambda>_. on_app (protected wapi (ws rapi req)))),
     ([Literal ''wallet'', Literal ''receive''], get_only (\<lambda>_. bitcoin_route wapi (Handlers.receive papi bapi vapi st))),
     ([Literal ''wallet'', Literal ''send''], get_and_post
        (\<lambda>_. bitcoin_route wapi (Handlers.send_get papi bapi vapi st))
        (\<lambda>_. bitcoin_route wapi (\<lambda>user. extracted (rt_send_form rapi req) (\<lambda>form. Handlers.send_post papi bapi vapi st form user)))),
     ([Literal ''wallet'', Literal ''max-spend''], get_only (\<lambda>_. bitcoin_route wapi (\<lambda>user.
        extracted (rt_max_spend_query rapi req) (\<lambda>(recipient, rate). Handlers.max_spend papi bapi vapi st recipient rate user)))),
     ([Literal ''wallet'', Literal ''federation''], get_only (\<lambda>_. bitcoin_route wapi (Handlers.federation papi bapi vapi st))),
     ([Literal ''wallet'', Literal ''addresses'', Capture], get_only (\<lambda>found. bitcoin_route wapi (\<lambda>user.
        extracted (segment_of rapi found) (\<lambda>address. Handlers.address_show papi bapi vapi st address user)))),
     ([Literal ''wallet'', Literal ''transactions'', Capture], get_only (\<lambda>found. bitcoin_route wapi (\<lambda>user.
        extracted (segment_of rapi found) (\<lambda>txid. transaction_show papi bapi vapi st txid user)))),
     ([Literal ''elements'', Literal ''wallet''], get_only (\<lambda>_. ret_st elements_wallet_root)),
     ([Literal ''elements'', Literal ''wallet'', Literal ''receive''], get_only (\<lambda>_.
        elements_route wapi (ElementsHandlers.receive papi lapi c evapi st))),
     ([Literal ''elements'', Literal ''wallet'', Literal ''send''], get_and_post
        (\<lambda>_. elements_route wapi (ElementsHandlers.send_get papi lapi c evapi st))
        (\<lambda>_. elements_route wapi (\<lambda>user. extracted (rt_elements_send_form rapi req)
           (\<lambda>form. ElementsHandlers.send_post papi lapi c st form user)))),
     ([Literal ''elements'', Literal ''wallet'', Literal ''max-spend''], get_only (\<lambda>_. elements_route wapi (\<lambda>user.
        extracted (rt_elements_max_spend_query rapi req)
          (\<lambda>(recipient, rate, asset). ElementsHandlers.max_spend papi lapi c st recipient rate asset user)))),
     ([Literal ''elements'', Literal ''wallet'', Literal ''federation''], get_only (\<lambda>_.
        elements_route wapi (ElementsHandlers.federation papi lapi c evapi st))),
     ([Literal ''elements'', Literal ''wallet'', Literal ''addresses'', Capture], get_only (\<lambda>found. elements_route wapi (\<lambda>user.
        extracted (segment_of rapi found) (\<lambda>address. extracted (rt_asset_query rapi req) (\<lambda>asset.
          ElementsHandlers.address_show papi lapi c evapi st address asset user))))),
     ([Literal ''elements'', Literal ''wallet'', Literal ''transactions'', Capture], get_only (\<lambda>found. elements_route wapi (\<lambda>user.
        extracted (segment_of rapi found) (\<lambda>txid. elements_transaction_show papi lapi c evapi st txid user))))]"

text \<open>The first route that matches; everything below \<open>/static\<close> is the file service's.\<close>

fun serve where
  "serve [] req = ret_st (Answer 404 [])"
| "serve ((pattern, methods) # rest) req = (case captures pattern (rq_path req) of
     None \<Rightarrow> serve rest req
   | Some found \<Rightarrow> (case for_method (rq_method req) methods of
       None \<Rightarrow> ret_st (Answer 405 [])
     | Some handler \<Rightarrow> handler found))"

definition site where
  "site wapi rapi papi bapi lapi c vapi evapi st req =
     (if rq_path req \<noteq> [] \<and> hd (rq_path req) = ''static''
      then extracted (rt_static rapi req) (\<lambda>file. ret_st (Page (StaticFile file)))
      else serve (routes wapi rapi papi bapi lapi c vapi evapi st req) req)"

section \<open>What an answer may be\<close>

fun btc_shown_to :: "user_row \<Rightarrow> btc_page \<Rightarrow> bool" where
  "btc_shown_to user (ReceivePage hdr view groups) \<longleftrightarrow> wh_email hdr = u_email user"
| "btc_shown_to user (SendPage hdr view txs) \<longleftrightarrow> wh_email hdr = u_email user"
| "btc_shown_to user (AddressPage hdr email view receipts) \<longleftrightarrow> wh_email hdr = u_email user \<and> email = u_email user"
| "btc_shown_to user (FederationPage hdr view current history n) \<longleftrightarrow> wh_email hdr = u_email user"
| "btc_shown_to user (TransactionPage hdr email view) \<longleftrightarrow> wh_email hdr = u_email user \<and> email = u_email user"
| "btc_shown_to user (MaxSpendReply amount text) \<longleftrightarrow> True"

fun elements_shown_to :: "user_row \<Rightarrow> elements_page \<Rightarrow> bool" where
  "elements_shown_to user (ElementsReceivePage hdr view balances groups) \<longleftrightarrow> eh_email hdr = u_email user"
| "elements_shown_to user (ElementsSendPage hdr view txs assets) \<longleftrightarrow> eh_email hdr = u_email user"
| "elements_shown_to user (ElementsAddressPage hdr email view tabs) \<longleftrightarrow> eh_email hdr = u_email user \<and> email = u_email user"
| "elements_shown_to user (ElementsFederationPage hdr view current history n) \<longleftrightarrow> eh_email hdr = u_email user"
| "elements_shown_to user (ElementsTransactionPage hdr email view) \<longleftrightarrow> eh_email hdr = u_email user \<and> email = u_email user"
| "elements_shown_to user (ElementsMaxSpendReply amount text) \<longleftrightarrow> True"

fun shown_to :: "user_row \<Rightarrow> site_page \<Rightarrow> bool" where
  "shown_to user (BtcPage p) \<longleftrightarrow> btc_shown_to user p"
| "shown_to user (ElementsPage p) \<longleftrightarrow> elements_shown_to user p"
| "shown_to user (LiveBalance owner) \<longleftrightarrow> owner = u_id user"
| "shown_to user (LoginPage p) \<longleftrightarrow> True"
| "shown_to user (StaticFile text) \<longleftrightarrow> True"

fun is_public :: "site_page \<Rightarrow> bool" where
  "is_public (LoginPage p) \<longleftrightarrow> True"
| "is_public (StaticFile text) \<longleftrightarrow> True"
| "is_public (BtcPage p) \<longleftrightarrow> False"
| "is_public (ElementsPage p) \<longleftrightarrow> False"
| "is_public (LiveBalance owner) \<longleftrightarrow> False"

text \<open>The user a request's session names.\<close>

definition visitor where
  "visitor wapi s = (case fst (current_user wapi (ap_host (es_app s))) of Inr user \<Rightarrow> user | Inl _ \<Rightarrow> None)"

definition untouched where
  "untouched s s' \<longleftrightarrow> (\<exists>w. s' = s\<lparr>es_app := (es_app s)\<lparr>ap_host := (ap_host (es_app s))\<lparr>h_world := w\<rparr>\<rparr>\<rparr>)"

definition answers where
  "answers wapi m \<longleftrightarrow> (\<forall>s resp s'. m s = (Inr resp, s') \<longrightarrow> (case visitor wapi s of
     Some user \<Rightarrow> pred_response (shown_to user) resp
   | None \<Rightarrow> pred_response is_public resp \<and> untouched s s'))"

section \<open>What a computation yields\<close>

definition yields :: "('a \<Rightarrow> bool) \<Rightarrow> ('s, 'e, 'a) st \<Rightarrow> bool" where
  "yields P m \<longleftrightarrow> (\<forall>s a s'. m s = (Inr a, s') \<longrightarrow> P a)"

named_theorems yields_intros

lemma yieldsI: "(\<And>s a s'. m s = (Inr a, s') \<Longrightarrow> P a) \<Longrightarrow> yields P m"
  by (simp add: yields_def)

lemma yieldsD: "yields P m \<Longrightarrow> m s = (Inr a, s') \<Longrightarrow> P a"
  by (auto simp: yields_def)

lemma yields_rules [yields_intros]:
  "P a \<Longrightarrow> yields P (ret_st a)"
  "(\<And>b. yields P (f b)) \<Longrightarrow> yields P (bind_st m f)"
  "yields P (lift_st (throw_res e))"
  "yields P (lift_st (Inl x))"
  "yields P k \<Longrightarrow> yields P n \<Longrightarrow> yields P (if b then k else n)"
  "yields P k \<Longrightarrow> (\<And>x. yields P (g x)) \<Longrightarrow> yields P (case opt of None \<Rightarrow> k | Some x \<Rightarrow> g x)"
  "(\<And>x y. yields P (j x y)) \<Longrightarrow> yields P (case pair of (x, y) \<Rightarrow> j x y)"
  by (auto intro!: yieldsI simp: throw_res_def elim!: bind_st_InrE dest: yieldsD split: option.splits if_splits prod.splits)

lemma yields_extracted [yields_intros]:
  "(\<And>a. yields (pred_response P) (handler a)) \<Longrightarrow> yields (pred_response P) (extracted part handler)"
  by (auto intro!: yieldsI simp: extracted_def dest: yieldsD split: sum.splits)

lemma yields_with_page:
  "yields (pred_response (P \<circ> f)) m \<Longrightarrow> yields (pred_response P) (with_page f m)"
  by (rule yieldsI) (auto simp: with_page_def response.pred_map elim!: bind_st_InrE, erule (1) yieldsD)

lemma headers [simp]:
  "wh_email (header_of vapi st user uw d tip tab) = u_email user"
  "eh_email (elements_header_of evapi st user euw etip tab) = u_email user"
  by (simp_all add: header_of_def elements_header_of_def)

lemma btc_pages [yields_intros]:
  "yields (pred_response (btc_shown_to user)) (Handlers.receive papi bapi vapi st user)"
  "yields (pred_response (btc_shown_to user)) (Handlers.send_get papi bapi vapi st user)"
  "yields (pred_response (btc_shown_to user)) (Handlers.send_post papi bapi vapi st form user)"
  "yields (pred_response (btc_shown_to user)) (Handlers.max_spend papi bapi vapi st recipient rate user)"
  "yields (pred_response (btc_shown_to user)) (Handlers.address_show papi bapi vapi st address user)"
  "yields (pred_response (btc_shown_to user)) (Handlers.federation papi bapi vapi st user)"
  "yields (pred_response (btc_shown_to user)) (transaction_show papi bapi vapi st txid user)"
  unfolding Handlers.receive_def Handlers.send_get_def Handlers.send_post_def Handlers.max_spend_def Handlers.address_show_def
    Handlers.federation_def transaction_show_def Let_def
  by (intro yields_intros; simp)+

lemma elements_pages [yields_intros]:
  "yields (pred_response (elements_shown_to user)) (ElementsHandlers.receive papi lapi c evapi st user)"
  "yields (pred_response (elements_shown_to user)) (ElementsHandlers.send_get papi lapi c evapi st user)"
  "yields (pred_response (elements_shown_to user)) (ElementsHandlers.send_post papi lapi c st eform user)"
  "yields (pred_response (elements_shown_to user)) (ElementsHandlers.max_spend papi lapi c st recipient rate asset user)"
  "yields (pred_response (elements_shown_to user)) (ElementsHandlers.address_show papi lapi c evapi st address asset user)"
  "yields (pred_response (elements_shown_to user)) (ElementsHandlers.federation papi lapi c evapi st user)"
  "yields (pred_response (elements_shown_to user)) (elements_transaction_show papi lapi c evapi st txid user)"
  unfolding ElementsHandlers.receive_def ElementsHandlers.send_get_def ElementsHandlers.send_post_def
    ElementsHandlers.max_spend_def ElementsHandlers.address_show_def ElementsHandlers.federation_def
    elements_transaction_show_def Let_def
  by (intro yields_intros; simp)+

lemma ws_page: "yields (pred_response (shown_to user)) (ws rapi req user)"
  unfolding ws_def by (intro yields_intros) simp

section \<open>What a host computation leaves alone\<close>

definition outer :: "('w host, 'e, 'a) st \<Rightarrow> bool" where
  "outer m \<longleftrightarrow> (\<forall>h. \<exists>w. snd (m h) = h\<lparr>h_world := w\<rparr>)"

named_theorems outer_intros

lemma world_itself [simp]: "\<exists>w. h = h\<lparr>h_world := w\<rparr>"
  by (rule exI [of _ "h_world h"]) simp

lemma outer_rules [outer_intros]:
  "outer (ret_st a)"
  "outer (lift_st r)"
  "outer (outside g k)"
  "outer m \<Longrightarrow> outer (map_err_st e m)"
  "outer n \<Longrightarrow> (\<And>x. outer (g' x)) \<Longrightarrow> outer (case opt of None \<Rightarrow> n | Some x \<Rightarrow> g' x)"
  "outer n \<Longrightarrow> outer n' \<Longrightarrow> outer (if b then n else n')"
  "(\<And>x y. outer (j x y)) \<Longrightarrow> outer (case pair of (x, y) \<Rightarrow> j x y)"
  by (auto simp: outer_def outside_def map_err_st_def split: prod.splits option.splits)
    (metis snd_conv)

lemma outer_bind [outer_intros]:
  assumes "outer m" and "\<And>b. outer (f b)"
  shows "outer (bind_st m f)"
  unfolding outer_def
proof
  fix h
  obtain w where w: "snd (m h) = h\<lparr>h_world := w\<rparr>" using assms(1) by (auto simp: outer_def)
  show "\<exists>w. snd (bind_st m f h) = h\<lparr>h_world := w\<rparr>"
  proof (cases "fst (m h)")
    case (Inl e)
    with w show ?thesis by (auto simp: bind_st_def split: prod.splits)
  next
    case (Inr b)
    obtain w' where "snd (f b (h\<lparr>h_world := w\<rparr>)) = h\<lparr>h_world := w\<rparr>\<lparr>h_world := w'\<rparr>"
      using assms(2) unfolding outer_def by blast
    with Inr w show ?thesis by (auto simp: bind_st_def split: prod.splits)
  qed
qed

lemma outer_reads [outer_intros]:
  "outer (db_query g (find_user_by_id i))"
  "outer (db_query g (find_user_by_email lower email))"
  by (auto simp: outer_def db_query_def find_user_by_id_def find_user_by_email_def)

lemma outer_session [outer_intros]: "outer (current_user wapi)" "outer (log_in wapi user)" "outer (log_out wapi)"
  unfolding current_user_def log_in_def log_out_def by (intro outer_intros)+

lemma outer_public [outer_intros]:
  "outer (login_get wapi)" "outer (login_post wapi email password)" "outer (logout_post wapi)" "outer (root wapi)"
  unfolding login_get_def login_post_def logout_post_def root_def Let_def by (intro outer_intros)+

lemma outer_extracted [outer_intros]: "(\<And>a. outer (handler a)) \<Longrightarrow> outer (extracted part handler)"
  by (cases part) (auto simp: extracted_def intro!: outer_intros)

lemma outer_answering: "outer m \<Longrightarrow> outer (answering show_net (with_page f m))"
proof -
  assume "outer m"
  then have "outer (with_page f m)" unfolding with_page_def by (intro outer_intros)
  then show ?thesis
    unfolding outer_def answering_def by (auto split: prod.splits sum.splits fail.splits) (metis snd_conv)+
qed

section \<open>Every route\<close>

lemma on_app_host_outer:
  assumes "outer m" and "on_app (on_host m) s = (r, s')"
  shows "untouched s s'"
proof -
  obtain w where "snd (m (ap_host (es_app s))) = (ap_host (es_app s))\<lparr>h_world := w\<rparr>" using assms(1) by (auto simp: outer_def)
  with assms(2) show ?thesis by (auto simp: untouched_def on_app_def on_host_def split: prod.splits)
qed

lemma untouched_refl: "untouched s s"
  by (auto simp: untouched_def intro!: exI [of _ "h_world (ap_host (es_app s))"])

lemma public_shown: "pred_response is_public resp \<Longrightarrow> pred_response (shown_to user) resp"
  by (erule response.pred_mono_strong) (auto elim: is_public.elims)

lemma answersI:
  assumes "\<And>s resp s'. m s = (Inr resp, s') \<Longrightarrow> pred_response is_public resp \<and> untouched s s'"
  shows "answers wapi m"
  unfolding answers_def using assms public_shown by (metis option.case_eq_if)

lemma answers_ret: "pred_response is_public resp \<Longrightarrow> answers wapi (ret_st resp)"
  by (rule answersI) (auto simp: untouched_refl)

text \<open>The extractor finds the user the session names, or answers for the handler.\<close>

lemma auth_user_visitor:
  "auth_user wapi (ap_host (es_app s)) = (Inr user, h) \<Longrightarrow> visitor wapi s = Some user"
  "auth_user wapi (ap_host (es_app s)) = (Inl (Err resp), h) \<Longrightarrow> visitor wapi s = None \<and> resp = RedirectTo ''/login''"
  by (auto simp: auth_user_def visitor_def split: prod.splits sum.splits option.splits fail.splits)

lemma outer_auth_user: "outer (auth_user wapi)"
proof -
  have "outer (current_user wapi)" by (rule outer_session)
  then show ?thesis unfolding outer_def auth_user_def
    by (auto split: prod.splits sum.splits option.splits fail.splits) (metis snd_conv)+
qed

lemma elements_protected_answers:
  assumes "\<And>user. yields (pred_response (shown_to user)) (handler user)"
  shows "answers wapi (elements_protected wapi handler)"
  unfolding answers_def elements_protected_def
proof (intro allI impI)
  fix s resp s'
  assume "respond (net_show wapi) (on_app (on_host (auth_user wapi))) handler s = (Inr resp, s')"
  then show "case visitor wapi s of Some user \<Rightarrow> pred_response (shown_to user) resp
    | None \<Rightarrow> pred_response is_public resp \<and> untouched s s'"
  proof (cases rule: respond_cases)
    case rejected
    with on_app_host_outer [OF outer_auth_user rejected] show ?thesis
      by (auto simp: on_app_def on_host_def split: prod.splits dest!: auth_user_visitor(2))
  next
    case (answered user t)
    then have "visitor wapi s = Some user"
      by (auto simp: on_app_def on_host_def split: prod.splits dest!: auth_user_visitor(1))
    with yieldsD [OF assms answered(2)] show ?thesis by simp
  next
    case (failed user t e)
    then have "visitor wapi s = Some user"
      by (auto simp: on_app_def on_host_def split: prod.splits dest!: auth_user_visitor(1))
    moreover obtain code msg where "resp = Answer code msg" using failed(3) into_response_answers by metis
    ultimately show ?thesis by simp
  qed
qed

lemma on_app_respond: "on_app (respond show_net extractor handler) = respond show_net (on_app extractor) (\<lambda>user. on_app (handler user))"
  by (auto simp: fun_eq_iff on_app_def respond_def split: prod.splits sum.splits fail.splits)

lemma on_app_yields: "yields P m \<Longrightarrow> yields P (on_app m)"
  by (rule yieldsI) (auto simp: on_app_def split: prod.splits, erule (1) yieldsD)

lemma on_host_yields: "yields P m \<Longrightarrow> yields P (on_host m)"
  by (rule yieldsI) (auto simp: on_host_def split: prod.splits, erule (1) yieldsD)

lemma protected_answers:
  assumes "\<And>user. yields (pred_response (shown_to user)) (handler user)"
  shows "answers wapi (on_app (protected wapi handler))"
  unfolding protected_def on_app_respond
  by (rule elements_protected_answers [unfolded elements_protected_def]) (intro on_app_yields assms)

lemma bitcoin_route_answers:
  assumes "\<And>user. yields (pred_response (btc_shown_to user)) (handler user)"
  shows "answers wapi (bitcoin_route wapi handler)"
  unfolding bitcoin_route_def
  by (intro protected_answers yields_with_page) (use assms in \<open>simp add: comp_def\<close>)

lemma elements_route_answers:
  assumes "\<And>user. yields (pred_response (elements_shown_to user)) (handler user)"
  shows "answers wapi (elements_route wapi handler)"
  unfolding elements_route_def
  by (intro elements_protected_answers yields_with_page) (use assms in \<open>simp add: comp_def\<close>)

lemma answering_yields:
  "yields (pred_response P) m \<Longrightarrow> yields (pred_response P) (answering show_net m)"
proof (rule yieldsI)
  fix s a s'
  assume m: "yields (pred_response P) m" and run: "answering show_net m s = (Inr a, s')"
  then consider "m s = (Inr a, s')" | e where "a = into_response show_net e"
    by (auto simp: answering_def split: prod.splits sum.splits fail.splits)
  then show "pred_response P a"
  proof cases
    case 2
    obtain code msg where "into_response show_net e = (Answer code msg :: 'a response)" using into_response_answers by blast
    with 2 show ?thesis by simp
  qed (rule yieldsD [OF m])
qed

lemma public_route_answers:
  assumes "outer handler" and "yields (pred_response (is_public \<circ> f)) handler"
  shows "answers wapi (public_route wapi f handler)"
proof (rule answersI)
  fix s resp s'
  assume run: "public_route wapi f handler s = (Inr resp, s')"
  have "yields (pred_response is_public) (public_route wapi f handler)"
    unfolding public_route_def by (intro on_app_yields on_host_yields answering_yields yields_with_page assms(2))
  then have "pred_response is_public resp" using run by (rule yieldsD)
  moreover have "untouched s s'"
    using on_app_host_outer [OF outer_answering [OF assms(1)] run [unfolded public_route_def]] .
  ultimately show "pred_response is_public resp \<and> untouched s s'" ..
qed

lemma login_pages [yields_intros]:
  "yields (pred_response (is_public \<circ> LoginPage)) (login_get wapi)"
  "yields (pred_response (is_public \<circ> LoginPage)) (login_post wapi email password)"
  "yields (pred_response P) (logout_post wapi)"
  "yields (pred_response P) (root wapi)"
  unfolding login_get_def login_post_def logout_post_def root_def rejected_login_def by (intro yields_intros; simp)+

definition methods_answer where
  "methods_answer wapi methods \<longleftrightarrow> (\<forall>h found. mr_get methods = Some h \<or> mr_post methods = Some h \<longrightarrow> answers wapi (h found))"

lemma methods_answer_intros:
  "(\<And>found. answers wapi (h found)) \<Longrightarrow> methods_answer wapi (get_only h)"
  "(\<And>found. answers wapi (h found)) \<Longrightarrow> methods_answer wapi (post_only h)"
  "(\<And>found. answers wapi (g found)) \<Longrightarrow> (\<And>found. answers wapi (h found)) \<Longrightarrow> methods_answer wapi (get_and_post g h)"
  by (auto simp: methods_answer_def get_only_def post_only_def get_and_post_def)

lemma serve_answers:
  assumes "\<forall>r \<in> set rs. methods_answer wapi (snd r)"
  shows "answers wapi (serve rs req)"
  using assms
proof (induction rs req rule: serve.induct)
  case (2 pattern methods rest req)
  have "answers wapi (h found)" if "for_method (rq_method req) methods = Some h" for h found
    using 2(2) that by (cases "rq_method req") (auto simp: methods_answer_def)
  then show ?case using 2 by (auto split: option.splits intro: answers_ret)
qed (simp add: answers_ret)

lemma routes_answer: "\<forall>r \<in> set (routes wapi rapi papi bapi lapi c vapi evapi st req). methods_answer wapi (snd r)"
  unfolding routes_def wallet_root_def elements_wallet_root_def
  by (simp only: list.set insert_iff empty_iff ball_simps simp_thms snd_conv)
    (intro conjI methods_answer_intros bitcoin_route_answers elements_route_answers public_route_answers protected_answers
      ws_page answers_ret yields_intros outer_intros; simp)

lemma site_answers: "answers wapi (site wapi rapi papi bapi lapi c vapi evapi st req)"
  unfolding site_def extracted_def
  using serve_answers [OF routes_answer] by (auto intro: answers_ret split: sum.splits)

section \<open>Properties\<close>

text \<open>C11. A request whose session names no user gets nothing of a wallet and changes nothing of one: whatever
  its path, method and contents, the answer is a redirect, the login page, a static file or a short
  text, and of the whole state only the world outside, where the session lives, may have changed.\<close>

theorem anonymous_requests_touch_nothing:
  assumes "visitor wapi s = None"
    and "site wapi rapi papi bapi lapi c vapi evapi st req s = (Inr resp, s')"
  shows "pred_response is_public resp
    \<and> (\<exists>w. s' = s\<lparr>es_app := (es_app s)\<lparr>ap_host := (ap_host (es_app s))\<lparr>h_world := w\<rparr>\<rparr>\<rparr>)"
  using site_answers [unfolded answers_def, rule_format, OF assms(2)] assms(1) by (simp add: untouched_def)

text \<open>C12. A page of a wallet is served to the user it is about: behind every such answer is a user of the
  users' table whom the session names, and the page carries that user's address.\<close>

theorem wallet_pages_are_the_users_own:
  assumes "site wapi rapi papi bapi lapi c vapi evapi st req s = (Inr (Page p), s')" and "\<not> is_public p"
  shows "\<exists>user \<in> set (users (h_db (ap_host (es_app s)))). visitor wapi s = Some user \<and> shown_to user p"
proof -
  from site_answers [unfolded answers_def, rule_format, OF assms(1)] assms(2)
  obtain user where user: "visitor wapi s = Some user" "shown_to user p" by (auto split: option.splits)
  have "user \<in> set (users (h_db (ap_host (es_app s))))"
    using user(1) by (auto simp: visitor_def current_user_def bind_st_def outside_def db_query_def find_user_by_id_def find_Some_iff
        split: prod.splits sum.splits option.splits)
  with user show ?thesis by blast
qed

section \<open>Sample\<close>

definition sample_router :: router_api where
  "sample_router = \<lparr>rt_segment = Inr, rt_login_form = (\<lambda>_. Inl (422, ''missing field'')),
     rt_send_form = (\<lambda>_. Inl (422, ''missing field'')), rt_max_spend_query = (\<lambda>_. Inl (400, ''missing field'')),
     rt_elements_send_form = (\<lambda>_. Inl (422, ''missing field'')), rt_elements_max_spend_query = (\<lambda>_. Inl (400, ''missing field'')),
     rt_asset_query = (\<lambda>_. Inr None), rt_upgrade = (\<lambda>_. Inr ()), rt_static = (\<lambda>_. Inl (404, []))\<rparr>"

definition get_request :: "string list \<Rightarrow> request" where
  "get_request path = \<lparr>rq_method = GET, rq_path = path, rq_query = [], rq_headers = [], rq_body = []\<rparr>"

definition sample_elements_views :: "(string \<times> u32 list, string) elements_view_api" where
  "sample_elements_views = \<lparr>ev_qr = (\<lambda>_. Inr ''svg''), ev_time = (\<lambda>_. ''now''), ev_show_network = (\<lambda>_. ''net''),
     ev_fingerprint = fst, ev_fp_from_str = Some, ev_fp_show = id\<rparr>"

text \<open>The user 1 with a cached wallet that has one recorded transaction.\<close>

definition site_state :: "(toy_signer, (toy_fed, (nat \<times> toy_fed \<times> toy_wallet) list, toy_wallet, string) user_wallet,
    (toy_signer, string) user_elements_wallet, string, toy_world) elements_state" where
  "site_state = \<lparr>es_app = \<lparr>ap_host = sample_host (sample_db\<lparr>transactions := [sample_sent]\<rparr>), ap_signers = (\<lambda>_. None),
     ap_wallets = (\<lambda>_. None)(1 \<mapsto> toy_user_wallet), ap_elements = (\<lambda>_. None)\<rparr>,
     es_lwk = Some ''a''\<rparr>"

abbreviation sample_site where
  "sample_site wapi path \<equiv> site wapi sample_router (sample_pkcs11 []) sample_btc sample_lwk sample_codec sample_views
     sample_elements_views sample_state (get_request path) site_state"

lemma sample_receive:
  "sample_site (session_web\<lparr>se_get := ret_st None\<rparr>) [''wallet'', ''receive''] = (Inr (RedirectTo ''/login''), site_state)"
  by (simp add: site_def get_request_def routes_def get_only_def post_only_def get_and_post_def bitcoin_route_def protected_def
      respond_def on_app_def on_host_def auth_user_def current_user_def session_web_def bind_st_def outside_def site_state_def
      sample_host_def)

theorem anonymous_requests_touch_nothing_witness:
  "pred_response is_public (RedirectTo ''/login'' :: site_page response)
   \<and> visitor (session_web\<lparr>se_get := ret_st None\<rparr>) site_state = None"
proof -
  have anonymous: "visitor (session_web\<lparr>se_get := ret_st None\<rparr>) site_state = None"
    by (simp add: visitor_def current_user_def session_web_def bind_st_def outside_def)
  from anonymous_requests_touch_nothing [OF this sample_receive] anonymous show ?thesis by simp
qed

lemma sample_transaction:
  "\<exists>hdr. sample_site session_web [''wallet'', ''transactions'', ''t1'']
    = (Inr (Page (BtcPage (TransactionPage hdr ''a@x'' (transaction_detail_view_of sample_views sample_sent)))), site_state)"
  by (simp add: site_def get_request_def routes_def get_only_def post_only_def get_and_post_def bitcoin_route_def segment_of_def
      sample_router_def extracted_def with_page_def protected_def
      respond_def on_app_def on_host_def auth_user_def current_user_def session_web_def bind_st_def outside_def site_state_def
      sample_host_def db_query_def find_user_by_id_def sample_db_def transaction_show_def open_wallet_def
      load_or_init_hit wallet_of_cached map_err_st_def find_transaction_def find_wallet_for_user_def sample_sent_def toy_user_wallet_def)

theorem wallet_pages_are_the_users_own_witness:
  "\<exists>user \<in> set (users (h_db (ap_host (es_app site_state)))). visitor session_web site_state = Some user \<and> u_email user = ''a@x''"
proof -
  obtain hdr where "sample_site session_web [''wallet'', ''transactions'', ''t1'']
    = (Inr (Page (BtcPage (TransactionPage hdr ''a@x'' (transaction_detail_view_of sample_views sample_sent)))), site_state)"
    using sample_transaction by blast
  from wallet_pages_are_the_users_own [OF this] show ?thesis by auto
qed

end
