(* ===== verification/Spec2Isabelle.thy ===== *)
theory Spec2Isabelle
  imports Schema Config RustText BtcMigrated ElementsMigrated Ws Ingest Checks Router
begin

text \<open>
  A custodial wallet server: customers hold Bitcoin and Elements wallets whose keys live in a
  federation of HSM tokens; the operator can replace the federation and migrate the funds.
  The theories follow the files of \<open>src/src\<close>.

  \<^item> \<open>Prelude\<close>: fallible computations \<open>res\<close> (a Rust error is \<open>Inl (Err e)\<close>, a panic
    \<open>Inl Panic\<close>), computations with a state \<open>st\<close>, what they preserve (\<open>preserves\<close>, \<open>safe\<close>),
    fixed-width integers (\<open>u8\<close>, \<open>u32\<close>, \<open>u64\<close> are words; a checked addition panics as in a build
    with overflow checks), SQL's \<open>UPDATE\<close> and \<open>DELETE\<close> over row lists.
  \<^item> \<open>RustText\<close>: Rust strings as UTF-8 bytes (one \<open>char\<close> is one byte), integer parsing and the
    text helpers of \<open>wallet.rs\<close>, \<open>elements_wallet.rs\<close>, \<open>elements_ingest.rs\<close>, the handlers and
    the migration tool.
  \<^item> \<open>Models\<close>, \<open>Database\<close>, \<open>Versions\<close>: the tables of \<open>migrations/\<close> and \<open>models.rs\<close> as a record of
    row lists, and each function of \<open>db.rs\<close> as a transition with the constraint violations it can
    end in. \<open>Versions\<close> is the state machine of federation versions. Locales: \<open>index_allocator\<close>,
    \<open>version_chain\<close>, each interpreted for both chains.
  \<^item> \<open>ElementsStore\<close>: the Postgres stores of \<open>elements_sync.rs\<close> behind the Elements scanner, and its
    RPC chain source; locale \<open>rollback_store\<close>. \<open>Schema\<close> collects every statement of the
    program into one step relation with the schema's constraints as invariant.
  \<^item> \<open>Config\<close> (\<open>config.rs\<close>), \<open>Hsm\<close> (\<open>hsm.rs\<close>), \<open>Host\<close> (the shared state the handlers see: database,
    fresh ids and clock, the outside world, HSM caches, wallet caches). Locale \<open>build_cache\<close>, the
    contract of the three caches.
  \<^item> \<open>BtcWallet\<close>, \<open>BtcLoad\<close>, \<open>BtcSync\<close>, \<open>BtcSpend\<close> (\<open>wallet.rs\<close>): the manager's creation and
    loading of wallets and its lemmas; synchronisation and reconciliation after a
    reorganisation; addresses, histories, balances, sends, sweeps and migration signing.
  \<^item> \<open>Float64\<close>: the \<open>f64\<close> arithmetic of amounts. \<open>Selective\<close>: signing some inputs of a migration,
    shared by both chains.
  \<^item> \<open>ElementsWallet\<close>, \<open>ElementsSpend\<close>, \<open>ElementsLoad\<close> (\<open>elements_wallet.rs\<close>): the manager of the
    Elements wallets and the backend dispatch; balances per asset, addresses, histories, sends,
    sweeps; the lemmas on loading, the cache's \<open>build_cache\<close> interpretation and the properties.
  \<^item> \<open>Migration\<close>, \<open>MigrationVersions\<close>, \<open>MigrationElements\<close>, \<open>ElementsMigrated\<close>, \<open>MigrationBtc\<close>,
    \<open>BtcMigrated\<close> (\<open>examples/federation_migration.rs\<close>): the operator's migration tool. Its command
    line and configuration and what both chains share; what stamping does to the version table;
    the run on the wallets of each chain, followed by its properties.

  \<^item> \<open>Web\<close> (\<open>error.rs\<close>, \<open>auth.rs\<close>, \<open>handlers/auth.rs\<close>, \<open>handlers/home.rs\<close>, \<open>state.rs\<close>): the errors of the
    handlers and the responses they become, sessions, passwords, login and logout.
  \<^item> \<open>Handlers\<close> (\<open>handlers/wallet.rs\<close>, \<open>handlers/transactions.rs\<close>), \<open>ElementsHandlers\<close>
    (\<open>handlers/elements_wallet.rs\<close>, \<open>handlers/elements_transactions.rs\<close>): the pages of both chains, a
    page being the record its template is filled from. \<open>WalletFrame\<close> and \<open>ElementsFrame\<close>: the locales
    \<open>wallet_frame\<close> and \<open>elements_frame\<close>, what of the state every operation of a manager keeps, interpreted
    for the facts the pages need. \<open>Serving\<close>, \<open>ElementsServing\<close>: what a signed-in user is shown and what
    a send tells, over the handlers, the managers and the database together.
  \<^item> \<open>Ws\<close> (\<open>handlers/ws.rs\<close>, the subscriptions of \<open>wallet.rs\<close>): the socket that pushes balances,
    as a machine woken by messages, polls and updates. \<open>Ingest\<close> (\<open>elements_ingest.rs\<close>): the task that scans the
    Elements chain for every wallet, one pass at a time, with or without a node.
  \<^item> \<open>Router\<close> (\<open>main.rs\<close>): the route table over all these handlers, and what every answer of the site
    guarantees. \<open>Boot\<close> (\<open>main.rs\<close>): seeding, migrating and opening what the server serves from.
    \<open>Checks\<close> (\<open>examples/migration_bootstrap.rs\<close>, \<open>examples/migration_verify.rs\<close>): the tools that fund the test
    accounts before a migration and verify it afterwards.

  BDK, LWK, PKCS#11, the federation library, the session store, the password hash and the network are not
  part of the repository. They are
  records of functions (\<open>btc_api\<close>, \<open>lwk_api\<close>, \<open>pkcs11_api\<close>, \<open>codec\<close>, \<open>rpc_client\<close>, \<open>env_api\<close>,
  \<open>elements_tool\<close>, \<open>btc_tool\<close>, \<open>web_api\<close>, \<open>view_api\<close>, \<open>elements_view_api\<close>, \<open>socket_api\<close>, \<open>ingest_api\<close>,
  \<open>router_api\<close>, \<open>boot_api\<close>), arguments of the
  definitions that call them; what a property relies on is a hypothesis of it, and its witness
  evaluates it on a concrete instance.

  Recursion is structural or has a measure, so no fuel is needed: token discovery is
  bounded by the number of tokens a \<open>usize\<close> can count.

  A lock is held for one step of the model, and a statement of SQL is atomic. Debug assertions
  and overflow checks are those of a debug build.

  Not modelled: the templates, static files and scripts (presentation), the tests, logging, the
  module declarations in \<open>lib.rs\<close> and \<open>handlers/mod.rs\<close>, and of \<open>main.rs\<close> the
  listening socket, the session layer and the shutdown signal, which only hand values to the web
  framework; how it decodes queries and forms is an argument.
\<close>

end
